(* ===== verification/Prelude.thy ===== *)
theory Prelude
  imports Complex_Main "HOL-Library.Word" "HOL-Library.Product_Lexorder"
begin

text \<open>
  What every component shares: instants in milliseconds, the exceptions of the backend
  as one datatype, programs that thread a state and may throw, database transactions
  (\<^verbatim>\<open>withTransaction\<close> of backend/src/db/pool.ts), and tables as lists of rows with the
  update, lookup and returning forms the SQL statements of the services use.
\<close>

section \<open>Instants, keys, bytes\<close>

text \<open>
  An instant is the integer \<^verbatim>\<open>Date.getTime()\<close> gives, a duration is in milliseconds too.
  A primary key (\<^verbatim>\<open>uuid\<close> or identity column) is a natural number; key 0 is the nil UUID.
\<close>

type_synonym ms = int
type_synonym id = nat
type_synonym byte = "8 word"
type_synonym bytes = "byte list"

section \<open>Decimal text\<close>

text \<open>Interpolating a number into a message (\<^verbatim>\<open>${n}\<close> of a template literal).\<close>

definition digit :: "nat \<Rightarrow> char" where
  "digit n = char_of (48 + n)"

fun show_nat :: "nat \<Rightarrow> string" where
  "show_nat n = (if n < 10 then [digit n] else show_nat (n div 10) @ [digit (n mod 10)])"

declare show_nat.simps [simp del]

definition show_int :: "int \<Rightarrow> string" where
  "show_int i = (if i < 0 then CHR ''-'' # show_nat (nat (- i)) else show_nat (nat i))"

section \<open>Exceptions\<close>

text \<open>
  One constructor per class the backend throws: the HTTP exceptions of Nest, the error
  classes of the services (\<^verbatim>\<open>ConnectError\<close>, \<^verbatim>\<open>PanelError\<close> with its optional status and its
  retryable flag, \<^verbatim>\<open>AttestationError\<close> with its reason, \<^verbatim>\<open>SsvVerificationError\<close>,
  \<^verbatim>\<open>SessionConfigError\<close>), a database error with its SQLSTATE, and a plain JavaScript
  error (a \<^verbatim>\<open>TypeError\<close>, a failed fetch, a timeout).
\<close>

datatype exn =
    NotFoundException string
  | ForbiddenException string
  | ConflictException string
  | UnauthorizedException string
  | BadRequestException string
  | ServiceUnavailableException string
  | InternalServerErrorException string
  | ConnectError string
  | PanelError string "nat option" bool
  | AttestationError string
  | SsvVerificationError string
  | SessionConfigError string
  | PgError string
  | JsError string

definition sqlstate_unique_violation :: string where
  "sqlstate_unique_violation = ''23505''"

definition sqlstate_check_violation :: string where
  "sqlstate_check_violation = ''23514''"

definition sqlstate_foreign_key_violation :: string where
  "sqlstate_foreign_key_violation = ''23503''"

definition sqlstate_invalid_text :: string where
  "sqlstate_invalid_text = ''22P02''"

definition sqlstate_numeric_out_of_range :: string where
  "sqlstate_numeric_out_of_range = ''22003''"

definition sqlstate_raise_exception :: string where
  "sqlstate_raise_exception = ''P0001''"

section \<open>Programs over a state\<close>

text \<open>
  A program gets the state and gives a result or an exception, and the state it leaves:
  an exception keeps what was written before it, as JavaScript does. Only a transaction
  takes the writes back.
\<close>

type_synonym ('s, 'a) prog = "'s \<Rightarrow> (exn + 'a) \<times> 's"

definition withTransaction :: "('s, 'a) prog \<Rightarrow> ('s, 'a) prog" where
  "withTransaction fn s =
     (case fn s of
        (Inr result, s') \<Rightarrow> (Inr result, s')
      | (Inl err, _) \<Rightarrow> (Inl err, s))"

lemma withTransaction_Inl:
  "withTransaction fn s = (Inl e, s') \<longleftrightarrow> fst (fn s) = Inl e \<and> s' = s"
  by (auto simp: withTransaction_def split: prod.splits sum.splits)

lemma withTransaction_Inr:
  "withTransaction fn s = (Inr a, s') \<longleftrightarrow> fn s = (Inr a, s')"
  by (auto simp: withTransaction_def split: prod.splits sum.splits)

lemma withTransaction_cases:
  obtains e where "withTransaction fn s = (Inl e, s)" "fst (fn s) = Inl e"
  | a s' where "withTransaction fn s = (Inr a, s')" "fn s = (Inr a, s')"
  by (cases "fn s"; cases "fst (fn s)") (auto simp: withTransaction_def)

lemma withTransaction_preserves:
  assumes "\<And>a s'. fn s = (Inr a, s') \<Longrightarrow> P s'" and "P s"
  shows "P (snd (withTransaction fn s))"
  using assms by (auto simp: withTransaction_def split: prod.splits sum.splits)

section \<open>Sequencing\<close>

definition and_then :: "('s, 'a) prog \<Rightarrow> ('a \<Rightarrow> ('s, 'b) prog) \<Rightarrow> ('s, 'b) prog" where
  "and_then m k s = (case m s of (Inl e, s1) \<Rightarrow> (Inl e, s1) | (Inr a, s1) \<Rightarrow> k a s1)"

definition throw :: "exn \<Rightarrow> ('s, 'a) prog" where
  "throw e s = (Inl e, s)"

definition return :: "'a \<Rightarrow> ('s, 'a) prog" where
  "return a s = (Inr a, s)"

definition lift_result :: "exn + 'a \<Rightarrow> ('s, 'a) prog" where
  "lift_result r s = (r, s)"

lemma and_then_Inr:
  "and_then m k s = (Inr b, s') \<longleftrightarrow> (\<exists>a s1. m s = (Inr a, s1) \<and> k a s1 = (Inr b, s'))"
  by (auto simp: and_then_def split: prod.splits sum.splits)

lemma and_then_fails: "m s = (Inl e, s1) \<Longrightarrow> and_then m k s = (Inl e, s1)"
  by (simp add: and_then_def)

lemma and_then_runs: "m s = (Inr a, s1) \<Longrightarrow> and_then m k s = k a s1"
  by (simp add: and_then_def)

lemma return_Inr [simp]: "return a s = (Inr b, s') \<longleftrightarrow> b = a \<and> s' = s"
  by (auto simp: return_def)

lemma throw_not_Inr [simp]: "throw e s \<noteq> (Inr b, s')"
  by (simp add: throw_def)

section \<open>Tables\<close>

text \<open>
  A table is the list of its rows in insertion order. \<open>update_where P f\<close> is
  \<^verbatim>\<open>update ... set f where P\<close>, \<open>returning P f\<close> the rows its \<^verbatim>\<open>returning\<close> clause gives,
  \<open>find_row P\<close> the row a query for a unique key gives.
\<close>

definition update_where :: "('r \<Rightarrow> bool) \<Rightarrow> ('r \<Rightarrow> 'r) \<Rightarrow> 'r list \<Rightarrow> 'r list" where
  "update_where P f t = map (\<lambda>r. if P r then f r else r) t"

definition returning :: "('r \<Rightarrow> bool) \<Rightarrow> ('r \<Rightarrow> 'r) \<Rightarrow> 'r list \<Rightarrow> 'r list" where
  "returning P f t = map f (filter P t)"

definition find_row :: "('r \<Rightarrow> bool) \<Rightarrow> 'r list \<Rightarrow> 'r option" where
  "find_row P t = List.find P t"

definition exists_row :: "('r \<Rightarrow> bool) \<Rightarrow> 'r list \<Rightarrow> bool" where
  "exists_row P t = list_ex P t"

lemma exists_row_iff [simp]: "exists_row P t \<longleftrightarrow> (\<exists>r \<in> set t. P r)"
  by (simp add: exists_row_def list_ex_iff)

lemma find_row_Some: "find_row P t = Some r \<Longrightarrow> r \<in> set t \<and> P r"
  by (auto simp: find_row_def find_Some_iff)

lemma find_row_None: "find_row P t = None \<longleftrightarrow> (\<forall>r \<in> set t. \<not> P r)"
  by (auto simp: find_row_def find_None_iff)

lemma find_row_Nil [simp]: "find_row P [] = None"
  by (simp add: find_row_def)

lemma find_row_Cons [simp]: "find_row P (r # t) = (if P r then Some r else find_row P t)"
  by (simp add: find_row_def)

lemma find_row_unique:
  assumes "distinct (map k t)" and "r \<in> set t"
  shows "find_row (\<lambda>x. k x = k r) t = Some r"
  using assms by (induction t) auto

lemma set_update_where:
  "set (update_where P f t) = f ` {r \<in> set t. P r} \<union> {r \<in> set t. \<not> P r}"
  by (auto simp: update_where_def)

lemma update_where_ball:
  "(\<forall>r \<in> set (update_where P f t). Q r) \<longleftrightarrow> (\<forall>r \<in> set t. Q (if P r then f r else r))"
  by (auto simp: update_where_def)

lemma update_where_Nil [simp]: "update_where P f [] = []"
  by (simp add: update_where_def)

lemma update_where_Cons [simp]:
  "update_where P f (r # t) = (if P r then f r else r) # update_where P f t"
  by (simp add: update_where_def)

lemma length_update_where [simp]: "length (update_where P f t) = length t"
  by (simp add: update_where_def)

lemma map_update_where:
  "(\<And>r. k (f r) = k r) \<Longrightarrow> map k (update_where P f t) = map k t"
  by (simp add: update_where_def)

lemma update_where_none: "(\<And>r. r \<in> set t \<Longrightarrow> \<not> P r) \<Longrightarrow> update_where P f t = t"
  by (induction t) auto

lemma find_row_update_where:
  assumes "\<And>r. Q (f r) = Q r"
  shows "find_row Q (update_where P f t) =
    map_option (\<lambda>r. if P r then f r else r) (find_row Q t)"
  using assms by (induction t) auto

lemma find_row_map:
  assumes "\<And>r. Q (h r) = Q r"
  shows "find_row Q (map h t) = map_option h (find_row Q t)"
  using assms by (induction t) auto

lemma find_row_map_eq:
  assumes "\<And>r. Q (h r) = Q r" and "map h t' = map h t"
  shows "map_option h (find_row Q t') = map_option h (find_row Q t)"
  using assms by (metis find_row_map)

lemma map_eq_member:
  assumes "map h t' = map h t" and "r' \<in> set t'"
  obtains r where "r \<in> set t" "h r = h r'"
  using assms by (metis in_set_conv_nth length_map nth_map)

lemma filter_update_where:
  assumes "\<And>r. Q (f r) = Q r"
  shows "filter Q (update_where P f t) = update_where P f (filter Q t)"
  using assms by (induction t) auto

lemma returning_set: "set (returning P f t) = f ` {r \<in> set t. P r}"
  by (auto simp: returning_def)

lemma length_returning: "length (returning P f t) = length (filter P t)"
  by (simp add: returning_def)

lemma length_filter_card:
  assumes "distinct (map k t)"
  shows "length (filter P t) = card (k ` {x \<in> set t. P x})"
proof -
  have "distinct (map k (filter P t))"
    using assms by (induction t) auto
  then show ?thesis using distinct_card [of "map k (filter P t)"] by simp
qed

lemma filter_dead_update:
  assumes "\<And>r. P r \<Longrightarrow> \<not> Q (f r)"
  shows "filter Q (update_where P f t) = filter (\<lambda>r. \<not> P r) (filter Q t)"
  using assms by (induction t) auto

lemma distinct_map_filter_sub: "distinct (map k t) \<Longrightarrow> distinct (map k (filter P t))"
  by (induction t) auto

lemma length_filter_ids:
  assumes "distinct (map k t)" and "distinct ids" and "set ids \<subseteq> k ` set t"
  shows "length (filter (\<lambda>x. k x \<in> set ids) t) = length ids"
proof -
  have "k ` {x \<in> set t. k x \<in> set ids} = set ids" using assms(3) by auto
  then show ?thesis
    using length_filter_card [OF assms(1)] assms(2) by (simp add: distinct_card)
qed

lemma update_where_twice:
  assumes "\<And>r. r \<in> set t \<Longrightarrow> P r \<Longrightarrow> Q r" and "\<And>r. \<not> Q (f r)"
  shows "update_where Q f (update_where P f t) = update_where Q f t"
  using assms by (induction t) auto

lemma update_where_cong:
  "(\<And>r. r \<in> set t \<Longrightarrow> P r = Q r) \<Longrightarrow> update_where P f t = update_where Q f t"
  by (simp add: update_where_def)

lemma sort_key_Nil_iff [simp]: "sort_key f xs = [] \<longleftrightarrow> xs = []"
  by (metis length_0_conv length_sort)

lemma sort_key_head:
  assumes "sort_key f xs = y # ys"
  shows "y \<in> set xs \<and> (\<forall>x \<in> set xs. f y \<le> f x)"
proof -
  have "set (y # ys) = set xs" using assms by (metis set_sort)
  moreover have "sorted (map f (y # ys))" using assms by (metis sorted_sort_key)
  ultimately show ?thesis by auto
qed

section \<open>Strings\<close>

text \<open>The string tests of JavaScript the code uses: \<^verbatim>\<open>startsWith\<close> and \<^verbatim>\<open>includes\<close>.\<close>

fun startsWith :: "string \<Rightarrow> string \<Rightarrow> bool" where
  "startsWith _ [] = True"
| "startsWith [] (_ # _) = False"
| "startsWith (c # s) (d # p) = (c = d \<and> startsWith s p)"

fun js_includes :: "string \<Rightarrow> string \<Rightarrow> bool" where
  "js_includes [] p = startsWith [] p"
| "js_includes (c # s) p = (startsWith (c # s) p \<or> js_includes s p)"

lemma startsWith_iff: "startsWith s p \<longleftrightarrow> (\<exists>r. s = p @ r)"
  by (induction s p rule: startsWith.induct) auto

lemma includes_iff: "js_includes s p \<longleftrightarrow> (\<exists>l r. s = l @ p @ r)"
proof (induction s)
  case Nil
  then show ?case by (simp add: startsWith_iff)
next
  case (Cons c s)
  have "(\<exists>l r. c # s = l @ p @ r) \<longleftrightarrow> (\<exists>r. c # s = p @ r) \<or> (\<exists>l r. s = l @ p @ r)"
    by (metis append_Cons append_Nil append_eq_Cons_conv)
  with Cons show ?case by (simp add: startsWith_iff)
qed

text \<open>The truth value JavaScript gives an environment variable: set and not empty.\<close>

definition env_set :: "string option \<Rightarrow> bool" where
  "env_set v = (case v of None \<Rightarrow> False | Some s \<Rightarrow> s \<noteq> [])"

definition coalesce :: "string option \<Rightarrow> string option \<Rightarrow> string" where
  "coalesce a b = (case a of Some s \<Rightarrow> s | None \<Rightarrow> (case b of Some s \<Rightarrow> s | None \<Rightarrow> []))"

text \<open>\<^verbatim>\<open>toLowerCase\<close> on the ASCII letters (the only ones the code's inputs need).\<close>

definition toLowerChar :: "char \<Rightarrow> char" where
  "toLowerChar c =
     (if 65 \<le> (of_char c :: nat) \<and> (of_char c :: nat) \<le> 90 then char_of (of_char c + 32 :: nat) else c)"

definition toLowerCase :: "string \<Rightarrow> string" where
  "toLowerCase s = map toLowerChar s"

text \<open>\<^verbatim>\<open>trim\<close> removes white space at both ends.\<close>

definition is_space :: "char \<Rightarrow> bool" where
  "is_space c \<longleftrightarrow> c \<in> {CHR '' '', CHR 0x09, CHR 0x0A, CHR 0x0B, CHR 0x0C, CHR 0x0D, CHR 0xA0}"

definition trim :: "string \<Rightarrow> string" where
  "trim s = rev (dropWhile is_space (rev (dropWhile is_space s)))"

end
