(* ===== verification/Db.thy ===== *)
theory Db
  imports Json
begin

text \<open>
  The PostgreSQL database of db/schema.sql and db/migrations as far as the backend reads
  and writes it: one datatype per enum, one record per table row, one record for the
  whole database, the insert statements with the constraints that can reject them, and
  the well-formedness every operation keeps. Keys come from a counter, as fresh as
  \<^verbatim>\<open>gen_random_uuid()\<close>.
\<close>

section \<open>Enums\<close>

datatype user_status = U_active | U_suspended | U_deleted
datatype user_role = Role_user | Role_admin
datatype plan_tier = Free | Premium
datatype subscription_status =
  Sub_active | Sub_in_grace | Sub_on_hold | Sub_paused | Sub_canceled | Sub_expired | Sub_revoked
datatype subscription_source = Google_play | App_store | Promo | Internal
datatype device_platform = Android | Ios
datatype device_status = D_active | D_blocked
datatype session_status =
  S_provisioning | S_active | S_limited | S_expired | S_revoked | S_closed | S_failed
datatype node_status = N_active | N_draining | N_disabled
datatype panel_op_status = O_pending | O_in_flight | O_succeeded | O_failed | O_dead
datatype ad_grant_purpose = Connect | Extend | Disconnect
datatype ad_grant_status = G_pending | G_fulfilled | G_consumed | G_expired | G_revoked
datatype attestation_purpose = P_device_register | P_connect | P_iap_link
datatype admin_action_type =
  KICK_SESSION | BAN_USER | UNBAN_USER | CHANGE_TIER | PANIC_FREE_SESSIONS | SET_NODE_STATUS
  | FORCE_MIGRATE_NODE

section \<open>Rows\<close>

record user =
  u_id :: id
  u_email :: "string option"
  u_password_hash :: "string option"
  u_is_anonymous :: bool
  u_status :: user_status
  u_role :: user_role
  u_is_banned :: bool
  u_failed_login_count :: int
  u_locked_until :: "ms option"
  u_created_at :: ms
  u_updated_at :: ms

record device =
  d_id :: id
  d_user_id :: id
  d_platform :: device_platform
  d_install_id :: string
  d_app_version :: "string option"
  d_status :: device_status
  d_last_integrity_verdict :: "json option"
  d_app_attest_key_id :: "string option"
  d_app_attest_public_key :: "bytes option"
  d_app_attest_counter :: int
  d_is_attested :: bool
  d_attested_until :: "ms option"
  d_attested_client_public_key :: "bytes option"
  d_last_attested_at :: "ms option"

record challenge =
  c_id :: id
  c_device_id :: id
  c_purpose :: attestation_purpose
  c_challenge :: bytes
  c_expires_at :: ms
  c_consumed_at :: "ms option"

record refresh_token =
  t_id :: id
  t_user_id :: id
  t_device_id :: "id option"
  t_family_id :: id
  t_token_hash :: bytes
  t_expires_at :: ms
  t_rotated_from :: "id option"
  t_revoked_at :: "ms option"
  t_revoke_reason :: "string option"

record plan =
  p_id :: id
  p_code :: string
  p_tier :: plan_tier
  p_max_concurrent_sessions :: int

record subscription =
  sub_id :: id
  sub_user_id :: id
  sub_plan_id :: id
  sub_source :: subscription_source
  sub_status :: subscription_status
  sub_current_period_start :: "ms option"
  sub_current_period_end :: "ms option"
  sub_updated_at :: ms

record node =
  n_id :: id
  n_panel_node_id :: "string option"
  n_name :: string
  n_country_code :: string
  n_tier :: plan_tier
  n_status :: node_status
  n_is_active :: bool
  n_error_streak :: int
  n_current_load :: rat
  n_sort_weight :: int
  n_last_synced_at :: "ms option"
  n_updated_at :: ms

record node_inbound =
  ni_node_id :: id
  ni_inbound_tag :: string
  ni_protocol :: string
  ni_tier :: plan_tier

record node_endpoint =
  ne_node_id :: id
  ne_inbound_tag :: string
  ne_address :: string
  ne_port :: int
  ne_security :: json
  ne_is_active :: bool

record vpn_session =
  s_id :: id
  s_user_id :: id
  s_device_id :: id
  s_node_id :: id
  s_tier :: plan_tier
  s_status :: session_status
  s_panel_username :: string
  s_credential_ref :: string
  s_inbound_tag :: "string option"
  s_protocol :: "string option"
  s_client_public_key :: "bytes option"
  s_expires_at :: ms
  s_created_at :: ms
  s_activated_at :: "ms option"
  s_closed_at :: "ms option"
  s_close_reason :: "string option"
  s_last_ad_grant_id :: "id option"
  s_extensions_count :: nat
  s_last_panel_sync_at :: "ms option"

record op_payload =
  panel_username :: string
  expire_epoch :: "int option"

record panel_operation =
  o_id :: id
  o_session_id :: id
  o_op :: string
  o_payload :: op_payload
  o_status :: panel_op_status
  o_attempts :: nat
  o_next_attempt_at :: ms
  o_last_error :: "string option"
  o_completed_at :: "ms option"

record ad_reward_grant =
  g_id :: id
  g_user_id :: id
  g_device_id :: id
  g_session_id :: "id option"
  g_purpose :: ad_grant_purpose
  g_nonce :: string
  g_required_ads :: int
  g_verified_ads :: int
  g_grant_minutes :: int
  g_status :: ad_grant_status
  g_expires_at :: ms
  g_fulfilled_at :: "ms option"
  g_consumed_at :: "ms option"

record ad_reward =
  r_id :: id
  r_grant_id :: id
  r_network :: string
  r_transaction_id :: string
  r_ad_unit :: "string option"
  r_reward_item :: "string option"
  r_reward_amount :: "int option"
  r_signature_key_id :: string
  r_raw :: "(string \<times> string) list"
  r_verified_at :: ms

record audit_log =
  al_id :: id
  al_admin_id :: "id option"
  al_action_type :: admin_action_type
  al_target_id :: "id option"
  al_details :: json
  al_ip_address :: "string option"
  al_created_at :: ms

record attestation_attempt =
  at_device_id :: "id option"
  at_platform :: "device_platform option"
  at_outcome :: string
  at_reason :: "string option"
  at_ip :: "string option"

section \<open>The database\<close>

record db =
  next_id :: id
  users :: "user list"
  devices :: "device list"
  challenges :: "challenge list"
  tokens :: "refresh_token list"
  plans :: "plan list"
  subscriptions :: "subscription list"
  nodes :: "node list"
  inbounds :: "node_inbound list"
  endpoints :: "node_endpoint list"
  sessions :: "vpn_session list"
  ops :: "panel_operation list"
  grants :: "ad_reward_grant list"
  rewards :: "ad_reward list"
  audit_logs :: "audit_log list"
  attempts :: "attestation_attempt list"

definition empty_db :: db where
  "empty_db = \<lparr>next_id = 1, users = [], devices = [], challenges = [], tokens = [], plans = [],
     subscriptions = [], nodes = [], inbounds = [], endpoints = [], sessions = [], ops = [],
     grants = [], rewards = [], audit_logs = [], attempts = []\<rparr>"

section \<open>Shared predicates of the SQL statements\<close>

text \<open>\<^verbatim>\<open>status in ('provisioning','active','limited')\<close>\<close>

fun live_status :: "session_status \<Rightarrow> bool" where
  "live_status S_provisioning = True"
| "live_status S_active = True"
| "live_status S_limited = True"
| "live_status _ = False"

abbreviation live :: "vpn_session \<Rightarrow> bool" where
  "live s \<equiv> live_status (s_status s)"

fun status_text :: "session_status \<Rightarrow> string" where
  "status_text S_provisioning = ''provisioning''"
| "status_text S_active = ''active''"
| "status_text S_limited = ''limited''"
| "status_text S_expired = ''expired''"
| "status_text S_revoked = ''revoked''"
| "status_text S_closed = ''closed''"
| "status_text S_failed = ''failed''"

definition entitled_status :: "subscription_status \<Rightarrow> bool" where
  "entitled_status st \<longleftrightarrow> st = Sub_active \<or> st = Sub_in_grace"

definition period_open :: "ms \<Rightarrow> subscription \<Rightarrow> bool" where
  "period_open now s = (case sub_current_period_end s of None \<Rightarrow> True | Some e \<Rightarrow> e > now)"

section \<open>Inserts and the constraints that can reject them\<close>

text \<open>
  \<^verbatim>\<open>credential_ref uuid\<close>: the text must be 32 hexadecimal digits after removing hyphens
  and braces. PostgreSQL is stricter on where the hyphens stand, so it accepts no text
  that this test rejects.
\<close>

definition is_hex :: "char \<Rightarrow> bool" where
  "is_hex c \<longleftrightarrow> c \<in> set ''0123456789abcdefABCDEF''"

definition pg_uuid :: "string \<Rightarrow> bool" where
  "pg_uuid s =
     (let h = filter (\<lambda>c. c \<notin> set ''-{}'') s in length h = 32 \<and> list_all is_hex h)"

text \<open>The closing-ad nonce no grant may hold (\<^verbatim>\<open>nonce_not_closing_sentinel\<close>).\<close>

definition CLOSING_SESSION_NONCE :: string where
  "CLOSING_SESSION_NONCE = ''closing-session-no-grant''"

definition insert_session :: "(id \<Rightarrow> vpn_session) \<Rightarrow> (db, id) prog" where
  "insert_session mk d =
     (let r = mk (next_id d) in
      if \<not> pg_uuid (s_credential_ref r) then (Inl (PgError sqlstate_invalid_text), d)
      else if exists_row (\<lambda>s. s_panel_username s = s_panel_username r) (sessions d)
      then (Inl (PgError sqlstate_unique_violation), d)
      else if live r \<and> exists_row (\<lambda>s. s_device_id s = s_device_id r \<and> live s) (sessions d)
      then (Inl (PgError sqlstate_unique_violation), d)
      else if \<not> (exists_row (\<lambda>u. u_id u = s_user_id r) (users d) \<and>
                 exists_row (\<lambda>v. d_id v = s_device_id r) (devices d) \<and>
                 exists_row (\<lambda>n. n_id n = s_node_id r) (nodes d))
      then (Inl (PgError sqlstate_foreign_key_violation), d)
      else (Inr (next_id d), d\<lparr>sessions := sessions d @ [r], next_id := next_id d + 1\<rparr>))"

definition insert_grant :: "(id \<Rightarrow> ad_reward_grant) \<Rightarrow> (db, id) prog" where
  "insert_grant mk d =
     (let r = mk (next_id d) in
      if g_nonce r = CLOSING_SESSION_NONCE then (Inl (PgError sqlstate_check_violation), d)
      else if exists_row (\<lambda>g. g_nonce g = g_nonce r) (grants d)
      then (Inl (PgError sqlstate_unique_violation), d)
      else if \<not> (exists_row (\<lambda>u. u_id u = g_user_id r) (users d) \<and>
                 exists_row (\<lambda>v. d_id v = g_device_id r) (devices d) \<and>
                 (case g_session_id r of None \<Rightarrow> True
                  | Some sid \<Rightarrow> exists_row (\<lambda>s. s_id s = sid) (sessions d)))
      then (Inl (PgError sqlstate_foreign_key_violation), d)
      else (Inr (next_id d), d\<lparr>grants := grants d @ [r], next_id := next_id d + 1\<rparr>))"

text \<open>\<^verbatim>\<open>insert into panel_operations ... values (..., 'pending', now())\<close>: no constraint can fail.\<close>

definition new_op :: "ms \<Rightarrow> id \<Rightarrow> string \<Rightarrow> op_payload \<Rightarrow> id \<Rightarrow> panel_operation" where
  "new_op now sid op pl i =
     \<lparr>o_id = i, o_session_id = sid, o_op = op, o_payload = pl, o_status = O_pending,
      o_attempts = 0, o_next_attempt_at = now, o_last_error = None, o_completed_at = None\<rparr>"

definition insert_op :: "ms \<Rightarrow> id \<Rightarrow> string \<Rightarrow> op_payload \<Rightarrow> db \<Rightarrow> db" where
  "insert_op now sid op pl d =
     d\<lparr>ops := ops d @ [new_op now sid op pl (next_id d)], next_id := next_id d + 1\<rparr>"

section \<open>Tables as lenses\<close>

text \<open>
  What a statement on one table relies on: it reads and writes the rows of that table,
  and the keys of the table are distinct and older than the counter.
\<close>

definition table_ok :: "('r \<Rightarrow> id) \<Rightarrow> id \<Rightarrow> 'r list \<Rightarrow> bool" where
  "table_ok key n t \<longleftrightarrow> distinct (map key t) \<and> (\<forall>r \<in> set t. key r < n)"

locale db_table =
  fixes rows :: "db \<Rightarrow> 'r list"
    and put :: "('r list \<Rightarrow> 'r list) \<Rightarrow> db \<Rightarrow> db"
    and key :: "'r \<Rightarrow> id"
  assumes rows_put: "rows (put h d) = h (rows d)"
    and next_put: "next_id (put h d) = next_id d"
begin

lemma update_ok:
  assumes "table_ok key (next_id d) (rows d)" and "\<And>r. key (f r) = key r"
  shows "table_ok key (next_id (put (update_where P f) d)) (rows (put (update_where P f) d))"
  using assms by (simp add: table_ok_def rows_put next_put map_update_where update_where_ball)

lemma insert_ok:
  assumes "table_ok key (next_id d) (rows d)" and "key r = next_id d"
  shows "table_ok key (next_id d + 1) (rows (put (\<lambda>t. t @ [r]) d))"
  using assms by (auto simp: table_ok_def rows_put less_Suc_eq)

lemma lookup_updated:
  assumes "table_ok key (next_id d) (rows d)" and "r \<in> set (rows d)" and "key r = i"
    and "\<And>x. key (f x) = key x"
  shows "find_row (\<lambda>x. key x = i) (rows (put (update_where (\<lambda>x. key x = i) f) d)) = Some (f r)"
proof -
  have "find_row (\<lambda>x. key x = i) (rows d) = Some r"
    using assms by (auto simp: table_ok_def intro: find_row_unique)
  then show ?thesis using assms(3,4) by (simp add: rows_put find_row_update_where)
qed

lemma lookup_other:
  assumes "\<And>x. key (f x) = key x" and "j \<noteq> i"
  shows "find_row (\<lambda>x. key x = j) (rows (put (update_where (\<lambda>x. key x = i) f) d)) =
    find_row (\<lambda>x. key x = j) (rows d)"
proof -
  have "find_row (\<lambda>x. key x = j) (update_where (\<lambda>x. key x = i) f t) =
    find_row (\<lambda>x. key x = j) t" for t
    using assms by (induction t) auto
  then show ?thesis by (simp add: rows_put)
qed

end

interpretation sessions_tbl: db_table sessions sessions_update s_id
  by unfold_locales simp_all

interpretation grants_tbl: db_table grants grants_update g_id
  by unfold_locales simp_all

interpretation ops_tbl: db_table ops ops_update o_id
  by unfold_locales simp_all

interpretation tokens_tbl: db_table tokens tokens_update t_id
  by unfold_locales simp_all

interpretation users_tbl: db_table users users_update u_id
  by unfold_locales simp_all

interpretation devices_tbl: db_table devices devices_update d_id
  by unfold_locales simp_all

interpretation challenges_tbl: db_table challenges challenges_update c_id
  by unfold_locales simp_all

section \<open>Well-formed keys\<close>

definition keys_ok :: "db \<Rightarrow> bool" where
  "keys_ok d \<longleftrightarrow>
     table_ok s_id (next_id d) (sessions d) \<and> table_ok g_id (next_id d) (grants d) \<and>
     table_ok o_id (next_id d) (ops d) \<and> table_ok t_id (next_id d) (tokens d) \<and>
     table_ok u_id (next_id d) (users d) \<and> table_ok d_id (next_id d) (devices d) \<and>
     table_ok c_id (next_id d) (challenges d)"

named_theorems db_defs

lemmas insert_defs [db_defs] = insert_session_def insert_grant_def insert_op_def new_op_def

lemma table_ok_mono: "table_ok k n t \<Longrightarrow> n \<le> m \<Longrightarrow> table_ok k m t"
  by (auto simp: table_ok_def)

lemma table_ok_cong: "map k t' = map k t \<Longrightarrow> table_ok k n t' = table_ok k n t"
  unfolding table_ok_def by (metis (no_types, lifting) in_set_conv_nth length_map nth_map)

lemma table_ok_snoc: "table_ok k n t \<Longrightarrow> k r = n \<Longrightarrow> table_ok k (Suc n) (t @ [r])"
  by (auto simp: table_ok_def less_Suc_eq)

lemma table_ok_update:
  "table_ok k n t \<Longrightarrow> (\<And>r. k (f r) = k r) \<Longrightarrow> table_ok k n (update_where P f t)"
  by (simp add: table_ok_def map_update_where update_where_ball)

lemma table_ok_Suc: "table_ok k n t \<Longrightarrow> table_ok k (Suc n) t"
  by (rule table_ok_mono) auto

lemma table_ok_find:
  "table_ok k n t \<Longrightarrow> r \<in> set t \<Longrightarrow> find_row (\<lambda>x. k x = k r) t = Some r"
  by (auto simp: table_ok_def intro: find_row_unique)

lemma table_ok_inj:
  "table_ok k n t \<Longrightarrow> r \<in> set t \<Longrightarrow> r' \<in> set t \<Longrightarrow> k r = k r' \<Longrightarrow> r = r'"
  by (auto simp: table_ok_def distinct_map inj_on_def)

lemma insert_op_simps [simp]:
  "sessions (insert_op now sid op pl d) = sessions d"
  "grants (insert_op now sid op pl d) = grants d"
  "rewards (insert_op now sid op pl d) = rewards d"
  "tokens (insert_op now sid op pl d) = tokens d"
  "users (insert_op now sid op pl d) = users d"
  "devices (insert_op now sid op pl d) = devices d"
  "challenges (insert_op now sid op pl d) = challenges d"
  "plans (insert_op now sid op pl d) = plans d"
  "subscriptions (insert_op now sid op pl d) = subscriptions d"
  "nodes (insert_op now sid op pl d) = nodes d"
  "inbounds (insert_op now sid op pl d) = inbounds d"
  "endpoints (insert_op now sid op pl d) = endpoints d"
  "audit_logs (insert_op now sid op pl d) = audit_logs d"
  "attempts (insert_op now sid op pl d) = attempts d"
  "ops (insert_op now sid op pl d) = ops d @ [new_op now sid op pl (next_id d)]"
  "next_id (insert_op now sid op pl d) = Suc (next_id d)"
  by (simp_all add: insert_op_def)

lemma new_op_simps [simp]:
  "o_id (new_op now sid op pl i) = i" "o_session_id (new_op now sid op pl i) = sid"
  "o_op (new_op now sid op pl i) = op" "o_payload (new_op now sid op pl i) = pl"
  "o_status (new_op now sid op pl i) = O_pending"
  "o_attempts (new_op now sid op pl i) = 0"
  "o_next_attempt_at (new_op now sid op pl i) = now"
  by (simp_all add: new_op_def)

lemma keys_ok_insert_op [intro]: "keys_ok d \<Longrightarrow> keys_ok (insert_op now sid op pl d)"
  by (auto simp: keys_ok_def intro: table_ok_Suc table_ok_snoc)

lemma insert_session_Inr:
  assumes "insert_session mk d = (Inr i, d')"
  shows "i = next_id d" "d' = d\<lparr>sessions := sessions d @ [mk i], next_id := next_id d + 1\<rparr>"
    "pg_uuid (s_credential_ref (mk i))"
    "\<forall>s \<in> set (sessions d). s_panel_username s \<noteq> s_panel_username (mk i)"
    "live (mk i) \<Longrightarrow> \<forall>s \<in> set (sessions d). s_device_id s = s_device_id (mk i) \<longrightarrow> \<not> live s"
  using assms by (auto simp: insert_session_def Let_def split: if_splits)

lemma insert_session_Inl: "insert_session mk d = (Inl e, d') \<Longrightarrow> d' = d"
  by (auto simp: insert_session_def Let_def split: if_splits)

lemma insert_grant_Inr:
  assumes "insert_grant mk d = (Inr i, d')"
  shows "i = next_id d" "d' = d\<lparr>grants := grants d @ [mk i], next_id := next_id d + 1\<rparr>"
    "g_nonce (mk i) \<noteq> CLOSING_SESSION_NONCE"
    "\<forall>g \<in> set (grants d). g_nonce g \<noteq> g_nonce (mk i)"
  using assms by (auto simp: insert_grant_def Let_def split: if_splits)

lemma insert_grant_Inl: "insert_grant mk d = (Inl e, d') \<Longrightarrow> d' = d"
  by (auto simp: insert_grant_def Let_def split: if_splits)

lemma keys_ok_insert_session:
  "keys_ok d \<Longrightarrow> insert_session mk d = (Inr i, d') \<Longrightarrow> s_id (mk i) = i \<Longrightarrow> keys_ok d'"
  by (frule insert_session_Inr(1), drule insert_session_Inr(2))
    (simp add: keys_ok_def table_ok_Suc table_ok_snoc)

lemma keys_ok_insert_grant:
  "keys_ok d \<Longrightarrow> insert_grant mk d = (Inr i, d') \<Longrightarrow> g_id (mk i) = i \<Longrightarrow> keys_ok d'"
  by (frule insert_grant_Inr(1), drule insert_grant_Inr(2))
    (simp add: keys_ok_def table_ok_Suc table_ok_snoc)

lemma keys_ok_sessions:
  "keys_ok d \<Longrightarrow> (\<And>s. s_id (f s) = s_id s) \<Longrightarrow>
    keys_ok (d\<lparr>sessions := update_where P f (sessions d)\<rparr>)"
  by (simp add: keys_ok_def table_ok_update)

lemma keys_ok_grants:
  "keys_ok d \<Longrightarrow> (\<And>s. g_id (f s) = g_id s) \<Longrightarrow>
    keys_ok (d\<lparr>grants := update_where P f (grants d)\<rparr>)"
  by (simp add: keys_ok_def table_ok_update)

lemma keys_ok_ops:
  "keys_ok d \<Longrightarrow> (\<And>s. o_id (f s) = o_id s) \<Longrightarrow>
    keys_ok (d\<lparr>ops := update_where P f (ops d)\<rparr>)"
  by (simp add: keys_ok_def table_ok_update)

lemma keys_okD:
  assumes "keys_ok d"
  shows "table_ok s_id (next_id d) (sessions d)" "table_ok g_id (next_id d) (grants d)"
    "table_ok o_id (next_id d) (ops d)" "table_ok t_id (next_id d) (tokens d)"
    "table_ok u_id (next_id d) (users d)" "table_ok d_id (next_id d) (devices d)"
    "table_ok c_id (next_id d) (challenges d)"
  using assms by (simp_all add: keys_ok_def)

end
