(* ===== verification/Dates.thy ===== *)
theory Dates
  imports Prelude
begin

text \<open>
  The parts of JavaScript's \<^verbatim>\<open>Date\<close> the panel clients use: \<^verbatim>\<open>new Date(n)\<close> with its time
  clip, \<^verbatim>\<open>toISOString()\<close> and \<^verbatim>\<open>new Date(text)\<close> on texts of that format. An expiry that
  leaves through \<^verbatim>\<open>toISOString\<close> and comes back through \<^verbatim>\<open>new Date\<close> is the same instant.
\<close>

section \<open>Instants\<close>

datatype js_date = Instant ms | InvalidDate

text \<open>A \<^verbatim>\<open>Date\<close> holds at most 8.64e15 milliseconds either way; outside it is invalid.\<close>

definition newDate :: "int \<Rightarrow> js_date" where
  "newDate t = (if \<bar>t\<bar> \<le> 8640000000000000 then Instant t else InvalidDate)"

text \<open>\<^verbatim>\<open>getTime()\<close>; \<open>None\<close> is \<^verbatim>\<open>NaN\<close>.\<close>

fun getTime :: "js_date \<Rightarrow> ms option" where
  "getTime (Instant t) = Some t"
| "getTime InvalidDate = None"

section \<open>The calendar\<close>

text \<open>Days from 1 January of year 0 to 1 January of year \<open>y\<close>, and the year a day falls in.\<close>

definition days_before_year :: "int \<Rightarrow> int" where
  "days_before_year y = 365 * y + (y + 3) div 4 - (y + 99) div 100 + (y + 399) div 400"

lemma ceil_div_step:
  fixes y k :: int
  assumes "0 < k"
  shows "(y + k) div k = (y + (k - 1)) div k + (if k dvd y then 1 else 0)"
proof -
  obtain q r where y: "y = k * q + r" "0 \<le> r" "r < k"
    using assms by (metis mult_div_mod_eq pos_mod_bound pos_mod_sign)
  have "(y + k) div k = q + (r + k) div k" "(y + (k - 1)) div k = q + (r + (k - 1)) div k"
    using assms by (simp_all add: y(1) add.assoc)
  moreover have "(r + k) div k = 1" using assms y by simp
  moreover have "(r + (k - 1)) div k = (if r = 0 then 0 else 1)"
  proof (cases "r = 0")
    case True
    then show ?thesis using assms by simp
  next
    case False
    then have "r + (k - 1) = (r - 1) + 1 * k" by simp
    then have "(r + (k - 1)) div k = 1 + (r - 1) div k"
      using assms by (metis div_mult_self1 less_irrefl)
    with False assms y show ?thesis by simp
  qed
  moreover have "k dvd y \<longleftrightarrow> r = 0"
    using y assms by (simp add: dvd_eq_mod_eq_0)
  ultimately show ?thesis by simp
qed

lemma ceil_div_bounds:
  fixes y k :: int
  assumes "0 < k"
  shows "y \<le> k * ((y + (k - 1)) div k)" and "k * ((y + (k - 1)) div k) \<le> y + (k - 1)"
  using mult_div_mod_eq [of k "y + (k - 1)"] pos_mod_bound [OF assms, of "y + (k - 1)"]
    pos_mod_sign [OF assms, of "y + (k - 1)"] by linarith+

lemmas ceil_4 = ceil_div_bounds [of 4, simplified]
lemmas ceil_100 = ceil_div_bounds [of 100, simplified]
lemmas ceil_400 = ceil_div_bounds [of 400, simplified]

definition is_leap :: "int \<Rightarrow> bool" where
  "is_leap y \<longleftrightarrow> y mod 4 = 0 \<and> (y mod 100 \<noteq> 0 \<or> y mod 400 = 0)"

lemma days_in_year:
  "days_before_year (y + 1) = days_before_year y + (if is_leap y then 366 else 365)"
proof -
  have "400 dvd y \<Longrightarrow> 100 dvd y" "100 dvd y \<Longrightarrow> 4 dvd y"
    by (auto elim: dvd_trans [rotated])
  moreover have "days_before_year (y + 1) = days_before_year y + 365 +
      (if 4 dvd y then 1 else 0) - (if 100 dvd y then 1 else 0) + (if 400 dvd y then 1 else 0)"
    using ceil_div_step [of 4 y] ceil_div_step [of 100 y] ceil_div_step [of 400 y]
    by (simp add: days_before_year_def)
  moreover have "is_leap y \<longleftrightarrow> 4 dvd y \<and> (\<not> 100 dvd y \<or> 400 dvd y)"
    by (simp add: is_leap_def dvd_eq_mod_eq_0)
  moreover have "(c \<longrightarrow> b) \<Longrightarrow> (b \<longrightarrow> a) \<Longrightarrow>
      365 + (if a then 1 else 0) - (if b then 1 else 0) + (if c then 1 else 0) =
      (if a \<and> (\<not> b \<or> c) then 366 else (365::int))" for a b c
    by (cases a; cases b; cases c) simp_all
  from this [of "400 dvd y" "100 dvd y" "4 dvd y"]
  have "365 + (if 4 dvd y then 1 else 0) - (if 100 dvd y then 1 else 0) +
      (if 400 dvd y then 1 else 0) = (if 4 dvd y \<and> (\<not> 100 dvd y \<or> 400 dvd y) then 366 else (365::int))"
    using calculation(1,2) by metis
  ultimately show ?thesis by (simp only: add.assoc diff_conv_add_uminus)
qed

function year_from :: "int \<Rightarrow> int \<Rightarrow> int" where
  "year_from n y = (if days_before_year (y + 1) \<le> n then year_from n (y + 1) else y)"
  by pat_completeness auto
termination
proof (relation "measure (\<lambda>(n, y). nat (n - days_before_year y))")
  show "wf (measure (\<lambda>(n, y). nat (n - days_before_year y)))" by simp
next
  fix n y assume "days_before_year (y + 1) \<le> n"
  then show "((n, y + 1), n, y) \<in> measure (\<lambda>(n, y). nat (n - days_before_year y))"
    using days_in_year [of y] by (simp split: if_splits)
qed

declare year_from.simps [simp del]

text \<open>The search starts at or before the year of the day.\<close>

definition year_of :: "int \<Rightarrow> int" where
  "year_of n = year_from n (if n < 0 then n div 365 - 1 else n div 366)"

definition month_lengths :: "int \<Rightarrow> int list" where
  "month_lengths y = [31, if is_leap y then 29 else 28, 31, 30, 31, 30, 31, 31, 30, 31, 30, 31]"

fun split_month :: "int list \<Rightarrow> int \<Rightarrow> nat \<times> int" where
  "split_month (l # l' # ls) d =
     (if d < l then (0, d) else (case split_month (l' # ls) (d - l) of (m, r) \<Rightarrow> (m + 1, r)))"
| "split_month _ d = (0, d)"

section \<open>Fixed-width decimal fields\<close>

fun pad :: "nat \<Rightarrow> nat \<Rightarrow> string" where
  "pad 0 n = []"
| "pad (Suc w) n = pad w (n div 10) @ [digit (n mod 10)]"

definition digit_val :: "char \<Rightarrow> nat option" where
  "digit_val c =
     (let n = of_char c :: nat in if 48 \<le> n \<and> n \<le> 57 then Some (n - 48) else None)"

fun digits_val :: "nat \<Rightarrow> string \<Rightarrow> nat option" where
  "digits_val a [] = Some a"
| "digits_val a (c # s) =
     (case digit_val c of None \<Rightarrow> None | Some n \<Rightarrow> digits_val (10 * a + n) s)"

definition field :: "nat \<Rightarrow> string \<Rightarrow> (nat \<times> string) option" where
  "field w s =
     (if length s < w then None
      else case digits_val 0 (take w s) of None \<Rightarrow> None | Some n \<Rightarrow> Some (n, drop w s))"

fun lit :: "char \<Rightarrow> string \<Rightarrow> string option" where
  "lit c [] = None"
| "lit c (d # s) = (if d = c then Some s else None)"

section \<open>toISOString and new Date(text)\<close>

definition show_year :: "int \<Rightarrow> string" where
  "show_year y =
     (if 0 \<le> y \<and> y \<le> 9999 then pad 4 (nat y)
      else if y < 0 then CHR ''-'' # pad 6 (nat (- y)) else CHR ''+'' # pad 6 (nat y))"

definition toISOString :: "ms \<Rightarrow> string" where
  "toISOString t =
     (let day = t div 86400000 + 719528; q = nat (t mod 86400000); y = year_of day
      in case split_month (month_lengths y) (day - days_before_year y) of (m, r) \<Rightarrow>
           show_year y @ ''-'' @ pad 2 (m + 1) @ ''-'' @ pad 2 (nat r + 1) @ ''T'' @
           pad 2 (q div 3600000) @ '':'' @ pad 2 (q div 60000 mod 60) @ '':'' @
           pad 2 (q div 1000 mod 60) @ ''.'' @ pad 3 (q mod 1000) @ ''Z'')"

definition parse_year :: "string \<Rightarrow> (int \<times> string) option" where
  "parse_year s =
     (case s of
        [] \<Rightarrow> None
      | c # r \<Rightarrow>
          if c = CHR ''+'' then map_option (map_prod int id) (field 6 r)
          else if c = CHR ''-'' then
            Option.bind (field 6 r) (\<lambda>(n, s1). if n = 0 then None else Some (- int n, s1))
          else map_option (map_prod int id) (field 4 s))"

definition instant_of :: "int \<Rightarrow> nat \<Rightarrow> nat \<Rightarrow> nat \<Rightarrow> nat \<Rightarrow> nat \<Rightarrow> nat \<Rightarrow> ms" where
  "instant_of y mo d h mi s milli =
     (days_before_year y + sum_list (take (mo - 1) (month_lengths y)) + int d - 1 - 719528) * 86400000
     + int (h * 3600000 + mi * 60000 + s * 1000 + milli)"

definition parse_time :: "string \<Rightarrow> (nat \<times> nat \<times> nat \<times> nat) option" where
  "parse_time s0 =
     Option.bind (field 2 s0) (\<lambda>(h, s1).
     Option.bind (lit (CHR '':'') s1) (\<lambda>s2.
     Option.bind (field 2 s2) (\<lambda>(mi, s3).
     Option.bind (lit (CHR '':'') s3) (\<lambda>s4.
     Option.bind (field 2 s4) (\<lambda>(s, s5).
     Option.bind (lit (CHR ''.'') s5) (\<lambda>s6.
     Option.bind (field 3 s6) (\<lambda>(milli, s7).
       if s7 = ''Z'' \<and> h \<le> 23 \<and> mi \<le> 59 \<and> s \<le> 59 then Some (h, mi, s, milli) else None)))))))"

definition parseISO :: "string \<Rightarrow> ms option" where
  "parseISO s =
     Option.bind (parse_year s) (\<lambda>(y, s1).
     Option.bind (lit (CHR ''-'') s1) (\<lambda>s2.
     Option.bind (field 2 s2) (\<lambda>(mo, s3).
     Option.bind (lit (CHR ''-'') s3) (\<lambda>s4.
     Option.bind (field 2 s4) (\<lambda>(d, s5).
     Option.bind (lit (CHR ''T'') s5) (\<lambda>s6.
     Option.bind (parse_time s6) (\<lambda>(h, mi, sec, milli).
       if 1 \<le> mo \<and> mo \<le> 12 \<and> 1 \<le> d \<and> int d \<le> month_lengths y ! (mo - 1)
       then Some (instant_of y mo d h mi sec milli) else None)))))))"

text \<open>
  \<^verbatim>\<open>new Date(text)\<close>. ECMAScript leaves texts of other formats to the implementation
  (\<open>other\<close>, \<open>None\<close> where it gives up).
\<close>

definition parseDate :: "(string \<Rightarrow> ms option) \<Rightarrow> string \<Rightarrow> js_date" where
  "parseDate other s =
     (case parseISO s of
        Some t \<Rightarrow> newDate t
      | None \<Rightarrow> (case other s of Some t \<Rightarrow> newDate t | None \<Rightarrow> InvalidDate))"

section \<open>Lemmas\<close>

lemma length_pad [simp]: "length (pad w n) = w"
  by (induction w arbitrary: n) auto

lemma digit_val_digit [simp]: "n < 10 \<Longrightarrow> digit_val (digit n) = Some n"
  by (simp add: digit_val_def digit_def of_char_of Let_def)

lemma digits_val_append:
  "digits_val a (s @ t) = (case digits_val a s of None \<Rightarrow> None | Some b \<Rightarrow> digits_val b t)"
  by (induction s arbitrary: a) (auto split: option.splits)

lemma digits_val_pad: "n < 10 ^ w \<Longrightarrow> digits_val 0 (pad w n) = Some n"
proof (induction w arbitrary: n)
  case (Suc w)
  then have "n div 10 < 10 ^ w" by auto
  with Suc.IH show ?case by (simp add: digits_val_append)
qed simp

lemma field_pad [simp]: "n < 10 ^ w \<Longrightarrow> field w (pad w n @ s) = Some (n, s)"
  by (simp add: field_def digits_val_pad)

lemma year_from_bounds:
  "days_before_year y \<le> n \<Longrightarrow>
     days_before_year (year_from n y) \<le> n \<and> n < days_before_year (year_from n y + 1)"
proof (induction n y rule: year_from.induct)
  case (1 n y)
  then show ?case by (subst (1 2) year_from.simps) auto
qed

lemma year_of_bounds: "days_before_year (year_of n) \<le> n" "n < days_before_year (year_of n + 1)"
proof -
  have "days_before_year (if n < 0 then n div 365 - 1 else n div 366) \<le> n"
  proof (cases "n < 0")
    case True
    define y where "y = n div 365 - 1"
    have "365 * y + 365 \<le> n" "y < 0" using True by (auto simp: y_def)
    moreover note ceil_4 [of y] ceil_100 [of y]
    moreover have "(y + 399) div 400 \<le> 0" using \<open>y < 0\<close> by simp
    ultimately show ?thesis using True by (simp add: days_before_year_def flip: y_def)
  next
    case False
    define y where "y = n div 366"
    have "366 * y \<le> n" "0 \<le> y" using False by (auto simp: y_def)
    moreover have "days_before_year y \<le> 366 * y"
    proof (cases "y < 3")
      case True
      with \<open>0 \<le> y\<close> have "y = 0 \<or> y = 1 \<or> y = 2" by auto
      then show ?thesis by (auto simp: days_before_year_def)
    next
      case False
      with ceil_4 [of y] ceil_100 [of y] ceil_400 [of y] show ?thesis
        by (simp add: days_before_year_def)
    qed
    ultimately show ?thesis using False by (simp flip: y_def)
  qed
  from year_from_bounds [OF this]
  show "days_before_year (year_of n) \<le> n" "n < days_before_year (year_of n + 1)"
    by (auto simp: year_of_def)
qed

lemma year_length: "days_before_year (y + 1) = days_before_year y + sum_list (month_lengths y)"
  by (simp add: days_in_year month_lengths_def)

lemma split_month_spec:
  assumes "split_month ls d = (m, r)" and "0 \<le> d" and "d < sum_list ls"
  shows "m < length ls \<and> 0 \<le> r \<and> r < ls ! m \<and> sum_list (take m ls) + r = d"
  using assms
proof (induction ls d arbitrary: m r rule: split_month.induct)
  case (1 l l' ls d)
  show ?case
  proof (cases "d < l")
    case True
    with 1 show ?thesis by auto
  next
    case False
    obtain m' r' where s: "split_month (l' # ls) (d - l) = (m', r')" by fastforce
    with False "1.prems" "1.IH" [OF False s] show ?thesis by auto
  qed
qed auto

lemma month_lengths_bound: "m < 12 \<Longrightarrow> month_lengths y ! m \<le> 31"
  by (auto simp: month_lengths_def less_Suc_eq numeral_eq_Suc)

lemma pad_4: "pad 4 n = digit (n div 1000 mod 10) # digit (n div 100 mod 10) #
    digit (n div 10 mod 10) # digit (n mod 10) # []"
proof -
  have "n div 1000 = n div 10 div 10 div 10" "n div 100 = n div 10 div 10"
    by (simp_all add: div_mult2_eq [symmetric])
  moreover have four: "(4::nat) = Suc (Suc (Suc (Suc 0)))" by simp
  ultimately show ?thesis unfolding four by (simp only: pad.simps append.simps)
qed

lemma digit_no_sign: "digit (n mod 10) \<noteq> CHR ''+''" "digit (n mod 10) \<noteq> CHR ''-''"
proof -
  have "list_all (\<lambda>k. digit k \<noteq> CHR ''+'' \<and> digit k \<noteq> CHR ''-'') [0..<10]" by code_simp
  then show "digit (n mod 10) \<noteq> CHR ''+''" "digit (n mod 10) \<noteq> CHR ''-''"
    by (simp_all add: list_all_iff)
qed

lemma parse_year_digits:
  "c \<noteq> CHR ''+'' \<Longrightarrow> c \<noteq> CHR ''-'' \<Longrightarrow>
     parse_year (c # s) = map_option (map_prod int id) (field 4 (c # s))"
  by (simp add: parse_year_def)

lemma parse_show_year:
  assumes "\<bar>y\<bar> < 1000000"
  shows "parse_year (show_year y @ s) = Some (y, s)"
proof (cases "0 \<le> y \<and> y \<le> 9999")
  case True
  then have "field 4 (pad 4 (nat y) @ s) = Some (nat y, s)" by (intro field_pad) auto
  with True show ?thesis
    by (simp add: show_year_def pad_4 parse_year_digits digit_no_sign)
next
  case False
  with assms show ?thesis by (auto simp: show_year_def parse_year_def)
qed

lemma parse_time_fields:
  assumes "h \<le> 23" and "mi \<le> 59" and "sec \<le> 59" and "milli < 1000"
  shows "parse_time (pad 2 h @ CHR '':'' # pad 2 mi @ CHR '':'' # pad 2 sec @ CHR ''.'' #
     pad 3 milli @ ''Z'') = Some (h, mi, sec, milli)"
  using assms by (simp add: parse_time_def)

lemma parseISO_fields:
  assumes "\<bar>y\<bar> < 1000000" and "m < 12" and "0 \<le> r" and "r < month_lengths y ! m"
    and "parse_time t = Some (h, mi, sec, milli)"
  shows "parseISO (show_year y @ CHR ''-'' # pad 2 (m + 1) @ CHR ''-'' # pad 2 (nat r + 1) @
     CHR ''T'' # t) = Some (instant_of y (m + 1) (nat r + 1) h mi sec milli)"
proof -
  have "nat r + 1 < 10 ^ 2" "m + 1 < 10 ^ 2" "int (nat r + 1) \<le> month_lengths y ! m"
    using month_lengths_bound [OF assms(2), of y] assms(2-4) by auto
  then show ?thesis
    using assms by (simp add: parseISO_def parse_show_year)
qed

lemma time_of_day:
  assumes "q < (86400000::nat)"
  shows "q div 3600000 * 3600000 + q div 60000 mod 60 * 60000 + q div 1000 mod 60 * 1000 + q mod 1000 = q"
proof -
  have step: "a * k = x \<Longrightarrow> a div b * (b * k) + a mod b * k = x" for a b k x :: nat
    by (metis add_mult_distrib div_mult_mod_eq mult.assoc)
  have "q div 3600000 = q div 1000 div 60 div 60" "q div 60000 = q div 1000 div 60"
    by (simp_all add: div_mult2_eq [symmetric])
  then have "q div 3600000 * 3600000 + q div 60000 mod 60 * 60000 = q div 60000 * 60000"
    using step [of "q div 60000" 60000 _ 60] by simp
  moreover have "q div 60000 * 60000 + q div 1000 mod 60 * 1000 = q div 1000 * 1000"
    using step [of "q div 1000" 1000 _ 60] \<open>q div 3600000 = _\<close> \<open>q div 60000 = _\<close> by simp
  ultimately show ?thesis by (simp only: div_mult_mod_eq)
qed

lemma year_of_small:
  assumes "\<bar>n\<bar> < 200000000"
  shows "\<bar>year_of n\<bar> < 1000000"
proof -
  define y where "y = year_of n"
  have b: "days_before_year y \<le> n" "n < days_before_year y + 366"
    using year_of_bounds [of n] days_in_year [of "year_of n"]
    by (auto simp: y_def split: if_splits)
  have "\<bar>y\<bar> < 1000000"
    using assms b ceil_4 [of y] ceil_100 [of y] ceil_400 [of y]
    unfolding days_before_year_def by linarith
  then show ?thesis by (simp add: y_def)
qed

lemma parseISO_toISOString:
  assumes "\<bar>t\<bar> \<le> 8640000000000000"
  shows "parseISO (toISOString t) = Some t"
proof -
  define day q where "day = t div 86400000 + 719528" and "q = nat (t mod 86400000)"
  define y where "y = year_of day"
  obtain m r where s: "split_month (month_lengths y) (day - days_before_year y) = (m, r)" by fastforce
  have q: "q < 86400000" "int q = t mod 86400000" by (auto simp: q_def)
  have "m < 12 \<and> 0 \<le> r \<and> r < month_lengths y ! m \<and>
      sum_list (take m (month_lengths y)) + r = day - days_before_year y"
    using split_month_spec [OF s] year_of_bounds [of day] year_length [of y]
    by (simp add: y_def month_lengths_def)
  moreover have "\<bar>y\<bar> < 1000000" unfolding y_def
    using assms by (intro year_of_small) (auto simp: day_def)
  moreover have "parse_time (pad 2 (q div 3600000) @ CHR '':'' # pad 2 (q div 60000 mod 60) @
      CHR '':'' # pad 2 (q div 1000 mod 60) @ CHR ''.'' # pad 3 (q mod 1000) @ ''Z'') =
      Some (q div 3600000, q div 60000 mod 60, q div 1000 mod 60, q mod 1000)"
  proof (rule parse_time_fields)
    show "q div 3600000 \<le> 23" using less_mult_imp_div_less [of q 24 3600000] q(1) by simp
    show "q div 60000 mod 60 \<le> 59" using mod_less_divisor [of 60 "q div 60000"] by simp
    show "q div 1000 mod 60 \<le> 59" using mod_less_divisor [of 60 "q div 1000"] by simp
  qed simp
  ultimately have "parseISO (toISOString t) =
      Some (instant_of y (m + 1) (nat r + 1) (q div 3600000) (q div 60000 mod 60)
        (q div 1000 mod 60) (q mod 1000))"
    using s by (simp add: toISOString_def Let_def parseISO_fields [simplified] flip: day_def q_def y_def)
  also have "\<dots> = Some t"
  proof -
    have "instant_of y (m + 1) (nat r + 1) (q div 3600000) (q div 60000 mod 60)
        (q div 1000 mod 60) (q mod 1000) = (day - 719528) * 86400000 + int q"
      using \<open>m < 12 \<and> _\<close> time_of_day [OF q(1)] by (simp add: instant_of_def)
    also have "\<dots> = t" using q(2) by (simp add: day_def)
    finally show ?thesis by simp
  qed
  finally show ?thesis .
qed

lemma parseDate_toISOString:
  "\<bar>t\<bar> \<le> 8640000000000000 \<Longrightarrow> parseDate other (toISOString t) = Instant t"
  by (simp add: parseDate_def parseISO_toISOString newDate_def)

end
