(* ===== verification/PanelTypes.thy ===== *)
theory PanelTypes
  imports Db Dates
begin

text \<open>
  The panel abstraction of backend/src/panel (panel.types.ts and IPanelClient.ts): the
  values that cross it, the interface as a record of operations over the state of the
  panel, the world of a handler (our database beside the panel), and the contract the
  callers of \<^verbatim>\<open>createUser\<close> rely on, as a locale.
\<close>

section \<open>Values\<close>

datatype panel_user_status = PU_active | PU_disabled | PU_limited | PU_expired | PU_on_hold

record proxy_credential =
  pc_id :: "string option"
  pc_password :: "string option"
  pc_flow :: "string option"

record create_user_params =
  cu_username :: string
  cu_expireAt :: ms
  cu_dataLimitBytes :: "int option"
  cu_proxies :: "(string \<times> proxy_credential) list"
  cu_inboundsByProtocol :: "(string \<times> string list) list"

record panel_user =
  pu_username :: string
  pu_expireAt :: "js_date option"
  pu_dataLimitBytes :: "int option"
  pu_status :: panel_user_status
  pu_usedTrafficBytes :: int
  pu_subscriptionToken :: "string option"

record panel_node =
  pn_panelNodeId :: string
  pn_name :: string
  pn_status :: string
  pn_address :: "string option"

section \<open>The interface\<close>

text \<open>Every method talks to the panel: it may throw, and it changes the panel's state \<open>'p\<close>.\<close>

record 'p panel_client =
  createUser :: "create_user_params \<Rightarrow> ('p, panel_user) prog"
  setUserExpiry :: "string \<Rightarrow> ms \<Rightarrow> ('p, panel_user) prog"
  getUser :: "string \<Rightarrow> ('p, panel_user option) prog"
  disableUser :: "string \<Rightarrow> ('p, unit) prog"
  deleteUser :: "string \<Rightarrow> ('p, unit) prog"
  getUserUsage :: "string \<Rightarrow> ('p, int) prog"
  listNodes :: "('p, panel_node list) prog"

section \<open>The world of a handler\<close>

record 'p world =
  wdb :: db
  wpanel :: 'p

definition on_panel :: "('p, 'a) prog \<Rightarrow> ('p world, 'a) prog" where
  "on_panel m w = (case m (wpanel w) of (r, p) \<Rightarrow> (r, w\<lparr>wpanel := p\<rparr>))"

definition on_db :: "(db, 'a) prog \<Rightarrow> ('p world, 'a) prog" where
  "on_db m w = (case m (wdb w) of (r, d) \<Rightarrow> (r, w\<lparr>wdb := d\<rparr>))"

lemma wdb_on_panel [simp]: "wdb (snd (on_panel m w)) = wdb w"
  by (simp add: on_panel_def case_prod_beta)

lemma on_panel_wdb: "on_panel m w = (r, w') \<Longrightarrow> wdb w' = wdb w"
  using wdb_on_panel [of m w] by simp

lemma on_db_simps [simp]:
  "fst (on_db m w) = fst (m (wdb w))"
  "wdb (snd (on_db m w)) = snd (m (wdb w))"
  "wpanel (snd (on_db m w)) = wpanel w"
  by (simp_all add: on_db_def case_prod_beta)

section \<open>What callers of the interface rely on\<close>

text \<open>
  A client hands back a user only when the expiry the panel stored is not null and is, as
  far as it is a date at all, within two seconds of the one it was sent: the guard against
  a seconds-for-milliseconds mix-up, which would make a session never expire. An invalid
  date passes, because JavaScript compares its \<^verbatim>\<open>NaN\<close> with nothing.
\<close>

definition expiry_accepted :: "panel_user \<Rightarrow> ms \<Rightarrow> bool" where
  "expiry_accepted u sent =
     (case pu_expireAt u of
        None \<Rightarrow> False
      | Some d \<Rightarrow> (case getTime d of None \<Rightarrow> True | Some got \<Rightarrow> \<not> \<bar>got - sent\<bar> > 2000))"

text \<open>\<open>elapsed\<close> tells the instants an extension does not send to the panel any more.\<close>

locale panel_contract =
  fixes create :: "create_user_params \<Rightarrow> ('p, panel_user) prog"
    and extend :: "string \<Rightarrow> ms \<Rightarrow> ('p, panel_user) prog"
    and elapsed :: "'p \<Rightarrow> ms \<Rightarrow> bool"
  assumes create_accepted: "create ps p = (Inr u, p') \<Longrightarrow> expiry_accepted u (cu_expireAt ps)"
    and extend_accepted: "extend n e p = (Inr u, p') \<Longrightarrow> \<not> elapsed p e \<Longrightarrow> expiry_accepted u e"
begin

lemma never_unlimited: "create ps p = (Inr u, p') \<Longrightarrow> pu_expireAt u \<noteq> None"
  by (drule create_accepted) (auto simp: expiry_accepted_def split: option.splits)

lemma create_bounded:
  assumes "create ps p = (Inr u, p')" and "pu_expireAt u \<noteq> Some InvalidDate"
  obtains got where "pu_expireAt u = Some (Instant got)" "\<bar>got - cu_expireAt ps\<bar> \<le> 2000"
  using create_accepted [OF assms(1)] assms(2)
  by (auto simp: expiry_accepted_def split: option.splits elim: getTime.elims)

lemma extend_bounded:
  assumes "extend n e p = (Inr u, p')" and "\<not> elapsed p e" and "pu_expireAt u \<noteq> Some InvalidDate"
  obtains got where "pu_expireAt u = Some (Instant got)" "\<bar>got - e\<bar> \<le> 2000"
  using extend_accepted [OF assms(1,2)] assms(3)
  by (auto simp: expiry_accepted_def split: option.splits elim: getTime.elims)

end

end
