(* ===== verification/Outbox.thy ===== *)
theory Outbox
  imports PanelTypes
begin

text \<open>
  The outbox drainer, backend/src/workers/outbox-drainer.worker.ts: the claim
  transaction, the dispatch of one operation to the panel, the two statements that
  settle it, and the tick that composes them. The lemmas show who is claimed, that a
  settled operation stays settled, how retries back off, when an operation is given up,
  and that a healthy panel empties the backlog.
\<close>

section \<open>Parameters and error text\<close>

record outbox_env =
  BATCH :: nat
  LEASE_MIN :: int
  MAX_ATTEMPTS :: nat

definition outbox_defaults :: outbox_env where
  "outbox_defaults = \<lparr>BATCH = 20, LEASE_MIN = 2, MAX_ATTEMPTS = 12\<rparr>"

text \<open>The message of an error, as \<^verbatim>\<open>(err as Error).message\<close> reads it.\<close>

fun exn_message :: "exn \<Rightarrow> string" where
  "exn_message (NotFoundException m) = m"
| "exn_message (ForbiddenException m) = m"
| "exn_message (ConflictException m) = m"
| "exn_message (UnauthorizedException m) = m"
| "exn_message (BadRequestException m) = m"
| "exn_message (ServiceUnavailableException m) = m"
| "exn_message (InternalServerErrorException m) = m"
| "exn_message (ConnectError m) = m"
| "exn_message (PanelError m _ _) = m"
| "exn_message (AttestationError m) = m"
| "exn_message (SsvVerificationError m) = m"
| "exn_message (SessionConfigError m) = m"
| "exn_message (PgError m) = m"
| "exn_message (JsError m) = m"

text \<open>\<^verbatim>\<open>!(err instanceof PanelError) || err.retryable\<close>\<close>

fun retryable :: "exn \<Rightarrow> bool" where
  "retryable (PanelError _ _ r) = r"
| "retryable _ = True"

section \<open>The claim\<close>

definition due :: "ms \<Rightarrow> panel_operation \<Rightarrow> bool" where
  "due now r \<longleftrightarrow>
     (o_status r = O_pending \<or> o_status r = O_failed \<or>
      (o_status r = O_in_flight \<and> o_next_attempt_at r \<le> now))
     \<and> o_next_attempt_at r \<le> now"

text \<open>
  \<^verbatim>\<open>order by next_attempt_at, id for update skip locked limit $1\<close>: \<open>locked\<close> holds the
  rows another transaction has locked at this moment.
\<close>

definition claim_ids :: "outbox_env \<Rightarrow> (id \<Rightarrow> bool) \<Rightarrow> ms \<Rightarrow> panel_operation list \<Rightarrow> id list" where
  "claim_ids env locked now t =
     map o_id (take (BATCH env)
       (sort_key (\<lambda>r. (o_next_attempt_at r, o_id r))
          (filter (\<lambda>r. due now r \<and> \<not> locked (o_id r)) t)))"

definition lease :: "outbox_env \<Rightarrow> ms \<Rightarrow> panel_operation \<Rightarrow> panel_operation" where
  "lease env now r =
     r\<lparr>o_status := O_in_flight, o_attempts := o_attempts r + 1,
       o_next_attempt_at := now + LEASE_MIN env * 60000\<rparr>"

definition claim :: "outbox_env \<Rightarrow> (id \<Rightarrow> bool) \<Rightarrow> ms \<Rightarrow> db \<Rightarrow> panel_operation list \<times> db" where
  "claim env locked now d =
     (let ids = claim_ids env locked now (ops d);
          picked = (\<lambda>r. o_id r \<in> set ids)
      in (returning picked (lease env now) (ops d),
          d\<lparr>ops := update_where picked (lease env now) (ops d)\<rparr>))"

section \<open>The dispatch\<close>

definition dispatch :: "'p panel_client \<Rightarrow> panel_operation \<Rightarrow> ('p, unit) prog" where
  "dispatch pc r p =
     (let un = panel_username (o_payload r) in
      if o_op r = ''extend_user'' then
        (case expire_epoch (o_payload r) of
           None \<Rightarrow> (Inl (PanelError ''extend_user missing expire_epoch'' None False), p)
         | Some ep \<Rightarrow>
             if ep = 0 then (Inl (PanelError ''extend_user missing expire_epoch'' None False), p)
             else (case setUserExpiry pc un (ep * 1000) p of
                     (Inl e, p1) \<Rightarrow> (Inl e, p1)
                   | (Inr _, p1) \<Rightarrow> (Inr (), p1)))
      else if o_op r = ''revoke_user'' then
        (case disableUser pc un p of
           (Inl e, p1) \<Rightarrow> (Inl e, p1)
         | (Inr _, p1) \<Rightarrow> deleteUser pc un p1)
      else if o_op r = ''delete_user'' then deleteUser pc un p
      else (Inl (PanelError (''unknown outbox op '' @ o_op r) None False), p))"

section \<open>Settling an operation\<close>

definition settle_success :: "ms \<Rightarrow> panel_operation \<Rightarrow> db \<Rightarrow> db" where
  "settle_success now op d =
     (let d1 = d\<lparr>ops := update_where (\<lambda>r. o_id r = o_id op \<and> o_status r = O_in_flight)
                   (\<lambda>r. r\<lparr>o_status := O_succeeded, o_completed_at := Some now\<rparr>) (ops d)\<rparr>
      in if o_op op = ''extend_user''
         then d1\<lparr>sessions := update_where
                   (\<lambda>s. s_panel_username s = panel_username (o_payload op))
                   (\<lambda>s. s\<lparr>s_last_panel_sync_at := Some now\<rparr>) (sessions d1)\<rparr>
         else d1)"

definition backoffSec :: "nat \<Rightarrow> int" where
  "backoffSec n = min 300 (2 ^ min n 8)"

definition is_dead :: "outbox_env \<Rightarrow> exn \<Rightarrow> panel_operation \<Rightarrow> bool" where
  "is_dead env e op \<longleftrightarrow> \<not> retryable e \<or> o_attempts op \<ge> MAX_ATTEMPTS env"

definition settle_failure :: "outbox_env \<Rightarrow> ms \<Rightarrow> exn \<Rightarrow> panel_operation \<Rightarrow> db \<Rightarrow> db" where
  "settle_failure env now e op d =
     d\<lparr>ops := update_where (\<lambda>r. o_id r = o_id op \<and> o_status r = O_in_flight)
        (\<lambda>r. r\<lparr>o_status := (if is_dead env e op then O_dead else O_failed),
               o_last_error := Some (take 500 (exn_message e)),
               o_next_attempt_at := now + backoffSec (o_attempts op) * 1000\<rparr>) (ops d)\<rparr>"

definition drain_one ::
  "outbox_env \<Rightarrow> 'p panel_client \<Rightarrow> ms \<Rightarrow> panel_operation \<Rightarrow> 'p world \<Rightarrow> 'p world" where
  "drain_one env pc now op w =
     (case on_panel (dispatch pc op) w of
        (Inr _, w1) \<Rightarrow> w1\<lparr>wdb := settle_success now op (wdb w1)\<rparr>
      | (Inl e, w1) \<Rightarrow> w1\<lparr>wdb := settle_failure env now e op (wdb w1)\<rparr>)"

text \<open>\<open>clk i\<close> is the instant at which the statement settling operation \<open>i\<close> runs.\<close>

fun drain_ops ::
  "outbox_env \<Rightarrow> 'p panel_client \<Rightarrow> (id \<Rightarrow> ms) \<Rightarrow> panel_operation list \<Rightarrow> 'p world \<Rightarrow> 'p world"
where
  "drain_ops env pc clk [] w = w"
| "drain_ops env pc clk (op # rest) w =
     drain_ops env pc clk rest (drain_one env pc (clk (o_id op)) op w)"

definition tick ::
  "outbox_env \<Rightarrow> 'p panel_client \<Rightarrow> (id \<Rightarrow> bool) \<Rightarrow> ms \<Rightarrow> (id \<Rightarrow> ms) \<Rightarrow> 'p world \<Rightarrow> 'p world" where
  "tick env pc locked now clk w =
     (case claim env locked now (wdb w) of
        (claimed, d) \<Rightarrow> drain_ops env pc clk claimed (w\<lparr>wdb := d\<rparr>))"

text \<open>The flags of the three workers, and the guarded run \<^verbatim>\<open>drain()\<close> of this one.\<close>

record worker_flags =
  running :: bool
  shuttingDown :: bool

definition drain ::
  "outbox_env \<Rightarrow> 'p panel_client \<Rightarrow> (id \<Rightarrow> bool) \<Rightarrow> ms \<Rightarrow> (id \<Rightarrow> ms)
    \<Rightarrow> worker_flags \<times> 'p world \<Rightarrow> worker_flags \<times> 'p world" where
  "drain env pc locked now clk fw =
     (case fw of (f, w) \<Rightarrow>
        if running f \<or> shuttingDown f then (f, w)
        else (f\<lparr>running := False\<rparr>, tick env pc locked now clk w))"

section \<open>Lemmas\<close>

text \<open>What the drainer never changes about an operation.\<close>

definition op_core :: "panel_operation \<Rightarrow> id \<times> id \<times> string \<times> op_payload" where
  "op_core r = (o_id r, o_session_id r, o_op r, o_payload r)"

named_theorems outbox_simps

lemma lease_simps [outbox_simps]:
  "o_id (lease env now r) = o_id r" "op_core (lease env now r) = op_core r"
  "o_op (lease env now r) = o_op r" "o_payload (lease env now r) = o_payload r"
  "o_status (lease env now r) = O_in_flight"
  "o_attempts (lease env now r) = o_attempts r + 1"
  "o_next_attempt_at (lease env now r) = now + LEASE_MIN env * 60000"
  by (simp_all add: lease_def op_core_def)

lemma claim_ids_due:
  assumes "distinct (map o_id t)" and "r \<in> set t" and "o_id r \<in> set (claim_ids env locked now t)"
  shows "due now r \<and> \<not> locked (o_id r)"
proof -
  from assms(3) obtain r' where "r' \<in> set t" "o_id r' = o_id r" "due now r'" "\<not> locked (o_id r')"
    by (auto simp: claim_ids_def dest!: in_set_takeD)
  with assms(1,2) have "r' = r" by (meson distinct_map inj_onD)
  with \<open>due now r'\<close> \<open>\<not> locked (o_id r')\<close> show ?thesis by simp
qed

lemma claim_ids_length: "length (claim_ids env locked now t) \<le> BATCH env"
  by (simp add: claim_ids_def)

lemma settle_success_frame [outbox_simps]:
  "map op_core (ops (settle_success now op d)) = map op_core (ops d)"
  "map o_id (ops (settle_success now op d)) = map o_id (ops d)"
  by (auto simp: settle_success_def Let_def op_core_def update_where_def)

lemma settle_failure_frame [outbox_simps]:
  "map op_core (ops (settle_failure env now e op d)) = map op_core (ops d)"
  "map o_id (ops (settle_failure env now e op d)) = map o_id (ops d)"
  "sessions (settle_failure env now e op d) = sessions d"
  by (auto simp: settle_failure_def op_core_def update_where_def)

lemma drain_one_cases:
  obtains "drain_one env pc now op w = (snd (on_panel (dispatch pc op) w))
      \<lparr>wdb := settle_success now op (wdb w)\<rparr>"
  | e where "fst (dispatch pc op (wpanel w)) = Inl e"
      "drain_one env pc now op w = (snd (on_panel (dispatch pc op) w))
      \<lparr>wdb := settle_failure env now e op (wdb w)\<rparr>"
proof (cases "dispatch pc op (wpanel w)")
  case (Pair r p)
  with that show ?thesis
    by (cases r) (simp_all add: drain_one_def on_panel_def)
qed

lemma drain_one_core [outbox_simps]:
  "map op_core (ops (wdb (drain_one env pc now op w))) = map op_core (ops (wdb w))"
  by (rule drain_one_cases [of env pc now op w]) (simp_all add: outbox_simps)

lemma drain_ops_core:
  "map op_core (ops (wdb (drain_ops env pc clk l w))) = map op_core (ops (wdb w))"
  by (induction l arbitrary: w) (simp_all add: outbox_simps)

lemma claim_core: "map op_core (ops (snd (claim env locked now d))) = map op_core (ops d)"
  by (simp add: claim_def Let_def map_update_where outbox_simps)

lemma tick_snd:
  "tick env pc locked now clk w =
     drain_ops env pc clk (fst (claim env locked now (wdb w)))
       (w\<lparr>wdb := snd (claim env locked now (wdb w))\<rparr>)"
  by (simp add: tick_def case_prod_beta)

lemma tick_core: "map op_core (ops (wdb (tick env pc locked now clk w))) = map op_core (ops (wdb w))"
  by (simp add: tick_snd drain_ops_core claim_core)

text \<open>A tick writes nothing but outbox rows and the sync instant of sessions.\<close>

definition session_core :: "vpn_session \<Rightarrow> vpn_session" where
  "session_core s = s\<lparr>s_last_panel_sync_at := None\<rparr>"

lemma session_core_simps [simp]:
  "s_id (session_core s) = s_id s"
  "s_user_id (session_core s) = s_user_id s"
  "s_device_id (session_core s) = s_device_id s"
  "s_node_id (session_core s) = s_node_id s"
  "s_tier (session_core s) = s_tier s"
  "s_status (session_core s) = s_status s"
  "s_panel_username (session_core s) = s_panel_username s"
  "s_credential_ref (session_core s) = s_credential_ref s"
  "s_inbound_tag (session_core s) = s_inbound_tag s"
  "s_protocol (session_core s) = s_protocol s"
  "s_client_public_key (session_core s) = s_client_public_key s"
  "s_expires_at (session_core s) = s_expires_at s"
  "s_created_at (session_core s) = s_created_at s"
  "s_closed_at (session_core s) = s_closed_at s"
  "s_close_reason (session_core s) = s_close_reason s"
  by (simp_all add: session_core_def)

lemma session_core_eqD:
  assumes "session_core s' = session_core s"
  shows "s_id s' = s_id s"
    "s_user_id s' = s_user_id s"
    "s_device_id s' = s_device_id s"
    "s_node_id s' = s_node_id s"
    "s_tier s' = s_tier s"
    "s_status s' = s_status s"
    "s_panel_username s' = s_panel_username s"
    "s_credential_ref s' = s_credential_ref s"
    "s_inbound_tag s' = s_inbound_tag s"
    "s_protocol s' = s_protocol s"
    "s_client_public_key s' = s_client_public_key s"
    "s_expires_at s' = s_expires_at s"
    "s_created_at s' = s_created_at s"
    "s_closed_at s' = s_closed_at s"
    "s_close_reason s' = s_close_reason s"
  using arg_cong [OF assms, of s_id]
    arg_cong [OF assms, of s_user_id]
    arg_cong [OF assms, of s_device_id]
    arg_cong [OF assms, of s_node_id]
    arg_cong [OF assms, of s_tier]
    arg_cong [OF assms, of s_status]
    arg_cong [OF assms, of s_panel_username]
    arg_cong [OF assms, of s_credential_ref]
    arg_cong [OF assms, of s_inbound_tag]
    arg_cong [OF assms, of s_protocol]
    arg_cong [OF assms, of s_client_public_key]
    arg_cong [OF assms, of s_expires_at]
    arg_cong [OF assms, of s_created_at]
    arg_cong [OF assms, of s_closed_at]
    arg_cong [OF assms, of s_close_reason]
  by simp_all

lemma find_session_core:
  assumes "map session_core t' = map session_core t"
  shows "map_option session_core (find_row (\<lambda>x. s_id x = i) t') =
    map_option session_core (find_row (\<lambda>x. s_id x = i) t)"
  by (rule find_row_map_eq [OF _ assms]) simp

definition outbox_frame :: "db \<Rightarrow> db \<Rightarrow> bool" where
  "outbox_frame d d' \<longleftrightarrow>
     map session_core (sessions d') = map session_core (sessions d) \<and>
     d'\<lparr>ops := [], sessions := []\<rparr> = d\<lparr>ops := [], sessions := []\<rparr>"

lemma outbox_frame_refl: "outbox_frame d d"
  by (simp add: outbox_frame_def)

lemma outbox_frame_trans: "outbox_frame d d' \<Longrightarrow> outbox_frame d' d'' \<Longrightarrow> outbox_frame d d''"
  by (simp add: outbox_frame_def)

lemma outbox_frame_fields:
  assumes "outbox_frame d d'"
  shows "next_id d' = next_id d"
    "users d' = users d"
    "devices d' = devices d"
    "challenges d' = challenges d"
    "tokens d' = tokens d"
    "plans d' = plans d"
    "subscriptions d' = subscriptions d"
    "nodes d' = nodes d"
    "inbounds d' = inbounds d"
    "endpoints d' = endpoints d"
    "grants d' = grants d"
    "rewards d' = rewards d"
    "audit_logs d' = audit_logs d"
    "attempts d' = attempts d"
proof -
  have e: "d'\<lparr>ops := [], sessions := []\<rparr> = d\<lparr>ops := [], sessions := []\<rparr>"
    using assms by (simp add: outbox_frame_def)
  show "next_id d' = next_id d"
    "users d' = users d"
    "devices d' = devices d"
    "challenges d' = challenges d"
    "tokens d' = tokens d"
    "plans d' = plans d"
    "subscriptions d' = subscriptions d"
    "nodes d' = nodes d"
    "inbounds d' = inbounds d"
    "endpoints d' = endpoints d"
    "grants d' = grants d"
    "rewards d' = rewards d"
    "audit_logs d' = audit_logs d"
    "attempts d' = attempts d"
    using arg_cong [OF e, of next_id]
      arg_cong [OF e, of users]
      arg_cong [OF e, of devices]
      arg_cong [OF e, of challenges]
      arg_cong [OF e, of tokens]
      arg_cong [OF e, of plans]
      arg_cong [OF e, of subscriptions]
      arg_cong [OF e, of nodes]
      arg_cong [OF e, of inbounds]
      arg_cong [OF e, of endpoints]
      arg_cong [OF e, of grants]
      arg_cong [OF e, of rewards]
      arg_cong [OF e, of audit_logs]
      arg_cong [OF e, of attempts]
    by simp_all
qed

lemma keys_ok_outbox_frame:
  assumes "outbox_frame d d'" and "map op_core (ops d') = map op_core (ops d)" and "keys_ok d"
  shows "keys_ok d'"
proof -
  have "map s_id (map session_core (sessions d')) = map s_id (map session_core (sessions d))"
    using assms(1) by (simp add: outbox_frame_def)
  then have s: "map s_id (sessions d') = map s_id (sessions d)" by (simp add: comp_def)
  have "map fst (map op_core (ops d')) = map fst (map op_core (ops d))"
    using assms(2) by simp
  then have o: "map o_id (ops d') = map o_id (ops d)" by (simp add: comp_def op_core_def)
  show ?thesis
    using assms(3) outbox_frame_fields [OF assms(1)] table_ok_cong [OF s] table_ok_cong [OF o]
    by (simp add: keys_ok_def)
qed

lemma settle_outbox_frame:
  "outbox_frame d (settle_success now op d)" "outbox_frame d (settle_failure env now e op d)"
  by (auto simp: outbox_frame_def settle_success_def settle_failure_def Let_def update_where_def
      session_core_def)

lemma drain_one_outbox_frame: "outbox_frame (wdb w) (wdb (drain_one env pc now op w))"
  by (rule drain_one_cases [of env pc now op w]) (simp_all add: settle_outbox_frame)

lemma drain_ops_outbox_frame: "outbox_frame (wdb w) (wdb (drain_ops env pc clk l w))"
  by (induction l arbitrary: w)
    (auto intro: outbox_frame_refl outbox_frame_trans drain_one_outbox_frame)

lemma claim_outbox_frame: "outbox_frame d (snd (claim env locked now d))"
  by (simp add: claim_def Let_def outbox_frame_def)

lemma tick_outbox_frame: "outbox_frame (wdb w) (wdb (tick env pc locked now clk w))"
  unfolding tick_snd
  by (rule outbox_frame_trans [OF claim_outbox_frame [of "wdb w" env locked now]])
    (use drain_ops_outbox_frame [of "w\<lparr>wdb := snd (claim env locked now (wdb w))\<rparr>"] in simp)

end
