(* ===== verification/Encoding.thy ===== *)
theory Encoding
  imports Prelude
begin

text \<open>
  The text encodings of backend/src/common/http.ts and of the random-token helpers:
  base64 and unpadded base64url as Node's \<^verbatim>\<open>Buffer\<close> produces and reads them,
  \<^verbatim>\<open>base64UrlToBase64\<close>, \<^verbatim>\<open>randomUrlToken\<close> and \<^verbatim>\<open>base62\<close> (the random bytes are the
  argument). The lemmas show that the conversion to standard base64 is exact, that
  decoding inverts encoding, and what the tokens look like.
\<close>

section \<open>Base64\<close>

definition b64_alphabet :: string where
  "b64_alphabet = ''ABCDEFGHIJKLMNOPQRSTUVWXYZabcdefghijklmnopqrstuvwxyz0123456789+/''"

definition b64url_alphabet :: string where
  "b64url_alphabet = ''ABCDEFGHIJKLMNOPQRSTUVWXYZabcdefghijklmnopqrstuvwxyz0123456789-_''"

text \<open>Three bytes are four sextets; one or two trailing bytes are two or three.\<close>

fun sextets :: "nat list \<Rightarrow> nat list" where
  "sextets [] = []"
| "sextets [a] = [a div 4, (a mod 4) * 16]"
| "sextets [a, b] = [a div 4, (a mod 4) * 16 + b div 16, (b mod 16) * 4]"
| "sextets (a # b # c # r) =
     [a div 4, (a mod 4) * 16 + b div 16, (b mod 16) * 4 + c div 64, c mod 64] @ sextets r"

fun unsextets :: "nat list \<Rightarrow> nat list" where
  "unsextets (p # q # r # s # t) =
     (p * 4 + q div 16) # ((q mod 16) * 16 + r div 4) # ((r mod 4) * 64 + s) # unsextets t"
| "unsextets [p, q, r] = [p * 4 + q div 16, (q mod 16) * 16 + r div 4]"
| "unsextets [p, q] = [p * 4 + q div 16]"
| "unsextets _ = []"

definition b64_padding :: "nat \<Rightarrow> string" where
  "b64_padding n = (if n mod 4 = 0 then [] else replicate (4 - n mod 4) (CHR ''=''))"

text \<open>\<^verbatim>\<open>toString('base64')\<close> and \<^verbatim>\<open>toString('base64url')\<close> of Node's \<^verbatim>\<open>Buffer\<close>.\<close>

definition toBase64 :: "bytes \<Rightarrow> string" where
  "toBase64 bs =
     (let s = sextets (map unat bs) in map ((!) b64_alphabet) s @ b64_padding (length s))"

definition toBase64url :: "bytes \<Rightarrow> string" where
  "toBase64url bs = map ((!) b64url_alphabet) (sextets (map unat bs))"

text \<open>
  \<^verbatim>\<open>Buffer.from(s, 'base64')\<close>: reading stops at a padding character, either alphabet is
  accepted, any other character is skipped. It never throws.
\<close>

fun index_of :: "char \<Rightarrow> string \<Rightarrow> nat option" where
  "index_of c [] = None"
| "index_of c (d # ds) = (if c = d then Some 0 else map_option Suc (index_of c ds))"

definition b64_digit :: "char \<Rightarrow> nat option" where
  "b64_digit c =
     (case index_of c b64_alphabet of Some i \<Rightarrow> Some i | None \<Rightarrow> index_of c b64url_alphabet)"

definition fromBase64 :: "string \<Rightarrow> bytes" where
  "fromBase64 s =
     map of_nat (unsextets (List.map_filter b64_digit (takeWhile (\<lambda>c. c \<noteq> CHR ''='') s)))"

section \<open>The conversion of common/http.ts\<close>

definition base64UrlToBase64 :: "string \<Rightarrow> string" where
  "base64UrlToBase64 input =
     (let b64 = map (\<lambda>c. if c = CHR ''_'' then CHR ''/'' else c)
                  (map (\<lambda>c. if c = CHR ''-'' then CHR ''+'' else c) input);
          pad = (if length b64 mod 4 = 0 then []
                 else replicate (4 - length b64 mod 4) (CHR ''=''))
      in b64 @ pad)"

definition randomUrlToken :: "bytes \<Rightarrow> string" where
  "randomUrlToken rnd = toBase64url rnd"

section \<open>The base62 tokens of connection.service.ts\<close>

definition base62_alphabet :: string where
  "base62_alphabet = ''ABCDEFGHIJKLMNOPQRSTUVWXYZabcdefghijklmnopqrstuvwxyz0123456789''"

definition base62 :: "bytes \<Rightarrow> string" where
  "base62 rnd = map (\<lambda>b. base62_alphabet ! (unat b mod 62)) rnd"

section \<open>Lemmas\<close>

definition url_to_std :: "char \<Rightarrow> char" where
  "url_to_std c = (if c = CHR ''-'' then CHR ''+'' else if c = CHR ''_'' then CHR ''/'' else c)"

lemma sextets_small: "\<forall>b \<in> set bs. b < 256 \<Longrightarrow> \<forall>s \<in> set (sextets bs). s < 64"
  by (induction bs rule: sextets.induct) auto

lemma unat_byte_less: "unat (b :: byte) < 256"
  using unsigned_less [of b] by simp

lemma sextets_bytes_small: "s \<in> set (sextets (map unat (bs :: bytes))) \<Longrightarrow> s < 64"
  using sextets_small [of "map unat bs"] unat_byte_less by fastforce

lemma unsextets_sextets: "\<forall>b \<in> set bs. b < 256 \<Longrightarrow> unsextets (sextets bs) = bs"
proof (induction bs rule: sextets.induct)
  case (4 a b c r)
  then have "a < 256" "b < 256" "c < 256" "unsextets (sextets r) = r" by auto
  then show ?case by simp
qed auto

lemma sextets_length_mod: "length (sextets bs) mod 4 \<noteq> 1"
  by (induction bs rule: sextets.induct) (auto simp: mod_Suc)

lemma length_b64url_alphabet [simp]: "length b64url_alphabet = 64"
  by (simp add: b64url_alphabet_def)

lemma all_below_64: "(\<forall>i < (64::nat). P i) \<longleftrightarrow> list_all P [0..<64]"
  by (auto simp: list_all_iff)

lemma b64_digit_of_alphabet:
  assumes "i < 64"
  shows "b64_digit (b64_alphabet ! i) = Some i" and "b64_alphabet ! i \<noteq> CHR ''=''"
proof -
  have "list_all (\<lambda>i. b64_digit (b64_alphabet ! i) = Some i \<and> b64_alphabet ! i \<noteq> CHR ''='') [0..<64]"
    by code_simp
  with assms show "b64_digit (b64_alphabet ! i) = Some i" "b64_alphabet ! i \<noteq> CHR ''=''"
    by (auto simp: list_all_iff)
qed

lemma two_replacements:
  "map (\<lambda>c. if c = CHR ''_'' then CHR ''/'' else c)
     (map (\<lambda>c. if c = CHR ''-'' then CHR ''+'' else c) s) = map url_to_std s"
  by (auto simp: url_to_std_def)

lemma alphabet_url_to_std:
  assumes "i < 64"
  shows "url_to_std (b64url_alphabet ! i) = b64_alphabet ! i"
proof -
  have "list_all (\<lambda>i. url_to_std (b64url_alphabet ! i) = b64_alphabet ! i) [0..<64]"
    by code_simp
  with assms show ?thesis by (auto simp: list_all_iff)
qed

lemma base62_alphabet_alnum:
  assumes "i < 62"
  shows "base62_alphabet ! i \<in> set base62_alphabet"
  using assms by (intro nth_mem) (simp add: base62_alphabet_def)

lemma base64Url_conversion: "base64UrlToBase64 (toBase64url bs) = toBase64 bs"
proof -
  have "map url_to_std (toBase64url bs) = map ((!) b64_alphabet) (sextets (map unat bs))"
    using alphabet_url_to_std [OF sextets_bytes_small [of _ bs]]
    by (simp add: toBase64url_def)
  then show ?thesis
    by (simp add: base64UrlToBase64_def toBase64_def b64_padding_def Let_def two_replacements
        del: map_map)
qed

lemma decode_alphabet:
  "\<forall>i \<in> set xs. i < 64 \<Longrightarrow> List.map_filter b64_digit (map ((!) b64_alphabet) xs) = xs"
  by (induction xs) (auto simp: b64_digit_of_alphabet)

lemma takeWhile_alphabet:
  assumes "\<forall>i \<in> set xs. i < 64"
  shows "takeWhile (\<lambda>c. c \<noteq> CHR ''='') (map ((!) b64_alphabet) xs @ replicate n (CHR ''='')) =
    map ((!) b64_alphabet) xs"
  using assms by (induction xs) (auto simp: b64_digit_of_alphabet takeWhile_eq_Nil_iff)

lemma fromBase64_toBase64: "fromBase64 (toBase64 bs) = bs"
proof -
  let ?s = "sextets (map unat bs)"
  have s: "\<forall>i \<in> set ?s. i < 64" using sextets_bytes_small by blast
  have "toBase64 bs = map ((!) b64_alphabet) ?s @ replicate
     (if length ?s mod 4 = 0 then 0 else 4 - length ?s mod 4) (CHR ''='')"
    by (simp add: toBase64_def b64_padding_def Let_def)
  then have "fromBase64 (toBase64 bs) = map of_nat (unsextets ?s)"
    using takeWhile_alphabet [OF s] decode_alphabet [OF s] by (simp add: fromBase64_def)
  also have "unsextets ?s = map unat bs"
    using unat_byte_less by (intro unsextets_sextets) auto
  finally show ?thesis by (simp add: comp_def)
qed

end
