(* ===== verification/SessionConfig.thy ===== *)
theory SessionConfig
  imports Encoding PanelTypes
begin

text \<open>
  Building and encrypting the configuration a client receives:
  backend/src/connection/config-builder.ts, payload-cipher.ts and
  session-config.service.ts. Node's X25519, HKDF and AES-256-GCM are parameters.
\<close>

section \<open>config-builder.ts\<close>

record config_params =
  cp_protocol :: string
  cp_address :: string
  cp_port :: int
  cp_uuid :: string
  cp_flow :: "string option"
  cp_security :: json

definition sb_tls :: "config_params \<Rightarrow> (string \<times> json) list" where
  "sb_tls p =
     (let s = cp_security p;
          sni = nullish (jget ''sni'' s) (JStr (cp_address p));
          fp = nullish (jget ''fp'' s) (JStr ''chrome'');
          pbk = jget ''pbk'' s;
          sid = jget ''sid'' s;
          alpn = jget ''alpn'' s
      in [(''enabled'', JBool True), (''server_name'', sni),
          (''utls'', JObj [(''enabled'', JBool True), (''fingerprint'', fp)])]
         @ (if truthy alpn then [(''alpn'', the alpn)] else [])
         @ (if truthy pbk
            then [(''reality'', JObj [(''enabled'', JBool True), (''public_key'', the pbk),
                    (''short_id'', nullish sid (JStr []))])]
            else []))"

definition sb_outbound :: "config_params \<Rightarrow> (string \<times> json) list" where
  "sb_outbound p =
     [(''type'', JStr (cp_protocol p)), (''tag'', JStr ''proxy''),
      (''server'', JStr (cp_address p)), (''server_port'', JNum (cp_port p))]
     @ (if cp_protocol p = ''vless'' \<or> cp_protocol p = ''vmess''
        then (''uuid'', JStr (cp_uuid p)) #
             (if truthy (map_option JStr (cp_flow p)) then [(''flow'', JStr (the (cp_flow p)))] else [])
        else [(''password'', JStr (cp_uuid p))])
     @ [(''tls'', JObj (sb_tls p))]"

definition sb_config :: "config_params \<Rightarrow> json" where
  "sb_config p =
     JObj [(''log'', JObj [(''level'', JStr ''warn'')]),
           (''outbounds'', JArr [JObj (sb_outbound p),
              JObj [(''type'', JStr ''direct''), (''tag'', JStr ''direct'')]])]"

definition buildSingboxConfig :: "config_params \<Rightarrow> string" where
  "buildSingboxConfig p = stringify (sb_config p)"

section \<open>payload-cipher.ts\<close>

text \<open>
  The primitives of Node's \<^verbatim>\<open>crypto\<close>: the public half of an X25519 private key, the shared
  secret (which throws on a point of low order), HKDF-SHA256, and AES-256-GCM giving
  ciphertext and tag.
\<close>

record crypto =
  x25519_public :: "bytes \<Rightarrow> bytes"
  diffieHellman :: "bytes \<Rightarrow> bytes \<Rightarrow> exn + bytes"
  hkdfSync :: "bytes \<Rightarrow> bytes \<Rightarrow> bytes \<Rightarrow> nat \<Rightarrow> bytes"
  aes256gcm :: "bytes \<Rightarrow> bytes \<Rightarrow> bytes \<Rightarrow> bytes \<times> bytes"

record encrypted_payload =
  ep_alg :: string
  ep_keyRef :: string
  ep_iv :: string
  ep_ciphertext :: string
  ep_tag :: string

definition utf8 :: "string \<Rightarrow> bytes" where
  "utf8 s = map of_char s"

text \<open>The text of a key, as it appears in URLs and in the HKDF salt.\<close>

definition id_text :: "id \<Rightarrow> string" where
  "id_text i = show_nat i"

definition HKDF_INFO :: bytes where
  "HKDF_INFO = utf8 ''vpncfg|v1''"

text \<open>The fresh randomness of one encryption: the ephemeral private key and the nonce.\<close>

record enc_random =
  er_private :: bytes
  er_iv :: bytes

definition encryptFor ::
  "crypto \<Rightarrow> enc_random \<Rightarrow> string \<Rightarrow> id \<Rightarrow> bytes \<Rightarrow> exn + encrypted_payload" where
  "encryptFor C rnd plaintext sessionId clientPubRaw =
     (if length clientPubRaw \<noteq> 32 then Inl (JsError ''client public key must be 32 bytes'')
      else case diffieHellman C (er_private rnd) clientPubRaw of
        Inl e \<Rightarrow> Inl e
      | Inr ikm \<Rightarrow>
          (let key = hkdfSync C ikm (utf8 (id_text sessionId)) HKDF_INFO 32;
               (ciphertext, tag) = aes256gcm C key (er_iv rnd) (utf8 plaintext)
           in Inr \<lparr>ep_alg = ''x25519-hkdf-sha256-aes256gcm'',
                   ep_keyRef = toBase64 (x25519_public C (er_private rnd)),
                   ep_iv = toBase64 (er_iv rnd),
                   ep_ciphertext = toBase64 ciphertext,
                   ep_tag = toBase64 tag\<rparr>))"

section \<open>session-config.service.ts\<close>

text \<open>
  The query joins the session with an active endpoint of its node and inbound; a null
  \<^verbatim>\<open>inbound_tag\<close> joins nothing.
\<close>

definition endpoint_for :: "id \<Rightarrow> string \<Rightarrow> db \<Rightarrow> node_endpoint option" where
  "endpoint_for nodeId tag d =
     find_row (\<lambda>e. ne_node_id e = nodeId \<and> ne_inbound_tag e = tag \<and> ne_is_active e) (endpoints d)"

definition session_endpoint :: "id \<Rightarrow> db \<Rightarrow> (vpn_session \<times> node_endpoint) option" where
  "session_endpoint sessionId d =
     (case find_row (\<lambda>s. s_id s = sessionId) (sessions d) of
        None \<Rightarrow> None
      | Some s \<Rightarrow>
          (case s_inbound_tag s of
             None \<Rightarrow> None
           | Some tag \<Rightarrow> map_option (Pair s) (endpoint_for (s_node_id s) tag d)))"

definition encryptedPayloadForSession ::
  "string \<Rightarrow> crypto \<Rightarrow> enc_random \<Rightarrow> id \<Rightarrow> db \<Rightarrow> exn + encrypted_payload" where
  "encryptedPayloadForSession VLESS_FLOW C rnd sessionId d =
     (case session_endpoint sessionId d of
        None \<Rightarrow> Inl (SessionConfigError ''session_endpoint_unavailable'')
      | Some (s, e) \<Rightarrow>
          if \<not> live s then Inl (SessionConfigError ''session_not_live'')
          else (case s_client_public_key s of
                  None \<Rightarrow> Inl (SessionConfigError ''no_session_key'')
                | Some clientPub \<Rightarrow>
                    if length clientPub \<noteq> 32 then Inl (SessionConfigError ''no_session_key'')
                    else encryptFor C rnd
                      (buildSingboxConfig
                        \<lparr>cp_protocol = (case s_protocol s of None \<Rightarrow> ''vless'' | Some p \<Rightarrow> p),
                         cp_address = ne_address e, cp_port = ne_port e,
                         cp_uuid = s_credential_ref s, cp_flow = Some VLESS_FLOW,
                         cp_security = ne_security e\<rparr>)
                      sessionId clientPub))"

section \<open>Lemmas\<close>

lemma session_endpoint_Some:
  assumes "session_endpoint sid d = Some (s, e)"
  shows "s \<in> set (sessions d)" "s_id s = sid" "e \<in> set (endpoints d)" "ne_is_active e"
    "ne_node_id e = s_node_id s" "s_inbound_tag s = Some (ne_inbound_tag e)"
  using assms
  by (auto simp: session_endpoint_def endpoint_for_def split: option.splits dest!: find_row_Some)

text \<open>A payload is only ever built for a live session that has a key of 32 bytes.\<close>

lemma payload_only_live:
  assumes "encryptedPayloadForSession fl C rnd sid d = Inr pl"
  shows "\<exists>s \<in> set (sessions d). s_id s = sid \<and> live s \<and>
    (\<exists>k. s_client_public_key s = Some k \<and> length k = 32)"
proof -
  from assms obtain s e where se: "session_endpoint sid d = Some (s, e)"
    by (auto simp: encryptedPayloadForSession_def split: option.splits)
  with assms have "live s" "\<exists>k. s_client_public_key s = Some k \<and> length k = 32"
    by (auto simp: encryptedPayloadForSession_def split: if_splits option.splits)
  with session_endpoint_Some(1,2) [OF se] show ?thesis by blast
qed

lemma sb_outbound_credential:
  "map_of (sb_outbound p) ''uuid'' =
     (if cp_protocol p \<in> {''vless'', ''vmess''} then Some (JStr (cp_uuid p)) else None)"
  "map_of (sb_outbound p) ''password'' =
     (if cp_protocol p \<in> {''vless'', ''vmess''} then None else Some (JStr (cp_uuid p)))"
  by (auto simp: sb_outbound_def)

end
