(* ===== verification/Samples.thy ===== *)
theory Samples
  imports SessionConfig
begin

text \<open>
  A small concrete world: one user with an attested device, a node with one inbound and
  its endpoint, a provisioning session, its fulfilled connect grant with two recorded ad
  views, and a panel that stores expiries in whole seconds. The witnesses of the
  properties evaluate the handlers on it.
\<close>

definition sample_user :: user where
  "sample_user = \<lparr>u_id = 1, u_email = None, u_password_hash = None, u_is_anonymous = True,
     u_status = U_active, u_role = Role_user, u_is_banned = False, u_failed_login_count = 0,
     u_locked_until = None, u_created_at = 0, u_updated_at = 0\<rparr>"

definition sample_device :: device where
  "sample_device = \<lparr>d_id = 2, d_user_id = 1, d_platform = Android, d_install_id = ''dev'',
     d_app_version = None, d_status = D_active, d_last_integrity_verdict = None,
     d_app_attest_key_id = None, d_app_attest_public_key = None, d_app_attest_counter = 0,
     d_is_attested = True, d_attested_until = Some 90000, d_attested_client_public_key = None,
     d_last_attested_at = None\<rparr>"

definition sample_node :: node where
  "sample_node = \<lparr>n_id = 3, n_panel_node_id = Some ''7'', n_name = ''ams'', n_country_code = ''NL'',
     n_tier = Free, n_status = N_active, n_is_active = True, n_error_streak = 0,
     n_current_load = 0, n_sort_weight = 1, n_last_synced_at = None, n_updated_at = 0\<rparr>"

definition sample_session :: vpn_session where
  "sample_session = \<lparr>s_id = 4, s_user_id = 1, s_device_id = 2, s_node_id = 3, s_tier = Free,
     s_status = S_provisioning, s_panel_username = ''s_a'', s_credential_ref = [],
     s_inbound_tag = None, s_protocol = None, s_client_public_key = None,
     s_expires_at = 300000, s_created_at = 0, s_activated_at = None, s_closed_at = None,
     s_close_reason = None, s_last_ad_grant_id = None, s_extensions_count = 0,
     s_last_panel_sync_at = None\<rparr>"

definition sample_grant :: ad_reward_grant where
  "sample_grant = \<lparr>g_id = 5, g_user_id = 1, g_device_id = 2, g_session_id = Some 4,
     g_purpose = Connect, g_nonce = ''n'', g_required_ads = 2, g_verified_ads = 2,
     g_grant_minutes = 60, g_status = G_fulfilled, g_expires_at = 300000,
     g_fulfilled_at = Some 500, g_consumed_at = None\<rparr>"

definition sample_reward :: "id \<Rightarrow> string \<Rightarrow> ad_reward" where
  "sample_reward i t = \<lparr>r_id = i, r_grant_id = 5, r_network = ''admob'', r_transaction_id = t,
     r_ad_unit = None, r_reward_item = None, r_reward_amount = None, r_signature_key_id = ''1'',
     r_raw = [], r_verified_at = 500\<rparr>"

definition sample_endpoint :: node_endpoint where
  "sample_endpoint = \<lparr>ne_node_id = 3, ne_inbound_tag = ''in'', ne_address = ''h'', ne_port = 443,
     ne_security = JObj [], ne_is_active = True\<rparr>"

definition sample_inbound :: node_inbound where
  "sample_inbound = \<lparr>ni_node_id = 3, ni_inbound_tag = ''in'', ni_protocol = ''vless'', ni_tier = Free\<rparr>"

definition sample_plan :: plan where
  "sample_plan = \<lparr>p_id = 8, p_code = ''free'', p_tier = Free, p_max_concurrent_sessions = 1\<rparr>"

definition sample_db :: db where
  "sample_db = empty_db\<lparr>next_id := 10, users := [sample_user], devices := [sample_device],
     plans := [sample_plan], nodes := [sample_node], inbounds := [sample_inbound],
     endpoints := [sample_endpoint], sessions := [sample_session], grants := [sample_grant],
     rewards := [sample_reward 6 ''t1'', sample_reward 7 ''t2'']\<rparr>"

section \<open>A panel\<close>

text \<open>Its state lists the users with their expiry in seconds.\<close>

type_synonym sample_panel_state = "(string \<times> int) list"

definition sample_panel_user :: "string \<Rightarrow> int \<Rightarrow> panel_user" where
  "sample_panel_user n e = \<lparr>pu_username = n, pu_expireAt = Some (Instant (e * 1000)),
     pu_dataLimitBytes = None, pu_status = PU_active, pu_usedTrafficBytes = 0,
     pu_subscriptionToken = None\<rparr>"

definition sample_panel :: "sample_panel_state panel_client" where
  "sample_panel = \<lparr>
     createUser = (\<lambda>ps p.
       case map_of p (cu_username ps) of
         Some _ \<Rightarrow> (Inl (PanelError ''exists'' (Some 409) False), p)
       | None \<Rightarrow> (Inr (sample_panel_user (cu_username ps) (cu_expireAt ps div 1000)),
                  (cu_username ps, cu_expireAt ps div 1000) # p)),
     setUserExpiry = (\<lambda>n e p.
       case map_of p n of
         None \<Rightarrow> (Inl (PanelError ''missing'' (Some 404) False), p)
       | Some _ \<Rightarrow> (Inr (sample_panel_user n (e div 1000)),
                    map (\<lambda>(k, v). (k, if k = n then e div 1000 else v)) p)),
     getUser = (\<lambda>n p. (Inr (map_option (sample_panel_user n) (map_of p n)), p)),
     disableUser = (\<lambda>n p. (Inr (), p)),
     deleteUser = (\<lambda>n p. (Inr (), filter (\<lambda>(k, _). k \<noteq> n) p)),
     getUserUsage = (\<lambda>n p. (Inr 0, p)),
     listNodes = (\<lambda>p. (Inr [\<lparr>pn_panelNodeId = ''7'', pn_name = ''ams'', pn_status = ''connected'',
                              pn_address = None\<rparr>], p))\<rparr>"

definition broken_panel :: "sample_panel_state panel_client" where
  "broken_panel = (let e = PanelError ''panel down'' None True in \<lparr>
     createUser = (\<lambda>_ p. (Inl e, p)), setUserExpiry = (\<lambda>_ _ p. (Inl e, p)),
     getUser = (\<lambda>_ p. (Inl e, p)), disableUser = (\<lambda>_ p. (Inl e, p)),
     deleteUser = (\<lambda>_ p. (Inl e, p)), getUserUsage = (\<lambda>_ p. (Inl e, p)),
     listNodes = (\<lambda>p. (Inl e, p))\<rparr>)"

definition sample_world :: "sample_panel_state world" where
  "sample_world = \<lparr>wdb = sample_db, wpanel = [(''s_a'', 300)]\<rparr>"

section \<open>Cryptography\<close>

text \<open>Stand-ins with the types of the primitives, for evaluation only.\<close>

definition sample_crypto :: crypto where
  "sample_crypto = \<lparr>x25519_public = rev, diffieHellman = (\<lambda>a b. Inr (a @ b)),
     hkdfSync = (\<lambda>ikm salt info n. take n (ikm @ salt @ info)),
     aes256gcm = (\<lambda>k iv pt. (rev pt, iv))\<rparr>"

definition sample_random :: enc_random where
  "sample_random = \<lparr>er_private = [1, 2], er_iv = [3]\<rparr>"

lemmas sample_defs = sample_user_def sample_device_def sample_node_def sample_session_def
  sample_grant_def sample_reward_def sample_endpoint_def sample_inbound_def sample_plan_def
  sample_db_def sample_panel_def sample_panel_user_def sample_world_def sample_crypto_def
  sample_random_def empty_db_def

lemma sample_keys_ok: "keys_ok sample_db"
  by code_simp

end
