(* ===== verification/Ads_Correct.thy ===== *)
theory Ads_Correct
  imports Ads Samples
begin

text \<open>
  Correctness of the reward ledger of Ads: the inversion of a claim, the properties of
  the handlers, the invariants of the ledger.
\<close>

section \<open>Inversion of a claim\<close>

lemma consume_grant_simps [simp]:
  "g_id (consume_grant now sid g) = g_id g" "g_status (consume_grant now sid g) = G_consumed"
  "g_session_id (consume_grant now sid g) = Some sid"
  "g_user_id (consume_grant now sid g) = g_user_id g"
  "g_verified_ads (consume_grant now sid g) = g_verified_ads g"
  "g_required_ads (consume_grant now sid g) = g_required_ads g"
  "g_nonce (consume_grant now sid g) = g_nonce g"
  by (simp_all add: consume_grant_def)

lemma fund_session_simps [simp]:
  "s_id (fund_session e gid s) = s_id s" "s_expires_at (fund_session e gid s) = e"
  "s_user_id (fund_session e gid s) = s_user_id s"
  "s_panel_username (fund_session e gid s) = s_panel_username s"
  "s_device_id (fund_session e gid s) = s_device_id s"
  "s_node_id (fund_session e gid s) = s_node_id s"
  "s_tier (fund_session e gid s) = s_tier s"
  "s_created_at (fund_session e gid s) = s_created_at s"
  by (simp_all add: fund_session_def)

lemma live_fund_session [simp]: "live (fund_session e gid s) = live s"
  by (cases "s_status s") (simp_all add: fund_session_def)

lemma bump_grant_simps [simp]:
  "g_id (bump_grant now v f g) = g_id g" "g_verified_ads (bump_grant now v f g) = v"
  "g_required_ads (bump_grant now v f g) = g_required_ads g"
  "g_user_id (bump_grant now v f g) = g_user_id g"
  "g_session_id (bump_grant now v f g) = g_session_id g"
  "g_nonce (bump_grant now v f g) = g_nonce g"
  "g_status (bump_grant now v f g) = (if f then G_fulfilled else g_status g)"
  by (simp_all add: bump_grant_def)

text \<open>The database a successful claim of grant \<open>g\<close> on session \<open>s\<close> leaves.\<close>

definition claimed_db ::
  "ms \<Rightarrow> ms \<Rightarrow> ad_reward_grant \<Rightarrow> vpn_session \<Rightarrow> db \<Rightarrow> db" where
  "claimed_db now e g s d =
     (let d1 = d\<lparr>grants := update_where (\<lambda>x. g_id x = g_id g) (consume_grant now (s_id s)) (grants d)\<rparr>
      in if g_grant_minutes g > 0 then
           insert_op now (s_id s) ''extend_user''
             \<lparr>panel_username = s_panel_username s, expire_epoch = Some (e div 1000)\<rparr>
             (d1\<lparr>sessions := update_where (\<lambda>x. s_id x = s_id s) (fund_session e (g_id g)) (sessions d)\<rparr>)
         else d1)"

definition claimable ::
  "ads_env \<Rightarrow> ms \<Rightarrow> id \<Rightarrow> id \<Rightarrow> id \<Rightarrow> db \<Rightarrow> ad_reward_grant \<Rightarrow> vpn_session \<Rightarrow> bool" where
  "claimable env now uid gid sid d g s \<longleftrightarrow>
     find_row (\<lambda>x. g_id x = gid) (grants d) = Some g \<and>
     find_row (\<lambda>x. s_id x = sid) (sessions d) = Some s \<and>
     g_user_id g = uid \<and> s_user_id s = uid \<and> live s \<and>
     (g_session_id g = None \<or> g_session_id g = Some sid) \<and>
     g_status g \<noteq> G_consumed \<and> g_status g \<noteq> G_expired \<and> now < g_expires_at g \<and>
     g_required_ads g \<le> g_verified_ads g \<and>
     (g_grant_minutes g > 0 \<longrightarrow> max now (s_expires_at s) < cap_ms env s)"

lemma claim_session_extendE:
  assumes "claim_session env now uid sid g d = (Inr (PlanExtend sid' un e m oid), d')"
  obtains s where "find_row (\<lambda>x. s_id x = sid) (sessions d) = Some s" "s_user_id s = uid" "live s"
    "g_grant_minutes g > 0 \<longrightarrow> max now (s_expires_at s) < cap_ms env s"
    "sid' = sid" "un = s_panel_username s" "e = new_expiry env now g s" "m = g_grant_minutes g"
    "oid = (if m > 0 then Some (next_id d) else None)" "d' = claimed_db now e g s d"
proof -
  from assms obtain s where s: "find_row (\<lambda>x. s_id x = sid) (sessions d) = Some s"
    by (auto simp: claim_session_def split: option.splits)
  then have "s_id s = sid" by (auto dest: find_row_Some)
  with s assms show ?thesis
    by (intro that [of s]) (auto simp: claim_session_def claimed_db_def Let_def split: if_splits)
qed

lemma verify_tx_extendE:
  assumes "verify_tx env now uid gid sid d = (Inr (PlanExtend sid' un e m oid), d')"
  obtains g s where "claimable env now uid gid sid d g s" "sid' = sid"
    "un = s_panel_username s" "e = new_expiry env now g s" "m = g_grant_minutes g"
    "oid = (if m > 0 then Some (next_id d) else None)" "d' = claimed_db now e g s d"
proof -
  from assms obtain g where g: "find_row (\<lambda>x. g_id x = gid) (grants d) = Some g"
    and c: "claim_session env now uid sid g d = (Inr (PlanExtend sid' un e m oid), d')"
    and grd: "g_user_id g = uid" "g_session_id g = None \<or> g_session_id g = Some sid"
      "g_status g \<noteq> G_consumed" "g_status g \<noteq> G_expired" "now < g_expires_at g"
      "g_required_ads g \<le> g_verified_ads g"
    by (auto simp: verify_tx_def Let_def split: option.splits if_splits)
  from c show ?thesis
  proof (rule claim_session_extendE)
    fix s assume "find_row (\<lambda>x. s_id x = sid) (sessions d) = Some s" "s_user_id s = uid" "live s"
      "g_grant_minutes g > 0 \<longrightarrow> max now (s_expires_at s) < cap_ms env s" "sid' = sid"
      "un = s_panel_username s" "e = new_expiry env now g s" "m = g_grant_minutes g"
      "oid = (if m > 0 then Some (next_id d) else None)" "d' = claimed_db now e g s d"
    with g grd show ?thesis by (intro that [of g s]) (auto simp: claimable_def)
  qed
qed

lemma claim_session_not_idem:
  "claim_session env now uid sid g d \<noteq> (Inr (PlanIdempotent b e), d')"
  by (auto simp: claim_session_def Let_def split: option.splits)

lemma verify_tx_idempotentE:
  assumes "verify_tx env now uid gid sid d = (Inr (PlanIdempotent b e), d')"
  shows "d' = d"
  using assms by (auto simp: verify_tx_def Let_def claim_session_not_idem split: option.splits if_splits)

text \<open>The result of the whole handler, by cases.\<close>

lemma verifyAdReward_cases:
  obtains
    (error) e where "verifyAdReward env fl C rnd pc now now' uid gid sid w = (Inl e, w)"
  | (replay) b e where
      "verify_tx env now uid gid sid (wdb w) = (Inr (PlanIdempotent b e), wdb w)"
      "verifyAdReward env fl C rnd pc now now' uid gid sid w =
         (Inr \<lparr>vr_sessionId = b, vr_expiresAt = e, vr_grantedMinutes = 0, vr_panelSync = Unchanged,
               vr_payload = payloadFor fl C rnd b (wdb w)\<rparr>, w)"
  | (noted) g s where "claimable env now uid gid sid (wdb w) g s" "g_grant_minutes g \<le> 0"
      "verifyAdReward env fl C rnd pc now now' uid gid sid w =
         (Inr \<lparr>vr_sessionId = sid, vr_expiresAt = new_expiry env now g s, vr_grantedMinutes = 0,
               vr_panelSync = Unchanged, vr_payload = None\<rparr>,
          w\<lparr>wdb := claimed_db now (new_expiry env now g s) g s (wdb w)\<rparr>)"
  | (funded) g s sync w2 where "claimable env now uid gid sid (wdb w) g s" "g_grant_minutes g > 0"
      "mirror_expiry pc now' (next_id (wdb w)) sid (s_panel_username s) (new_expiry env now g s)
         (w\<lparr>wdb := claimed_db now (new_expiry env now g s) g s (wdb w)\<rparr>) = (sync, w2)"
      "verifyAdReward env fl C rnd pc now now' uid gid sid w =
         (Inr \<lparr>vr_sessionId = sid, vr_expiresAt = new_expiry env now g s,
               vr_grantedMinutes = g_grant_minutes g, vr_panelSync = sync,
               vr_payload = payloadFor fl C rnd sid (wdb w2)\<rparr>, w2)"
proof (cases rule: withTransaction_cases [of "verify_tx env now uid gid sid" "wdb w"])
  case (1 e)
  then show ?thesis by (intro error [of e]) (simp add: verifyAdReward_def on_db_def)
next
  case (2 pl d')
  show ?thesis
  proof (cases pl)
    case (PlanIdempotent b e)
    with 2 have "d' = wdb w" using verify_tx_idempotentE by blast
    with 2 PlanIdempotent show ?thesis
      by (intro replay [of b e]) (simp_all add: verifyAdReward_def on_db_def)
  next
    case (PlanExtend sid' un e m oid)
    with 2(2) have tx: "verify_tx env now uid gid sid (wdb w) = (Inr (PlanExtend sid' un e m oid), d')"
      by simp
    show ?thesis
    proof (rule verify_tx_extendE [OF tx])
      fix g s assume cl: "claimable env now uid gid sid (wdb w) g s" and
        eqs: "sid' = sid" "un = s_panel_username s" "e = new_expiry env now g s"
          "m = g_grant_minutes g" "oid = (if m > 0 then Some (next_id (wdb w)) else None)"
          "d' = claimed_db now e g s (wdb w)"
      obtain sync w2 where m: "mirror_expiry pc now' (next_id (wdb w)) sid (s_panel_username s)
          (new_expiry env now g s) (w\<lparr>wdb := claimed_db now (new_expiry env now g s) g s (wdb w)\<rparr>) =
          (sync, w2)"
        by (cases "mirror_expiry pc now' (next_id (wdb w)) sid (s_panel_username s)
          (new_expiry env now g s) (w\<lparr>wdb := claimed_db now (new_expiry env now g s) g s (wdb w)\<rparr>)")
      show ?thesis
      proof (cases "g_grant_minutes g > 0")
        case True
        with 2 PlanExtend eqs m show ?thesis
          by (intro funded [OF cl True m]) (simp add: verifyAdReward_def on_db_def)
      next
        case False
        with 2 PlanExtend eqs show ?thesis
          by (intro noted [OF cl]) (simp_all add: verifyAdReward_def on_db_def)
      qed
    qed
  qed
qed

text \<open>What the panel phase leaves alone.\<close>

lemma mirror_expiry_frame:
  assumes "mirror_expiry pc now oid sid un e w = (sync, w')"
  shows "outbox_frame (wdb w) (wdb w')" "map op_core (ops (wdb w')) = map op_core (ops (wdb w))"
  using assms
  by (auto simp: mirror_expiry_def on_panel_def op_core_def session_core_def update_where_def
      outbox_frame_def split: prod.splits sum.splits)

section \<open>The ledger invariant\<close>

text \<open>
  Every callback is recorded once, and no grant counts more ads than it has recorded
  callbacks; nonces are unique and none is the closing-ad sentinel.
\<close>

definition rewards_of :: "id \<Rightarrow> db \<Rightarrow> ad_reward list" where
  "rewards_of gid d = filter (\<lambda>r. r_grant_id r = gid) (rewards d)"

definition reward_key :: "ad_reward \<Rightarrow> string \<times> string" where
  "reward_key r = (r_network r, r_transaction_id r)"

definition credit_ok :: "db \<Rightarrow> bool" where
  "credit_ok d \<longleftrightarrow> list_all (\<lambda>g. g_verified_ads g \<le> int (length (rewards_of (g_id g) d))) (grants d)"

definition ledger_ok :: "db \<Rightarrow> bool" where
  "ledger_ok d \<longleftrightarrow> keys_ok d \<and> distinct (map reward_key (rewards d)) \<and> credit_ok d \<and>
     distinct (map g_nonce (grants d)) \<and>
     list_all (\<lambda>g. g_nonce g \<noteq> CLOSING_SESSION_NONCE) (grants d)"

lemma ledger_okD:
  assumes "ledger_ok d"
  shows "keys_ok d" "distinct (map reward_key (rewards d))" "credit_ok d"
    "distinct (map g_nonce (grants d))"
    "list_all (\<lambda>g. g_nonce g \<noteq> CLOSING_SESSION_NONCE) (grants d)"
  using assms by (simp_all add: ledger_ok_def)

lemma rewards_of_snoc:
  "rewards_of gid (d\<lparr>rewards := rewards d @ [r], next_id := n\<rparr>) =
     rewards_of gid d @ (if r_grant_id r = gid then [r] else [])"
  by (simp add: rewards_of_def)

lemma reward_row_simps [simp]:
  "r_grant_id (reward_row now rw gid i) = gid"
  "reward_key (reward_row now rw gid i) = (''admob'', ar_transactionId rw)"
  "same_callback rw (reward_row now rw gid i)"
  by (simp_all add: reward_row_def reward_key_def same_callback_def)

lemma same_callback_key: "same_callback rw r \<longleftrightarrow> reward_key r = (''admob'', ar_transactionId rw)"
  by (simp add: same_callback_def reward_key_def)

text \<open>The database after a new callback for grant \<open>g\<close>.\<close>

definition recorded_db :: "ms \<Rightarrow> admob_reward \<Rightarrow> ad_reward_grant \<Rightarrow> db \<Rightarrow> db" where
  "recorded_db now rw g d =
     d\<lparr>rewards := rewards d @ [reward_row now rw (g_id g) (next_id d)], next_id := next_id d + 1\<rparr>"

definition counted_db :: "ms \<Rightarrow> admob_reward \<Rightarrow> ad_reward_grant \<Rightarrow> db \<Rightarrow> db" where
  "counted_db now rw g d = (recorded_db now rw g d)
     \<lparr>grants := update_where (\<lambda>x. g_id x = g_id g)
        (bump_grant now (g_verified_ads g + 1) (g_verified_ads g + 1 \<ge> g_required_ads g)) (grants d)\<rparr>"

lemma record_cases:
  obtains
    (sentinel) "ar_customData rw = CLOSING_SESSION_NONCE"
      "recordVerifiedReward now rw d = (Inr (), d)"
  | (unknown) "find_row (\<lambda>g. g_nonce g = ar_customData rw) (grants d) = None"
      "recordVerifiedReward now rw d = (Inl (NotFoundException ''unknown grant nonce''), d)"
  | (refused) e where "amount_param (ar_rewardAmount rw) = Inl e" "recordVerifiedReward now rw d = (Inl e, d)"
  | (duplicate) "exists_row (same_callback rw) (rewards d)"
      "recordVerifiedReward now rw d = (Inr (), d)"
  | (late) g where "find_row (\<lambda>g. g_nonce g = ar_customData rw) (grants d) = Some g"
      "\<not> exists_row (same_callback rw) (rewards d)"
      "recordVerifiedReward now rw d = (Inr (), recorded_db now rw g d)"
  | (counted) g where "find_row (\<lambda>g. g_nonce g = ar_customData rw) (grants d) = Some g"
      "\<not> exists_row (same_callback rw) (rewards d)" "g_status g = G_pending" "g_expires_at g > now"
      "recordVerifiedReward now rw d = (Inr (), counted_db now rw g d)"
proof (cases "ar_customData rw = CLOSING_SESSION_NONCE")
  case True
  then show ?thesis by (intro sentinel) (simp_all add: recordVerifiedReward_def)
next
  case False
  note not_sentinel = False
  show ?thesis
  proof (cases "find_row (\<lambda>g. g_nonce g = ar_customData rw) (grants d)")
    case None
    with not_sentinel show ?thesis
      by (intro unknown) (simp_all add: recordVerifiedReward_def withTransaction_def record_tx_def)
  next
    case (Some g)
    show ?thesis
    proof (cases "amount_param (ar_rewardAmount rw)")
      case (Inl e)
      with Some not_sentinel show ?thesis
        by (intro refused [OF Inl]) (simp_all add: recordVerifiedReward_def withTransaction_def record_tx_def)
    next
    case (Inr amount)
    note found = Some Inr
    show ?thesis
    proof (cases "exists_row (same_callback rw) (rewards d)")
      case True
      with not_sentinel found show ?thesis
        by (intro duplicate) (simp_all add: recordVerifiedReward_def withTransaction_def record_tx_def)
    next
      case False
      show ?thesis
      proof (cases "g_status g = G_pending \<and> g_expires_at g > now")
        case True
        with False not_sentinel found show ?thesis
          by (intro counted [OF found(1)]) (simp_all add: recordVerifiedReward_def withTransaction_def
              record_tx_def Let_def counted_db_def recorded_db_def)
      next
        case not_open: False
        with False not_sentinel found show ?thesis
          by (intro late [OF found(1)]) (simp_all add: recordVerifiedReward_def withTransaction_def
              record_tx_def Let_def recorded_db_def)
      qed
    qed
    qed
  qed
qed

lemma recorded_keys_ok: "keys_ok d \<Longrightarrow> keys_ok (recorded_db now rw g d)"
  by (simp add: keys_ok_def recorded_db_def table_ok_Suc)

lemma recorded_ledger_ok:
  assumes "ledger_ok d" and "\<not> exists_row (same_callback rw) (rewards d)"
  shows "ledger_ok (recorded_db now rw g d)"
proof -
  have "(''admob'', ar_transactionId rw) \<notin> reward_key ` set (rewards d)"
    using assms(2) by (fastforce simp: same_callback_key)
  moreover have "credit_ok (recorded_db now rw g d)"
    using ledger_okD(3) [OF assms(1)]
    by (simp add: credit_ok_def list_all_iff recorded_db_def rewards_of_def) (fastforce)
  ultimately show ?thesis
    using assms(1) recorded_keys_ok by (simp add: ledger_ok_def recorded_db_def)
qed

lemma counted_ledger_ok:
  assumes "ledger_ok d" and "\<not> exists_row (same_callback rw) (rewards d)" and "g \<in> set (grants d)"
  shows "ledger_ok (counted_db now rw g d)"
proof -
  let ?r = "recorded_db now rw g d"
  have r: "ledger_ok ?r" by (rule recorded_ledger_ok [OF assms(1,2)])
  have keys: "keys_ok (counted_db now rw g d)"
    using keys_ok_grants [OF ledger_okD(1) [OF r], of "bump_grant now (g_verified_ads g + 1)
      (g_verified_ads g + 1 \<ge> g_required_ads g)" "\<lambda>x. g_id x = g_id g"]
    by (simp add: counted_db_def recorded_db_def)
  have len: "length (rewards_of i ?r) = length (rewards_of i d) + (if i = g_id g then 1 else 0)" for i
    by (simp add: rewards_of_def recorded_db_def)
  have "g_verified_ads g \<le> int (length (rewards_of (g_id g) d))"
    using ledger_okD(3) [OF assms(1)] assms(3) by (simp add: credit_ok_def list_all_iff)
  then have "g_verified_ads g + 1 \<le> int (length (rewards_of (g_id g) ?r))"
    by (simp add: len)
  moreover have "rewards_of i (counted_db now rw g d) = rewards_of i ?r" for i
    by (simp add: rewards_of_def counted_db_def)
  ultimately have "credit_ok (counted_db now rw g d)"
    using ledger_okD(3) [OF r]
    by (simp add: credit_ok_def counted_db_def list_all_iff recorded_db_def update_where_ball)
  with keys r show ?thesis
    by (simp add: ledger_ok_def counted_db_def recorded_db_def map_update_where update_where_ball
        list_all_iff)
qed

lemma recordVerifiedReward_ledger:
  assumes "ledger_ok d"
  shows "ledger_ok (snd (recordVerifiedReward now rw d))"
proof (cases rule: record_cases [of rw now d])
  case (late g)
  with assms show ?thesis by (simp add: recorded_ledger_ok)
next
  case (counted g)
  with assms counted_ledger_ok find_row_Some [OF counted(1)] show ?thesis by simp
qed (use assms in simp_all)

lemma claimed_ledger_ok:
  assumes "ledger_ok d"
  shows "ledger_ok (claimed_db now e g s d)"
proof -
  let ?c = "d\<lparr>grants := update_where (\<lambda>x. g_id x = g_id g) (consume_grant now (s_id s)) (grants d)\<rparr>"
  have "keys_ok ?c" using ledger_okD(1) [OF assms] by (simp add: keys_ok_grants)
  moreover from this have "keys_ok (insert_op now i op pl
      (?c\<lparr>sessions := update_where P (fund_session e gid) (sessions d)\<rparr>))" for i op pl P gid
    using keys_ok_sessions [of ?c "fund_session e gid" P] by (simp add: keys_ok_insert_op)
  ultimately have "keys_ok (claimed_db now e g s d)"
    by (simp add: claimed_db_def Let_def)
  moreover have "credit_ok (claimed_db now e g s d)"
  proof -
    have "\<forall>x \<in> set (grants d). g_verified_ads x \<le> int (length (rewards_of (g_id x) d))"
      using assms by (simp add: ledger_ok_def credit_ok_def list_all_iff)
    then have "\<forall>x \<in> set (update_where P (consume_grant now (s_id s)) (grants d)).
        g_verified_ads x \<le> int (length (rewards_of (g_id x) d))" for P
      by (simp add: update_where_ball)
    then show ?thesis
      by (simp add: claimed_db_def Let_def credit_ok_def rewards_of_def list_all_iff)
  qed
  ultimately show ?thesis using assms
    by (simp add: ledger_ok_def claimed_db_def Let_def map_update_where update_where_ball
        list_all_iff)
qed

lemma outbox_ledger_ok:
  assumes "outbox_frame d d'" "map op_core (ops d') = map op_core (ops d)" "ledger_ok d"
  shows "ledger_ok d'"
  using assms keys_ok_outbox_frame [OF assms(1,2)] outbox_frame_fields [OF assms(1)]
  by (simp add: ledger_ok_def credit_ok_def rewards_of_def)

lemma verifyAdReward_ledger:
  assumes "ledger_ok (wdb w)"
  shows "ledger_ok (wdb (snd (verifyAdReward env fl C rnd pc now now' uid gid sid w)))"
proof (cases rule: verifyAdReward_cases [of env fl C rnd pc now now' uid gid sid w])
  case (funded g s sync w2)
  have "ledger_ok (claimed_db now (new_expiry env now g s) g s (wdb w))"
    using assms by (rule claimed_ledger_ok)
  with outbox_ledger_ok mirror_expiry_frame [OF funded(3)] funded(4) show ?thesis by simp
qed (use assms claimed_ledger_ok in simp_all)

lemma requestAdToken_ledger:
  assumes "ledger_ok d"
  shows "ledger_ok (snd (requestAdToken env now rnd uid did pu sid d))"
proof -
  obtain ra gm where r: "rulesFor pu = (ra, gm)" by (cases "rulesFor pu")
  let ?mk = "\<lambda>i. \<lparr>g_id = i, g_user_id = uid, g_device_id = did, g_session_id = sid, g_purpose = pu,
    g_nonce = randomUrlToken rnd, g_required_ads = ra, g_verified_ads = 0, g_grant_minutes = gm,
    g_status = G_pending, g_expires_at = now + TOKEN_WINDOW_MIN env * 60000,
    g_fulfilled_at = None, g_consumed_at = None\<rparr>"
  show ?thesis
  proof (cases "insert_grant ?mk d")
    case (Pair res d')
    have snd: "snd (requestAdToken env now rnd uid did pu sid d) = d'"
      using Pair r by (simp add: requestAdToken_def Let_def split: sum.split)
    show ?thesis
    proof (cases res)
      case (Inl e)
      with Pair snd assms insert_grant_Inl show ?thesis by metis
    next
      case (Inr i)
      with Pair have ins: "insert_grant ?mk d = (Inr i, d')" by simp
      have "keys_ok d'" using keys_ok_insert_grant [OF ledger_okD(1) [OF assms] ins] by simp
      with insert_grant_Inr [OF ins] assms snd show ?thesis
        by (auto simp: ledger_ok_def credit_ok_def rewards_of_def list_all_iff)
    qed
  qed
qed

section \<open>Properties\<close>

text \<open>
  C3. A claim that grants minutes: the caller owns the grant and the session, the grant is
  open, unspent and paid for, the session is live. Its new expiry is the granted minutes
  on top of the later of now and the old expiry, cut at the maximal session length; it
  lies strictly after both. The grant is consumed and bound to the session, the session
  carries the new expiry and is no longer provisioning, and an operation that pushes the
  same expiry to the panel is in the outbox.
\<close>

theorem verifyAdReward_funds:
  assumes "verifyAdReward env fl C rnd pc now now' uid gid sid w = (Inr r, w')"
    and "vr_grantedMinutes r > 0" and "keys_ok (wdb w)"
  shows "\<exists>g s s'. find_row (\<lambda>x. g_id x = gid) (grants (wdb w)) = Some g \<and>
    find_row (\<lambda>x. s_id x = sid) (sessions (wdb w)) = Some s \<and>
    g_user_id g = uid \<and> s_user_id s = uid \<and> live s \<and> g_status g \<noteq> G_consumed \<and>
    now < g_expires_at g \<and> g_required_ads g \<le> g_verified_ads g \<and>
    vr_expiresAt r = min (max now (s_expires_at s) + g_grant_minutes g * 60000) (cap_ms env s) \<and>
    max now (s_expires_at s) < vr_expiresAt r \<and>
    find_row (\<lambda>x. g_id x = gid) (grants (wdb w')) = Some (consume_grant now sid g) \<and>
    find_row (\<lambda>x. s_id x = sid) (sessions (wdb w')) = Some s' \<and>
    s_expires_at s' = vr_expiresAt r \<and> live s' \<and> s_status s' \<noteq> S_provisioning \<and>
    (\<exists>i. (i, sid, ''extend_user'', \<lparr>panel_username = s_panel_username s,
        expire_epoch = Some (vr_expiresAt r div 1000)\<rparr>) \<in> op_core ` set (ops (wdb w')))"
proof (cases rule: verifyAdReward_cases [of env fl C rnd pc now now' uid gid sid w])
  case (funded g s sync w2)
  let ?e = "new_expiry env now g s" and ?d = "claimed_db now (new_expiry env now g s) g s (wdb w)"
  from funded assms have r: "vr_expiresAt r = ?e" and w2: "w2 = w'" by auto
  note fr = mirror_expiry_frame [OF funded(3)]
  from funded(1) have g: "find_row (\<lambda>x. g_id x = gid) (grants (wdb w)) = Some g" "g_id g = gid"
    and s: "find_row (\<lambda>x. s_id x = sid) (sessions (wdb w)) = Some s" "s_id s = sid"
    by (auto simp: claimable_def dest: find_row_Some)
  have "find_row (\<lambda>x. g_id x = gid) (grants ?d) = Some (consume_grant now sid g)"
    using funded(2) g s by (simp add: claimed_db_def find_row_update_where)
  then have grant: "find_row (\<lambda>x. g_id x = gid) (grants (wdb w')) = Some (consume_grant now sid g)"
    using outbox_frame_fields(11) [OF fr(1)] w2 by simp
  have "find_row (\<lambda>x. s_id x = sid) (sessions ?d) = Some (fund_session ?e gid s)"
    using funded(2) g s by (simp add: claimed_db_def find_row_update_where)
  moreover have "map_option session_core (find_row (\<lambda>x. s_id x = sid) (sessions (wdb w'))) =
      map_option session_core (find_row (\<lambda>x. s_id x = sid) (sessions ?d))"
    using fr(1) w2 by (intro find_session_core) (simp add: outbox_frame_def)
  ultimately obtain s' where s': "find_row (\<lambda>x. s_id x = sid) (sessions (wdb w')) = Some s'"
    "session_core s' = session_core (fund_session ?e gid s)"
    by (cases "find_row (\<lambda>x. s_id x = sid) (sessions (wdb w'))") simp_all
  note core = session_core_eqD [OF s'(2)]
  have live': "live s'" "s_status s' \<noteq> S_provisioning"
    using core(6) funded(1) by (auto simp: claimable_def fund_session_def split: if_splits)
  have "(next_id (wdb w), sid, ''extend_user'', \<lparr>panel_username = s_panel_username s,
        expire_epoch = Some (?e div 1000)\<rparr>) \<in> set (map op_core (ops ?d))"
    using funded(2) s by (simp add: claimed_db_def op_core_def)
  then have op: "(next_id (wdb w), sid, ''extend_user'', \<lparr>panel_username = s_panel_username s,
        expire_epoch = Some (?e div 1000)\<rparr>) \<in> op_core ` set (ops (wdb w'))"
    using fr(2) w2 by (simp flip: set_map)
  have e: "?e = min (max now (s_expires_at s) + g_grant_minutes g * 60000) (cap_ms env s)"
    "max now (s_expires_at s) < ?e"
    using funded(1,2) by (auto simp: new_expiry_def Let_def claimable_def)
  show ?thesis
    using funded(1) g s grant s'(1) core(12) live' op e unfolding r claimable_def by auto
qed (use assms in simp_all)

lemma claim_paid:
  assumes "verifyAdReward env fl C rnd pc now now' uid gid sid w = (Inr r, w')"
    and "vr_grantedMinutes r > 0" and "ledger_ok (wdb w)"
  shows "\<exists>g. find_row (\<lambda>x. g_id x = gid) (grants (wdb w)) = Some g \<and>
    g_required_ads g \<le> int (card (reward_key ` {x \<in> set (rewards (wdb w)). r_grant_id x = gid}))"
proof (cases rule: verifyAdReward_cases [of env fl C rnd pc now now' uid gid sid w])
  case (funded g s sync w2)
  from funded(1) have g: "find_row (\<lambda>x. g_id x = gid) (grants (wdb w)) = Some g"
    and paid: "g_required_ads g \<le> g_verified_ads g"
    by (simp_all add: claimable_def)
  from find_row_Some [OF g] have "g \<in> set (grants (wdb w))" "g_id g = gid" by simp_all
  moreover have "credit_ok (wdb w)" using assms(3) by (simp add: ledger_ok_def)
  ultimately have "g_verified_ads g \<le> int (length (rewards_of gid (wdb w)))"
    by (auto simp: credit_ok_def list_all_iff)
  also have "length (rewards_of gid (wdb w)) = card (reward_key ` set (rewards_of gid (wdb w)))"
    using length_filter_card [OF ledger_okD(2) [OF assms(3)]] by (simp add: rewards_of_def)
  finally show ?thesis using paid g by (auto simp: rewards_of_def)
qed (use assms in simp_all)

text \<open>
  Minutes are paid for: a claim that grants minutes rests on at least as many recorded
  ad callbacks of its grant, pairwise different by network and transaction, as the grant
  requires.
\<close>

theorem verifyAdReward_paid:
  assumes "verifyAdReward env fl C rnd pc now now' uid gid sid w = (Inr r, w')"
    and "vr_grantedMinutes r > 0" and "ledger_ok (wdb w)"
  shows "\<exists>g. find_row (\<lambda>x. g_id x = gid) (grants (wdb w)) = Some g \<and>
    g_required_ads g \<le> int (card (reward_key ` {x \<in> set (rewards (wdb w)). r_grant_id x = gid}))"
  using assms by (rule claim_paid)

lemma consumed_no_effect:
  assumes "find_row (\<lambda>x. g_id x = gid) (grants (wdb w)) = Some g" and "g_status g = G_consumed"
  shows "snd (verifyAdReward env fl C rnd pc now now' uid gid sid w) = w \<and>
    (\<forall>r. fst (verifyAdReward env fl C rnd pc now now' uid gid sid w) = Inr r \<longrightarrow>
       vr_grantedMinutes r = 0)"
  by (cases rule: verifyAdReward_cases [of env fl C rnd pc now now' uid gid sid w])
    (use assms in \<open>auto simp: claimable_def\<close>)

text \<open>
  A grant is spent once: after a claim that granted minutes no further claim of the
  same grant, by whoever and for whatever session, changes the database, calls the panel
  or grants a minute.
\<close>

theorem verifyAdReward_spent_once:
  assumes "verifyAdReward env fl C rnd pc now now' uid gid sid w = (Inr r, w1)"
    and "vr_grantedMinutes r > 0" and "keys_ok (wdb w)"
  shows "snd (verifyAdReward env2 fl2 C2 rnd2 pc2 now2 now2' uid2 gid sid2 w1) = w1 \<and>
    (\<forall>r2. fst (verifyAdReward env2 fl2 C2 rnd2 pc2 now2 now2' uid2 gid sid2 w1) = Inr r2 \<longrightarrow>
       vr_grantedMinutes r2 = 0)"
proof (cases rule: verifyAdReward_cases [of env fl C rnd pc now now' uid gid sid w])
  case (funded g s sync w2)
  have g: "find_row (\<lambda>x. g_id x = gid) (grants (wdb w)) = Some g" "g_id g = gid"
    using funded(1) by (auto simp: claimable_def dest: find_row_Some)
  have "find_row (\<lambda>x. g_id x = gid) (grants (claimed_db now (new_expiry env now g s) g s (wdb w))) =
      Some (consume_grant now (s_id s) g)"
    using funded(2) g by (simp add: claimed_db_def find_row_update_where)
  then have "find_row (\<lambda>x. g_id x = gid) (grants (wdb w1)) = Some (consume_grant now (s_id s) g)"
    using outbox_frame_fields(11) [OF mirror_expiry_frame(1) [OF funded(3)]] funded(4) assms(1)
    by simp
  then show ?thesis by (rule consumed_no_effect) simp
qed (use assms in simp_all)

text \<open>
  A rejected claim leaves no trace: whatever the error, neither the database nor the
  panel has changed. The status \<open>expired\<close> that the branch of a lapsed window writes is
  therefore rolled back with the transaction that throws.
\<close>

theorem verifyAdReward_error_rolls_back:
  assumes "fst (verifyAdReward env fl C rnd pc now now' uid gid sid w) = Inl e"
  shows "snd (verifyAdReward env fl C rnd pc now now' uid gid sid w) = w"
  by (cases rule: verifyAdReward_cases [of env fl C rnd pc now now' uid gid sid w])
    (use assms in auto)

text \<open>
  An ad view counts once: a callback delivered again, at whatever later time, leaves
  the database as the first delivery left it.
\<close>

theorem recordVerifiedReward_idempotent:
  "snd (recordVerifiedReward now' rw (snd (recordVerifiedReward now rw d))) =
     snd (recordVerifiedReward now rw d)"
proof (cases rule: record_cases [of rw now d])
  case sentinel
  then show ?thesis by (simp add: recordVerifiedReward_def)
next
  case unknown
  then show ?thesis by (simp add: recordVerifiedReward_def record_tx_def withTransaction_def)
next
  case refused
  then show ?thesis
    by (simp add: recordVerifiedReward_def record_tx_def withTransaction_def split: option.split)
next
  case duplicate
  then show ?thesis
    by (cases rule: record_cases [of rw now' d]) simp_all
next
  case (late g)
  have "exists_row (same_callback rw) (rewards (recorded_db now rw g d))"
    by (simp add: recorded_db_def)
  with late(3) show ?thesis
    by (cases rule: record_cases [of rw now' "recorded_db now rw g d"]) simp_all
next
  case (counted g)
  have "exists_row (same_callback rw) (rewards (counted_db now rw g d))"
    by (simp add: counted_db_def recorded_db_def)
  with counted(5) show ?thesis
    by (cases rule: record_cases [of rw now' "counted_db now rw g d"]) simp_all
qed

text \<open>
  The zero-minute grant and the payload: claiming a Disconnect grant returns no
  payload and leaves every session as it was, yet repeating the same claim takes the
  replay branch, which hands out the payload of the bound session. A session that is
  still provisioning, for which no connect ad was counted, thus delivers its
  configuration.
\<close>

theorem disconnect_replay_payload:
  assumes "claimable env now uid gid sid (wdb w) g s" and "g_grant_minutes g \<le> 0"
    and "keys_ok (wdb w)"
    and "verifyAdReward env fl C rnd pc now now' uid gid sid w = (Inr r1, w1)"
    and "verifyAdReward env fl C rnd pc now2 now2' uid gid sid w1 = (Inr r2, w2)"
  shows "vr_payload r1 = None \<and> sessions (wdb w2) = sessions (wdb w) \<and> wpanel w2 = wpanel w \<and>
    vr_payload r2 = payloadFor fl C rnd sid (wdb w1)"
proof -
  have g: "find_row (\<lambda>x. g_id x = gid) (grants (wdb w)) = Some g" "g_id g = gid" "g_user_id g = uid"
    and s: "find_row (\<lambda>x. s_id x = sid) (sessions (wdb w)) = Some s" "s_id s = sid"
    using assms(1) by (auto simp: claimable_def dest: find_row_Some)
  let ?d = "claimed_db now (new_expiry env now g s) g s (wdb w)"
  have first: "vr_payload r1 = None \<and> w1 = w\<lparr>wdb := ?d\<rparr>"
  proof (cases rule: verifyAdReward_cases [of env fl C rnd pc now now' uid gid sid w])
    case (replay b e)
    then show ?thesis using assms(1)
      by (auto simp: verify_tx_def claimable_def Let_def claim_session_not_idem)
  next
    case (noted g' s')
    with assms(1,4) show ?thesis by (auto simp: claimable_def)
  next
    case (funded g' s')
    with assms(1,2) show ?thesis by (auto simp: claimable_def)
  qed (use assms(4) in simp)
  have row: "find_row (\<lambda>x. g_id x = gid) (grants ?d) = Some (consume_grant now sid g)"
    and sess: "sessions ?d = sessions (wdb w)"
    using assms(2) g s by (simp_all add: claimed_db_def Let_def find_row_update_where)
  have "verify_tx env now2 uid gid sid ?d = (Inr (PlanIdempotent sid (s_expires_at s)), ?d)"
    using row g s by (simp add: verify_tx_def Let_def sess)
  with first assms(5) sess show ?thesis
    by (auto simp: verifyAdReward_def on_db_def withTransaction_def)
qed

section \<open>Witnesses\<close>

lemma sample_ledger_ok: "ledger_ok sample_db"
  by code_simp

abbreviation sample_claim where
  "sample_claim \<equiv> verifyAdReward ads_defaults [] sample_crypto sample_random sample_panel
     1000 1001 1 5 4 sample_world"

lemma sample_claim_run:
  "sample_claim = (Inr \<lparr>vr_sessionId = 4, vr_expiresAt = 3900000, vr_grantedMinutes = 60,
     vr_panelSync = Synced, vr_payload = None\<rparr>, snd sample_claim)"
  by (rule prod_eqI, code_simp) simp

lemma sample_lookups:
  "find_row (\<lambda>x. g_id x = 5) (grants (wdb sample_world)) = Some sample_grant"
  "find_row (\<lambda>x. s_id x = 4) (sessions (wdb sample_world)) = Some sample_session"
  "keys_ok (wdb sample_world)" "ledger_ok (wdb sample_world)"
  by code_simp+

theorem verifyAdReward_funds_witness:
  "max 1000 (s_expires_at sample_session) < (3900000::int) \<and>
   find_row (\<lambda>x. g_id x = 5) (grants (wdb (snd sample_claim))) =
     Some (consume_grant 1000 4 sample_grant)"
  using verifyAdReward_funds [OF sample_claim_run _ sample_lookups(3)] sample_lookups(1,2) by simp

theorem verifyAdReward_paid_witness:
  "g_required_ads sample_grant \<le>
     int (card (reward_key ` {x \<in> set (rewards (wdb sample_world)). r_grant_id x = 5}))"
  using verifyAdReward_paid [OF sample_claim_run _ sample_lookups(4)] sample_lookups(1) by simp

theorem verifyAdReward_spent_once_witness:
  "snd (verifyAdReward ads_defaults [] sample_crypto sample_random sample_panel 2000 2001 1 5 4
     (snd sample_claim)) = snd sample_claim"
  by (rule verifyAdReward_spent_once [OF sample_claim_run _ sample_lookups(3), THEN conjunct1]) simp

theorem verifyAdReward_error_rolls_back_witness:
  "snd (verifyAdReward ads_defaults [] sample_crypto sample_random sample_panel 400000 400001 1 5 4
     sample_world) = sample_world"
  by (rule verifyAdReward_error_rolls_back
      [of _ _ _ _ _ _ _ _ _ _ _ "ConflictException ''ad grant window expired; request a new token''"])
    code_simp

text \<open>A session that nobody funded, and a one-ad Disconnect grant of the same user.\<close>

definition disconnect_world :: "sample_panel_state world" where
  "disconnect_world = sample_world\<lparr>wdb := sample_db\<lparr>
     sessions := [sample_session\<lparr>s_inbound_tag := Some ''in'', s_protocol := Some ''vless'',
       s_client_public_key := Some (replicate 32 9)\<rparr>],
     grants := [sample_grant\<lparr>g_purpose := Disconnect, g_required_ads := 1, g_verified_ads := 1,
       g_grant_minutes := 0\<rparr>]\<rparr>\<rparr>"

abbreviation disconnect_claim where
  "disconnect_claim w \<equiv> verifyAdReward ads_defaults [] sample_crypto sample_random sample_panel
     1000 1001 1 5 4 w"

theorem disconnect_replay_payload_witness:
  "\<exists>r. fst (disconnect_claim (snd (disconnect_claim disconnect_world))) = Inr r \<and>
     vr_payload r = payloadFor [] sample_crypto sample_random 4
       (wdb (snd (disconnect_claim disconnect_world))) \<and> vr_payload r \<noteq> None"
proof -
  let ?c1 = "disconnect_claim disconnect_world"
  let ?c2 = "disconnect_claim (snd ?c1)"
  have ok: "claimable ads_defaults 1000 1 5 4 (wdb disconnect_world)
      (hd (grants (wdb disconnect_world))) (hd (sessions (wdb disconnect_world)))"
    "g_grant_minutes (hd (grants (wdb disconnect_world))) \<le> 0" "keys_ok (wdb disconnect_world)"
    by code_simp+
  have "isl (fst ?c1) = False" "isl (fst ?c2) = False" by code_simp+
  then obtain r1 r2 where r: "?c1 = (Inr r1, snd ?c1)" "?c2 = (Inr r2, snd ?c2)"
    by (metis prod.collapse sum.collapse(2))
  have "payloadFor [] sample_crypto sample_random 4 (wdb (snd ?c1)) \<noteq> None" by code_simp
  with disconnect_replay_payload [OF ok r] r show ?thesis by (metis fst_conv)
qed

end
