(* ===== verification/Closing.thy ===== *)
theory Closing
  imports Outbox
begin

text \<open>
  How sessions end. Seven places of the code close sessions: the displacement of a
  connect, a failed provisioning, the reaper, and the administrator's kick, ban, panic
  and migration. Each marks a selection of sessions with a final status and queues one
  operation per session that removes its panel user. The contract of such a step is a
  locale; the invariants it keeps (a closed session has its reclaiming operation, a device
  has one live session, a closed session stays closed) are proved once, inside it.
\<close>

section \<open>Statements they share\<close>

definition close_session :: "session_status \<Rightarrow> string \<Rightarrow> ms \<Rightarrow> vpn_session \<Rightarrow> vpn_session" where
  "close_session st reason now s =
     s\<lparr>s_status := st, s_closed_at := Some now, s_close_reason := Some reason\<rparr>"

text \<open>\<^verbatim>\<open>insert into panel_operations\<close> for every row a closing update returned.\<close>

definition removal :: "string \<Rightarrow> op_payload" where
  "removal un = \<lparr>panel_username = un, expire_epoch = None\<rparr>"

fun enqueue_all :: "ms \<Rightarrow> string \<Rightarrow> vpn_session list \<Rightarrow> db \<Rightarrow> db" where
  "enqueue_all now op [] d = d"
| "enqueue_all now op (r # rs) d =
     enqueue_all now op rs (insert_op now (s_id r) op (removal (s_panel_username r)) d)"

text \<open>\<^verbatim>\<open>update vpn_sessions set ... where P returning id, panel_username\<close>, then one operation each.\<close>

definition close_where ::
  "(vpn_session \<Rightarrow> bool) \<Rightarrow> (vpn_session \<Rightarrow> vpn_session) \<Rightarrow> string \<Rightarrow> ms \<Rightarrow> db \<Rightarrow> nat \<times> db" where
  "close_where P f op now d =
     (let rows = returning P f (sessions d);
          d1 = d\<lparr>sessions := update_where P f (sessions d)\<rparr>
      in (length rows, enqueue_all now op rows d1))"

section \<open>The invariants\<close>

text \<open>What the outbox holds: the session, the operation and its payload.\<close>

definition queued :: "db \<Rightarrow> (id \<times> string \<times> op_payload) set" where
  "queued d = (\<lambda>r. (o_session_id r, o_op r, o_payload r)) ` set (ops d)"

definition removal_op :: "string \<Rightarrow> bool" where
  "removal_op op \<longleftrightarrow> op = ''revoke_user'' \<or> op = ''delete_user''"

text \<open>Some operation in the outbox removes the panel user of this session.\<close>

definition reclaimed :: "db \<Rightarrow> vpn_session \<Rightarrow> bool" where
  "reclaimed d s \<longleftrightarrow> (\<exists>op. removal_op op \<and> (s_id s, op, removal (s_panel_username s)) \<in> queued d)"

definition reclaim_ok :: "db \<Rightarrow> bool" where
  "reclaim_ok d \<longleftrightarrow> (\<forall>s \<in> set (sessions d). live s \<or> reclaimed d s)"

definition one_live :: "db \<Rightarrow> bool" where
  "one_live d \<longleftrightarrow> distinct (map s_device_id (filter live (sessions d)))"

text \<open>No session that had ended is live again, and no session has disappeared.\<close>

definition no_reopen :: "db \<Rightarrow> db \<Rightarrow> bool" where
  "no_reopen d d' \<longleftrightarrow> (\<forall>s \<in> set (sessions d). \<exists>s' \<in> set (sessions d').
     s_id s' = s_id s \<and> (live s' \<longrightarrow> live s))"

lemma no_reopen_refl: "no_reopen d d"
  by (auto simp: no_reopen_def)

lemma no_reopen_trans: "no_reopen d d' \<Longrightarrow> no_reopen d' d'' \<Longrightarrow> no_reopen d d''"
  unfolding no_reopen_def by metis

lemma no_reopen_update:
  assumes "sessions d' = update_where P f (sessions d)"
    and "\<And>s. s_id (f s) = s_id s" and "\<And>s. P s \<Longrightarrow> live (f s) \<Longrightarrow> live s"
  shows "no_reopen d d'"
  unfolding no_reopen_def
proof
  fix s assume "s \<in> set (sessions d)"
  then have "(if P s then f s else s) \<in> set (sessions d')"
    by (simp add: assms(1) update_where_def)
  with assms(2,3) show "\<exists>s' \<in> set (sessions d'). s_id s' = s_id s \<and> (live s' \<longrightarrow> live s)"
    by (intro bexI [of _ "if P s then f s else s"]) simp_all
qed

lemma queued_insert_op [simp]:
  "queued (insert_op now sid op pl d) = insert (sid, op, pl) (queued d)"
  by (simp add: queued_def)

lemma queued_core:
  assumes "map op_core (ops d') = map op_core (ops d)"
  shows "queued d' = queued d"
proof -
  have q: "queued e = snd ` set (map op_core (ops e))" for e
    by (simp add: queued_def op_core_def image_image)
  show ?thesis by (simp only: q assms)
qed

lemma queued_frame [simp]:
  "queued (d\<lparr>sessions := x0\<rparr>) = queued d"
  "queued (d\<lparr>users := x1\<rparr>) = queued d"
  "queued (d\<lparr>devices := x2\<rparr>) = queued d"
  "queued (d\<lparr>challenges := x3\<rparr>) = queued d"
  "queued (d\<lparr>tokens := x4\<rparr>) = queued d"
  "queued (d\<lparr>plans := x5\<rparr>) = queued d"
  "queued (d\<lparr>subscriptions := x6\<rparr>) = queued d"
  "queued (d\<lparr>nodes := x7\<rparr>) = queued d"
  "queued (d\<lparr>inbounds := x8\<rparr>) = queued d"
  "queued (d\<lparr>endpoints := x9\<rparr>) = queued d"
  "queued (d\<lparr>grants := x10\<rparr>) = queued d"
  "queued (d\<lparr>rewards := x11\<rparr>) = queued d"
  "queued (d\<lparr>audit_logs := x12\<rparr>) = queued d"
  "queued (d\<lparr>attempts := x13\<rparr>) = queued d"
  "queued (d\<lparr>next_id := n\<rparr>) = queued d"
  by (simp_all add: queued_def)

lemma reclaimed_mono: "queued d \<subseteq> queued d' \<Longrightarrow> reclaimed d s \<Longrightarrow> reclaimed d' s"
  unfolding reclaimed_def by blast

section \<open>The contract\<close>

locale session_closer =
  fixes step :: "db \<Rightarrow> db"
    and closes :: "db \<Rightarrow> vpn_session \<Rightarrow> bool"
    and closing :: "vpn_session \<Rightarrow> vpn_session"
  assumes closing_id: "s_id (closing s) = s_id s"
    and closing_username: "s_panel_username (closing s) = s_panel_username s"
    and closing_dead: "\<not> live (closing s)"
    and step_sessions: "keys_ok d \<Longrightarrow> sessions (step d) = update_where (closes d) closing (sessions d)"
    and step_ops: "keys_ok d \<Longrightarrow> queued d \<subseteq> queued (step d)"
    and step_queued: "keys_ok d \<Longrightarrow> s \<in> set (sessions d) \<Longrightarrow> closes d s \<Longrightarrow> reclaimed (step d) s"
    and step_keys: "keys_ok d \<Longrightarrow> keys_ok (step d)"
begin

lemma reclaimed_closing: "reclaimed e (closing s) = reclaimed e s"
  by (simp add: reclaimed_def closing_id closing_username)

lemma keeps_reclaim_ok:
  assumes "keys_ok d" and "reclaim_ok d"
  shows "reclaim_ok (step d)"
  unfolding reclaim_ok_def step_sessions [OF assms(1)] update_where_ball
proof
  fix s assume "s \<in> set (sessions d)"
  with assms step_queued reclaimed_mono [OF step_ops [OF assms(1)]]
  show "live (if closes d s then closing s else s) \<or>
      reclaimed (step d) (if closes d s then closing s else s)"
    by (simp add: reclaim_ok_def reclaimed_closing) blast
qed

lemma keeps_one_live:
  assumes "keys_ok d" and "one_live d"
  shows "one_live (step d)"
  using assms(2) closing_dead
  by (simp add: one_live_def step_sessions [OF assms(1)] filter_dead_update distinct_map_filter_sub
      del: filter_filter)

lemma keeps_closed: "keys_ok d \<Longrightarrow> no_reopen d (step d)"
  by (rule no_reopen_update [OF step_sessions]) (simp_all add: closing_id closing_dead)

lemma all_closed:
  assumes "keys_ok d" and "s \<in> set (sessions (step d))" and "live s"
  shows "s \<in> set (sessions d) \<and> \<not> closes d s"
  using assms(2,3) closing_dead
  by (simp add: step_sessions [OF assms(1)] set_update_where) blast

end

section \<open>Closing by a condition meets the contract\<close>

lemma enqueue_all_simps [simp]:
  "sessions (enqueue_all now op rs d) = sessions d"
  "grants (enqueue_all now op rs d) = grants d"
  "rewards (enqueue_all now op rs d) = rewards d"
  "tokens (enqueue_all now op rs d) = tokens d"
  "users (enqueue_all now op rs d) = users d"
  "devices (enqueue_all now op rs d) = devices d"
  "challenges (enqueue_all now op rs d) = challenges d"
  "plans (enqueue_all now op rs d) = plans d"
  "subscriptions (enqueue_all now op rs d) = subscriptions d"
  "nodes (enqueue_all now op rs d) = nodes d"
  "inbounds (enqueue_all now op rs d) = inbounds d"
  "endpoints (enqueue_all now op rs d) = endpoints d"
  "audit_logs (enqueue_all now op rs d) = audit_logs d"
  "attempts (enqueue_all now op rs d) = attempts d"
  by (induction rs arbitrary: d) simp_all

lemma queued_enqueue_all:
  "queued (enqueue_all now op rs d) =
     queued d \<union> (\<lambda>r. (s_id r, op, removal (s_panel_username r))) ` set rs"
  by (induction rs arbitrary: d) auto

lemma enqueue_all_length: "length (ops (enqueue_all now op rs d)) = length (ops d) + length rs"
  by (induction rs arbitrary: d) simp_all

lemma enqueue_all_keys: "keys_ok d \<Longrightarrow> keys_ok (enqueue_all now op rs d)"
  by (induction rs arbitrary: d) auto

lemma close_session_simps [simp]:
  "s_id (close_session st r now s) = s_id s"
  "s_panel_username (close_session st r now s) = s_panel_username s"
  "s_device_id (close_session st r now s) = s_device_id s"
  "s_user_id (close_session st r now s) = s_user_id s"
  "s_node_id (close_session st r now s) = s_node_id s"
  "s_tier (close_session st r now s) = s_tier s"
  "s_expires_at (close_session st r now s) = s_expires_at s"
  "s_created_at (close_session st r now s) = s_created_at s"
  "s_status (close_session st r now s) = st"
  by (simp_all add: close_session_def)

lemma close_where_sessions [simp]:
  "sessions (snd (close_where P f op now d)) = update_where P f (sessions d)"
  by (simp add: close_where_def Let_def)

lemma close_where_queued:
  "queued (snd (close_where P f op now d)) =
     queued d \<union> (\<lambda>r. (s_id r, op, removal (s_panel_username r))) ` f ` {s \<in> set (sessions d). P s}"
  by (simp add: close_where_def Let_def queued_enqueue_all returning_set)

lemma close_where_count: "fst (close_where P f op now d) = length (filter P (sessions d))"
  by (simp add: close_where_def Let_def length_returning)

lemma close_where_keys:
  "keys_ok d \<Longrightarrow> (\<And>s. s_id (f s) = s_id s) \<Longrightarrow> keys_ok (snd (close_where P f op now d))"
  by (simp add: close_where_def Let_def enqueue_all_keys keys_ok_sessions)

lemma close_where_closer:
  assumes "\<And>s. s_id (f s) = s_id s" "\<And>s. s_panel_username (f s) = s_panel_username s"
    "\<And>s. \<not> live (f s)" "removal_op op"
  shows "session_closer (\<lambda>d. snd (close_where (P d) f op now d)) P f"
proof
  fix d s
  assume "keys_ok d" "s \<in> set (sessions d)" "P d s"
  then have "(s_id (f s), op, removal (s_panel_username (f s))) \<in>
      queued (snd (close_where (P d) f op now d))"
    unfolding close_where_queued by blast
  then show "reclaimed (snd (close_where (P d) f op now d)) s"
    using assms unfolding reclaimed_def by metis
qed (use assms close_where_keys in \<open>auto simp: close_where_queued\<close>)

end
