(* ===== verification/Connection.thy ===== *)
theory Connection
  imports Closing SessionConfig
begin

text \<open>
  The connect flow, backend/src/connection/connection.service.ts and
  connection.controller.ts: the tier and expiry of a user, the choice of a node, the
  serializable transaction that makes room and inserts the session (and a grant for the
  free tier), the panel phase outside any transaction, the clean-up when provisioning
  fails, and the mapping of errors to HTTP exceptions.
\<close>

section \<open>Parameters and results\<close>

record connect_env =
  FREE_TTL_MS :: ms
  PREMIUM_FALLBACK_TTL_MS :: ms
  REQUIRED_ADS :: int
  GRANT_MINUTES :: int
  VLESS_FLOW :: string

definition connect_defaults :: connect_env where
  "connect_defaults = \<lparr>FREE_TTL_MS = 5 * 60000, PREMIUM_FALLBACK_TTL_MS = 30 * 24 * 60 * 60000,
     REQUIRED_ADS = 2, GRANT_MINUTES = 60, VLESS_FLOW = ''xtls-rprx-vision''\<rparr>"

datatype connect_result =
    PremiumResult id ms encrypted_payload
  | FreeResult id id string int ms

record node_pick =
  np_nodeId :: id
  np_inboundTag :: string
  np_protocol :: string

record tx_result =
  tx_sessionId :: id
  tx_panelUsername :: string
  tx_credentialRef :: string
  tx_node :: node_pick
  tx_revokeUsernames :: "string list"
  tx_grantId :: "id option"
  tx_nonce :: "string option"

text \<open>The fresh randomness of one request.\<close>

record connect_random =
  cr_username :: bytes
  cr_credential :: bytes
  cr_uuid :: string
  cr_nonce :: bytes
  cr_enc :: enc_random

section \<open>Helpers\<close>

definition isPasswordProtocol :: "string \<Rightarrow> bool" where
  "isPasswordProtocol p \<longleftrightarrow> p = ''trojan'' \<or> p = ''shadowsocks'' \<or> p = ''ss''"

text \<open>Compared to the second: panels store expiry as an integer of seconds.\<close>

definition expiryMatches :: "js_date option \<Rightarrow> ms \<Rightarrow> bool" where
  "expiryMatches a b =
     (case a of
        None \<Rightarrow> False
      | Some t \<Rightarrow> (case getTime t of
                     None \<Rightarrow> False
                   | Some ms \<Rightarrow> \<bar>ms div 1000 - b div 1000\<bar> \<le> 2))"

section \<open>Tier and expiry\<close>

text \<open>
  \<^verbatim>\<open>order by s.current_period_end desc nulls last limit 1\<close>: the row with the greatest
  period end, rows without one last.
\<close>

definition period_rank :: "subscription \<Rightarrow> bool \<times> ms" where
  "period_rank s = (case sub_current_period_end s of None \<Rightarrow> (True, 0) | Some e \<Rightarrow> (False, - e))"

definition plan_of :: "subscription \<Rightarrow> db \<Rightarrow> plan option" where
  "plan_of s d = find_row (\<lambda>p. p_id p = sub_plan_id s) (plans d)"

definition premium_rows :: "ms \<Rightarrow> id \<Rightarrow> db \<Rightarrow> (subscription \<times> plan) list" where
  "premium_rows now userId d =
     concat (map (\<lambda>s. case plan_of s d of
         None \<Rightarrow> []
       | Some p \<Rightarrow>
           if sub_user_id s = userId \<and> p_tier p = Premium \<and> entitled_status (sub_status s) \<and>
              period_open now s
           then [(s, p)] else []) (subscriptions d))"

definition resolveTierAndExpiry ::
  "connect_env \<Rightarrow> ms \<Rightarrow> id \<Rightarrow> db \<Rightarrow> plan_tier \<times> ms \<times> int" where
  "resolveTierAndExpiry env now userId d =
     (case sort_key (\<lambda>(s, _). period_rank s) (premium_rows now userId d) of
        [] \<Rightarrow> (Free, now + FREE_TTL_MS env,
               (case find_row (\<lambda>p. p_tier p = Free) (plans d) of
                  None \<Rightarrow> 1 | Some p \<Rightarrow> p_max_concurrent_sessions p))
      | (s, p) # _ \<Rightarrow>
          (Premium,
           (case sub_current_period_end s of
              Some e \<Rightarrow> e | None \<Rightarrow> now + PREMIUM_FALLBACK_TTL_MS env),
           p_max_concurrent_sessions p))"

section \<open>The choice of a node\<close>

definition tier_allowed :: "plan_tier \<Rightarrow> plan_tier \<Rightarrow> bool" where
  "tier_allowed t x \<longleftrightarrow> t = Premium \<or> x = Free"

definition node_candidates :: "plan_tier \<Rightarrow> db \<Rightarrow> (node \<times> node_inbound) list" where
  "node_candidates tier d =
     filter (\<lambda>(n, ni).
         n_status n = N_active \<and> n_is_active n \<and> n_error_streak n < 3 \<and>
         tier_allowed tier (n_tier n) \<and> tier_allowed tier (ni_tier ni) \<and>
         exists_row (\<lambda>ne. ne_node_id ne = n_id n \<and> ne_inbound_tag ne = ni_inbound_tag ni \<and>
                          ne_is_active ne) (endpoints d))
       (concat (map (\<lambda>n. map (Pair n) (filter (\<lambda>ni. ni_node_id ni = n_id n) (inbounds d)))
          (nodes d)))"

text \<open>\<^verbatim>\<open>order by n.current_load asc, n.error_streak asc, n.sort_weight asc limit 1\<close>\<close>

definition node_rank :: "node \<times> node_inbound \<Rightarrow> rat \<times> int \<times> int" where
  "node_rank c = (n_current_load (fst c), n_error_streak (fst c), n_sort_weight (fst c))"

definition pickNode :: "plan_tier \<Rightarrow> db \<Rightarrow> node_pick option" where
  "pickNode tier d =
     (case sort_key node_rank (node_candidates tier d) of
        [] \<Rightarrow> None
      | (n, ni) # _ \<Rightarrow> Some \<lparr>np_nodeId = n_id n, np_inboundTag = ni_inbound_tag ni,
                             np_protocol = ni_protocol ni\<rparr>)"

section \<open>Phase A: the transaction\<close>

definition live_sessions :: "id \<Rightarrow> db \<Rightarrow> vpn_session list" where
  "live_sessions userId d =
     sort_key s_created_at (filter (\<lambda>s. s_user_id s = userId \<and> live s) (sessions d))"

fun displace :: "ms \<Rightarrow> vpn_session list \<Rightarrow> db \<Rightarrow> db" where
  "displace now [] d = d"
| "displace now (r # rs) d =
     displace now rs
       (insert_op now (s_id r) ''revoke_user''
          (removal (s_panel_username r))
          (d\<lparr>sessions := update_where (\<lambda>s. s_id s = s_id r)
               (close_session S_revoked ''concurrency'' now) (sessions d)\<rparr>))"

text \<open>\<^verbatim>\<open>slice(0, overBy)\<close> with a positive \<^verbatim>\<open>overBy\<close>.\<close>

definition displaced :: "int \<Rightarrow> vpn_session list \<Rightarrow> vpn_session list" where
  "displaced maxConcurrent rows =
     (if int (length rows) \<ge> maxConcurrent
      then take (nat (int (length rows) - maxConcurrent + 1)) rows else [])"

definition new_session ::
  "ms \<Rightarrow> id \<Rightarrow> id \<Rightarrow> plan_tier \<Rightarrow> node_pick \<Rightarrow> string \<Rightarrow> string \<Rightarrow> bytes \<Rightarrow> ms \<Rightarrow> id \<Rightarrow> vpn_session" where
  "new_session now userId deviceId tier node un cred key e i =
     \<lparr>s_id = i, s_user_id = userId, s_device_id = deviceId, s_node_id = np_nodeId node,
      s_tier = tier, s_status = (if tier = Premium then S_active else S_provisioning),
      s_panel_username = un, s_credential_ref = cred, s_inbound_tag = Some (np_inboundTag node),
      s_protocol = Some (np_protocol node), s_client_public_key = Some key, s_expires_at = e,
      s_created_at = now, s_activated_at = None, s_closed_at = None, s_close_reason = None,
      s_last_ad_grant_id = None, s_extensions_count = 0, s_last_panel_sync_at = None\<rparr>"

definition connect_grant ::
  "connect_env \<Rightarrow> id \<Rightarrow> id \<Rightarrow> id \<Rightarrow> string \<Rightarrow> ms \<Rightarrow> id \<Rightarrow> ad_reward_grant" where
  "connect_grant env userId deviceId sessionId nonce e i =
     \<lparr>g_id = i, g_user_id = userId, g_device_id = deviceId, g_session_id = Some sessionId,
      g_purpose = Connect, g_nonce = nonce, g_required_ads = REQUIRED_ADS env,
      g_verified_ads = 0, g_grant_minutes = GRANT_MINUTES env, g_status = G_pending,
      g_expires_at = e, g_fulfilled_at = None, g_consumed_at = None\<rparr>"

definition credential_for :: "connect_random \<Rightarrow> string \<Rightarrow> string" where
  "credential_for rnd protocol =
     (if isPasswordProtocol protocol then base62 (cr_credential rnd) else cr_uuid rnd)"

definition connect_tx ::
  "connect_env \<Rightarrow> connect_random \<Rightarrow> ms \<Rightarrow> id \<Rightarrow> id \<Rightarrow> bytes \<Rightarrow> plan_tier \<Rightarrow> ms \<Rightarrow> int
    \<Rightarrow> (db, tx_result) prog" where
  "connect_tx env rnd now userId deviceId clientPubKey tier expiresAt maxConcurrent d =
     (let out = displaced maxConcurrent (live_sessions userId d);
          d1 = displace now out d
      in case pickNode tier d1 of
           None \<Rightarrow> (Inl (ConnectError ''no_node_capacity''), d1)
         | Some node \<Rightarrow>
             (let un = ''s_'' @ base62 (cr_username rnd);
                  cred = credential_for rnd (np_protocol node)
              in case insert_session
                        (new_session now userId deviceId tier node un cred clientPubKey expiresAt) d1 of
                   (Inl e, d2) \<Rightarrow> (Inl e, d2)
                 | (Inr sid, d2) \<Rightarrow>
                     (let res = (\<lambda>g n. \<lparr>tx_sessionId = sid, tx_panelUsername = un,
                            tx_credentialRef = cred, tx_node = node,
                            tx_revokeUsernames = map s_panel_username out,
                            tx_grantId = g, tx_nonce = n\<rparr>)
                      in if tier = Free then
                           (let nonce = randomUrlToken (cr_nonce rnd)
                            in case insert_grant (connect_grant env userId deviceId sid nonce expiresAt) d2 of
                                 (Inl e, d3) \<Rightarrow> (Inl e, d3)
                               | (Inr gid, d3) \<Rightarrow> (Inr (res (Some gid) (Some nonce)), d3))
                         else (Inr (res None None), d2))))"

section \<open>Phase B: the panel, no transaction open\<close>

definition revoke_inline :: "'p panel_client \<Rightarrow> ms \<Rightarrow> string \<Rightarrow> 'p world \<Rightarrow> 'p world" where
  "revoke_inline pc now un w =
     (case on_panel (disableUser pc un) w of
        (Inl _, w1) \<Rightarrow> w1
      | (Inr _, w1) \<Rightarrow>
          (case on_panel (deleteUser pc un) w1 of
             (Inl _, w2) \<Rightarrow> w2
           | (Inr _, w2) \<Rightarrow>
               w2\<lparr>wdb := (wdb w2)\<lparr>ops := update_where
                   (\<lambda>r. o_op r = ''revoke_user'' \<and> o_status r = O_pending \<and>
                        panel_username (o_payload r) = un)
                   (\<lambda>r. r\<lparr>o_status := O_succeeded, o_completed_at := Some now\<rparr>)
                   (ops (wdb w2))\<rparr>\<rparr>))"

fun revoke_all :: "'p panel_client \<Rightarrow> ms \<Rightarrow> string list \<Rightarrow> 'p world \<Rightarrow> 'p world" where
  "revoke_all pc now [] w = w"
| "revoke_all pc now (un # uns) w = revoke_all pc now uns (revoke_inline pc now un w)"

definition create_params :: "connect_env \<Rightarrow> tx_result \<Rightarrow> ms \<Rightarrow> create_user_params" where
  "create_params env tx expiresAt =
     (let proto = np_protocol (tx_node tx) in
      \<lparr>cu_username = tx_panelUsername tx, cu_expireAt = expiresAt, cu_dataLimitBytes = None,
       cu_proxies =
         [(proto,
           if isPasswordProtocol proto
           then \<lparr>pc_id = None, pc_password = Some (tx_credentialRef tx), pc_flow = None\<rparr>
           else \<lparr>pc_id = Some (tx_credentialRef tx), pc_password = None,
                 pc_flow = Some (VLESS_FLOW env)\<rparr>)],
       cu_inboundsByProtocol = [(proto, [np_inboundTag (tx_node tx)])]\<rparr>)"

definition provision ::
  "connect_env \<Rightarrow> 'p panel_client \<Rightarrow> tx_result \<Rightarrow> ms \<Rightarrow> ('p world, unit) prog" where
  "provision env pc tx expiresAt w =
     (case on_panel (createUser pc (create_params env tx expiresAt)) w of
        (Inl e, w1) \<Rightarrow> (Inl e, w1)
      | (Inr _, w1) \<Rightarrow>
          (case on_panel (getUser pc (tx_panelUsername tx)) w1 of
             (Inl e, w2) \<Rightarrow> (Inl e, w2)
           | (Inr stored, w2) \<Rightarrow>
               (case stored of
                  None \<Rightarrow> (Inl (PanelError ''expiry round-trip mismatch'' None False), w2)
                | Some u \<Rightarrow>
                    if expiryMatches (pu_expireAt u) expiresAt then (Inr (), w2)
                    else (Inl (PanelError ''expiry round-trip mismatch'' None False), w2))))"

definition failSession :: "ms \<Rightarrow> id \<Rightarrow> string \<Rightarrow> id \<Rightarrow> db \<Rightarrow> db" where
  "failSession now sessionId un nodeId d =
     (let d1 = d\<lparr>sessions := update_where (\<lambda>s. s_id s = sessionId)
                 (close_session S_failed ''panel_provision_failed'' now) (sessions d)\<rparr>;
          d2 = insert_op now sessionId ''delete_user''
                 (removal un) d1
      in d2\<lparr>nodes := update_where (\<lambda>n. n_id n = nodeId)
              (\<lambda>n. n\<lparr>n_error_streak := n_error_streak n + 1\<rparr>) (nodes d2)\<rparr>)"

section \<open>Phase C: the response\<close>

definition buildPayload ::
  "connect_env \<Rightarrow> crypto \<Rightarrow> enc_random \<Rightarrow> tx_result \<Rightarrow> bytes \<Rightarrow> db \<Rightarrow> exn + encrypted_payload" where
  "buildPayload env C rnd tx clientPubKey d =
     (case endpoint_for (np_nodeId (tx_node tx)) (np_inboundTag (tx_node tx)) d of
        None \<Rightarrow> Inl (ConnectError ''endpoint_unavailable'')
      | Some ep \<Rightarrow>
          encryptFor C rnd
            (buildSingboxConfig
              \<lparr>cp_protocol = np_protocol (tx_node tx), cp_address = ne_address ep,
               cp_port = ne_port ep, cp_uuid = tx_credentialRef tx,
               cp_flow = Some (VLESS_FLOW env), cp_security = ne_security ep\<rparr>)
            (tx_sessionId tx) clientPubKey)"

definition activate :: "ms \<Rightarrow> id \<Rightarrow> db \<Rightarrow> db" where
  "activate now sid d =
     d\<lparr>sessions := update_where (\<lambda>s. s_id s = sid) (\<lambda>s. s\<lparr>s_activated_at := Some now\<rparr>) (sessions d)\<rparr>"

text \<open>
  \<open>now\<close> is the instant of the reads and the transaction, \<open>now'\<close> the one of the
  statements after the panel answered.
\<close>

definition connect ::
  "connect_env \<Rightarrow> crypto \<Rightarrow> 'p panel_client \<Rightarrow> connect_random \<Rightarrow> ms \<Rightarrow> ms \<Rightarrow> id \<Rightarrow> id \<Rightarrow> bytes
    \<Rightarrow> ('p world, connect_result) prog" where
  "connect env C pc rnd now now' userId deviceId clientPubKey w =
     (case resolveTierAndExpiry env now userId (wdb w) of
        (tier, expiresAt, maxConcurrent) \<Rightarrow>
          (case on_db (withTransaction
                  (connect_tx env rnd now userId deviceId clientPubKey tier expiresAt maxConcurrent)) w of
             (Inl e, w1) \<Rightarrow> (Inl e, w1)
           | (Inr tx, w1) \<Rightarrow>
               (case provision env pc tx expiresAt (revoke_all pc now' (tx_revokeUsernames tx) w1) of
                  (Inl _, w2) \<Rightarrow>
                    (Inl (ConnectError ''provision_failed''),
                     w2\<lparr>wdb := failSession now' (tx_sessionId tx) (tx_panelUsername tx)
                           (np_nodeId (tx_node tx)) (wdb w2)\<rparr>)
                | (Inr _, w2) \<Rightarrow>
                    if tier = Premium then
                      (let w3 = w2\<lparr>wdb := activate now' (tx_sessionId tx) (wdb w2)\<rparr>
                       in case buildPayload env C (cr_enc rnd) tx clientPubKey (wdb w3) of
                            Inl e \<Rightarrow> (Inl e, w3)
                          | Inr payload \<Rightarrow>
                              (Inr (PremiumResult (tx_sessionId tx) expiresAt payload), w3))
                    else
                      (Inr (FreeResult (tx_sessionId tx) (the (tx_grantId tx)) (the (tx_nonce tx))
                              (REQUIRED_ADS env) expiresAt), w2))))"

section \<open>The controller\<close>

fun isUniqueViolation :: "exn \<Rightarrow> bool" where
  "isUniqueViolation (PgError code) = (code = sqlstate_unique_violation)"
| "isUniqueViolation _ = False"

fun is_http :: "exn \<Rightarrow> bool" where
  "is_http (NotFoundException _) = True"
| "is_http (ForbiddenException _) = True"
| "is_http (ConflictException _) = True"
| "is_http (UnauthorizedException _) = True"
| "is_http (BadRequestException _) = True"
| "is_http (ServiceUnavailableException _) = True"
| "is_http (InternalServerErrorException _) = True"
| "is_http _ = False"

definition connect_error :: "exn \<Rightarrow> exn" where
  "connect_error e =
     (case e of
        ConnectError reason \<Rightarrow> ServiceUnavailableException reason
      | _ \<Rightarrow>
          if is_http e then e
          else if isUniqueViolation e
          then ConflictException ''a session is already active for this device''
          else ServiceUnavailableException ''connect_failed'')"

text \<open>\<open>attestedKey\<close> is what the AttestedGuard put on the request.\<close>

definition connect_route ::
  "connect_env \<Rightarrow> crypto \<Rightarrow> 'p panel_client \<Rightarrow> connect_random \<Rightarrow> ms \<Rightarrow> ms \<Rightarrow> id \<Rightarrow> id \<Rightarrow> bytes option
    \<Rightarrow> ('p world, connect_result) prog" where
  "connect_route env C pc rnd now now' userId deviceId attestedKey w =
     (case attestedKey of
        None \<Rightarrow> (Inl (BadRequestException ''missing attested key''), w)
      | Some key \<Rightarrow>
          if length key \<noteq> 32 then (Inl (BadRequestException ''missing attested key''), w)
          else (case connect env C pc rnd now now' userId deviceId key w of
                  (Inl e, w1) \<Rightarrow> (Inl (connect_error e), w1)
                | (Inr r, w1) \<Rightarrow> (Inr r, w1)))"

end
