(* ===== verification/Connection_Correct.thy ===== *)
theory Connection_Correct
  imports Connection Samples
begin

text \<open>
  Correctness of the connect flow of Connection: the tier of a user against the rule of
  the database function \<^verbatim>\<open>effective_tier\<close>, the node that is chosen, the effect of the
  transaction, and how every failure ends.
\<close>

section \<open>Tier\<close>

text \<open>The database's own rule (db/schema.sql), which the query claims to mirror.\<close>

definition effective_tier :: "ms \<Rightarrow> id \<Rightarrow> db \<Rightarrow> plan_tier" where
  "effective_tier now userId d =
     (if list_ex (\<lambda>s. sub_user_id s = userId \<and> entitled_status (sub_status s) \<and> period_open now s \<and>
            (case plan_of s d of None \<Rightarrow> False | Some p \<Rightarrow> p_tier p = Premium)) (subscriptions d)
      then Premium else Free)"

lemma premium_rows_set:
  "set (premium_rows now uid d) = {(s, p). s \<in> set (subscriptions d) \<and> plan_of s d = Some p \<and>
     sub_user_id s = uid \<and> p_tier p = Premium \<and> entitled_status (sub_status s) \<and> period_open now s}"
  by (auto simp: premium_rows_def split: option.splits if_splits)

lemma premium_rows_empty: "premium_rows now uid d = [] \<longleftrightarrow> effective_tier now uid d = Free"
proof -
  have "premium_rows now uid d = [] \<longleftrightarrow> set (premium_rows now uid d) = {}" by simp
  also have "\<dots> \<longleftrightarrow> effective_tier now uid d = Free"
    unfolding premium_rows_set
    by (auto simp: effective_tier_def list_ex_iff split: option.splits)
  finally show ?thesis .
qed



section \<open>The effect of the transaction\<close>

abbreviation room :: "ms \<Rightarrow> id \<Rightarrow> int \<Rightarrow> db \<Rightarrow> db" where
  "room now uid mc d \<equiv> displace now (displaced mc (live_sessions uid d)) d"

definition displaced_ids :: "id \<Rightarrow> int \<Rightarrow> db \<Rightarrow> id set" where
  "displaced_ids uid mc d = s_id ` set (displaced mc (live_sessions uid d))"

lemma displace_frame [simp]:
  "grants (displace now rs d) = grants d"
  "rewards (displace now rs d) = rewards d"
  "tokens (displace now rs d) = tokens d"
  "users (displace now rs d) = users d"
  "devices (displace now rs d) = devices d"
  "challenges (displace now rs d) = challenges d"
  "plans (displace now rs d) = plans d"
  "subscriptions (displace now rs d) = subscriptions d"
  "nodes (displace now rs d) = nodes d"
  "inbounds (displace now rs d) = inbounds d"
  "endpoints (displace now rs d) = endpoints d"
  "audit_logs (displace now rs d) = audit_logs d"
  "attempts (displace now rs d) = attempts d"
  by (induction rs arbitrary: d) simp_all

lemma close_session_twice [simp]:
  "close_session st r now (close_session st r now s) = close_session st r now s"
  by (simp add: close_session_def)

lemma update_where_union:
  assumes "\<And>r. f (f r) = f r" and "\<And>r. P2 (f r) = P2 r"
  shows "update_where P2 f (update_where P1 f t) = update_where (\<lambda>r. P1 r \<or> P2 r) f t"
  using assms by (induction t) auto

lemma displace_sessions:
  "sessions (displace now rs d) =
     update_where (\<lambda>s. s_id s \<in> s_id ` set rs) (close_session S_revoked ''concurrency'' now) (sessions d)"
proof (induction rs arbitrary: d)
  case Nil
  then show ?case by (simp add: update_where_none)
next
  case (Cons r rs)
  then show ?case by (simp add: update_where_union)
qed

lemma displace_queued:
  "queued (displace now rs d) =
     queued d \<union> (\<lambda>r. (s_id r, ''revoke_user'', removal (s_panel_username r))) ` set rs"
  by (induction rs arbitrary: d) auto

lemma displace_keys: "keys_ok d \<Longrightarrow> keys_ok (displace now rs d)"
proof (induction rs arbitrary: d)
  case (Cons r rs)
  then show ?case by (simp add: Cons.IH keys_ok_insert_op keys_ok_sessions)
qed simp

lemma displace_next: "next_id d \<le> next_id (displace now rs d)"
proof (induction rs arbitrary: d)
  case (Cons r rs)
  show ?case by (simp, rule order_trans [OF _ Cons.IH]) simp
qed simp

lemma displaced_sub:
  "set (displaced mc (live_sessions uid d)) \<subseteq> {s \<in> set (sessions d). s_user_id s = uid \<and> live s}"
  by (auto simp: displaced_def live_sessions_def dest: in_set_takeD)

interpretation displacement: session_closer
  "room now uid mc"
  "\<lambda>d s. s_id s \<in> displaced_ids uid mc d"
  "close_session S_revoked ''concurrency'' now"
  for now uid mc
proof
  fix d s
  assume d: "keys_ok d" and s: "s \<in> set (sessions d)" and "s_id s \<in> displaced_ids uid mc d"
  then obtain r where r: "r \<in> set (displaced mc (live_sessions uid d))" "s_id r = s_id s"
    by (auto simp: displaced_ids_def)
  have "r \<in> set (sessions d)" using displaced_sub r(1) by fast
  then have "r = s" by (rule table_ok_inj [OF keys_okD(1) [OF d] _ s r(2)])
  with r show "reclaimed (room now uid mc d) s"
    by (auto simp: reclaimed_def removal_op_def displace_queued)
qed (simp_all add: displace_sessions displaced_ids_def displace_queued displace_keys)

lemma live_sessions_length:
  "length (live_sessions uid d) = length (filter (\<lambda>s. s_user_id s = uid \<and> live s) (sessions d))"
  by (simp add: live_sessions_def)

lemma room_length:
  assumes "keys_ok d"
  shows "length (live_sessions uid (room now uid mc d)) =
    length (live_sessions uid d) - length (displaced mc (live_sessions uid d))"
proof -
  let ?L = "live_sessions uid d" and ?X = "displaced mc (live_sessions uid d)"
  let ?t = "filter (\<lambda>s. s_user_id s = uid \<and> live s) (sessions d)"
  have ids: "distinct (map s_id ?t)"
    using keys_okD(1) [OF assms] by (simp add: table_ok_def distinct_map_filter_sub)
  then have "distinct (map s_id ?L)" by (simp add: live_sessions_def distinct_map)
  then have X: "distinct (map s_id ?X)"
    by (simp add: displaced_def flip: take_map)
  have sub: "set (map s_id ?X) \<subseteq> s_id ` set ?t"
    using displaced_sub by fastforce
  have rest: "filter (\<lambda>s. s_user_id s = uid \<and> live s) (sessions (room now uid mc d)) =
      filter (\<lambda>s. s_id s \<notin> set (map s_id ?X)) ?t"
    unfolding displace_sessions by (simp add: filter_dead_update)
  have "length (filter (\<lambda>s. \<not> P s) t) + length (filter P t) = length t" for P and t :: "vpn_session list"
    by (induction t) auto
  from this [of "\<lambda>s. s_id s \<in> set (map s_id ?X)" ?t] length_filter_ids [OF ids X sub] rest
  show ?thesis by (simp add: live_sessions_length)
qed

lemma displaced_length:
  "length (displaced mc L) =
     (if int (length L) \<ge> mc then min (nat (int (length L) - mc + 1)) (length L) else 0)"
  by (simp add: displaced_def min.commute)

text \<open>What a transaction that committed did.\<close>

lemma connect_tx_InrE:
  assumes "connect_tx env rnd now uid did key tier e mc d = (Inr tx, d')"
  obtains node un cred d2 where
    "pickNode tier (room now uid mc d) = Some node" "un = ''s_'' @ base62 (cr_username rnd)"
    "cred = credential_for rnd (np_protocol node)"
    "insert_session (new_session now uid did tier node un cred key e) (room now uid mc d) =
       (Inr (tx_sessionId tx), d2)"
    "tx_panelUsername tx = un" "tx_credentialRef tx = cred" "tx_node tx = node"
    "tx_revokeUsernames tx = map s_panel_username (displaced mc (live_sessions uid d))"
    "if tier = Free then \<exists>gid. tx_grantId tx = Some gid \<and>
        tx_nonce tx = Some (randomUrlToken (cr_nonce rnd)) \<and>
        insert_grant (connect_grant env uid did (tx_sessionId tx) (randomUrlToken (cr_nonce rnd)) e) d2 =
          (Inr gid, d')
     else tx_grantId tx = None \<and> tx_nonce tx = None \<and> d' = d2"
proof -
  let ?un = "''s_'' @ base62 (cr_username rnd)"
  from assms obtain node where node: "pickNode tier (room now uid mc d) = Some node"
    by (auto simp: connect_tx_def Let_def split: option.splits)
  let ?cred = "credential_for rnd (np_protocol node)"
  obtain res d2 where ins: "insert_session (new_session now uid did tier node ?un ?cred key e)
      (room now uid mc d) = (res, d2)" by fastforce
  with node assms obtain sid where sid: "res = Inr sid"
    by (cases res) (auto simp: connect_tx_def Let_def)
  show ?thesis
  proof (cases "tier = Free")
    case True
    obtain res3 d3 where g: "insert_grant (connect_grant env uid did sid
        (randomUrlToken (cr_nonce rnd)) e) d2 = (res3, d3)" by fastforce
    with node assms ins sid True obtain gid where "res3 = Inr gid"
      by (cases res3) (auto simp: connect_tx_def Let_def)
    with node assms ins sid True g show ?thesis
      by (intro that [OF node refl refl, of d2]) (auto simp: connect_tx_def Let_def)
  next
    case False
    with node assms ins sid show ?thesis
      by (intro that [OF node refl refl, of d2]) (auto simp: connect_tx_def Let_def)
  qed
qed

lemma new_session_simps [simp]:
  "s_id (new_session now uid did tier node un cred key e i) = i"
  "s_user_id (new_session now uid did tier node un cred key e i) = uid"
  "s_device_id (new_session now uid did tier node un cred key e i) = did"
  "s_tier (new_session now uid did tier node un cred key e i) = tier"
  "s_panel_username (new_session now uid did tier node un cred key e i) = un"
  "s_credential_ref (new_session now uid did tier node un cred key e i) = cred"
  "s_expires_at (new_session now uid did tier node un cred key e i) = e"
  "s_client_public_key (new_session now uid did tier node un cred key e i) = Some key"
  "live (new_session now uid did tier node un cred key e i)"
  by (simp_all add: new_session_def)

lemma connect_tx_sessions:
  assumes "connect_tx env rnd now uid did key tier e mc d = (Inr tx, d')"
  shows "tx_sessionId tx = next_id (room now uid mc d)"
    "\<exists>s. sessions d' = sessions (room now uid mc d) @ [s] \<and> s_id s = tx_sessionId tx \<and>
       s_user_id s = uid \<and> s_device_id s = did \<and> s_tier s = tier \<and> live s \<and> s_expires_at s = e \<and>
       s_client_public_key s = Some key \<and> s_panel_username s = tx_panelUsername tx \<and>
       s_status s = (if tier = Premium then S_active else S_provisioning)"
    "keys_ok d \<Longrightarrow> keys_ok d'" "ops d' = ops (room now uid mc d)"
    "next_id (room now uid mc d) \<le> next_id d'" "nodes d' = nodes d" "endpoints d' = endpoints d"
    "pickNode tier (room now uid mc d) = Some (tx_node tx)"
  using assms
proof (atomize (full), elim connect_tx_InrE, intro conjI impI)
  fix node un cred d2
  let ?mk = "new_session now uid did tier node un cred key e"
  assume ins: "insert_session ?mk (room now uid mc d) = (Inr (tx_sessionId tx), d2)"
    and un: "tx_panelUsername tx = un" and node: "pickNode tier (room now uid mc d) = Some node" "tx_node tx = node"
    and fin: "if tier = Free then \<exists>gid. tx_grantId tx = Some gid \<and>
        tx_nonce tx = Some (randomUrlToken (cr_nonce rnd)) \<and>
        insert_grant (connect_grant env uid did (tx_sessionId tx) (randomUrlToken (cr_nonce rnd)) e) d2 =
          (Inr gid, d')
      else tx_grantId tx = None \<and> tx_nonce tx = None \<and> d' = d2"
  note d2 = insert_session_Inr(1,2) [OF ins]
  have same: "sessions d' = sessions d2 \<and> ops d' = ops d2 \<and> next_id d2 \<le> next_id d' \<and> nodes d' = nodes d2 \<and>
      endpoints d' = endpoints d2"
  proof (cases "tier = Free")
    case True
    with fin obtain gid where
      "insert_grant (connect_grant env uid did (tx_sessionId tx) (randomUrlToken (cr_nonce rnd)) e) d2 =
        (Inr gid, d')" by auto
    from insert_grant_Inr(2) [OF this] show ?thesis by simp
  qed (use fin in simp)
  show "tx_sessionId tx = next_id (room now uid mc d)" by (rule d2(1))
  show "\<exists>s. sessions d' = sessions (room now uid mc d) @ [s] \<and> s_id s = tx_sessionId tx \<and>
       s_user_id s = uid \<and> s_device_id s = did \<and> s_tier s = tier \<and> live s \<and> s_expires_at s = e \<and>
       s_client_public_key s = Some key \<and> s_panel_username s = tx_panelUsername tx \<and>
       s_status s = (if tier = Premium then S_active else S_provisioning)"
    using same d2 un by (intro exI [of _ "?mk (tx_sessionId tx)"]) (simp add: new_session_def)
  show "ops d' = ops (room now uid mc d)" "next_id (room now uid mc d) \<le> next_id d'" "nodes d' = nodes d"
    "endpoints d' = endpoints d"
    using same d2 by simp_all
  show "pickNode tier (room now uid mc d) = Some (tx_node tx)" using node by simp
  assume "keys_ok d"
  from keys_ok_insert_session [OF displacement.step_keys [OF this] ins] have k2: "keys_ok d2" by simp
  show "keys_ok d'"
  proof (cases "tier = Free")
    case True
    with fin obtain gid where g:
      "insert_grant (connect_grant env uid did (tx_sessionId tx) (randomUrlToken (cr_nonce rnd)) e) d2 =
        (Inr gid, d')" by auto
    from keys_ok_insert_grant [OF k2 g] show ?thesis by (simp add: connect_grant_def)
  qed (use fin k2 in simp)
qed

section \<open>The panel phase\<close>

lemma revoke_inline_frame:
  "outbox_frame (wdb w) (wdb (revoke_inline pc now un w))"
  "map op_core (ops (wdb (revoke_inline pc now un w))) = map op_core (ops (wdb w))"
  by (auto simp: revoke_inline_def on_panel_def outbox_frame_def op_core_def update_where_def
      split: prod.split sum.split)

lemma revoke_all_frame:
  "outbox_frame (wdb w) (wdb (revoke_all pc now uns w)) \<and>
   map op_core (ops (wdb (revoke_all pc now uns w))) = map op_core (ops (wdb w))"
proof (induction uns arbitrary: w)
  case (Cons un uns)
  have "outbox_frame (wdb w) (wdb (revoke_all pc now uns (revoke_inline pc now un w)))"
    using Cons.IH by (blast intro: outbox_frame_trans revoke_inline_frame)
  with Cons.IH show ?case by (simp add: revoke_inline_frame)
qed (simp add: outbox_frame_refl)

lemma provision_wdb: "wdb (snd (provision env pc tx e w)) = wdb w"
  by (simp add: provision_def on_panel_def split: prod.split sum.split option.split)

lemma provision_ok:
  assumes "provision env pc tx e w = (Inr (), w')"
  shows "\<exists>p p' u. getUser pc (tx_panelUsername tx) p = (Inr (Some u), p') \<and>
    expiryMatches (pu_expireAt u) e"
  using assms
  by (auto simp: provision_def on_panel_def split: prod.splits sum.splits option.splits if_splits)

lemma live_sessions_frame:
  assumes "outbox_frame d d'"
  shows "length (live_sessions uid d') = length (live_sessions uid d)"
proof -
  have "length (filter (\<lambda>s. s_user_id s = uid \<and> live s) t) =
      length (filter (\<lambda>s. s_user_id s = uid \<and> live s) (map session_core t))" for t
    by (induction t) auto
  with assms show ?thesis unfolding live_sessions_length outbox_frame_def by metis
qed

lemma session_in_frame:
  assumes "outbox_frame d d'" and "s \<in> set (sessions d)"
  shows "\<exists>s' \<in> set (sessions d'). session_core s' = session_core s"
proof -
  have "map session_core (sessions d) = map session_core (sessions d')"
    using assms(1) by (simp add: outbox_frame_def)
  then show ?thesis using map_eq_member [OF _ assms(2)] by metis
qed

lemma failSession_queued:
  "queued (failSession now sid un nid d) = insert (sid, ''delete_user'', removal un) (queued d)"
  by (simp add: failSession_def Let_def queued_def)

text \<open>The outcome of a connect, by cases.\<close>

lemma connect_cases:
  assumes "resolveTierAndExpiry env now uid (wdb w) = (tier, e, mc)"
  obtains
    (rejected) err where "connect env C pc rnd now now' uid did key w = (Inl err, w)"
      "fst (connect_tx env rnd now uid did key tier e mc (wdb w)) = Inl err"
  | (unprovisioned) tx d1 w2 where
      "connect_tx env rnd now uid did key tier e mc (wdb w) = (Inr tx, d1)"
      "outbox_frame d1 (wdb w2)" "map op_core (ops (wdb w2)) = map op_core (ops d1)"
      "connect env C pc rnd now now' uid did key w = (Inl (ConnectError ''provision_failed''),
         w2\<lparr>wdb := failSession now' (tx_sessionId tx) (tx_panelUsername tx)
               (np_nodeId (tx_node tx)) (wdb w2)\<rparr>)"
  | (free) tx d1 w2 where
      "connect_tx env rnd now uid did key tier e mc (wdb w) = (Inr tx, d1)" "tier = Free"
      "outbox_frame d1 (wdb w2)" "map op_core (ops (wdb w2)) = map op_core (ops d1)"
      "\<exists>p p' u. getUser pc (tx_panelUsername tx) p = (Inr (Some u), p') \<and> expiryMatches (pu_expireAt u) e"
      "connect env C pc rnd now now' uid did key w = (Inr (FreeResult (tx_sessionId tx)
         (the (tx_grantId tx)) (the (tx_nonce tx)) (REQUIRED_ADS env) e), w2)"
  | (premium) tx d1 w2 res where
      "connect_tx env rnd now uid did key tier e mc (wdb w) = (Inr tx, d1)" "tier = Premium"
      "outbox_frame d1 (wdb w2)" "map op_core (ops (wdb w2)) = map op_core (ops d1)"
      "\<exists>p p' u. getUser pc (tx_panelUsername tx) p = (Inr (Some u), p') \<and> expiryMatches (pu_expireAt u) e"
      "connect env C pc rnd now now' uid did key w =
         (res, w2\<lparr>wdb := activate now' (tx_sessionId tx) (wdb w2)\<rparr>)"
      "\<forall>r. res = Inr r \<longrightarrow> (\<exists>pl. r = PremiumResult (tx_sessionId tx) e pl \<and>
         buildPayload env C (cr_enc rnd) tx key (activate now' (tx_sessionId tx) (wdb w2)) = Inr pl)"
proof (cases rule: withTransaction_cases [of "connect_tx env rnd now uid did key tier e mc" "wdb w"])
  case (1 err)
  then show ?thesis
    by (intro rejected [of err]) (simp_all add: connect_def assms on_db_def)
next
  case (2 tx d1)
  let ?w1 = "revoke_all pc now' (tx_revokeUsernames tx) (w\<lparr>wdb := d1\<rparr>)"
  obtain r w2 where p: "provision env pc tx e ?w1 = (r, w2)" by fastforce
  then have "wdb w2 = wdb ?w1" using provision_wdb [of env pc tx e ?w1] by simp
  with revoke_all_frame [of "w\<lparr>wdb := d1\<rparr>" pc now' "tx_revokeUsernames tx"]
  have fr: "outbox_frame d1 (wdb w2)" "map op_core (ops (wdb w2)) = map op_core (ops d1)" by simp_all
  show ?thesis
  proof (cases r)
    case (Inl err)
    with 2 p show ?thesis
      by (intro unprovisioned [OF 2(2) fr]) (simp add: connect_def assms on_db_def)
  next
    case (Inr u)
    with p have ok: "provision env pc tx e ?w1 = (Inr (), w2)" by simp
    show ?thesis
    proof (cases tier)
      case Free
      with 2 ok show ?thesis
        by (intro free [OF 2(2) _ fr provision_ok [OF ok]]) (simp_all add: connect_def assms on_db_def)
    next
      case Premium
      with 2 ok show ?thesis
        by (intro premium [OF 2(2) _ fr provision_ok [OF ok], of "case buildPayload env C (cr_enc rnd)
              tx key (activate now' (tx_sessionId tx) (wdb w2)) of
              Inl x \<Rightarrow> Inl x | Inr pl \<Rightarrow> Inr (PremiumResult (tx_sessionId tx) e pl)"])
          (auto simp: connect_def assms on_db_def Let_def split: sum.splits)
    qed
  qed
qed

lemma resolve_tier:
  "fst (resolveTierAndExpiry env now uid d) = effective_tier now uid d"
proof (cases "premium_rows now uid d = []")
  case True
  with premium_rows_empty [of now uid d] show ?thesis by (simp add: resolveTierAndExpiry_def)
next
  case False
  then have "effective_tier now uid d = Premium"
    using premium_rows_empty by (cases "effective_tier now uid d") auto
  moreover obtain x xs where "sort_key (\<lambda>(s, _). period_rank s) (premium_rows now uid d) = x # xs"
    using False by (metis sort_key_Nil_iff neq_Nil_conv)
  ultimately show ?thesis by (simp add: resolveTierAndExpiry_def split: prod.split)
qed

section \<open>Properties\<close>

text \<open>
  C31. The tier of a connect is the tier of the database rule: the query of the service
  and the SQL function \<^verbatim>\<open>effective_tier\<close> agree on every user at every instant.
\<close>

theorem resolve_tier_effective:
  "fst (resolveTierAndExpiry env now uid d) = effective_tier now uid d"
  by (rule resolve_tier)

text \<open>
  The expiry of a premium session is the period end of an entitled subscription,
  still ahead and the latest of all; only when no entitled subscription has an end is it
  the fallback length from now. The concurrency limit is that of the same plan.
\<close>

theorem premium_expiry:
  assumes "resolveTierAndExpiry env now uid d = (Premium, e, mc)"
  shows "\<exists>s p. (s, p) \<in> set (premium_rows now uid d) \<and> mc = p_max_concurrent_sessions p \<and>
    (case sub_current_period_end s of
       Some t \<Rightarrow> e = t \<and> now < e \<and> (\<forall>(s', p') \<in> set (premium_rows now uid d).
         case sub_current_period_end s' of None \<Rightarrow> True | Some t' \<Rightarrow> t' \<le> e)
     | None \<Rightarrow> e = now + PREMIUM_FALLBACK_TTL_MS env \<and>
         (\<forall>(s', p') \<in> set (premium_rows now uid d). sub_current_period_end s' = None))"
proof -
  obtain s p rest where h: "sort_key (\<lambda>(s, _). period_rank s) (premium_rows now uid d) = (s, p) # rest"
    using assms by (auto simp: resolveTierAndExpiry_def split: list.splits)
  then have e: "e = (case sub_current_period_end s of Some e \<Rightarrow> e | None \<Rightarrow> now + PREMIUM_FALLBACK_TTL_MS env)"
    and mc: "mc = p_max_concurrent_sessions p"
    using assms by (auto simp: resolveTierAndExpiry_def)
  from sort_key_head [OF h] have mem: "(s, p) \<in> set (premium_rows now uid d)"
    and le: "\<forall>(s', p') \<in> set (premium_rows now uid d). period_rank s \<le> period_rank s'" by auto
  from mem have "period_open now s" by (simp add: premium_rows_set)
  with e le show ?thesis
    by (intro exI [of _ s] exI [of _ p])
      (auto simp: mem mc period_rank_def period_open_def split: option.splits)
qed

text \<open>
  A node is only chosen when it may serve: it is online and not drained, its error
  streak is below three, node and inbound are open to the tier, and the inbound has an
  active endpoint; no such pair has a smaller load, or the same load with a smaller error
  streak. Without any such pair nothing is chosen.
\<close>

theorem pickNode_spec:
  "case pickNode tier d of
     None \<Rightarrow> node_candidates tier d = []
   | Some np \<Rightarrow> \<exists>n ni. n \<in> set (nodes d) \<and> ni \<in> set (inbounds d) \<and> ni_node_id ni = n_id n \<and>
       np = \<lparr>np_nodeId = n_id n, np_inboundTag = ni_inbound_tag ni, np_protocol = ni_protocol ni\<rparr> \<and>
       n_status n = N_active \<and> n_is_active n \<and> n_error_streak n < 3 \<and>
       (n_tier n = Premium \<or> ni_tier ni = Premium \<longrightarrow> tier = Premium) \<and>
       (\<exists>ne \<in> set (endpoints d). ne_node_id ne = n_id n \<and> ne_inbound_tag ne = ni_inbound_tag ni \<and>
          ne_is_active ne) \<and>
       (\<forall>c \<in> set (node_candidates tier d). node_rank (n, ni) \<le> node_rank c)"
proof (cases "sort_key node_rank (node_candidates tier d)")
  case Nil
  then show ?thesis by (simp add: pickNode_def)
next
  case (Cons c rest)
  obtain n ni where c: "c = (n, ni)" by (cases c)
  from sort_key_head [OF Cons] c have mem: "(n, ni) \<in> set (node_candidates tier d)"
    and le: "\<forall>c \<in> set (node_candidates tier d). node_rank (n, ni) \<le> node_rank c" by simp_all
  from mem have "n_tier n = Premium \<or> ni_tier ni = Premium \<longrightarrow> tier = Premium"
    by (auto simp: node_candidates_def tier_allowed_def)
  with mem le Cons c show ?thesis
    by (auto simp: pickNode_def node_candidates_def intro!: exI [of _ n] exI [of _ ni])
qed

lemma connect_tx_live:
  assumes "connect_tx env rnd now uid did key tier e mc d = (Inr tx, d')" and "keys_ok d"
  shows "int (length (live_sessions uid d')) \<le> max 1 mc"
proof -
  obtain s where s: "sessions d' = sessions (room now uid mc d) @ [s]" "s_user_id s = uid" "live s"
    using connect_tx_sessions(2) [OF assms(1)] by blast
  then have "length (live_sessions uid d') = length (live_sessions uid (room now uid mc d)) + 1"
    by (simp add: live_sessions_length)
  with room_length [OF assms(2), of uid now mc] show ?thesis
    by (auto simp: displaced_length max_def)
qed

lemma fail_live: "length (live_sessions uid (failSession now sid un nid d)) \<le> length (live_sessions uid d)"
  by (simp add: live_sessions_length failSession_def Let_def filter_dead_update filter_filter
      del: filter_filter)

lemma activate_live: "length (live_sessions uid (activate now sid d)) = length (live_sessions uid d)"
proof -
  have "length (filter (\<lambda>s. s_user_id s = uid \<and> live s)
      (update_where P (\<lambda>s. s\<lparr>s_activated_at := Some now\<rparr>) t)) =
      length (filter (\<lambda>s. s_user_id s = uid \<and> live s) t)" for P t
    by (induction t) auto
  then show ?thesis by (simp add: live_sessions_length activate_def)
qed

text \<open>
  C6. Concurrency: whatever the outcome, a connect either changes nothing or leaves the
  user with at most as many live sessions as the plan allows (and at least one slot for
  the new one): the oldest sessions make room.
\<close>

theorem connect_concurrency:
  assumes "resolveTierAndExpiry env now uid (wdb w) = (tier, e, mc)" and "keys_ok (wdb w)"
  shows "snd (connect env C pc rnd now now' uid did key w) = w \<or>
    int (length (live_sessions uid (wdb (snd (connect env C pc rnd now now' uid did key w))))) \<le> max 1 mc"
  using assms(1)
proof (cases rule: connect_cases [where C = C and pc = pc and rnd = rnd and now' = now' and did = did
      and key = key])
  case (unprovisioned tx d1 w2)
  have "length (live_sessions uid (failSession now' (tx_sessionId tx) (tx_panelUsername tx)
      (np_nodeId (tx_node tx)) (wdb w2))) \<le> length (live_sessions uid d1)"
    using fail_live live_sessions_frame [OF unprovisioned(2)] by metis
  with connect_tx_live [OF unprovisioned(1) assms(2)] unprovisioned(4) show ?thesis by simp
next
  case (free tx d1 w2)
  with connect_tx_live [OF free(1) assms(2)] live_sessions_frame [OF free(3)] show ?thesis by simp
next
  case (premium tx d1 w2 res)
  with connect_tx_live [OF premium(1) assms(2)] live_sessions_frame [OF premium(3)]
  show ?thesis by (simp add: activate_live)
qed simp

text \<open>
  C23. A connect that succeeds is backed by the panel: the panel reported the user of the
  new session with the expiry that was asked for, up to two seconds. The session is in the
  database, live, of the caller and the device, with the user's tier, that expiry and the
  attested key of the request; a free session waits for its ads, a premium one is active.
\<close>

theorem connect_success:
  assumes "connect env C pc rnd now now' uid did key w = (Inr r, w')"
    and "resolveTierAndExpiry env now uid (wdb w) = (tier, e, mc)" and "keys_ok (wdb w)"
  shows "\<exists>s \<in> set (sessions (wdb w')). s_user_id s = uid \<and> s_device_id s = did \<and>
    s_tier s = effective_tier now uid (wdb w) \<and> live s \<and> s_expires_at s = e \<and>
    s_client_public_key s = Some key \<and>
    (\<exists>p p' u. getUser pc (s_panel_username s) p = (Inr (Some u), p') \<and> expiryMatches (pu_expireAt u) e) \<and>
    (case r of PremiumResult sid e' pl \<Rightarrow> sid = s_id s \<and> e' = e \<and> s_tier s = Premium \<and> s_status s = S_active
     | FreeResult sid gid nonce ads e' \<Rightarrow> sid = s_id s \<and> e' = e \<and> s_tier s = Free \<and>
         s_status s = S_provisioning)"
proof -
  have t: "tier = effective_tier now uid (wdb w)"
    using resolve_tier [of env now uid "wdb w"] assms(2) by simp
  have row: "\<exists>s \<in> set (sessions d1). s_id s = tx_sessionId tx \<and> s_user_id s = uid \<and>
      s_device_id s = did \<and> s_tier s = tier \<and> live s \<and> s_expires_at s = e \<and>
      s_client_public_key s = Some key \<and> s_panel_username s = tx_panelUsername tx \<and>
      s_status s = (if tier = Premium then S_active else S_provisioning)"
    if "connect_tx env rnd now uid did key tier e mc (wdb w) = (Inr tx, d1)" for tx d1
    using connect_tx_sessions(2) [OF that] by auto
  show ?thesis
    using assms(2)
  proof (cases rule: connect_cases [where C = C and pc = pc and rnd = rnd and now' = now' and did = did
        and key = key])
    case (free tx d1 w2)
    from row [OF free(1)] obtain s where s: "s \<in> set (sessions d1)" "s_id s = tx_sessionId tx"
      "s_user_id s = uid" "s_device_id s = did" "s_tier s = tier" "live s" "s_expires_at s = e"
      "s_client_public_key s = Some key" "s_panel_username s = tx_panelUsername tx"
      "s_status s = (if tier = Premium then S_active else S_provisioning)" by blast
    obtain s' where s': "s' \<in> set (sessions (wdb w2))" "session_core s' = session_core s"
      using session_in_frame [OF free(3) s(1)] by blast
    note core = session_core_eqD [OF s'(2)]
    show ?thesis using s'(1) s core t free(2,5,6) assms(1) by (intro bexI [of _ s']) auto
  next
    case (premium tx d1 w2 res)
    from row [OF premium(1)] obtain s where s: "s \<in> set (sessions d1)" "s_id s = tx_sessionId tx"
      "s_user_id s = uid" "s_device_id s = did" "s_tier s = tier" "live s" "s_expires_at s = e"
      "s_client_public_key s = Some key" "s_panel_username s = tx_panelUsername tx"
      "s_status s = (if tier = Premium then S_active else S_provisioning)" by blast
    obtain s' where s': "s' \<in> set (sessions (wdb w2))" "session_core s' = session_core s"
      using session_in_frame [OF premium(3) s(1)] by blast
    note core = session_core_eqD [OF s'(2)]
    have "s'\<lparr>s_activated_at := Some now'\<rparr> \<in> set (sessions (activate now' (tx_sessionId tx) (wdb w2)))"
      using s'(1) core(1) s(2) by (auto simp: activate_def set_update_where)
    then show ?thesis using s core t premium(2,5,6,7) assms(1)
      by (intro bexI [of _ "s'\<lparr>s_activated_at := Some now'\<rparr>"]) auto
  qed (use assms(1) in simp_all)
qed

text \<open>The row a connect inserts, and what failing or activating it leaves.\<close>

lemma connect_row:
  assumes "connect_tx env rnd now uid did key tier e mc d = (Inr tx, d1)"
  shows "\<exists>s \<in> set (sessions d1). s_id s = tx_sessionId tx \<and> s_user_id s = uid \<and> s_tier s = tier \<and>
    s_expires_at s = e \<and> s_panel_username s = tx_panelUsername tx \<and>
    s_status s = (if tier = Premium then S_active else S_provisioning) \<and> next_id d \<le> s_id s"
  using connect_tx_sessions(1,2) [OF assms] displace_next by auto

lemma failed_row:
  assumes "s \<in> set (sessions d)"
  shows "\<exists>f \<in> set (sessions (failSession now (s_id s) (s_panel_username s) nid d)).
    s_id f = s_id s \<and> s_user_id f = s_user_id s \<and> s_status f = S_failed \<and> s_panel_username f = s_panel_username s \<and>
    (s_id s, ''delete_user'', removal (s_panel_username s)) \<in> queued (failSession now (s_id s) (s_panel_username s) nid d)"
  using assms
  by (intro bexI [of _ "close_session S_failed ''panel_provision_failed'' now s"])
    (auto simp: failSession_queued, auto simp: failSession_def Let_def set_update_where)

lemma activated_row:
  assumes "s \<in> set (sessions d)"
  shows "s\<lparr>s_activated_at := Some now\<rparr> \<in> set (sessions (activate now (s_id s) d))"
  using assms by (auto simp: activate_def set_update_where)

text \<open>
  C24. A connect that fails fails safe. Either nothing changed; or the panel could not
  provide the user, and then the new session is failed and its panel user is queued for
  deletion; or the session is a premium one that the panel did provide and only the
  payload could not be encrypted, and then the session stays open: the caller gets an
  error and still holds a live session.
\<close>

theorem connect_failure:
  assumes "connect env C pc rnd now now' uid did key w = (Inl err, w')" and "keys_ok (wdb w)"
  shows "w' = w \<or>
    (\<exists>s \<in> set (sessions (wdb w')). s_id s \<ge> next_id (wdb w) \<and> s_user_id s = uid \<and>
       (err = ConnectError ''provision_failed'' \<and> s_status s = S_failed \<and>
          (s_id s, ''delete_user'', removal (s_panel_username s)) \<in> queued (wdb w') \<or>
        s_tier s = Premium \<and> s_status s = S_active \<and>
          (\<exists>p p' u. getUser pc (s_panel_username s) p = (Inr (Some u), p') \<and>
             expiryMatches (pu_expireAt u) (s_expires_at s))))"
proof -
  obtain tier e mc where r: "resolveTierAndExpiry env now uid (wdb w) = (tier, e, mc)"
    by (cases "resolveTierAndExpiry env now uid (wdb w)")
  show ?thesis
    using r
  proof (cases rule: connect_cases [where C = C and pc = pc and rnd = rnd and now' = now' and did = did
        and key = key])
    case rejected
    with assms(1) show ?thesis by simp
  next
    case (unprovisioned tx d1 w2)
    from connect_row [OF unprovisioned(1)] obtain s where s: "s \<in> set (sessions d1)" "s_id s = tx_sessionId tx"
      "s_user_id s = uid" "s_panel_username s = tx_panelUsername tx" "next_id (wdb w) \<le> s_id s" by blast
    obtain s' where s': "s' \<in> set (sessions (wdb w2))" "session_core s' = session_core s"
      using session_in_frame [OF unprovisioned(2) s(1)] by blast
    note core = session_core_eqD [OF s'(2)]
    let ?d = "failSession now' (s_id s') (s_panel_username s') (np_nodeId (tx_node tx)) (wdb w2)"
    obtain f where f: "f \<in> set (sessions ?d)" "s_id f = s_id s'" "s_user_id f = s_user_id s'" "s_status f = S_failed"
      "s_panel_username f = s_panel_username s'"
      "(s_id s', ''delete_user'', removal (s_panel_username s')) \<in> queued ?d"
      using failed_row [OF s'(1)] by blast
    with s core unprovisioned(4) assms(1) show ?thesis by (intro disjI2 bexI [of _ f]) auto
  next
    case (free tx d1 w2)
    with assms(1) show ?thesis by simp
  next
    case (premium tx d1 w2 res)
    from connect_row [OF premium(1)] obtain s where s: "s \<in> set (sessions d1)" "s_id s = tx_sessionId tx"
      "s_user_id s = uid" "s_panel_username s = tx_panelUsername tx" "s_tier s = tier" "s_expires_at s = e"
      "s_status s = (if tier = Premium then S_active else S_provisioning)" "next_id (wdb w) \<le> s_id s"
      by blast
    obtain s' where s': "s' \<in> set (sessions (wdb w2))" "session_core s' = session_core s"
      using session_in_frame [OF premium(3) s(1)] by blast
    note core = session_core_eqD [OF s'(2)]
    from activated_row [OF s'(1), of now'] show ?thesis using s core premium(2,5,6) assms(1)
      by (intro disjI2 bexI [of _ "s'\<lparr>s_activated_at := Some now'\<rparr>"]) auto
  qed
qed

text \<open>
  Password protocols never connect: for an inbound with Trojan or Shadowsocks the
  credential is a token of 24 characters, which the column type \<^verbatim>\<open>uuid\<close> rejects, so the
  transaction aborts and nothing changes.
\<close>

lemma alphabet_alnum: "i < 62 \<Longrightarrow> base62_alphabet ! i \<notin> set ''-{}''"
  using base62_alphabet_alnum [of i] by (auto simp: base62_alphabet_def)

lemma base62_not_uuid: "length bs \<noteq> 32 \<Longrightarrow> \<not> pg_uuid (base62 bs)"
proof -
  assume "length bs \<noteq> 32"
  moreover have "filter (\<lambda>c. c \<notin> set ''-{}'') (base62 bs) = base62 bs"
    using alphabet_alnum by (auto simp: base62_def filter_id_conv)
  ultimately show ?thesis by (simp add: pg_uuid_def Let_def base62_def)
qed

theorem password_protocol_rejected:
  assumes "resolveTierAndExpiry env now uid (wdb w) = (tier, e, mc)"
    and "pickNode tier (room now uid mc (wdb w)) = Some np" and "isPasswordProtocol (np_protocol np)"
    and "length (cr_credential rnd) = 24"
  shows "connect env C pc rnd now now' uid did key w = (Inl (PgError sqlstate_invalid_text), w)"
proof -
  have "\<not> pg_uuid (credential_for rnd (np_protocol np))"
    using assms(3,4) by (simp add: credential_for_def base62_not_uuid)
  then have "connect_tx env rnd now uid did key tier e mc (wdb w) =
      (Inl (PgError sqlstate_invalid_text), room now uid mc (wdb w))"
    using assms(2) by (simp add: connect_tx_def Let_def insert_session_def)
  then show ?thesis by (simp add: connect_def assms(1) on_db_def withTransaction_def)
qed

text \<open>
  The route answers every failure with an HTTP exception: capacity and provisioning
  as 503, a second live session of the device as 409, any other database or panel error as
  503 without its text.
\<close>

theorem connect_route_errors:
  assumes "fst (connect_route env C pc rnd now now' uid did k w) = Inl err"
  shows "is_http err \<and>
    (\<forall>key code. k = Some key \<and> length key = 32 \<and>
       fst (connect env C pc rnd now now' uid did key w) = Inl (PgError code) \<longrightarrow>
       err = (if code = sqlstate_unique_violation
              then ConflictException ''a session is already active for this device''
              else ServiceUnavailableException ''connect_failed'')) \<and>
    (\<forall>key reason. k = Some key \<and> length key = 32 \<and>
       fst (connect env C pc rnd now now' uid did key w) = Inl (ConnectError reason) \<longrightarrow>
       err = ServiceUnavailableException reason)"
  using assms
  by (auto simp: connect_route_def connect_error_def split: option.splits if_splits prod.splits
      sum.splits exn.splits)

section \<open>Witnesses\<close>

text \<open>A user whose only session belongs to another device, and a premium subscription.\<close>

definition free_connect_world :: "sample_panel_state world" where
  "free_connect_world = sample_world\<lparr>wdb := sample_db\<lparr>sessions := [sample_session\<lparr>s_device_id := 9\<rparr>]\<rparr>\<rparr>"

definition premium_sub :: subscription where
  "premium_sub = \<lparr>sub_id = 1, sub_user_id = 1, sub_plan_id = 9, sub_source = Internal,
     sub_status = Sub_active, sub_current_period_start = None,
     sub_current_period_end = Some 900000, sub_updated_at = 0\<rparr>"

definition premium_plan :: plan where
  "premium_plan = \<lparr>p_id = 9, p_code = ''p'', p_tier = Premium, p_max_concurrent_sessions = 3\<rparr>"

definition premium_world :: "sample_panel_state world" where
  "premium_world = free_connect_world\<lparr>wdb := (wdb free_connect_world)
     \<lparr>plans := [sample_plan, premium_plan], subscriptions := [premium_sub]\<rparr>\<rparr>"

definition connect_sample_random :: connect_random where
  "connect_sample_random = \<lparr>cr_username = [1, 2, 3], cr_credential = replicate 24 5,
     cr_uuid = replicate 32 (CHR ''a''), cr_nonce = [7], cr_enc = sample_random\<rparr>"

abbreviation sample_connect where
  "sample_connect pc w \<equiv> connect connect_defaults sample_crypto pc connect_sample_random 1000 1001 1 2
     (replicate 32 0) w"

lemma sample_resolve:
  "resolveTierAndExpiry connect_defaults 1000 1 (wdb free_connect_world) = (Free, 301000, 1)"
  "resolveTierAndExpiry connect_defaults 1000 1 (wdb premium_world) = (Premium, 900000, 3)"
  "keys_ok (wdb free_connect_world)" "keys_ok (wdb premium_world)"
  by code_simp+

theorem premium_expiry_witness: "(1000::int) < 900000 \<and>
    (\<exists>p. (premium_sub, p) \<in> set (premium_rows 1000 1 (wdb premium_world)) \<and> p_max_concurrent_sessions p = 3)"
proof -
  have rows: "premium_rows 1000 1 (wdb premium_world) = [(premium_sub, premium_plan)]" by code_simp
  from premium_expiry [OF sample_resolve(2)] rows show ?thesis
    by (auto simp: premium_sub_def)
qed

theorem connect_concurrency_witness:
  "length (live_sessions 1 (wdb (snd (sample_connect sample_panel free_connect_world)))) \<le> 1"
proof -
  have "next_id (wdb (snd (sample_connect sample_panel free_connect_world))) \<noteq>
      next_id (wdb free_connect_world)" by code_simp
  then have "snd (sample_connect sample_panel free_connect_world) \<noteq> free_connect_world" by metis
  with connect_concurrency [OF sample_resolve(1,3), of sample_crypto sample_panel connect_sample_random
      1001 2 "replicate 32 0"]
  show ?thesis by simp
qed

lemma connect_result_pair: "isl (fst x) = b \<Longrightarrow> (if b then x = (Inl (projl (fst x)), snd x)
    else x = (Inr (projr (fst x)), snd x))"
  by (cases x) (cases "fst x"; auto)

theorem connect_success_witness:
  "\<exists>s \<in> set (sessions (wdb (snd (sample_connect sample_panel premium_world)))).
     s_device_id s = 2 \<and> live s \<and> s_expires_at s = 900000"
proof -
  let ?r = "sample_connect sample_panel premium_world"
  have "isl (fst ?r) = False" by code_simp
  from connect_result_pair [OF this] have "?r = (Inr (projr (fst ?r)), snd ?r)" by simp
  from connect_success [OF this sample_resolve(2,4)]
  show ?thesis by blast
qed

theorem connect_failure_witness:
  "snd (sample_connect broken_panel free_connect_world) = free_connect_world \<or>
   (\<exists>s \<in> set (sessions (wdb (snd (sample_connect broken_panel free_connect_world)))).
     s_id s \<ge> 10 \<and> s_user_id s = 1 \<and> s_status s \<in> {S_failed, S_active})"
proof -
  let ?r = "sample_connect broken_panel free_connect_world"
  have "isl (fst ?r) = True" by code_simp
  from connect_result_pair [OF this] have r: "?r = (Inl (projl (fst ?r)), snd ?r)" by simp
  have "next_id (wdb free_connect_world) = 10" by code_simp
  with connect_failure [OF r sample_resolve(3)] show ?thesis by auto
qed

definition trojan_world :: "sample_panel_state world" where
  "trojan_world = free_connect_world\<lparr>wdb := (wdb free_connect_world)
     \<lparr>inbounds := [sample_inbound\<lparr>ni_protocol := ''trojan''\<rparr>]\<rparr>\<rparr>"

theorem password_protocol_rejected_witness:
  "sample_connect sample_panel trojan_world = (Inl (PgError sqlstate_invalid_text), trojan_world)"
proof (rule password_protocol_rejected [where np =
      "\<lparr>np_nodeId = 3, np_inboundTag = ''in'', np_protocol = ''trojan''\<rparr>"])
  show "resolveTierAndExpiry connect_defaults 1000 1 (wdb trojan_world) = (Free, 301000, 1)"
    by code_simp
  show "pickNode Free (room 1000 1 1 (wdb trojan_world)) =
      Some \<lparr>np_nodeId = 3, np_inboundTag = ''in'', np_protocol = ''trojan''\<rparr>" by code_simp
  show "isPasswordProtocol (np_protocol \<lparr>np_nodeId = 3, np_inboundTag = ''in'', np_protocol = ''trojan''\<rparr>)"
    by code_simp
  show "length (cr_credential connect_sample_random) = 24" by code_simp
qed

theorem connect_route_errors_witness:
  "is_http (ServiceUnavailableException ''connect_failed'') \<and>
   fst (connect_route connect_defaults sample_crypto sample_panel connect_sample_random 1000 1001 1 2
     (Some (replicate 32 0)) trojan_world) = Inl (ServiceUnavailableException ''connect_failed'')"
proof -
  have r: "fst (connect_route connect_defaults sample_crypto sample_panel connect_sample_random 1000 1001
      1 2 (Some (replicate 32 0)) trojan_world) = Inl (ServiceUnavailableException ''connect_failed'')"
    by code_simp
  from connect_route_errors [OF r] r show ?thesis by simp
qed

theorem pickNode_spec_witness:
  "\<exists>n. n \<in> set (nodes sample_db) \<and> n_id n = 3 \<and> n_is_active n \<and> n_status n = N_active \<and>
     n_error_streak n < 3"
proof -
  have "pickNode Free sample_db = Some \<lparr>np_nodeId = 3, np_inboundTag = ''in'', np_protocol = ''vless''\<rparr>"
    by code_simp
  with pickNode_spec [of Free sample_db] show ?thesis by auto
qed

end
