(* ===== verification/Workers.thy ===== *)
theory Workers
  imports Closing Samples
begin

text \<open>
  The two database workers beside the drainer: the session reaper,
  backend/src/workers/reaper.worker.ts (one batch, and the loop over batches, which ends
  for every positive batch size), and the node synchronisation,
  backend/src/workers/node-sync.worker.ts.
\<close>

section \<open>reaper.worker.ts\<close>

text \<open>
  \<^verbatim>\<open>status in (...) and expires_at <= now() order by expires_at for update skip locked
  limit $1\<close>: \<open>locked\<close> holds the rows another transaction has locked.
\<close>

definition lapsed :: "ms \<Rightarrow> vpn_session \<Rightarrow> bool" where
  "lapsed now s \<longleftrightarrow> live s \<and> s_expires_at s \<le> now"

definition reap_ids :: "nat \<Rightarrow> (id \<Rightarrow> bool) \<Rightarrow> ms \<Rightarrow> vpn_session list \<Rightarrow> id list" where
  "reap_ids batch locked now t =
     map s_id (take batch
       (sort_key s_expires_at (filter (\<lambda>s. lapsed now s \<and> \<not> locked (s_id s)) t)))"

definition reap_close :: "ms \<Rightarrow> vpn_session \<Rightarrow> vpn_session" where
  "reap_close now s =
     s\<lparr>s_status := S_expired, s_closed_at := Some now,
       s_close_reason := (case s_close_reason s of None \<Rightarrow> Some ''reaped_expired'' | Some r \<Rightarrow> Some r)\<rparr>"

definition sweepOnce :: "nat \<Rightarrow> (id \<Rightarrow> bool) \<Rightarrow> ms \<Rightarrow> db \<Rightarrow> nat \<times> db" where
  "sweepOnce batch locked now d =
     (let ids = reap_ids batch locked now (sessions d)
      in close_where (\<lambda>s. s_id s \<in> set ids) (reap_close now) ''delete_user'' now d)"

text \<open>
  The loop \<^verbatim>\<open>for (;;)\<close>: \<open>sched i\<close> gives the locks and the instant of the i-th sweep. Not
  returning is \<open>None\<close>.
\<close>

partial_function (option) reap_loop ::
  "nat \<Rightarrow> (nat \<Rightarrow> (id \<Rightarrow> bool) \<times> ms) \<Rightarrow> nat \<Rightarrow> nat \<Rightarrow> db \<Rightarrow> (nat \<times> db) option" where
  "reap_loop batch sched i acc d =
     (let r = sweepOnce batch (fst (sched i)) (snd (sched i)) d
      in if fst r < batch then Some (acc + fst r, snd r)
         else reap_loop batch sched (i + 1) (acc + fst r) (snd r))"

declare reap_loop.simps [code]

definition reap ::
  "nat \<Rightarrow> (nat \<Rightarrow> (id \<Rightarrow> bool) \<times> ms) \<Rightarrow> worker_flags \<times> db \<Rightarrow> (worker_flags \<times> db) option" where
  "reap batch sched fw =
     (case fw of (f, d) \<Rightarrow>
        if running f \<or> shuttingDown f then Some (f, d)
        else map_option (\<lambda>(_, d'). (f\<lparr>running := False\<rparr>, d')) (reap_loop batch sched 0 0 d))"

section \<open>node-sync.worker.ts\<close>

definition online_words :: "string list" where
  "online_words = [''online'', ''connected'', ''active'', ''healthy'', ''running'']"

definition isOnline :: "string \<Rightarrow> bool" where
  "isOnline status =
     (let s = toLowerCase status
      in list_ex (js_includes s) online_words \<and> \<not> js_includes s ''disconn'')"

definition sync_node :: "ms \<Rightarrow> panel_node \<Rightarrow> db \<Rightarrow> db" where
  "sync_node now pn d =
     (let st = (if isOnline (pn_status pn) then N_active else N_disabled)
      in d\<lparr>nodes := update_where (\<lambda>n. n_panel_node_id n = Some (pn_panelNodeId pn))
             (\<lambda>n. n\<lparr>n_status := st, n_last_synced_at := Some now, n_updated_at := now,
                    n_error_streak := (if st = N_active then 0 else n_error_streak n)\<rparr>)
             (nodes d)\<rparr>)"

definition sync ::
  "'p panel_client \<Rightarrow> ms \<Rightarrow> worker_flags \<times> 'p world \<Rightarrow> worker_flags \<times> 'p world" where
  "sync pc now fw =
     (case fw of (f, w) \<Rightarrow>
        if running f \<or> shuttingDown f then (f, w)
        else (case on_panel (listNodes pc) w of
                (Inl _, w1) \<Rightarrow> (f\<lparr>running := False\<rparr>, w1)
              | (Inr pns, w1) \<Rightarrow>
                  (f\<lparr>running := False\<rparr>, w1\<lparr>wdb := fold (sync_node now) pns (wdb w1)\<rparr>)))"

section \<open>The reaper closes sessions\<close>

lemma reap_close_simps [simp]:
  "s_id (reap_close now s) = s_id s"
  "s_panel_username (reap_close now s) = s_panel_username s"
  "s_device_id (reap_close now s) = s_device_id s"
  "s_expires_at (reap_close now s) = s_expires_at s"
  "s_status (reap_close now s) = S_expired"
  by (simp_all add: reap_close_def)

interpretation reaper: session_closer
  "\<lambda>d. snd (sweepOnce batch locked now d)"
  "\<lambda>d s. s_id s \<in> set (reap_ids batch locked now (sessions d))"
  "reap_close now"
  for batch locked now
  unfolding sweepOnce_def Let_def
  by (rule close_where_closer) (simp_all add: removal_op_def)

lemma reap_ids_length: "length (reap_ids batch locked now t) \<le> batch"
  by (simp add: reap_ids_def)

lemma reap_ids_lapsed:
  assumes "distinct (map s_id t)" and "s \<in> set t" and "s_id s \<in> set (reap_ids batch locked now t)"
  shows "lapsed now s"
proof -
  from assms(3) obtain s' where "s' \<in> set t" "s_id s' = s_id s" "lapsed now s'"
    by (auto simp: reap_ids_def dest!: in_set_takeD)
  with assms(1,2) show ?thesis by (metis distinct_map inj_onD)
qed

lemma reap_ids_distinct:
  assumes "distinct (map s_id t)"
  shows "distinct (reap_ids batch locked now t)" "set (reap_ids batch locked now t) \<subseteq> s_id ` set t"
proof -
  let ?l = "sort_key s_expires_at (filter (\<lambda>s. lapsed now s \<and> \<not> locked (s_id s)) t)"
  have "distinct (map s_id ?l)"
    using distinct_map_filter_sub [OF assms] by (simp add: distinct_map)
  then show "distinct (reap_ids batch locked now t)"
    unfolding reap_ids_def by (metis distinct_take take_map)
  show "set (reap_ids batch locked now t) \<subseteq> s_id ` set t"
    by (auto simp: reap_ids_def dest!: in_set_takeD)
qed

text \<open>A sweep closes as many sessions as its batch allows.\<close>

lemma sweep_count:
  assumes "keys_ok d"
  shows "fst (sweepOnce batch locked now d) =
    min batch (length (filter (\<lambda>s. lapsed now s \<and> \<not> locked (s_id s)) (sessions d)))"
proof -
  have "distinct (map s_id (sessions d))"
    using keys_okD(1) [OF assms] by (simp add: table_ok_def)
  from length_filter_ids [OF this reap_ids_distinct [OF this]] show ?thesis
    by (simp add: sweepOnce_def Let_def close_where_count) (simp add: reap_ids_def)
qed

definition live_count :: "db \<Rightarrow> nat" where
  "live_count d = length (filter live (sessions d))"

lemma sweep_live_count:
  assumes "keys_ok d"
  shows "live_count (snd (sweepOnce batch locked now d)) + fst (sweepOnce batch locked now d) =
    live_count d"
proof -
  let ?P = "\<lambda>s. s_id s \<in> set (reap_ids batch locked now (sessions d))"
  have ids: "distinct (map s_id (sessions d))"
    using keys_okD(1) [OF assms] by (simp add: table_ok_def)
  have "filter ?P (sessions d) = filter ?P (filter live (sessions d))"
    using reap_ids_lapsed [OF ids] by (auto simp: lapsed_def intro!: filter_cong)
  then have "fst (sweepOnce batch locked now d) = length (filter ?P (filter live (sessions d)))"
    by (simp add: sweepOnce_def Let_def close_where_count del: filter_filter)
  moreover have "live_count (snd (sweepOnce batch locked now d)) =
      length (filter (\<lambda>s. \<not> ?P s) (filter live (sessions d)))"
    by (simp add: live_count_def sweepOnce_def Let_def filter_dead_update del: filter_filter)
  moreover have "length (filter (\<lambda>s. \<not> ?P s) t) + length (filter ?P t) = length t" for t
    by (induction t) auto
  ultimately show ?thesis by (simp add: live_count_def del: filter_filter)
qed

section \<open>The loop of the reaper\<close>

lemma reap_loop_step:
  "fst (sweepOnce batch (fst (sched i)) (snd (sched i)) d) < batch \<Longrightarrow>
     reap_loop batch sched i acc d =
       Some (acc + fst (sweepOnce batch (fst (sched i)) (snd (sched i)) d),
             snd (sweepOnce batch (fst (sched i)) (snd (sched i)) d))"
  "\<not> fst (sweepOnce batch (fst (sched i)) (snd (sched i)) d) < batch \<Longrightarrow>
     reap_loop batch sched i acc d =
       reap_loop batch sched (i + 1)
         (acc + fst (sweepOnce batch (fst (sched i)) (snd (sched i)) d))
         (snd (sweepOnce batch (fst (sched i)) (snd (sched i)) d))"
  by (subst reap_loop.simps, simp add: Let_def)+

lemma reap_loop_ends:
  assumes "0 < batch" and "keys_ok d"
  shows "\<exists>r. reap_loop batch sched i acc d = Some r"
  using assms(2)
proof (induction "live_count d" arbitrary: i acc d rule: less_induct)
  case less
  let ?r = "sweepOnce batch (fst (sched i)) (snd (sched i)) d"
  show ?case
  proof (cases "fst ?r < batch")
    case False
    with assms(1) sweep_live_count [OF less.prems, of batch "fst (sched i)" "snd (sched i)"]
    have "live_count (snd ?r) < live_count d" by simp
    from less.hyps [OF this reaper.step_keys [OF less.prems]] False show ?thesis
      by (simp add: reap_loop_step(2))
  qed (simp add: reap_loop_step(1))
qed

lemma reap_ids_in_lapsed:
  assumes "distinct (map s_id t)" and "s \<in> set t"
  shows "s_id s \<in> set (map s_id (filter P t)) \<longleftrightarrow> P s"
  using assms by (auto simp: distinct_map inj_on_def)

lemma reap_ids_all:
  assumes "distinct (map s_id t)" and "length (filter (lapsed now) t) < batch" and "s \<in> set t"
  shows "s_id s \<in> set (reap_ids batch (\<lambda>_. False) now t) \<longleftrightarrow> lapsed now s"
proof -
  have "set (reap_ids batch (\<lambda>_. False) now t) = set (map s_id (filter (lapsed now) t))"
    using assms(2) by (simp add: reap_ids_def)
  then show ?thesis using reap_ids_in_lapsed [OF assms(1,3)] by metis
qed

lemma reap_close_not_lapsed [simp]: "\<not> lapsed now (reap_close now s)"
  by (simp add: lapsed_def)

text \<open>With no row locked elsewhere the loop closes exactly the lapsed sessions.\<close>

lemma reap_loop_exact:
  assumes "0 < batch" and "keys_ok d"
  shows "\<exists>d'. reap_loop batch (\<lambda>_. (\<lambda>_. False, now)) i acc d =
      Some (acc + length (filter (lapsed now) (sessions d)), d') \<and>
    sessions d' = update_where (lapsed now) (reap_close now) (sessions d) \<and>
    queued d' = queued d \<union> (\<lambda>s. (s_id s, ''delete_user'', removal (s_panel_username s))) `
      {s \<in> set (sessions d). lapsed now s}"
  using assms(2)
proof (induction "live_count d" arbitrary: i acc d rule: less_induct)
  case less
  let ?r = "sweepOnce batch (\<lambda>_. False) now d"
  let ?P = "\<lambda>s. s_id s \<in> set (reap_ids batch (\<lambda>_. False) now (sessions d))"
  let ?op = "\<lambda>s. (s_id s, ''delete_user'', removal (s_panel_username s))"
  have ids: "distinct (map s_id (sessions d))"
    using keys_okD(1) [OF less.prems] by (simp add: table_ok_def)
  have count: "fst ?r = min batch (length (filter (lapsed now) (sessions d)))"
    using sweep_count [OF less.prems, of batch "\<lambda>_. False" now] by simp
  have sess: "sessions (snd ?r) = update_where ?P (reap_close now) (sessions d)"
    by (rule reaper.step_sessions [OF less.prems])
  have que: "queued (snd ?r) = queued d \<union> ?op ` {s \<in> set (sessions d). ?P s}"
    by (simp add: sweepOnce_def Let_def close_where_queued image_image)
  show ?case
  proof (cases "fst ?r < batch")
    case True
    with count have small: "length (filter (lapsed now) (sessions d)) < batch" by simp
    have "?P s = lapsed now s" if "s \<in> set (sessions d)" for s
      using reap_ids_all [OF ids small that] .
    then have "sessions (snd ?r) = update_where (lapsed now) (reap_close now) (sessions d)"
      and "{s \<in> set (sessions d). ?P s} = {s \<in> set (sessions d). lapsed now s}"
      unfolding sess by (auto intro: update_where_cong)
    with que True count small show ?thesis by (simp add: reap_loop_step(1))
  next
    case False
    have sub: "lapsed now s" if "s \<in> set (sessions d)" "?P s" for s
      using reap_ids_lapsed [OF ids] that by blast
    from False assms(1) sweep_live_count [OF less.prems, of batch "\<lambda>_. False" now]
    have "live_count (snd ?r) < live_count d" by simp
    from less.hyps [OF this reaper.step_keys [OF less.prems], of "i + 1" "acc + fst ?r"]
    obtain d' where d': "reap_loop batch (\<lambda>_. (\<lambda>_. False, now)) (i + 1) (acc + fst ?r) (snd ?r) =
        Some (acc + fst ?r + length (filter (lapsed now) (sessions (snd ?r))), d')"
      "sessions d' = update_where (lapsed now) (reap_close now) (sessions (snd ?r))"
      "queued d' = queued (snd ?r) \<union> ?op ` {s \<in> set (sessions (snd ?r)). lapsed now s}" by blast
    have rest: "filter (lapsed now) (sessions (snd ?r)) =
        filter (\<lambda>s. \<not> ?P s) (filter (lapsed now) (sessions d))"
      unfolding sess by (rule filter_dead_update) simp
    have "length (filter (\<lambda>s. \<not> ?P s) t) + length (filter ?P t) = length t" for t
      by (induction t) auto
    moreover have "filter ?P (filter (lapsed now) (sessions d)) = filter ?P (sessions d)"
      using sub by (auto intro!: filter_cong)
    moreover have "fst ?r = length (filter ?P (sessions d))"
      by (simp add: sweepOnce_def Let_def close_where_count)
    ultimately have len: "fst ?r + length (filter (lapsed now) (sessions (snd ?r))) =
        length (filter (lapsed now) (sessions d))"
      unfolding rest by (metis add.commute)
    have "{s \<in> set (sessions (snd ?r)). lapsed now s} = set (filter (lapsed now) (sessions (snd ?r)))"
      by simp
    also have "\<dots> = {s \<in> set (sessions d). lapsed now s \<and> \<not> ?P s}"
      unfolding rest by auto
    finally have "queued d' = queued d \<union> ?op ` {s \<in> set (sessions d). lapsed now s}"
      unfolding d'(3) que using sub by blast
    moreover have "sessions d' = update_where (lapsed now) (reap_close now) (sessions d)"
      unfolding d'(2) sess by (rule update_where_twice) (simp_all add: sub)
    ultimately show ?thesis
      using d'(1) False len by (auto simp: reap_loop_step(2) add.assoc)
  qed
qed

section \<open>Properties of the reaper\<close>

text \<open>
  C32. A run of the reaper ends, whatever rows are locked and whenever each sweep runs, for
  every positive batch size: a sweep that fills its batch has closed a live session.
\<close>

theorem reap_terminates:
  assumes "0 < batch" and "keys_ok d"
  shows "\<exists>f' d'. reap batch sched (f, d) = Some (f', d')"
  using reap_loop_ends [OF assms, of sched 0 0] by (auto simp: reap_def)

text \<open>
  C14. A run without rival locks closes the lapsed sessions and no other, with status
  expired, and queues the deletion of the panel user of each, and of no other.
\<close>

theorem reap_complete:
  assumes "0 < batch" and "keys_ok d"
  shows "\<exists>d'. reap batch (\<lambda>_. (\<lambda>_. False, now)) (\<lparr>running = False, shuttingDown = False\<rparr>, d) =
      Some (\<lparr>running = False, shuttingDown = False\<rparr>, d') \<and>
    sessions d' = update_where (lapsed now) (reap_close now) (sessions d) \<and>
    queued d' = queued d \<union> (\<lambda>s. (s_id s, ''delete_user'', removal (s_panel_username s))) `
      {s \<in> set (sessions d). lapsed now s} \<and>
    (\<forall>s \<in> set (sessions d'). live s \<longrightarrow> now < s_expires_at s)"
proof -
  obtain d' where d': "reap_loop batch (\<lambda>_. (\<lambda>_. False, now)) 0 0 d =
      Some (0 + length (filter (lapsed now) (sessions d)), d')"
    "sessions d' = update_where (lapsed now) (reap_close now) (sessions d)"
    "queued d' = queued d \<union> (\<lambda>s. (s_id s, ''delete_user'', removal (s_panel_username s))) `
      {s \<in> set (sessions d). lapsed now s}"
    using reap_loop_exact [OF assms] by blast
  have "\<forall>s \<in> set (sessions d'). live s \<longrightarrow> now < s_expires_at s"
    unfolding d'(2) update_where_ball by (simp add: lapsed_def not_le)
  with d' show ?thesis by (simp add: reap_def)
qed

text \<open>
  A batch size of zero, which the environment variable admits, makes the loop run
  forever: every sweep returns 0 rows, and 0 is not below the batch size.
\<close>

lemma reap_loop_positive: "reap_loop batch sched i acc d = Some r \<Longrightarrow> batch \<noteq> 0"
  by (rule reap_loop.raw_induct [where P = "\<lambda>batch _ _ _ _ _. batch \<noteq> 0"])
    (auto simp: Let_def split: if_splits)

theorem reap_zero_batch_diverges:
  "reap 0 sched (\<lparr>running = False, shuttingDown = False\<rparr>, d) = None"
  using reap_loop_positive [of 0 sched 0 0 d]
  by (cases "reap_loop 0 sched 0 0 d") (simp_all add: reap_def)

section \<open>Properties of the node synchronisation\<close>

text \<open>What one listed node does to one row.\<close>

definition sync_row :: "ms \<Rightarrow> panel_node \<Rightarrow> node \<Rightarrow> node" where
  "sync_row now pn n =
     (if n_panel_node_id n = Some (pn_panelNodeId pn)
      then (let st = (if isOnline (pn_status pn) then N_active else N_disabled)
            in n\<lparr>n_status := st, n_last_synced_at := Some now, n_updated_at := now,
                 n_error_streak := (if st = N_active then 0 else n_error_streak n)\<rparr>)
      else n)"

definition admin_fields ::
  "node \<Rightarrow> id \<times> bool \<times> plan_tier \<times> string option \<times> string \<times> string \<times> rat \<times> int" where
  "admin_fields n = (n_id n, n_is_active n, n_tier n, n_panel_node_id n, n_name n,
     n_country_code n, n_current_load n, n_sort_weight n)"

lemma sync_row_admin [simp]: "admin_fields (sync_row now pn n) = admin_fields n"
  by (simp add: sync_row_def admin_fields_def Let_def)

lemma sync_row_panel_id [simp]: "n_panel_node_id (sync_row now pn n) = n_panel_node_id n"
  by (simp add: sync_row_def Let_def)

lemma sync_nodes:
  "nodes (fold (sync_node now) pns d) = map (fold (sync_row now) pns) (nodes d)"
proof (induction pns arbitrary: d)
  case (Cons pn pns)
  have "nodes (sync_node now pn d) = map (sync_row now pn) (nodes d)"
    by (simp add: sync_node_def sync_row_def Let_def update_where_def)
  with Cons show ?case by simp
qed simp

lemma fold_sync_admin: "admin_fields (fold (sync_row now) pns n) = admin_fields n"
  by (induction pns arbitrary: n) simp_all

lemma fold_sync_unlisted:
  "(\<forall>pn \<in> set pns. n_panel_node_id n \<noteq> Some (pn_panelNodeId pn)) \<Longrightarrow> fold (sync_row now) pns n = n"
  by (induction pns) (simp_all add: sync_row_def)

lemma fold_sync_listed:
  assumes "distinct (map pn_panelNodeId pns)" and "pn \<in> set pns"
    and "n_panel_node_id n = Some (pn_panelNodeId pn)"
  shows "fold (sync_row now) pns n = sync_row now pn n"
  using assms
proof (induction pns arbitrary: n)
  case (Cons x pns)
  show ?case
  proof (cases "pn = x")
    case True
    with Cons.prems have "\<forall>y \<in> set pns. n_panel_node_id (sync_row now x n) \<noteq> Some (pn_panelNodeId y)"
      by auto
    from fold_sync_unlisted [OF this] True show ?thesis by simp
  next
    case False
    with Cons.prems have "pn_panelNodeId x \<noteq> pn_panelNodeId pn" by auto
    with Cons.prems(3) have "sync_row now x n = n" by (simp add: sync_row_def)
    with Cons False show ?thesis by simp
  qed
qed simp

text \<open>
  A synchronisation changes no field the administrators own, leaves the nodes the
  panel does not list as they were, and gives every listed node exactly the status its
  report maps to; a report that counts as online also clears the error streak.
\<close>

theorem sync_spec:
  assumes "listNodes pc (wpanel w) = (Inr pns, p')" and "distinct (map pn_panelNodeId pns)"
    and "\<not> running f" and "\<not> shuttingDown f"
  shows "\<exists>g. nodes (wdb (snd (sync pc now (f, w)))) = map g (nodes (wdb w)) \<and>
    (\<forall>n::node. admin_fields (g n) = admin_fields n) \<and>
    (\<forall>n. n_panel_node_id n \<notin> Some ` pn_panelNodeId ` set pns \<longrightarrow> g n = n) \<and>
    (\<forall>n. \<forall>pn \<in> set pns. n_panel_node_id n = Some (pn_panelNodeId pn) \<longrightarrow>
       n_status (g n) = (if isOnline (pn_status pn) then N_active else N_disabled) \<and>
       n_error_streak (g n) = (if isOnline (pn_status pn) then 0 else n_error_streak n))"
proof (intro exI [of _ "fold (sync_row now) pns"] conjI allI ballI impI)
  show "nodes (wdb (snd (sync pc now (f, w)))) = map (fold (sync_row now) pns) (nodes (wdb w))"
    using assms by (simp add: sync_def on_panel_def sync_nodes)
  show "admin_fields (fold (sync_row now) pns n) = admin_fields n" for n
    by (rule fold_sync_admin)
  show "fold (sync_row now) pns n = n" if "n_panel_node_id n \<notin> Some ` pn_panelNodeId ` set pns" for n
    using that by (intro fold_sync_unlisted) auto
  fix n :: node and pn assume "pn \<in> set pns" "n_panel_node_id n = Some (pn_panelNodeId pn)"
  from fold_sync_listed [OF assms(2) this] this(2)
  show "n_status (fold (sync_row now) pns n) = (if isOnline (pn_status pn) then N_active else N_disabled)"
    "n_error_streak (fold (sync_row now) pns n) = (if isOnline (pn_status pn) then 0 else n_error_streak n)"
    by (simp_all add: sync_row_def Let_def)
qed

text \<open>
  The test for an online node looks for a word anywhere in the report, so reports
  that negate the word count as online too: only \<^verbatim>\<open>disconn\<close> is excluded.
\<close>

theorem isOnline_negated_reports:
  "isOnline ''Inactive'' \<and> isOnline ''unhealthy'' \<and> isOnline ''not connected'' \<and>
   isOnline ''connected'' \<and> \<not> isOnline ''disconnected'' \<and> \<not> isOnline ''error''"
  by code_simp

section \<open>Witnesses\<close>

theorem reap_terminates_witness:
  "\<exists>f' d'. reap 500 (\<lambda>i. (\<lambda>x. x = 4, 1000)) (\<lparr>running = False, shuttingDown = False\<rparr>, sample_db) =
     Some (f', d')"
  by (rule reap_terminates) (simp, rule sample_keys_ok)

theorem reap_complete_witness:
  "\<exists>d'. reap 1 (\<lambda>_. (\<lambda>_. False, 300000)) (\<lparr>running = False, shuttingDown = False\<rparr>, sample_db) =
     Some (\<lparr>running = False, shuttingDown = False\<rparr>, d') \<and> map s_status (sessions d') = [S_expired] \<and>
     queued d' = {(4, ''delete_user'', removal ''s_a'')}"
proof -
  have e: "update_where (lapsed 300000) (reap_close 300000) (sessions sample_db) =
      [reap_close 300000 sample_session]"
    "{s \<in> set (sessions sample_db). lapsed 300000 s} = {sample_session}"
    "queued sample_db = {}" "s_id sample_session = 4" "s_panel_username sample_session = ''s_a''"
    by (auto simp: sample_db_def empty_db_def queued_def lapsed_def sample_session_def)
  from reap_complete [of 1 sample_db 300000, OF _ sample_keys_ok] e show ?thesis by auto
qed

theorem sync_spec_witness:
  "\<exists>n. nodes (wdb (snd (sync sample_panel 5000 (\<lparr>running = False, shuttingDown = False\<rparr>,
       sample_world\<lparr>wdb := sample_db\<lparr>nodes := [sample_node\<lparr>n_status := N_disabled,
         n_error_streak := 7\<rparr>]\<rparr>\<rparr>)))) = [n] \<and> n_status n = N_active \<and> n_error_streak n = 0"
proof -
  let ?w = "sample_world\<lparr>wdb := sample_db\<lparr>nodes := [sample_node\<lparr>n_status := N_disabled,
    n_error_streak := 7\<rparr>]\<rparr>\<rparr>"
  let ?pn = "\<lparr>pn_panelNodeId = ''7'', pn_name = ''ams'', pn_status = ''connected'', pn_address = None\<rparr>"
  have "isOnline (pn_status ?pn)" by code_simp
  with sync_spec [of sample_panel ?w "[?pn]" "wpanel ?w" "\<lparr>running = False, shuttingDown = False\<rparr>" 5000]
  show ?thesis by (auto simp: sample_panel_def sample_node_def)
qed

end
