(* ===== verification/Outbox_Correct.thy ===== *)
theory Outbox_Correct
  imports Closing Samples
begin

text \<open>
  Correctness of the outbox drainer of Outbox: an operation moves through an abstract state
  machine which every tick refines, a lease keeps two workers apart, a failure backs off
  within bounds or gives up, and a healthy panel works the backlog off.
\<close>

section \<open>The abstract state machine of an operation\<close>

inductive op_step :: "panel_op_status \<times> nat \<Rightarrow> panel_op_status \<times> nat \<Rightarrow> bool" where
  claims: "st = O_pending \<or> st = O_failed \<or> st = O_in_flight \<Longrightarrow>
     op_step (st, n) (O_in_flight, Suc n)"
| succeeds: "op_step (O_in_flight, n) (O_succeeded, n)"
| fails: "op_step (O_in_flight, n) (O_failed, n)"
| gives_up: "op_step (O_in_flight, n) (O_dead, n)"

inductive_cases op_step_settledE: "op_step (O_succeeded, n) y" "op_step (O_dead, n) y"

definition op_view :: "panel_operation \<Rightarrow> panel_op_status \<times> nat" where
  "op_view r = (o_status r, o_attempts r)"

definition op_moves :: "panel_operation \<Rightarrow> panel_operation \<Rightarrow> bool" where
  "op_moves r r' \<longleftrightarrow> op_core r' = op_core r \<and> op_step\<^sup>*\<^sup>* (op_view r) (op_view r') \<and>
     (r' = r \<or> o_status r \<notin> {O_succeeded, O_dead})"

lemma op_moves_refl: "op_moves r r"
  by (simp add: op_moves_def)

lemma settled_stuck:
  assumes "op_step\<^sup>*\<^sup>* x y" and "fst x \<in> {O_succeeded, O_dead}"
  shows "y = x"
  using assms(1)
  by (cases rule: converse_rtranclpE) (use assms(2) in \<open>auto elim: op_step.cases\<close>)

lemma op_moves_trans: "op_moves a b \<Longrightarrow> op_moves b c \<Longrightarrow> op_moves a c"
  using settled_stuck [of "op_view a" "op_view b"] settled_stuck [of "op_view b" "op_view c"]
  unfolding op_moves_def
  by (smt (verit) fst_conv op_view_def rtranclp_trans)

lemma all2_update:
  assumes "\<And>r. r \<in> set t \<Longrightarrow> P r \<Longrightarrow> R r (f r)" and "\<And>r. R r r"
  shows "list_all2 R t (update_where P f t)"
  using assms by (induction t) auto

lemma all2_trans: "list_all2 op_moves a b \<Longrightarrow> list_all2 op_moves b c \<Longrightarrow> list_all2 op_moves a c"
  by (rule list_all2_trans [of op_moves op_moves op_moves]) (auto intro: op_moves_trans)

lemma claim_moves:
  assumes "distinct (map o_id (ops d))"
  shows "list_all2 op_moves (ops d) (ops (snd (claim env locked now d)))"
proof -
  have "op_moves r (lease env now r)"
    if "r \<in> set (ops d)" "o_id r \<in> set (claim_ids env locked now (ops d))" for r
    using claim_ids_due [OF assms that]
    by (auto simp: op_moves_def op_view_def outbox_simps due_def intro!: r_into_rtranclp claims)
  then show ?thesis
    by (simp add: claim_def Let_def all2_update op_moves_refl)
qed

lemma settle_success_moves: "list_all2 op_moves (ops d) (ops (settle_success now op d))"
  by (auto simp: settle_success_def Let_def op_moves_def op_view_def op_core_def
      intro!: all2_update r_into_rtranclp succeeds)

lemma settle_failure_moves: "list_all2 op_moves (ops d) (ops (settle_failure env now e op d))"
  by (auto simp: settle_failure_def op_moves_def op_view_def op_core_def
      intro!: all2_update r_into_rtranclp fails gives_up)

lemma drain_ops_moves: "list_all2 op_moves (ops (wdb w)) (ops (wdb (drain_ops env pc clk l w)))"
proof (induction l arbitrary: w)
  case Nil
  then show ?case by (simp add: list_all2_same op_moves_refl)
next
  case (Cons op l)
  have "list_all2 op_moves (ops (wdb w)) (ops (wdb (drain_one env pc (clk (o_id op)) op w)))"
    by (rule drain_one_cases [of env pc "clk (o_id op)" op w])
      (simp_all add: settle_success_moves settle_failure_moves)
  with Cons show ?case by (auto intro: all2_trans)
qed

lemma tick_moves:
  assumes "keys_ok (wdb w)"
  shows "list_all2 op_moves (ops (wdb w)) (ops (wdb (tick env pc locked now clk w)))"
proof -
  have "distinct (map o_id (ops (wdb w)))"
    using keys_okD(3) [OF assms] by (simp add: table_ok_def)
  from all2_trans [OF claim_moves [OF this]
      drain_ops_moves [of "w\<lparr>wdb := snd (claim env locked now (wdb w))\<rparr>", simplified]]
  show ?thesis unfolding tick_snd by simp
qed

section \<open>A tick with a healthy panel\<close>

definition completed :: "(id \<Rightarrow> ms) \<Rightarrow> panel_operation \<Rightarrow> panel_operation" where
  "completed clk r = r\<lparr>o_status := O_succeeded, o_completed_at := Some (clk (o_id r))\<rparr>"

lemma completed_simps [simp]:
  "o_id (completed clk r) = o_id r" "o_status (completed clk r) = O_succeeded"
  "o_attempts (completed clk r) = o_attempts r"
  by (simp_all add: completed_def)

lemma settle_success_ops:
  "ops (settle_success (clk (o_id op)) op d) =
     update_where (\<lambda>r. o_id r = o_id op \<and> o_status r = O_in_flight) (completed clk) (ops d)"
  by (auto simp: settle_success_def Let_def update_where_def completed_def)

definition healthy :: "'p panel_client \<Rightarrow> panel_operation \<Rightarrow> bool" where
  "healthy pc op \<longleftrightarrow> (\<forall>p. fst (dispatch pc op p) = Inr ())"

lemma drain_one_healthy:
  assumes "healthy pc op"
  shows "ops (wdb (drain_one env pc (clk (o_id op)) op w)) =
    update_where (\<lambda>r. o_id r = o_id op \<and> o_status r = O_in_flight) (completed clk) (ops (wdb w))"
  using assms
  by (cases rule: drain_one_cases [of env pc "clk (o_id op)" op w])
    (simp_all add: settle_success_ops healthy_def)

lemma drain_ops_healthy:
  assumes "\<forall>op \<in> set l. healthy pc op"
  shows "ops (wdb (drain_ops env pc clk l w)) =
    update_where (\<lambda>r. o_id r \<in> o_id ` set l \<and> o_status r = O_in_flight) (completed clk) (ops (wdb w))"
  using assms
proof (induction l arbitrary: w)
  case Nil
  then show ?case by (simp add: update_where_none)
next
  case (Cons op l)
  have "update_where (\<lambda>r. o_id r \<in> A \<and> o_status r = O_in_flight) (completed clk)
      (update_where (\<lambda>r. o_id r = i \<and> o_status r = O_in_flight) (completed clk) t) =
    update_where (\<lambda>r. (o_id r = i \<or> o_id r \<in> A) \<and> o_status r = O_in_flight) (completed clk) t"
    for A i t by (induction t) auto
  with Cons show ?case by (simp add: drain_one_healthy)
qed

lemma claim_ids_sub: "set (claim_ids env locked now t) \<subseteq> o_id ` set t"
  by (auto simp: claim_ids_def dest: in_set_takeD)

lemma claimed_ids: "o_id ` set (fst (claim env locked now d)) = set (claim_ids env locked now (ops d))"
proof -
  have "o_id ` set (fst (claim env locked now d)) =
      o_id ` {r \<in> set (ops d). o_id r \<in> set (claim_ids env locked now (ops d))}"
    by (simp add: claim_def Let_def returning_set image_image outbox_simps)
  also have "\<dots> = set (claim_ids env locked now (ops d))"
    using claim_ids_sub [of env locked now "ops d"] by auto
  finally show ?thesis .
qed

lemma tick_healthy_ops:
  assumes "\<forall>op \<in> set (fst (claim env locked now (wdb w))). healthy pc op"
  shows "ops (wdb (tick env pc locked now clk w)) =
    update_where (\<lambda>r. o_id r \<in> set (claim_ids env locked now (ops (wdb w))))
      (\<lambda>r. completed clk (lease env now r)) (ops (wdb w))"
proof -
  let ?A = "set (claim_ids env locked now (ops (wdb w)))"
  have "ops (wdb (tick env pc locked now clk w)) =
      update_where (\<lambda>r. o_id r \<in> ?A \<and> o_status r = O_in_flight) (completed clk)
        (update_where (\<lambda>r. o_id r \<in> ?A) (lease env now) (ops (wdb w)))"
    unfolding tick_snd drain_ops_healthy [OF assms] claimed_ids
    by (simp add: claim_def Let_def)
  also have "\<dots> = update_where (\<lambda>r. o_id r \<in> ?A) (\<lambda>r. completed clk (lease env now r)) (ops (wdb w))"
  proof -
    have "update_where (\<lambda>r. o_id r \<in> B \<and> o_status r = O_in_flight) (completed clk)
        (update_where (\<lambda>r. o_id r \<in> B) (lease env now) t) =
      update_where (\<lambda>r. o_id r \<in> B) (\<lambda>r. completed clk (lease env now r)) t" for B t
      by (induction t) (auto simp: outbox_simps)
    then show ?thesis .
  qed
  finally show ?thesis .
qed

lemma claim_ids_distinct:
  assumes "distinct (map o_id t)"
  shows "distinct (claim_ids env locked now t)"
proof -
  have "distinct (map o_id (sort_key (\<lambda>r. (o_next_attempt_at r, o_id r))
      (filter (\<lambda>r. due now r \<and> \<not> locked (o_id r)) t)))"
    using distinct_map_filter_sub [OF assms] by (simp add: distinct_map)
  then show ?thesis
    unfolding claim_ids_def by (metis distinct_take take_map)
qed

section \<open>Properties\<close>

text \<open>
  C13. Every tick refines the abstract machine: no operation is lost, changes its target or
  payload, or leaves the states pending, in flight, succeeded, failed, dead by another way
  than claim, success, failure and giving up; a succeeded or dead operation never changes.
\<close>

theorem tick_refines:
  assumes "keys_ok (wdb w)"
  shows "list_all2 (\<lambda>r r'. op_core r' = op_core r \<and> op_step\<^sup>*\<^sup>* (op_view r) (op_view r') \<and>
      (r' = r \<or> o_status r \<notin> {O_succeeded, O_dead}))
    (ops (wdb w)) (ops (wdb (tick env pc locked now clk w)))"
  using tick_moves [OF assms] by (simp add: op_moves_def [abs_def])

text \<open>
  C21. The lease keeps workers apart: an operation one worker claimed is not claimed by
  another before the lease has passed, and no claim takes more than a batch.
\<close>

theorem claim_exclusive:
  assumes "keys_ok d" and "now' < now + LEASE_MIN env * 60000"
  shows "o_id ` set (fst (claim env locked now d)) \<inter>
      o_id ` set (fst (claim env locked' now' (snd (claim env locked now d)))) = {} \<and>
    length (fst (claim env locked now d)) \<le> BATCH env"
proof
  let ?d1 = "snd (claim env locked now d)" and ?A = "set (claim_ids env locked now (ops d))"
  have ids: "distinct (map o_id (ops d))" "distinct (map o_id (ops ?d1))"
    using keys_okD(3) [OF assms(1)]
    by (simp_all add: table_ok_def claim_def Let_def map_update_where outbox_simps)
  have "o_id r \<notin> ?A" if r: "r \<in> set (ops ?d1)" "o_id r \<in> set (claim_ids env locked' now' (ops ?d1))" for r
  proof
    assume "o_id r \<in> ?A"
    with r(1) have "o_next_attempt_at r = now + LEASE_MIN env * 60000"
      by (auto simp: claim_def Let_def set_update_where outbox_simps)
    with claim_ids_due [OF ids(2) r] assms(2) show False by (simp add: due_def)
  qed
  then show "o_id ` set (fst (claim env locked now d)) \<inter>
      o_id ` set (fst (claim env locked' now' ?d1)) = {}"
    unfolding claimed_ids using claim_ids_sub [of env locked' now' "ops ?d1"] by blast
  have "length (filter (\<lambda>r. o_id r \<in> ?A) (ops d)) = length (claim_ids env locked now (ops d))"
    by (rule length_filter_ids [OF ids(1) claim_ids_distinct [OF ids(1)] claim_ids_sub])
  then show "length (fst (claim env locked now d)) \<le> BATCH env"
    using claim_ids_length [of env locked now "ops d"]
    by (simp add: claim_def Let_def length_returning)
qed

text \<open>
  Progress: when the panel answers, a tick completes every operation it claims, and
  the backlog due at its instant shrinks by a whole batch, or to nothing.
\<close>

theorem tick_drains:
  assumes "keys_ok (wdb w)"
    and "\<forall>op \<in> set (fst (claim env (\<lambda>_. False) now (wdb w))). healthy pc op"
  shows "length (filter (due now) (ops (wdb (tick env pc (\<lambda>_. False) now clk w)))) =
    length (filter (due now) (ops (wdb w))) - BATCH env"
proof -
  let ?t = "ops (wdb w)"
  let ?ids = "claim_ids env (\<lambda>_. False) now ?t"
  have ids: "distinct (map o_id ?t)"
    using keys_okD(3) [OF assms(1)] by (simp add: table_ok_def)
  have rest: "filter (due now) (ops (wdb (tick env pc (\<lambda>_. False) now clk w))) =
      filter (\<lambda>r. o_id r \<notin> set ?ids) (filter (due now) ?t)"
    unfolding tick_healthy_ops [OF assms(2)] by (rule filter_dead_update) (simp add: due_def)
  have same: "filter (\<lambda>r. o_id r \<in> set ?ids) (filter (due now) ?t) = filter (\<lambda>r. o_id r \<in> set ?ids) ?t"
    using claim_ids_due [OF ids] by (auto intro!: filter_cong)
  have "length (filter (\<lambda>r. o_id r \<in> set ?ids) ?t) = length ?ids"
    by (rule length_filter_ids [OF ids claim_ids_distinct [OF ids] claim_ids_sub])
  also have "length ?ids = min (BATCH env) (length (filter (due now) ?t))"
    by (simp add: claim_ids_def min.commute)
  finally have taken: "length (filter (\<lambda>r. o_id r \<in> set ?ids) (filter (due now) ?t)) =
      min (BATCH env) (length (filter (due now) ?t))"
    by (simp only: same)
  have "length (filter (\<lambda>r. \<not> P r) t) + length (filter P t) = length t"
    for P and t :: "panel_operation list" by (induction t) auto
  from this [of "\<lambda>r. o_id r \<in> set ?ids" "filter (due now) ?t"] show ?thesis
    unfolding rest taken by simp
qed

lemma backoff_bounds: "1 \<le> backoffSec n \<and> backoffSec n \<le> 256"
proof -
  have "(2::int) ^ min n 8 \<le> 2 ^ 8" by (rule power_increasing) simp_all
  then show ?thesis by (simp add: backoffSec_def)
qed

text \<open>
  How one operation settles. When the panel accepts it, its row (if still in flight)
  is succeeded. When the panel fails, the row is dead if the error is final or the
  attempts are used up, and otherwise failed with a pause of at least 1 and at most 256
  seconds that doubles with each attempt; the cap of 300 seconds is never reached. Other
  operations stay as they are.
\<close>

theorem drain_one_settles:
  assumes "keys_ok (wdb w)" and "r \<in> set (ops (wdb w))" and "o_id r = o_id op"
    and "o_status r = O_in_flight"
  shows "\<exists>r'. find_row (\<lambda>x. o_id x = o_id op) (ops (wdb (drain_one env pc now op w))) = Some r' \<and>
    (case fst (dispatch pc op (wpanel w)) of
       Inr _ \<Rightarrow> o_status r' = O_succeeded \<and> o_completed_at r' = Some now
     | Inl e \<Rightarrow> o_status r' = (if \<not> retryable e \<or> o_attempts op \<ge> MAX_ATTEMPTS env then O_dead else O_failed) \<and>
         now + 1000 \<le> o_next_attempt_at r' \<and> o_next_attempt_at r' \<le> now + 256000) \<and>
    (\<forall>j. j \<noteq> o_id op \<longrightarrow> find_row (\<lambda>x. o_id x = j) (ops (wdb (drain_one env pc now op w))) =
       find_row (\<lambda>x. o_id x = j) (ops (wdb w)))"
proof -
  let ?P = "\<lambda>r. o_id r = o_id op \<and> o_status r = O_in_flight"
  have f: "find_row (\<lambda>x. o_id x = o_id op) (ops (wdb w)) = Some r"
    using table_ok_find [OF keys_okD(3) [OF assms(1)] assms(2)] assms(3) by simp
  have other: "find_row (\<lambda>x. o_id x = j) (update_where ?P g t) = find_row (\<lambda>x. o_id x = j) t"
    if "j \<noteq> o_id op" "\<And>x. o_id (g x) = o_id x" for j g t
    using that by (induction t) auto
  obtain res p where d: "dispatch pc op (wpanel w) = (res, p)" by fastforce
  show ?thesis
  proof (cases res)
    case (Inl e)
    let ?g = "\<lambda>r. r\<lparr>o_status := (if is_dead env e op then O_dead else O_failed),
      o_last_error := Some (take 500 (exn_message e)),
      o_next_attempt_at := now + backoffSec (o_attempts op) * 1000\<rparr>"
    have o: "ops (wdb (drain_one env pc now op w)) = update_where ?P ?g (ops (wdb w))"
      using d Inl by (simp add: drain_one_def on_panel_def settle_failure_def)
    have "find_row (\<lambda>x. o_id x = o_id op) (update_where ?P ?g (ops (wdb w))) = Some (?g r)"
      using f assms(3,4) by (simp add: find_row_update_where)
    then show ?thesis
      unfolding o d fst_conv using backoff_bounds [of "o_attempts op"] Inl
      by (intro exI [of _ "?g r"] conjI allI impI other) (simp_all add: is_dead_def)
  next
    case (Inr u)
    let ?g = "\<lambda>r. r\<lparr>o_status := O_succeeded, o_completed_at := Some now\<rparr>"
    have o: "ops (wdb (drain_one env pc now op w)) = update_where ?P ?g (ops (wdb w))"
      using d Inr by (simp add: drain_one_def on_panel_def settle_success_def Let_def)
    have "find_row (\<lambda>x. o_id x = o_id op) (update_where ?P ?g (ops (wdb w))) = Some (?g r)"
      using f assms(3,4) by (simp add: find_row_update_where)
    then show ?thesis
      unfolding o d fst_conv using Inr by (intro exI [of _ "?g r"] conjI allI impI other) simp_all
  qed
qed

text \<open>
  The guard \<^verbatim>\<open>and status='in_flight'\<close> does not see who holds the lease: a worker whose
  lease ran out, and whose operation another worker has claimed again (one more attempt),
  still overwrites that row with its own failure.
\<close>

theorem stale_worker_overwrites:
  assumes "keys_ok d" and "op \<in> set (fst (claim env locked now d))"
    and "now + LEASE_MIN env * 60000 \<le> now2"
    and "o_id op \<in> set (claim_ids env locked2 now2 (ops (snd (claim env locked now d))))"
  shows "\<exists>r r'. find_row (\<lambda>x. o_id x = o_id op)
      (ops (snd (claim env locked2 now2 (snd (claim env locked now d))))) = Some r \<and>
    o_attempts r = o_attempts op + 1 \<and> o_status r = O_in_flight \<and>
    find_row (\<lambda>x. o_id x = o_id op)
      (ops (settle_failure env now3 e op (snd (claim env locked2 now2 (snd (claim env locked now d)))))) =
      Some r' \<and> o_status r' \<in> {O_failed, O_dead}"
proof -
  let ?d1 = "snd (claim env locked now d)" and ?d2 = "snd (claim env locked2 now2 (snd (claim env locked now d)))"
  have ids1: "distinct (map o_id (ops ?d1))"
    using keys_okD(3) [OF assms(1)]
    by (simp add: table_ok_def claim_def Let_def map_update_where outbox_simps)
  have "op \<in> set (ops ?d1)"
    using assms(2) by (auto simp: claim_def Let_def returning_set set_update_where)
  with ids1 have f1: "find_row (\<lambda>x. o_id x = o_id op) (ops ?d1) = Some op"
    by (simp add: find_row_unique)
  then have f2: "find_row (\<lambda>x. o_id x = o_id op) (ops ?d2) = Some (lease env now2 op)"
    unfolding claim_def [of env locked2 now2] Let_def using assms(4)
    by (simp add: find_row_update_where outbox_simps)
  then have f3: "find_row (\<lambda>x. o_id x = o_id op) (ops (settle_failure env now3 e op ?d2)) =
      Some ((lease env now2 op)\<lparr>o_status := (if is_dead env e op then O_dead else O_failed),
        o_last_error := Some (take 500 (exn_message e)),
        o_next_attempt_at := now3 + backoffSec (o_attempts op) * 1000\<rparr>)"
    by (simp add: settle_failure_def find_row_update_where outbox_simps)
  show ?thesis
    by (intro exI conjI, rule f2, (simp add: outbox_simps)+, rule f3, simp)
qed

text \<open>
  Operations are not superseded: an older extension that is retried after a newer one
  has reached the panel moves the panel's expiry back, below the expiry of the session in
  the database, and is reported as a success.
\<close>

definition stale_extend :: panel_operation where
  "stale_extend = (new_op 0 4 ''extend_user'' \<lparr>panel_username = ''s_a'', expire_epoch = Some 3900\<rparr> 11)
     \<lparr>o_status := O_failed, o_attempts := 1\<rparr>"

definition newer_extend :: panel_operation where
  "newer_extend = (new_op 0 4 ''extend_user'' \<lparr>panel_username = ''s_a'', expire_epoch = Some 7500\<rparr> 12)
     \<lparr>o_status := O_succeeded\<rparr>"

definition stale_world :: "sample_panel_state world" where
  "stale_world = \<lparr>wdb = sample_db\<lparr>next_id := 13, ops := [stale_extend, newer_extend],
      sessions := [sample_session\<lparr>s_status := S_active, s_expires_at := 7500000\<rparr>]\<rparr>,
    wpanel = [(''s_a'', 7500)]\<rparr>"

theorem stale_extend_moves_back:
  "let w' = tick outbox_defaults sample_panel (\<lambda>_. False) 1000 (\<lambda>_. 1001) stale_world in
   map o_status (ops (wdb w')) = [O_succeeded, O_succeeded] \<and>
   map s_expires_at (sessions (wdb w')) = [7500000] \<and> wpanel w' = [(''s_a'', 3900)]"
  by code_simp

section \<open>Witnesses\<close>

lemma stale_keys: "keys_ok (wdb stale_world)"
  by code_simp

theorem tick_refines_witness:
  "map op_core (ops (wdb (tick outbox_defaults broken_panel (\<lambda>_. False) 1000 (\<lambda>_. 1001) stale_world))) =
     map op_core (ops (wdb stale_world))"
proof -
  have "list_all2 (\<lambda>r r'. op_core r' = op_core r \<and> Q r r') t t' \<Longrightarrow> map op_core t' = map op_core t"
    for Q t t' by (induction rule: list_all2_induct) simp_all
  from this [OF tick_refines [OF stale_keys]] show ?thesis .
qed

theorem claim_exclusive_witness:
  "o_id ` set (fst (claim outbox_defaults (\<lambda>_. False) 1000 (wdb stale_world))) \<inter>
   o_id ` set (fst (claim outbox_defaults (\<lambda>_. False) 100000
     (snd (claim outbox_defaults (\<lambda>_. False) 1000 (wdb stale_world))))) = {}"
  by (rule claim_exclusive [OF stale_keys, THEN conjunct1]) (simp add: outbox_defaults_def)

theorem tick_drains_witness:
  "length (filter (due 1000) (ops (wdb (tick outbox_defaults sample_panel (\<lambda>_. False) 1000 (\<lambda>_. 1001)
     (stale_world\<lparr>wdb := (wdb stale_world)\<lparr>ops := [stale_extend\<lparr>o_op := ''delete_user''\<rparr>]\<rparr>\<rparr>))))) = 0"
proof -
  let ?w = "stale_world\<lparr>wdb := (wdb stale_world)\<lparr>ops := [stale_extend\<lparr>o_op := ''delete_user''\<rparr>]\<rparr>\<rparr>"
  have k: "keys_ok (wdb ?w)" "length (filter (due 1000) (ops (wdb ?w))) = 1"
    "BATCH outbox_defaults = 20" by code_simp+
  have "list_all (\<lambda>op. o_op op = ''delete_user'') (fst (claim outbox_defaults (\<lambda>_. False) 1000 (wdb ?w)))"
    by code_simp
  then have "\<forall>op \<in> set (fst (claim outbox_defaults (\<lambda>_. False) 1000 (wdb ?w))). healthy sample_panel op"
    by (simp add: list_all_iff healthy_def dispatch_def Let_def sample_panel_def)
  from tick_drains [OF k(1) this, of "\<lambda>_. 1001"] k(2,3) show ?thesis by simp
qed

theorem drain_one_settles_witness:
  "\<exists>r'. find_row (\<lambda>x. o_id x = 11) (ops (wdb (drain_one outbox_defaults broken_panel 2000
       (stale_extend\<lparr>o_status := O_in_flight\<rparr>)
       (stale_world\<lparr>wdb := (wdb stale_world)\<lparr>ops := [stale_extend\<lparr>o_status := O_in_flight\<rparr>]\<rparr>\<rparr>)))) = Some r' \<and>
     o_next_attempt_at r' \<le> 258000"
proof -
  let ?op = "stale_extend\<lparr>o_status := O_in_flight\<rparr>"
  let ?w = "stale_world\<lparr>wdb := (wdb stale_world)\<lparr>ops := [?op]\<rparr>\<rparr>"
  have k: "keys_ok (wdb ?w)" "o_id ?op = 11" "o_status ?op = O_in_flight"
    "fst (dispatch broken_panel ?op (wpanel ?w)) = Inl (PanelError ''panel down'' None True)"
    by code_simp+
  have "?op \<in> set (ops (wdb ?w))" by simp
  from drain_one_settles [OF k(1) this refl k(3), of outbox_defaults broken_panel 2000] k(2,4)
  show ?thesis by auto
qed

theorem stale_worker_overwrites_witness:
  "\<exists>r. find_row (\<lambda>x. o_id x = 11)
      (ops (settle_failure outbox_defaults 200000 (JsError []) (lease outbox_defaults 1000 stale_extend)
        (snd (claim outbox_defaults (\<lambda>_. False) 130000
          (snd (claim outbox_defaults (\<lambda>_. False) 1000 (wdb stale_world))))))) = Some r \<and>
    o_status r \<in> {O_failed, O_dead}"
proof -
  have c: "fst (claim outbox_defaults (\<lambda>_. False) 1000 (wdb stale_world)) =
      [lease outbox_defaults 1000 stale_extend]" by code_simp
  have i: "o_id (lease outbox_defaults 1000 stale_extend) = 11" by code_simp
  have m: "11 \<in> set (claim_ids outbox_defaults (\<lambda>_. False) 130000
      (ops (snd (claim outbox_defaults (\<lambda>_. False) 1000 (wdb stale_world)))))" by code_simp
  have l: "1000 + LEASE_MIN outbox_defaults * 60000 \<le> 130000" by code_simp
  from stale_worker_overwrites [OF stale_keys, of "lease outbox_defaults 1000 stale_extend"
      outbox_defaults "\<lambda>_. False" 1000 130000 "\<lambda>_. False" 200000 "JsError []"] c i m l
  show ?thesis by auto
qed

end
