(* ===== verification/Admin.thy ===== *)
theory Admin
  imports Closing Samples "HOL-Library.List_Lexorder" "HOL-Library.Char_ord"
begin

text \<open>
  The administrators' operations, backend/src/admin: the audit trail (audit.service.ts),
  the operations on users, sessions and nodes (admin.service.ts), the guard
  (admin.guard.ts), and the interceptor that audits what is not audited in a transaction
  (audit-log.interceptor.ts). PostgreSQL's parser of \<^verbatim>\<open>inet\<close> values is a parameter.
\<close>

section \<open>audit.service.ts\<close>

record audit_entry =
  ae_adminId :: "id option"
  ae_actionType :: admin_action_type
  ae_targetId :: "id option"
  ae_details :: "json option"
  ae_ip :: "string option"

text \<open>\<^verbatim>\<open>normalizeIp\<close>: an empty text is null, the IPv4-mapped prefix is cut, nothing else is checked.\<close>

definition normalizeIp :: "string option \<Rightarrow> string option" where
  "normalizeIp ip =
     (case ip of
        None \<Rightarrow> None
      | Some s \<Rightarrow>
          if s = [] then None
          else (let v = (if startsWith s ''::ffff:'' then drop 7 s else s)
                in if length v > 0 then Some v else None))"

definition audit_row :: "ms \<Rightarrow> audit_entry \<Rightarrow> id \<Rightarrow> audit_log" where
  "audit_row now e i =
     \<lparr>al_id = i, al_admin_id = ae_adminId e, al_action_type = ae_actionType e,
      al_target_id = ae_targetId e,
      al_details = (case ae_details e of None \<Rightarrow> JObj [] | Some j \<Rightarrow> j),
      al_ip_address = normalizeIp (ae_ip e), al_created_at = now\<rparr>"

text \<open>
  The insert: the column type \<^verbatim>\<open>inet\<close> rejects a text that is no address, the foreign key
  an administrator that does not exist.
\<close>

definition recordInTx :: "(string \<Rightarrow> bool) \<Rightarrow> ms \<Rightarrow> audit_entry \<Rightarrow> (db, unit) prog" where
  "recordInTx inet now e d =
     (let r = audit_row now e (next_id d) in
      if (case al_ip_address r of None \<Rightarrow> False | Some v \<Rightarrow> \<not> inet v)
      then (Inl (PgError sqlstate_invalid_text), d)
      else if (case al_admin_id r of None \<Rightarrow> False
               | Some a \<Rightarrow> \<not> exists_row (\<lambda>u. u_id u = a) (users d))
      then (Inl (PgError sqlstate_foreign_key_violation), d)
      else (Inr (), d\<lparr>audit_logs := audit_logs d @ [r], next_id := next_id d + 1\<rparr>))"

text \<open>The fire-and-forget path swallows every error.\<close>

definition record_audit :: "(string \<Rightarrow> bool) \<Rightarrow> ms \<Rightarrow> audit_entry \<Rightarrow> db \<Rightarrow> db" where
  "record_audit inet now e d = snd (recordInTx inet now e d)"

record audit_query =
  aq_actionType :: "admin_action_type option"
  aq_adminId :: "id option"
  aq_limit :: "int option"
  aq_offset :: "int option"

definition opt_default :: "'a option \<Rightarrow> 'a \<Rightarrow> 'a" where
  "opt_default x y = (case x of None \<Rightarrow> y | Some v \<Rightarrow> v)"

definition audit_matches :: "audit_query \<Rightarrow> audit_log \<Rightarrow> bool" where
  "audit_matches q r \<longleftrightarrow>
     (case aq_actionType q of None \<Rightarrow> True | Some a \<Rightarrow> al_action_type r = a) \<and>
     (case aq_adminId q of None \<Rightarrow> True | Some a \<Rightarrow> al_admin_id r = Some a)"

text \<open>\<^verbatim>\<open>limit n offset m\<close> of a query.\<close>

definition page :: "int \<Rightarrow> int \<Rightarrow> 'a list \<Rightarrow> 'a list" where
  "page n_max off rows = take (nat n_max) (drop (nat off) rows)"

definition audit_list :: "audit_query \<Rightarrow> db \<Rightarrow> nat \<times> audit_log list" where
  "audit_list q d =
     (let n_max = min (max (opt_default (aq_limit q) 50) 1) 200;
          off = max (opt_default (aq_offset q) 0) 0;
          rows = filter (audit_matches q) (audit_logs d)
      in (length rows, page n_max off (sort_key (\<lambda>r. - al_created_at r) rows)))"

section \<open>admin.service.ts: reading\<close>

record admin_actor =
  ac_adminId :: "id option"
  ac_ip :: "string option"

record admin_stats =
  st_activeSessions :: nat
  st_adsWatchedToday :: nat
  st_totalUsers :: nat
  st_premiumUsers :: nat

text \<open>
  The columns of \<^verbatim>\<open>ad_rewards\<close> (db/migrations/0002_time_based_rewards.sql); a query that names
  another column fails with SQLSTATE 42703.
\<close>

definition ad_rewards_columns :: "string list" where
  "ad_rewards_columns = [''id'', ''grant_id'', ''network'', ''transaction_id'', ''ad_unit'', ''reward_item'',
     ''reward_amount'', ''signature_key_id'', ''status'', ''verified_at'', ''raw'']"

definition day_ms :: ms where
  "day_ms = 86400000"

definition ads_today :: "string \<Rightarrow> ms \<Rightarrow> db \<Rightarrow> exn + nat" where
  "ads_today col now d =
     (if col \<in> set ad_rewards_columns
      then Inr (length (filter (\<lambda>r. r_verified_at r \<ge> (now div day_ms) * day_ms) (rewards d)))
      else Inl (PgError ''42703''))"

definition stats :: "ms \<Rightarrow> db \<Rightarrow> exn + admin_stats" where
  "stats now d =
     (case ads_today ''created_at'' now d of
        Inl e \<Rightarrow> Inl e
      | Inr ads \<Rightarrow>
          Inr \<lparr>st_activeSessions = length (filter live (sessions d)),
               st_adsWatchedToday = ads,
               st_totalUsers = length (filter (\<lambda>u. u_status u \<noteq> U_deleted) (users d)),
               st_premiumUsers = length (remdups (map sub_user_id (filter (\<lambda>s.
                 entitled_status (sub_status s) \<and> period_open now s \<and>
                 exists_row (\<lambda>p. p_id p = sub_plan_id s \<and> p_tier p = Premium) (plans d))
                 (subscriptions d))))\<rparr>)"

text \<open>\<^verbatim>\<open>replace(/c/g, rep)\<close> for one character, and the escaping of the search text.\<close>

definition replaceAll :: "char \<Rightarrow> string \<Rightarrow> string \<Rightarrow> string" where
  "replaceAll c rep s = concat (map (\<lambda>x. if x = c then rep else [x]) s)"

definition backslash :: char where
  "backslash = CHR 0x5C"

definition escapeLike :: "string \<Rightarrow> string" where
  "escapeLike s =
     replaceAll (CHR ''_'') [backslash, CHR ''_'']
       (replaceAll (CHR ''%'') [backslash, CHR ''%'']
         (replaceAll backslash [backslash, backslash] s))"

text \<open>SQL \<^verbatim>\<open>LIKE\<close> with the default escape character, and \<^verbatim>\<open>ILIKE\<close> on ASCII.\<close>

function (sequential) like :: "string \<Rightarrow> string \<Rightarrow> bool" where
  "like [] s = (s = [])"
| "like (p # ps) s =
     (if p = CHR ''%'' then like ps s \<or> (case s of [] \<Rightarrow> False | _ # t \<Rightarrow> like (p # ps) t)
      else if p = backslash then
        (case ps of [] \<Rightarrow> False
         | q # qs \<Rightarrow> (case s of [] \<Rightarrow> False | c # t \<Rightarrow> c = q \<and> like qs t))
      else (case s of [] \<Rightarrow> False | c # t \<Rightarrow> (p = CHR ''_'' \<or> c = p) \<and> like ps t))"
  by pat_completeness auto
termination
  by (relation "measure (\<lambda>(p, s). length p + length s)") auto

declare like.simps [simp del]

definition ilike :: "string \<Rightarrow> string \<Rightarrow> bool" where
  "ilike p s = like (toLowerCase p) (toLowerCase s)"

record admin_session_brief =
  sb_id :: id
  sb_status :: session_status
  sb_tier :: plan_tier
  sb_expiresAt :: ms

record admin_user_row =
  au_id :: id
  au_email :: "string option"
  au_isAnonymous :: bool
  au_role :: user_role
  au_isBanned :: bool
  au_status :: user_status
  au_createdAt :: ms
  au_activeSessions :: "admin_session_brief list"

definition mapUserRow :: "db \<Rightarrow> user \<Rightarrow> admin_user_row" where
  "mapUserRow d u =
     \<lparr>au_id = u_id u, au_email = u_email u, au_isAnonymous = u_is_anonymous u, au_role = u_role u,
      au_isBanned = u_is_banned u, au_status = u_status u, au_createdAt = u_created_at u,
      au_activeSessions = map (\<lambda>s. \<lparr>sb_id = s_id s, sb_status = s_status s, sb_tier = s_tier s,
          sb_expiresAt = s_expires_at s\<rparr>)
        (filter (\<lambda>s. s_user_id s = u_id u \<and> live s) (sessions d))\<rparr>"

text \<open>\<^verbatim>\<open>($1::text is null or email ilike '%'||$1||'%')\<close>; a null email matches no pattern.\<close>

definition search_text :: "string option \<Rightarrow> string option" where
  "search_text search =
     (case search of None \<Rightarrow> None
      | Some s \<Rightarrow> if trim s = [] then None else Some (escapeLike (trim s)))"

definition user_matches :: "string option \<Rightarrow> user \<Rightarrow> bool" where
  "user_matches search u \<longleftrightarrow> u_status u \<noteq> U_deleted \<and>
     (case search of None \<Rightarrow> True
      | Some p \<Rightarrow> (case u_email u of None \<Rightarrow> False | Some e \<Rightarrow> ilike (''%'' @ p @ ''%'') e))"

definition listUsers ::
  "string option \<Rightarrow> int option \<Rightarrow> int option \<Rightarrow> db \<Rightarrow> nat \<times> admin_user_row list" where
  "listUsers search limit offset d =
     (let n_max = min (max (opt_default limit 25) 1) 100;
          off = max (opt_default offset 0) 0;
          rows = filter (user_matches (search_text search)) (users d)
      in (length rows, map (mapUserRow d) (page n_max off (sort_key (\<lambda>u. - u_created_at u) rows))))"

text \<open>\<^verbatim>\<open>u.email = $1\<close> on \<^verbatim>\<open>citext\<close> ignores case.\<close>

definition findUserByEmail :: "string \<Rightarrow> db \<Rightarrow> admin_user_row option" where
  "findUserByEmail email d =
     map_option (mapUserRow d)
       (find_row (\<lambda>u. u_status u \<noteq> U_deleted \<and>
          (case u_email u of None \<Rightarrow> False | Some e \<Rightarrow> toLowerCase e = toLowerCase (trim email)))
         (users d))"

record node_health =
  nh_id :: id
  nh_name :: string
  nh_status :: string
  nh_isActive :: bool
  nh_loadPct :: int
  nh_activeConnections :: nat
  nh_countryCode :: string

fun node_status_text :: "node_status \<Rightarrow> string" where
  "node_status_text N_active = ''active''"
| "node_status_text N_draining = ''draining''"
| "node_status_text N_disabled = ''disabled''"

text \<open>\<^verbatim>\<open>order by n.sort_weight, n.name\<close> compares names by their bytes (collation C).\<close>

text \<open>\<^verbatim>\<open>Math.round(load * 100)\<close>; a later panel node of the same id replaces an earlier one in the map.\<close>

definition health_row :: "panel_node list \<Rightarrow> db \<Rightarrow> node \<Rightarrow> node_health" where
  "health_row pns d n =
     \<lparr>nh_id = n_id n, nh_name = n_name n,
      nh_status = (case n_panel_node_id n of
          None \<Rightarrow> node_status_text (n_status n)
        | Some pid \<Rightarrow> (case map_of (rev (map (\<lambda>p. (pn_panelNodeId p, pn_status p)) pns)) pid of
              None \<Rightarrow> node_status_text (n_status n) | Some st \<Rightarrow> st)),
      nh_isActive = n_is_active n, nh_loadPct = \<lfloor>n_current_load n * 100 + 1 / 2\<rfloor>,
      nh_activeConnections = length (filter (\<lambda>s. s_node_id s = n_id n \<and> live s) (sessions d)),
      nh_countryCode = n_country_code n\<rparr>"

definition nodesHealth :: "'p panel_client \<Rightarrow> 'p world \<Rightarrow> (bool \<times> node_health list) \<times> 'p world" where
  "nodesHealth pc w =
     (let d = wdb w; ns = sort_key (\<lambda>n. (n_sort_weight n, n_name n)) (nodes d) in
      case on_panel (listNodes pc) w of
        (Inl _, w1) \<Rightarrow> ((False, map (health_row [] d) ns), w1)
      | (Inr pns, w1) \<Rightarrow> ((True, map (health_row pns d) ns), w1))"

section \<open>admin.service.ts: operations\<close>

record user_changes =
  ch_tier :: "plan_tier option"
  ch_isBanned :: "bool option"

text \<open>The revocation the bulk operations share: every matching live session, one operation each.\<close>

definition revoke_where :: "(vpn_session \<Rightarrow> bool) \<Rightarrow> string \<Rightarrow> ms \<Rightarrow> db \<Rightarrow> nat \<times> db" where
  "revoke_where P reason now d =
     close_where (\<lambda>s. P s \<and> live s) (close_session S_revoked reason now) ''revoke_user'' now d"

definition revokeUserSessions :: "id \<Rightarrow> string \<Rightarrow> ms \<Rightarrow> db \<Rightarrow> nat \<times> db" where
  "revokeUserSessions userId reason now d = revoke_where (\<lambda>s. s_user_id s = userId) reason now d"

definition ADMIN_PLAN :: string where
  "ADMIN_PLAN = ''admin_grant_premium''"

definition ensure_admin_plan :: "db \<Rightarrow> db" where
  "ensure_admin_plan d =
     (if exists_row (\<lambda>p. p_code p = ADMIN_PLAN) (plans d) then d
      else d\<lparr>plans := plans d @ [\<lparr>p_id = next_id d, p_code = ADMIN_PLAN, p_tier = Premium,
               p_max_concurrent_sessions = 3\<rparr>], next_id := next_id d + 1\<rparr>)"

definition internal_grant :: "id \<Rightarrow> id \<Rightarrow> subscription \<Rightarrow> bool" where
  "internal_grant userId planId s \<longleftrightarrow>
     sub_user_id s = userId \<and> sub_source s = Internal \<and> sub_plan_id s = planId \<and>
     entitled_status (sub_status s)"

definition grantInternalPremium :: "int \<Rightarrow> ms \<Rightarrow> id \<Rightarrow> db \<Rightarrow> db" where
  "grantInternalPremium days now userId d =
     (let d1 = ensure_admin_plan d;
          planId = (case find_row (\<lambda>p. p_code p = ADMIN_PLAN) (plans d1) of
                      None \<Rightarrow> 0 | Some p \<Rightarrow> p_id p);
          periodEnd = now + days * day_ms
      in if exists_row (internal_grant userId planId) (subscriptions d1)
         then d1\<lparr>subscriptions := update_where (internal_grant userId planId)
                (\<lambda>s. s\<lparr>sub_current_period_end := Some periodEnd, sub_status := Sub_active,
                       sub_updated_at := now\<rparr>) (subscriptions d1)\<rparr>
         else d1\<lparr>subscriptions := subscriptions d1 @
                [\<lparr>sub_id = next_id d1, sub_user_id = userId, sub_plan_id = planId,
                  sub_source = Internal, sub_status = Sub_active,
                  sub_current_period_start = Some now, sub_current_period_end = Some periodEnd,
                  sub_updated_at = now\<rparr>], next_id := next_id d1 + 1\<rparr>)"

definition expire_internal :: "ms \<Rightarrow> id \<Rightarrow> db \<Rightarrow> db" where
  "expire_internal now userId d =
     d\<lparr>subscriptions := update_where (\<lambda>s. sub_user_id s = userId \<and> sub_source s = Internal \<and>
           exists_row (\<lambda>p. p_id p = sub_plan_id s \<and> p_tier p = Premium) (plans d) \<and>
           entitled_status (sub_status s))
         (\<lambda>s. s\<lparr>sub_status := Sub_expired, sub_updated_at := now\<rparr>) (subscriptions d)\<rparr>"

definition ban_tx :: "(string \<Rightarrow> bool) \<Rightarrow> ms \<Rightarrow> admin_actor \<Rightarrow> id \<Rightarrow> bool option \<Rightarrow> (db, nat) prog" where
  "ban_tx inet now actor userId isBanned d =
     (case isBanned of
        None \<Rightarrow> (Inr 0, d)
      | Some b \<Rightarrow>
          (let d1 = d\<lparr>users := update_where (\<lambda>u. u_id u = userId)
                      (\<lambda>u. u\<lparr>u_is_banned := b, u_updated_at := now\<rparr>) (users d)\<rparr>
           in if \<not> b then (Inr 0, d1)
              else (case revokeUserSessions userId ''banned'' now d1 of
                      (revoked, d2) \<Rightarrow>
                        (case recordInTx inet now
                            \<lparr>ae_adminId = ac_adminId actor, ae_actionType = BAN_USER,
                             ae_targetId = Some userId,
                             ae_details = Some (JObj [(''revokedSessions'', JNum (int revoked))]),
                             ae_ip = ac_ip actor\<rparr> d2 of
                           (Inl e, d3) \<Rightarrow> (Inl e, d3)
                         | (Inr _, d3) \<Rightarrow> (Inr revoked, d3)))))"

definition set_tier :: "int \<Rightarrow> ms \<Rightarrow> id \<Rightarrow> plan_tier option \<Rightarrow> db \<Rightarrow> db" where
  "set_tier days now userId t d =
     (case t of
        None \<Rightarrow> d
      | Some Premium \<Rightarrow> grantInternalPremium days now userId d
      | Some Free \<Rightarrow> expire_internal now userId d)"

definition mutateUser ::
  "int \<Rightarrow> (string \<Rightarrow> bool) \<Rightarrow> ms \<Rightarrow> id \<Rightarrow> user_changes \<Rightarrow> admin_actor \<Rightarrow> (db, nat) prog" where
  "mutateUser days inet now userId changes actor =
     withTransaction (\<lambda>d.
       if \<not> exists_row (\<lambda>u. u_id u = userId) (users d)
       then (Inl (NotFoundException ''user not found''), d)
       else (case ban_tx inet now actor userId (ch_isBanned changes) d of
               (Inl e, d1) \<Rightarrow> (Inl e, d1)
             | (Inr revoked, d1) \<Rightarrow> (Inr revoked, set_tier days now userId (ch_tier changes) d1)))"

definition enqueueRevoke :: "ms \<Rightarrow> id \<Rightarrow> string \<Rightarrow> db \<Rightarrow> db" where
  "enqueueRevoke now sessionId un d = insert_op now sessionId ''revoke_user'' (removal un) d"

definition kickSession :: "ms \<Rightarrow> id \<Rightarrow> (db, unit) prog" where
  "kickSession now sessionId =
     withTransaction (\<lambda>d.
       case find_row (\<lambda>s. s_id s = sessionId) (sessions d) of
         None \<Rightarrow> (Inl (NotFoundException ''session not found''), d)
       | Some row \<Rightarrow>
           if \<not> live row then (Inr (), d)
           else (Inr (), enqueueRevoke now sessionId (s_panel_username row)
                   (d\<lparr>sessions := update_where (\<lambda>s. s_id s = sessionId)
                        (close_session S_revoked ''admin_kick'' now) (sessions d)\<rparr>)))"

definition panicRevokeFreeSessions ::
  "(string \<Rightarrow> bool) \<Rightarrow> ms \<Rightarrow> admin_actor \<Rightarrow> (db, nat) prog" where
  "panicRevokeFreeSessions inet now actor =
     withTransaction (\<lambda>d.
       case revoke_where (\<lambda>s. s_tier s = Free) ''panic_revoke_free'' now d of
         (revoked, d1) \<Rightarrow>
           (case recordInTx inet now
               \<lparr>ae_adminId = ac_adminId actor, ae_actionType = PANIC_FREE_SESSIONS,
                ae_targetId = None, ae_details = Some (JObj [(''revoked'', JNum (int revoked))]),
                ae_ip = ac_ip actor\<rparr> d1 of
              (Inl e, d2) \<Rightarrow> (Inl e, d2)
            | (Inr _, d2) \<Rightarrow> (Inr revoked, d2)))"

definition set_active :: "ms \<Rightarrow> id \<Rightarrow> bool \<Rightarrow> db \<Rightarrow> db" where
  "set_active now nodeId b d =
     d\<lparr>nodes := update_where (\<lambda>n. n_id n = nodeId)
         (\<lambda>n. n\<lparr>n_is_active := b, n_updated_at := now\<rparr>) (nodes d)\<rparr>"

definition setNodeActive :: "ms \<Rightarrow> id \<Rightarrow> bool \<Rightarrow> (db, bool) prog" where
  "setNodeActive now nodeId isActive d =
     (if \<not> exists_row (\<lambda>n. n_id n = nodeId) (nodes d)
      then (Inl (NotFoundException ''node not found''), d)
      else (Inr isActive, set_active now nodeId isActive d))"

definition forceMigrateNode ::
  "(string \<Rightarrow> bool) \<Rightarrow> ms \<Rightarrow> id \<Rightarrow> admin_actor \<Rightarrow> (db, nat) prog" where
  "forceMigrateNode inet now nodeId actor =
     withTransaction (\<lambda>d.
       if \<not> exists_row (\<lambda>n. n_id n = nodeId) (nodes d)
       then (Inl (NotFoundException ''node not found''), d)
       else (case revoke_where (\<lambda>s. s_node_id s = nodeId) ''force_migrate'' now
                    (set_active now nodeId False d) of
               (evicted, d1) \<Rightarrow>
                 (case recordInTx inet now
                     \<lparr>ae_adminId = ac_adminId actor, ae_actionType = FORCE_MIGRATE_NODE,
                      ae_targetId = Some nodeId,
                      ae_details = Some (JObj [(''evicted'', JNum (int evicted))]),
                      ae_ip = ac_ip actor\<rparr> d1 of
                    (Inl e, d2) \<Rightarrow> (Inl e, d2)
                  | (Inr _, d2) \<Rightarrow> (Inr evicted, d2))))"

section \<open>admin.guard.ts\<close>

definition adminGuard :: "id option \<Rightarrow> db \<Rightarrow> exn + unit" where
  "adminGuard userId d =
     (case userId of
        None \<Rightarrow> Inl (ForbiddenException ''unauthenticated'')
      | Some uid \<Rightarrow>
          (case find_row (\<lambda>u. u_id u = uid) (users d) of
             None \<Rightarrow> Inl (ForbiddenException ''admin access required'')
           | Some u \<Rightarrow>
               if u_is_banned u \<or> u_status u \<noteq> U_active \<or> u_role u \<noteq> Role_admin
               then Inl (ForbiddenException ''admin access required'')
               else Inr ()))"

section \<open>audit-log.interceptor.ts\<close>

record request_body =
  rb_isBanned :: "bool option"
  rb_tier :: "string option"
  rb_isActive :: "bool option"

definition opt_field :: "string \<Rightarrow> json option \<Rightarrow> (string \<times> json) list" where
  "opt_field k v = (case v of None \<Rightarrow> [] | Some j \<Rightarrow> [(k, j)])"

text \<open>One inferred entry: action, target, details.\<close>

type_synonym inferred = "admin_action_type \<times> id option \<times> json"

definition infer :: "string \<Rightarrow> id option \<Rightarrow> request_body \<Rightarrow> json \<Rightarrow> inferred list" where
  "infer handlerName target b result =
     (if handlerName = ''kick'' then [(KICK_SESSION, target, JObj [(''result'', result)])]
      else if handlerName = ''setNodeStatus'' then
        [(SET_NODE_STATUS, target,
          JObj (opt_field ''isActive'' (map_option JBool (rb_isActive b)) @ [(''result'', result)]))]
      else if handlerName = ''panic'' then []
      else if handlerName = ''forceMigrate'' then []
      else if handlerName = ''mutate'' then
        (if rb_isBanned b = Some False then [(UNBAN_USER, target, JObj [(''result'', result)])] else []) @
        (case rb_tier b of
           None \<Rightarrow> []
         | Some t \<Rightarrow> if t = [] then []
                     else [(CHANGE_TIER, target, JObj [(''tier'', JStr t), (''result'', result)])])
      else [])"

definition MUTATING :: "string list" where
  "MUTATING = [''POST'', ''PUT'', ''DELETE'', ''PATCH'']"

text \<open>What the interceptor writes once the handler has returned \<open>result\<close>.\<close>

definition intercept ::
  "(string \<Rightarrow> bool) \<Rightarrow> ms \<Rightarrow> string \<Rightarrow> string \<Rightarrow> id option \<Rightarrow> string option \<Rightarrow> id option
    \<Rightarrow> request_body \<Rightarrow> json \<Rightarrow> db \<Rightarrow> db" where
  "intercept inet now method handlerName adminId ip target b result d =
     (if method \<notin> set MUTATING then d
      else fold (\<lambda>(a, t, j). record_audit inet now
             \<lparr>ae_adminId = adminId, ae_actionType = a, ae_targetId = t, ae_details = Some j, ae_ip = ip\<rparr>)
           (infer handlerName target b result) d)"

section \<open>admin.controller.ts\<close>

text \<open>
  The mutating routes: the guard reads the database, the handler runs, the interceptor
  audits a success. A route is given by its handler's name, method, target and body.
\<close>

definition admin_route ::
  "(string \<Rightarrow> bool) \<Rightarrow> ms \<Rightarrow> id option \<Rightarrow> string option \<Rightarrow> string \<Rightarrow> string \<Rightarrow> id option \<Rightarrow> request_body
    \<Rightarrow> ('a \<Rightarrow> json) \<Rightarrow> (db, 'a) prog \<Rightarrow> (db, 'a) prog" where
  "admin_route inet now adminId ip method name target b tojson handler d =
     (case adminGuard adminId d of
        Inl e \<Rightarrow> (Inl e, d)
      | Inr _ \<Rightarrow>
          (case handler d of
             (Inl e, d1) \<Rightarrow> (Inl e, d1)
           | (Inr r, d1) \<Rightarrow>
               (Inr r, intercept inet now method name adminId ip target b (tojson r) d1)))"

definition parse_tier :: "string option \<Rightarrow> plan_tier option" where
  "parse_tier t = (if t = Some ''free'' then Some Free else if t = Some ''premium'' then Some Premium else None)"

definition mutate_route ::
  "int \<Rightarrow> (string \<Rightarrow> bool) \<Rightarrow> ms \<Rightarrow> id option \<Rightarrow> string option \<Rightarrow> id \<Rightarrow> request_body \<Rightarrow> (db, nat) prog" where
  "mutate_route days inet now adminId ip userId b =
     admin_route inet now adminId ip ''POST'' ''mutate'' (Some userId) b
       (\<lambda>n. JObj [(''ok'', JBool True), (''revokedSessions'', JNum (int n))])
       (mutateUser days inet now userId
         \<lparr>ch_tier = parse_tier (rb_tier b), ch_isBanned = rb_isBanned b\<rparr>
         \<lparr>ac_adminId = adminId, ac_ip = ip\<rparr>)"

definition no_body :: request_body where
  "no_body = \<lparr>rb_isBanned = None, rb_tier = None, rb_isActive = None\<rparr>"

definition kick_route ::
  "(string \<Rightarrow> bool) \<Rightarrow> ms \<Rightarrow> id option \<Rightarrow> string option \<Rightarrow> id \<Rightarrow> (db, unit) prog" where
  "kick_route inet now adminId ip sid =
     admin_route inet now adminId ip ''POST'' ''kick'' (Some sid) no_body
       (\<lambda>_. JObj [(''ok'', JBool True)]) (kickSession now sid)"

definition node_status_route ::
  "(string \<Rightarrow> bool) \<Rightarrow> ms \<Rightarrow> id option \<Rightarrow> string option \<Rightarrow> id \<Rightarrow> bool \<Rightarrow> (db, bool) prog" where
  "node_status_route inet now adminId ip nid isActive =
     admin_route inet now adminId ip ''PATCH'' ''setNodeStatus'' (Some nid)
       (no_body\<lparr>rb_isActive := Some isActive\<rparr>)
       (\<lambda>b. JObj [(''ok'', JBool True), (''isActive'', JBool b)]) (setNodeActive now nid isActive)"

definition migrate_route ::
  "(string \<Rightarrow> bool) \<Rightarrow> ms \<Rightarrow> id option \<Rightarrow> string option \<Rightarrow> id \<Rightarrow> (db, nat) prog" where
  "migrate_route inet now adminId ip nid =
     admin_route inet now adminId ip ''POST'' ''forceMigrate'' (Some nid) no_body
       (\<lambda>n. JObj [(''ok'', JBool True), (''evicted'', JNum (int n))])
       (forceMigrateNode inet now nid \<lparr>ac_adminId = adminId, ac_ip = ip\<rparr>)"

definition panic_route ::
  "(string \<Rightarrow> bool) \<Rightarrow> ms \<Rightarrow> id option \<Rightarrow> string option \<Rightarrow> (db, nat) prog" where
  "panic_route inet now adminId ip =
     admin_route inet now adminId ip ''POST'' ''panic'' None no_body
       (\<lambda>n. JObj [(''ok'', JBool True), (''revoked'', JNum (int n))])
       (panicRevokeFreeSessions inet now \<lparr>ac_adminId = adminId, ac_ip = ip\<rparr>)"

end
