(* ===== verification/Admin_Correct.thy ===== *)
theory Admin_Correct
  imports Admin Connection_Correct
begin

text \<open>
  Correctness of the administrators' operations of Admin: the search text is matched
  literally, the destructive operations are atomic with their audit row and meet the
  contract of closing sessions, and every audited action is recorded exactly once.
\<close>

section \<open>The search text\<close>

definition esc :: "char \<Rightarrow> string" where
  "esc c = (if c = CHR ''%'' \<or> c = CHR ''_'' \<or> c = backslash then [backslash, c] else [c])"

lemma backslash_neq [simp]: "backslash \<noteq> CHR ''%''" "backslash \<noteq> CHR ''_''"
  "CHR ''%'' \<noteq> backslash" "CHR ''_'' \<noteq> backslash"
  by (simp_all add: backslash_def)

lemma escapeLike_esc: "escapeLike s = concat (map esc s)"
  by (induction s) (auto simp: escapeLike_def replaceAll_def esc_def)

lemma like_Nil [simp]: "like [] s = (s = [])"
  by (simp add: like.simps)

lemma like_percent: "like (CHR ''%'' # p) s \<longleftrightarrow> (\<exists>u v. s = u @ v \<and> like p v)"
proof (induction s)
  case Nil
  then show ?case by (simp add: like.simps(2) [of _ p])
next
  case (Cons c s)
  have "like (CHR ''%'' # p) (c # s) \<longleftrightarrow> like p (c # s) \<or> like (CHR ''%'' # p) s"
    by (simp add: like.simps(2) [of _ p])
  also have "\<dots> \<longleftrightarrow> (\<exists>u v. c # s = u @ v \<and> like p v)"
    unfolding Cons.IH by (metis append_Cons append_Nil append_eq_Cons_conv)
  finally show ?case .
qed

lemma like_esc: "like (esc c @ p) s \<longleftrightarrow> (\<exists>t. s = c # t \<and> like p t)"
  by (cases s) (auto simp: esc_def like.simps(2))

lemma like_escaped: "like (concat (map esc q) @ p) s \<longleftrightarrow> (\<exists>t. s = q @ t \<and> like p t)"
  by (induction q arbitrary: s) (auto simp: like_esc)

lemma like_contains: "like (CHR ''%'' # escapeLike q @ ''%'') s \<longleftrightarrow> js_includes s q"
proof -
  have "like ''%'' t" for t by (auto simp: like_percent)
  then show ?thesis
    unfolding like_percent escapeLike_esc like_escaped includes_iff by auto
qed

lemma toLowerChar_special:
  assumes "(of_char x :: nat) < 97" and "\<not> (65 \<le> (of_char x :: nat) \<and> (of_char x :: nat) \<le> 90)"
  shows "toLowerChar c = x \<longleftrightarrow> c = x"
proof (cases "65 \<le> (of_char c :: nat) \<and> (of_char c :: nat) \<le> 90")
  case True
  then have "(of_char (toLowerChar c) :: nat) = of_char c + 32"
    by (simp add: toLowerChar_def)
  with True assms show ?thesis by auto
next
  case False
  then show ?thesis by (auto simp: toLowerChar_def)
qed

lemma toLowerChar_metachars [simp]:
  "toLowerChar c = CHR ''%'' \<longleftrightarrow> c = CHR ''%''" "toLowerChar c = CHR ''_'' \<longleftrightarrow> c = CHR ''_''"
  "toLowerChar c = backslash \<longleftrightarrow> c = backslash" "toLowerChar backslash = backslash"
  by (auto simp: toLowerChar_special backslash_def)

lemma toLower_escapeLike: "toLowerCase (escapeLike q) = escapeLike (toLowerCase q)"
proof -
  have "map toLowerChar (esc c) = esc (toLowerChar c)" for c
    by (auto simp: esc_def)
  then show ?thesis
    by (simp add: escapeLike_esc toLowerCase_def map_concat comp_def)
qed

lemma ilike_contains:
  "ilike (''%'' @ escapeLike q @ ''%'') s \<longleftrightarrow> js_includes (toLowerCase s) (toLowerCase q)"
proof -
  have "toLowerCase (''%'' @ escapeLike q @ ''%'') = CHR ''%'' # escapeLike (toLowerCase q) @ ''%''"
    using toLower_escapeLike [of q] by (simp add: toLowerCase_def)
  then show ?thesis by (simp add: ilike_def like_contains)
qed

section \<open>The contract of closing sessions\<close>

interpretation revocation: session_closer
  "\<lambda>d. snd (revoke_where P reason now d)" "\<lambda>_ s. P s \<and> live s" "close_session S_revoked reason now"
  for P reason now
  unfolding revoke_where_def
  by (rule close_where_closer) (simp_all add: removal_op_def)

lemma kick_cases:
  obtains "snd (kickSession now sid d) = d" "find_row (\<lambda>s. s_id s = sid) (sessions d) = None \<or>
      (\<exists>s. find_row (\<lambda>s. s_id s = sid) (sessions d) = Some s \<and> \<not> live s)"
  | s where "find_row (\<lambda>s. s_id s = sid) (sessions d) = Some s" "live s"
      "kickSession now sid d = (Inr (), insert_op now sid ''revoke_user'' (removal (s_panel_username s))
        (d\<lparr>sessions := update_where (\<lambda>s. s_id s = sid)
             (close_session S_revoked ''admin_kick'' now) (sessions d)\<rparr>))"
proof (cases "find_row (\<lambda>s. s_id s = sid) (sessions d)")
  case None
  then show ?thesis by (intro that(1)) (simp_all add: kickSession_def withTransaction_def)
next
  case (Some s)
  then show ?thesis
    by (cases "live s")
      (auto intro: that simp: kickSession_def withTransaction_def enqueueRevoke_def)
qed

definition kicks :: "id \<Rightarrow> db \<Rightarrow> vpn_session \<Rightarrow> bool" where
  "kicks sid d s \<longleftrightarrow> s_id s = sid \<and> live s"

interpretation kick: session_closer
  "\<lambda>d. snd (kickSession now sid d)" "kicks sid" "close_session S_revoked ''admin_kick'' now"
  for now sid
proof
  fix d assume k: "keys_ok d"
  have alive: "s' = s" if "find_row (\<lambda>s. s_id s = sid) (sessions d) = Some s" "s' \<in> set (sessions d)"
    "s_id s' = sid" for s s'
    using find_row_Some [OF that(1)] that(2,3)
    by (auto intro: table_ok_inj [OF keys_okD(1) [OF k]])
  show "sessions (snd (kickSession now sid d)) =
      update_where (kicks sid d) (close_session S_revoked ''admin_kick'' now) (sessions d)"
  proof (cases rule: kick_cases [of now sid d])
    case 1
    have "\<not> kicks sid d s" if "s \<in> set (sessions d)" for s
    proof
      assume "kicks sid d s"
      with that 1(2) alive show False by (auto simp: find_row_None kicks_def)
    qed
    with 1(1) show ?thesis by (simp add: update_where_none)
  next
    case (2 s)
    have "update_where (\<lambda>s. s_id s = sid) (close_session S_revoked ''admin_kick'' now) (sessions d) =
        update_where (kicks sid d) (close_session S_revoked ''admin_kick'' now) (sessions d)"
      using alive [OF 2(1)] 2(2) by (auto intro!: update_where_cong simp: kicks_def)
    with 2(3) show ?thesis by simp
  qed
  show "queued d \<subseteq> queued (snd (kickSession now sid d))"
    by (cases rule: kick_cases [of now sid d]) auto
  show "keys_ok (snd (kickSession now sid d))"
    using k by (cases rule: kick_cases [of now sid d]) (auto simp: keys_ok_sessions)
  fix s assume s: "s \<in> set (sessions d)" "kicks sid d s"
  show "reclaimed (snd (kickSession now sid d)) s"
  proof (cases rule: kick_cases [of now sid d])
    case 1
    with s alive show ?thesis by (auto simp: find_row_None kicks_def)
  next
    case (2 s0)
    with alive [OF 2(1) s(1)] s(2) show ?thesis
      by (auto simp: reclaimed_def removal_op_def kicks_def)
  qed
qed simp_all

section \<open>Frames\<close>

lemma recordInTx_Inr:
  assumes "recordInTx inet now e d = (Inr (), d')"
  shows "d' = d\<lparr>audit_logs := audit_logs d @ [audit_row now e (next_id d)], next_id := next_id d + 1\<rparr>"
  using assms by (auto simp: recordInTx_def Let_def split: if_splits)

lemma recordInTx_accepts:
  assumes "\<forall>v. normalizeIp (ae_ip e) = Some v \<longrightarrow> inet v"
    and "\<forall>a. ae_adminId e = Some a \<longrightarrow> exists_row (\<lambda>u. u_id u = a) (users d)"
  shows "recordInTx inet now e d =
    (Inr (), d\<lparr>audit_logs := audit_logs d @ [audit_row now e (next_id d)], next_id := next_id d + 1\<rparr>)"
  using assms by (auto simp: recordInTx_def Let_def audit_row_def split: option.split)

lemma audit_row_simps [simp]:
  "al_action_type (audit_row now e i) = ae_actionType e" "al_target_id (audit_row now e i) = ae_targetId e"
  "al_admin_id (audit_row now e i) = ae_adminId e"
  by (simp_all add: audit_row_def)

lemma close_where_frame [simp]:
  "users (snd (close_where P f op now d)) = users d"
  "audit_logs (snd (close_where P f op now d)) = audit_logs d"
  "nodes (snd (close_where P f op now d)) = nodes d"
  "inbounds (snd (close_where P f op now d)) = inbounds d"
  "endpoints (snd (close_where P f op now d)) = endpoints d"
  by (simp_all add: close_where_def Let_def)

lemma revoke_where_frame [simp]:
  "users (snd (revoke_where P r now d)) = users d"
  "audit_logs (snd (revoke_where P r now d)) = audit_logs d"
  "nodes (snd (revoke_where P r now d)) = nodes d"
  "inbounds (snd (revoke_where P r now d)) = inbounds d"
  "endpoints (snd (revoke_where P r now d)) = endpoints d"
  by (simp_all add: revoke_where_def)

lemma revoke_where_count:
  "fst (revoke_where P r now d) = length (filter (\<lambda>s. P s \<and> live s) (sessions d))"
  by (simp add: revoke_where_def close_where_count)

lemma set_tier_frame [simp]:
  "users (set_tier days now uid t d) = users d"
  "sessions (set_tier days now uid t d) = sessions d"
  "queued (set_tier days now uid t d) = queued d"
  "audit_logs (set_tier days now uid t d) = audit_logs d"
  by (auto simp: set_tier_def grantInternalPremium_def ensure_admin_plan_def expire_internal_def Let_def
      queued_def split: option.split plan_tier.split)

text \<open>What revoking a selection leaves.\<close>

lemma revoke_where_effect:
  "sessions (snd (revoke_where P r now d)) =
     update_where (\<lambda>s. P s \<and> live s) (close_session S_revoked r now) (sessions d)"
  "queued (snd (revoke_where P r now d)) = queued d \<union>
     (\<lambda>s. (s_id s, ''revoke_user'', removal (s_panel_username s))) ` {s \<in> set (sessions d). P s \<and> live s}"
  by (simp_all add: revoke_where_def close_where_queued image_image)

lemma revoked_none_live:
  assumes "\<And>s. P (close_session S_revoked r now s) = P s"
  shows "\<forall>s \<in> set (sessions (snd (revoke_where P r now d))). P s \<longrightarrow> \<not> live s"
  unfolding revoke_where_effect(1) update_where_ball using assms by simp

section \<open>Properties\<close>

text \<open>
  The user search finds the text the administrator typed and nothing else: the
  wildcards of SQL in it are matched literally, letter case is ignored.
\<close>

theorem search_literal:
  "user_matches (search_text (Some q)) u \<longleftrightarrow> u_status u \<noteq> U_deleted \<and>
     (trim q = [] \<or> (\<exists>e. u_email u = Some e \<and> js_includes (toLowerCase e) (toLowerCase (trim q))))"
proof (cases "trim q = []")
  case True
  then show ?thesis by (simp add: user_matches_def search_text_def)
next
  case False
  then have "user_matches (search_text (Some q)) u \<longleftrightarrow> u_status u \<noteq> U_deleted \<and>
      (\<exists>e. u_email u = Some e \<and> ilike (''%'' @ escapeLike (trim q) @ ''%'') e)"
    by (auto simp: user_matches_def search_text_def split: option.split)
  then show ?thesis using False unfolding ilike_contains by simp
qed

text \<open>The state a successful ban leaves before the tier is changed.\<close>

definition banned_db :: "ms \<Rightarrow> id \<Rightarrow> db \<Rightarrow> db" where
  "banned_db now uid d = snd (revokeUserSessions uid ''banned'' now (d\<lparr>users := update_where (\<lambda>u. u_id u = uid)
     (\<lambda>u. u\<lparr>u_is_banned := True, u_updated_at := now\<rparr>) (users d)\<rparr>))"

lemma ban_tx_Inr:
  assumes "ban_tx inet now actor uid (Some True) d = (Inr n, d2)"
  shows "n = length (filter (\<lambda>s. s_user_id s = uid \<and> live s) (sessions d)) \<and>
    (\<exists>r. d2 = (banned_db now uid d)\<lparr>audit_logs := audit_logs d @ [r], next_id := next_id (banned_db now uid d) + 1\<rparr> \<and>
       al_action_type r = BAN_USER \<and> al_target_id r = Some uid \<and> al_admin_id r = ac_adminId actor \<and>
       al_details r = JObj [(''revokedSessions'', JNum (int n))])"
proof -
  let ?d1 = "d\<lparr>users := update_where (\<lambda>u. u_id u = uid)
    (\<lambda>u. u\<lparr>u_is_banned := True, u_updated_at := now\<rparr>) (users d)\<rparr>"
  let ?rv = "revokeUserSessions uid ''banned'' now ?d1"
  let ?e = "\<lparr>ae_adminId = ac_adminId actor, ae_actionType = BAN_USER, ae_targetId = Some uid,
    ae_details = Some (JObj [(''revokedSessions'', JNum (int (fst ?rv)))]), ae_ip = ac_ip actor\<rparr>"
  have rv: "snd ?rv = banned_db now uid d" "audit_logs (banned_db now uid d) = audit_logs d"
    by (simp_all add: banned_db_def revokeUserSessions_def)
  obtain res d3 where rec: "recordInTx inet now ?e (snd ?rv) = (res, d3)" by fastforce
  have "ban_tx inet now actor uid (Some True) d =
      (case res of Inl e \<Rightarrow> (Inl e, d3) | Inr _ \<Rightarrow> (Inr (fst ?rv), d3))"
    using rec by (simp add: ban_tx_def Let_def case_prod_beta split: sum.split)
  with assms rec have r: "recordInTx inet now ?e (snd ?rv) = (Inr (), d2)" and n: "n = fst ?rv"
    by (auto split: sum.splits)
  have "n = length (filter (\<lambda>s. s_user_id s = uid \<and> live s) (sessions d))"
    by (simp add: n revokeUserSessions_def revoke_where_count)
  moreover have "d2 = (banned_db now uid d)\<lparr>audit_logs := audit_logs d @ [audit_row now ?e (next_id (banned_db now uid d))],
      next_id := next_id (banned_db now uid d) + 1\<rparr>"
    using recordInTx_Inr [OF r] by (simp add: rv)
  ultimately show ?thesis
    by (intro conjI exI [of _ "audit_row now ?e (next_id (banned_db now uid d))"]) (simp_all add: audit_row_def n)
qed

lemma banned_db_effect:
  "\<forall>s \<in> set (sessions (banned_db now uid d)). s_user_id s = uid \<longrightarrow> \<not> live s"
  "queued (banned_db now uid d) = queued d \<union> (\<lambda>s. (s_id s, ''revoke_user'', removal (s_panel_username s))) `
     {s \<in> set (sessions d). s_user_id s = uid \<and> live s}"
  "\<forall>u \<in> set (users (banned_db now uid d)). u_id u = uid \<longrightarrow> u_is_banned u"
  using revoked_none_live [of "\<lambda>s. s_user_id s = uid" "''banned''" now]
    revoke_where_effect(2) [of "\<lambda>s. s_user_id s = uid" "''banned''" now]
  by (simp_all add: banned_db_def revokeUserSessions_def update_where_ball)

text \<open>
  C15. A ban is atomic with its consequences: the user is banned, none of the user's
  sessions is live, for each that was a revocation is queued, and one audit row records
  the ban with the number of sessions. Whenever the operation fails nothing has changed.
\<close>

theorem ban_atomic:
  assumes "ch_isBanned ch = Some True"
  shows "case mutateUser days inet now uid ch actor d of
      (Inl e, d') \<Rightarrow> d' = d
    | (Inr n, d') \<Rightarrow>
        n = length (filter (\<lambda>s. s_user_id s = uid \<and> live s) (sessions d)) \<and>
        (\<forall>u \<in> set (users d'). u_id u = uid \<longrightarrow> u_is_banned u) \<and>
        (\<forall>s \<in> set (sessions d'). s_user_id s = uid \<longrightarrow> \<not> live s) \<and>
        queued d' = queued d \<union> (\<lambda>s. (s_id s, ''revoke_user'', removal (s_panel_username s))) `
          {s \<in> set (sessions d). s_user_id s = uid \<and> live s} \<and>
        (\<exists>r. audit_logs d' = audit_logs d @ [r] \<and> al_action_type r = BAN_USER \<and>
           al_target_id r = Some uid \<and> al_admin_id r = ac_adminId actor \<and>
           al_details r = JObj [(''revokedSessions'', JNum (int n))])"
proof (cases rule: withTransaction_cases [of "\<lambda>d.
       if \<not> exists_row (\<lambda>u. u_id u = uid) (users d) then (Inl (NotFoundException ''user not found''), d)
       else (case ban_tx inet now actor uid (ch_isBanned ch) d of
               (Inl e, d1) \<Rightarrow> (Inl e, d1)
             | (Inr revoked, d1) \<Rightarrow> (Inr revoked, set_tier days now uid (ch_tier ch) d1))" d])
  case (1 e)
  then show ?thesis by (simp add: mutateUser_def)
next
  case (2 n d')
  then obtain d2 where ban: "ban_tx inet now actor uid (Some True) d = (Inr n, d2)"
    and d': "d' = set_tier days now uid (ch_tier ch) d2"
    by (auto simp: assms split: if_splits sum.splits prod.splits)
  from ban_tx_Inr [OF ban] banned_db_effect [of now uid d] 2(1) show ?thesis
    by (auto simp: d' mutateUser_def)
qed

lemma pickNode_drained:
  assumes "\<forall>n \<in> set (nodes d). n_id n = nid \<longrightarrow> \<not> n_is_active n" and "pickNode t d = Some np"
  shows "np_nodeId np \<noteq> nid"
proof (cases "sort_key node_rank (node_candidates t d)")
  case (Cons c rest)
  with sort_key_head [OF Cons] assms show ?thesis
    by (auto simp: pickNode_def node_candidates_def split: prod.splits)
qed (use assms in \<open>simp add: pickNode_def\<close>)

text \<open>
  A forced migration empties a node for good: none of its sessions is live, the node
  takes no new session of any tier, and the evacuation is recorded once. A failure, also
  of the audit row, leaves everything as it was.
\<close>

theorem migrate_evacuates:
  "case forceMigrateNode inet now nid actor d of
     (Inl e, d') \<Rightarrow> d' = d
   | (Inr n, d') \<Rightarrow>
       n = length (filter (\<lambda>s. s_node_id s = nid \<and> live s) (sessions d)) \<and>
       (\<forall>s \<in> set (sessions d'). s_node_id s = nid \<longrightarrow> \<not> live s) \<and>
       queued d' = queued d \<union> (\<lambda>s. (s_id s, ''revoke_user'', removal (s_panel_username s))) `
         {s \<in> set (sessions d). s_node_id s = nid \<and> live s} \<and>
       (\<forall>t np. pickNode t d' = Some np \<longrightarrow> np_nodeId np \<noteq> nid) \<and>
       (\<exists>r. audit_logs d' = audit_logs d @ [r] \<and> al_action_type r = FORCE_MIGRATE_NODE \<and>
          al_target_id r = Some nid)"
proof -
  let ?d1 = "set_active now nid False d"
  let ?rv = "revoke_where (\<lambda>s. s_node_id s = nid) ''force_migrate'' now ?d1"
  let ?e = "\<lparr>ae_adminId = ac_adminId actor, ae_actionType = FORCE_MIGRATE_NODE, ae_targetId = Some nid,
    ae_details = Some (JObj [(''evicted'', JNum (int (fst ?rv)))]), ae_ip = ac_ip actor\<rparr>"
  have sess1: "sessions ?d1 = sessions d" "queued ?d1 = queued d" "audit_logs ?d1 = audit_logs d"
    by (simp_all add: set_active_def queued_def)
  show ?thesis
  proof (cases "forceMigrateNode inet now nid actor d")
    case (Pair res d')
    show ?thesis
    proof (cases res)
      case (Inl e)
      with Pair have "forceMigrateNode inet now nid actor d = (Inl e, d')" by simp
      then have "d' = d" unfolding forceMigrateNode_def withTransaction_Inl by simp
      with Pair Inl show ?thesis by simp
    next
      case (Inr n)
      with Pair have "forceMigrateNode inet now nid actor d = (Inr n, d')" by simp
      then have "(case recordInTx inet now ?e (snd ?rv) of (Inl e, d2) \<Rightarrow> (Inl e, d2)
          | (Inr _, d2) \<Rightarrow> (Inr (fst ?rv), d2)) = (Inr n, d')"
        unfolding forceMigrateNode_def withTransaction_Inr by (simp add: case_prod_beta split: if_splits)
      then have n: "n = fst ?rv" and r: "recordInTx inet now ?e (snd ?rv) = (Inr (), d')"
        by (auto split: sum.splits prod.splits)
      note d' = recordInTx_Inr [OF r]
      have "\<forall>m \<in> set (nodes d'). n_id m = nid \<longrightarrow> \<not> n_is_active m"
        by (simp add: d' set_active_def update_where_ball)
      from pickNode_drained [OF this] have "\<forall>t np. pickNode t d' = Some np \<longrightarrow> np_nodeId np \<noteq> nid" by blast
      moreover have "\<forall>s \<in> set (sessions d'). s_node_id s = nid \<longrightarrow> \<not> live s"
        using revoked_none_live [of "\<lambda>s. s_node_id s = nid" "''force_migrate''" now ?d1] by (simp add: d')
      moreover have "queued d' = queued d \<union> (\<lambda>s. (s_id s, ''revoke_user'', removal (s_panel_username s))) `
          {s \<in> set (sessions d). s_node_id s = nid \<and> live s}"
        using revoke_where_effect(2) [of "\<lambda>s. s_node_id s = nid" "''force_migrate''" now ?d1]
        by (simp add: d' sess1)
      moreover have "audit_logs d' = audit_logs d @ [audit_row now ?e (next_id (snd ?rv))]"
        by (simp add: d' sess1)
      ultimately show ?thesis using Pair Inr n by (simp add: sess1 revoke_where_count)
    qed
  qed
qed

text \<open>
  The panic switch ends every free session and no premium one, queues their
  revocations, and is recorded once, all or nothing.
\<close>

theorem panic_ends_free:
  "case panicRevokeFreeSessions inet now actor d of
     (Inl e, d') \<Rightarrow> d' = d
   | (Inr n, d') \<Rightarrow>
       n = length (filter (\<lambda>s. s_tier s = Free \<and> live s) (sessions d)) \<and>
       (\<forall>s \<in> set (sessions d'). live s \<longrightarrow> s_tier s = Premium) \<and>
       filter (\<lambda>s. s_tier s = Premium) (sessions d') = filter (\<lambda>s. s_tier s = Premium) (sessions d) \<and>
       queued d' = queued d \<union> (\<lambda>s. (s_id s, ''revoke_user'', removal (s_panel_username s))) `
         {s \<in> set (sessions d). s_tier s = Free \<and> live s} \<and>
       map al_action_type (audit_logs d') = map al_action_type (audit_logs d) @ [PANIC_FREE_SESSIONS]"
proof -
  let ?rv = "revoke_where (\<lambda>s. s_tier s = Free) ''panic_revoke_free'' now d"
  let ?e = "\<lparr>ae_adminId = ac_adminId actor, ae_actionType = PANIC_FREE_SESSIONS, ae_targetId = None,
    ae_details = Some (JObj [(''revoked'', JNum (int (fst ?rv)))]), ae_ip = ac_ip actor\<rparr>"
  show ?thesis
  proof (cases "panicRevokeFreeSessions inet now actor d")
    case (Pair res d')
    show ?thesis
    proof (cases res)
      case (Inl e)
      with Pair have "panicRevokeFreeSessions inet now actor d = (Inl e, d')" by simp
      then have "d' = d" unfolding panicRevokeFreeSessions_def withTransaction_Inl by simp
      with Pair Inl show ?thesis by simp
    next
      case (Inr n)
      with Pair have "panicRevokeFreeSessions inet now actor d = (Inr n, d')" by simp
      then have "(case recordInTx inet now ?e (snd ?rv) of (Inl e, d2) \<Rightarrow> (Inl e, d2)
          | (Inr _, d2) \<Rightarrow> (Inr (fst ?rv), d2)) = (Inr n, d')"
        unfolding panicRevokeFreeSessions_def withTransaction_Inr by (simp add: case_prod_beta)
      then have n: "n = fst ?rv" and r: "recordInTx inet now ?e (snd ?rv) = (Inr (), d')"
        by (auto split: sum.splits prod.splits)
      note d' = recordInTx_Inr [OF r]
      have tier: "t \<noteq> Free \<longleftrightarrow> t = Premium" for t by (cases t) auto
      have "\<forall>s \<in> set (sessions d'). s_tier s = Free \<longrightarrow> \<not> live s"
        using revoked_none_live [of "\<lambda>s. s_tier s = Free" "''panic_revoke_free''" now d] by (simp add: d')
      then have "\<forall>s \<in> set (sessions d'). live s \<longrightarrow> s_tier s = Premium" using tier by blast
      moreover have "filter (\<lambda>s. s_tier s = Premium) (update_where (\<lambda>s. s_tier s = Free \<and> live s)
          (close_session S_revoked r now) t) = filter (\<lambda>s. s_tier s = Premium) t" for r t
        by (induction t) auto
      then have "filter (\<lambda>s. s_tier s = Premium) (sessions d') = filter (\<lambda>s. s_tier s = Premium) (sessions d)"
        by (simp add: d' revoke_where_effect(1))
      moreover have "queued d' = queued d \<union> (\<lambda>s. (s_id s, ''revoke_user'', removal (s_panel_username s))) `
          {s \<in> set (sessions d). s_tier s = Free \<and> live s}"
        using revoke_where_effect(2) [of "\<lambda>s. s_tier s = Free" "''panic_revoke_free''" now d]
        by (simp add: d')
      ultimately show ?thesis using Pair Inr n by (simp add: d' revoke_where_count)
    qed
  qed
qed

section \<open>Auditing once\<close>

definition audited :: "db \<Rightarrow> admin_action_type list" where
  "audited d = map al_action_type (audit_logs d)"

definition user_ids :: "db \<Rightarrow> id list" where
  "user_ids d = map u_id (users d)"

text \<open>The address of the request, as normalised, is one the column accepts.\<close>

definition ip_accepted :: "(string \<Rightarrow> bool) \<Rightarrow> string option \<Rightarrow> bool" where
  "ip_accepted inet ip \<longleftrightarrow> (\<forall>v. normalizeIp ip = Some v \<longrightarrow> inet v)"

lemma record_audit_logged:
  assumes "ip_accepted inet (ae_ip e)" and "ae_adminId e = Some a" and "a \<in> set (user_ids d)"
  shows "audited (record_audit inet now e d) = audited d @ [ae_actionType e]"
    "user_ids (record_audit inet now e d) = user_ids d"
proof -
  have "exists_row (\<lambda>u. u_id u = a) (users d)" using assms(3) by (auto simp: user_ids_def)
  then have "recordInTx inet now e d =
      (Inr (), d\<lparr>audit_logs := audit_logs d @ [audit_row now e (next_id d)], next_id := next_id d + 1\<rparr>)"
    using assms(1,2) by (intro recordInTx_accepts) (simp_all add: ip_accepted_def)
  then show "audited (record_audit inet now e d) = audited d @ [ae_actionType e]"
    "user_ids (record_audit inet now e d) = user_ids d"
    by (simp_all add: record_audit_def audited_def user_ids_def)
qed

lemma intercept_logged:
  assumes "ip_accepted inet ip" and "a \<in> set (user_ids d)"
  shows "audited (intercept inet now m name (Some a) ip tgt b r d) =
    audited d @ (if m \<in> set MUTATING then map fst (infer name tgt b r) else [])"
proof -
  have "audited (fold (\<lambda>(x, t, j). record_audit inet now \<lparr>ae_adminId = Some a, ae_actionType = x,
      ae_targetId = t, ae_details = Some j, ae_ip = ip\<rparr>) l d) = audited d @ map fst l" for l
    using assms(2)
  proof (induction l arbitrary: d)
    case (Cons e l)
    obtain x t j where e: "e = (x, t, j)" by (cases e)
    note rec = record_audit_logged [of inet "\<lparr>ae_adminId = Some a, ae_actionType = x, ae_targetId = t,
        ae_details = Some j, ae_ip = ip\<rparr>" a d now]
    with assms(1) Cons show ?case by (simp add: e)
  qed simp
  then show ?thesis by (simp add: intercept_def)
qed

lemma adminGuard_user: "adminGuard aid d = Inr () \<Longrightarrow> \<exists>a. aid = Some a \<and> a \<in> set (user_ids d)"
  by (auto simp: adminGuard_def user_ids_def split: option.splits if_splits dest!: find_row_Some)

lemma admin_route_logged:
  assumes "admin_route inet now aid ip m name tgt b tj h d = (Inr r, d')" and "ip_accepted inet ip"
    and "\<And>r d1. h d = (Inr r, d1) \<Longrightarrow> audited d1 = audited d @ f \<and> user_ids d1 = user_ids d"
  shows "audited d' = audited d @ f @ (if m \<in> set MUTATING then map fst (infer name tgt b (tj r)) else [])"
proof -
  from assms(1) have g: "adminGuard aid d = Inr ()"
    by (auto simp: admin_route_def split: sum.splits)
  obtain a where a: "aid = Some a" "a \<in> set (user_ids d)" using adminGuard_user [OF g] by blast
  from assms(1) g obtain d1 where h: "h d = (Inr r, d1)"
    and d': "d' = intercept inet now m name aid ip tgt b (tj r) d1"
    by (auto simp: admin_route_def split: prod.splits sum.splits)
  from assms(3) [OF h] a intercept_logged [OF assms(2)] show ?thesis
    unfolding d' a(1) by simp
qed

lemma recordInTx_logged:
  assumes "recordInTx inet now e d = (Inr u, d')"
  shows "audited d' = audited d @ [ae_actionType e] \<and> user_ids d' = user_ids d"
  using assms
  by (auto simp: recordInTx_def Let_def audit_row_def audited_def user_ids_def split: if_splits)

lemma audited_updates [simp]:
  "audited (users_update f d) = audited d" "audited (nodes_update g d) = audited d"
  "user_ids (nodes_update g d) = user_ids d"
  by (simp_all add: audited_def user_ids_def)

lemma user_ids_update:
  "(\<And>u. u_id (f u) = u_id u) \<Longrightarrow> user_ids (users_update (update_where P f) d) = user_ids d"
  by (simp add: user_ids_def map_update_where)

text \<open>A revocation followed by its entry in the audit log adds exactly that entry.\<close>

lemma revoke_then_log:
  assumes "(case revoke_where P reason now d of (n, d1) \<Rightarrow>
      (case recordInTx inet now (e n) d1 of (Inl x, d2) \<Rightarrow> (Inl x, d2) | (Inr _, d2) \<Rightarrow> (Inr n, d2)))
    = (Inr m, d')" and "\<And>n. ae_actionType (e n) = a"
  shows "audited d' = audited d @ [a] \<and> user_ids d' = user_ids d"
proof -
  obtain n d1 where r: "revoke_where P reason now d = (n, d1)" by fastforce
  from assms(1) obtain u where "recordInTx inet now (e n) d1 = (Inr u, d')"
    by (auto simp: r split: prod.splits sum.splits)
  from recordInTx_logged [OF this] show ?thesis
    using arg_cong [OF r, of "\<lambda>x. audit_logs (snd x)"] arg_cong [OF r, of "\<lambda>x. users (snd x)"]
    by (simp add: audited_def user_ids_def assms(2))
qed

lemma ban_tx_logged:
  assumes "ban_tx inet now actor uid b d = (Inr n, d')"
  shows "audited d' = audited d @ (if b = Some True then [BAN_USER] else []) \<and>
    user_ids d' = user_ids d"
proof (cases "b = Some True")
  case True
  let ?d = "d\<lparr>users := update_where (\<lambda>u. u_id u = uid)
      (\<lambda>u. u\<lparr>u_is_banned := True, u_updated_at := now\<rparr>) (users d)\<rparr>"
  have "user_ids ?d = user_ids d" "audited ?d = audited d"
    by (simp_all add: user_ids_def audited_def map_update_where)
  moreover have "audited d' = audited ?d @ [BAN_USER] \<and> user_ids d' = user_ids ?d"
    using assms True unfolding ban_tx_def revokeUserSessions_def Let_def
    by (intro revoke_then_log) auto
  ultimately show ?thesis using True by simp
next
  case False
  with assms show ?thesis
    by (auto simp: ban_tx_def Let_def audited_def user_ids_def map_update_where
        split: option.splits if_splits)
qed

lemma mutate_logged:
  assumes "mutateUser days inet now uid ch actor d = (Inr n, d')"
  shows "audited d' = audited d @ (if ch_isBanned ch = Some True then [BAN_USER] else []) \<and>
    user_ids d' = user_ids d"
proof -
  from assms obtain d1 where b: "ban_tx inet now actor uid (ch_isBanned ch) d = (Inr n, d1)"
    and d': "d' = set_tier days now uid (ch_tier ch) d1"
    unfolding mutateUser_def withTransaction_Inr by (auto split: if_splits prod.splits sum.splits)
  have "audited d' = audited d1" "user_ids d' = user_ids d1"
    by (simp_all add: d' audited_def user_ids_def)
  with ban_tx_logged [OF b] show ?thesis by simp
qed

lemma kick_logged:
  "kickSession now sid d = (Inr r, d') \<Longrightarrow> audited d' = audited d @ [] \<and> user_ids d' = user_ids d"
  by (cases rule: kick_cases [of now sid d]) (auto simp: audited_def user_ids_def)

lemma node_active_logged:
  "setNodeActive now nid b d = (Inr r, d') \<Longrightarrow> audited d' = audited d @ [] \<and> user_ids d' = user_ids d"
  by (auto simp: setNodeActive_def set_active_def audited_def user_ids_def split: if_splits)

lemma panic_logged:
  "panicRevokeFreeSessions inet now actor d = (Inr n, d') \<Longrightarrow>
    audited d' = audited d @ [PANIC_FREE_SESSIONS] \<and> user_ids d' = user_ids d"
  unfolding panicRevokeFreeSessions_def withTransaction_Inr by (erule revoke_then_log) simp

lemma migrate_logged:
  assumes "forceMigrateNode inet now nid actor d = (Inr n, d')"
  shows "audited d' = audited d @ [FORCE_MIGRATE_NODE] \<and> user_ids d' = user_ids d"
proof -
  have "audited d' = audited (set_active now nid False d) @ [FORCE_MIGRATE_NODE] \<and>
      user_ids d' = user_ids (set_active now nid False d)"
    using assms unfolding forceMigrateNode_def withTransaction_Inr
    by (auto split: if_splits elim!: revoke_then_log)
  then show ?thesis by (simp add: set_active_def audited_def user_ids_def)
qed

text \<open>A handler without a case of its own, such as the PUT of the panel settings, is not audited.\<close>

lemma settings_not_audited: "intercept inet now ''PUT'' ''setPanelSettings'' aid ip t b r d = d"
  by (simp add: intercept_def infer_def)

text \<open>
  C33. Five of the six mutating routes audit themselves exactly once, when the caller's address is
  one the audit log accepts: whichever of the two paths writes the entries, a success appends
  exactly its own. A ban is recorded by its transaction and not again by the interceptor, an
  unban and a change of tier by the interceptor, and so are kicks and node switches. The sixth,
  the PUT of the panel settings, is never audited.
\<close>

theorem audit_exactly_once:
  assumes "ip_accepted inet ip"
  shows "(\<forall>uid b n d'. mutate_route days inet now aid ip uid b d = (Inr n, d') \<longrightarrow>
      audited d' = audited d @
        (case rb_isBanned b of None \<Rightarrow> [] | Some True \<Rightarrow> [BAN_USER] | Some False \<Rightarrow> [UNBAN_USER]) @
        (case rb_tier b of None \<Rightarrow> [] | Some t \<Rightarrow> if t = [] then [] else [CHANGE_TIER])) \<and>
    (\<forall>sid u d'. kick_route inet now aid ip sid d = (Inr u, d') \<longrightarrow>
      audited d' = audited d @ [KICK_SESSION]) \<and>
    (\<forall>nid act r d'. node_status_route inet now aid ip nid act d = (Inr r, d') \<longrightarrow>
      audited d' = audited d @ [SET_NODE_STATUS]) \<and>
    (\<forall>nid n d'. migrate_route inet now aid ip nid d = (Inr n, d') \<longrightarrow>
      audited d' = audited d @ [FORCE_MIGRATE_NODE]) \<and>
    (\<forall>n d'. panic_route inet now aid ip d = (Inr n, d') \<longrightarrow>
      audited d' = audited d @ [PANIC_FREE_SESSIONS]) \<and>
    (\<forall>t b r d1. intercept inet now ''PUT'' ''setPanelSettings'' aid ip t b r d1 = d1)"
proof (intro conjI allI impI)
  show "intercept inet now ''PUT'' ''setPanelSettings'' aid ip t b r d1 = d1" for t b r d1
    by (rule settings_not_audited)
next
  note logged = admin_route_logged [OF _ assms]
  note inferred = infer_def MUTATING_def
  fix uid b n d' assume "mutate_route days inet now aid ip uid b d = (Inr n, d')"
  from logged [OF this [unfolded mutate_route_def] mutate_logged]
  show "audited d' = audited d @
        (case rb_isBanned b of None \<Rightarrow> [] | Some True \<Rightarrow> [BAN_USER] | Some False \<Rightarrow> [UNBAN_USER]) @
        (case rb_tier b of None \<Rightarrow> [] | Some t \<Rightarrow> if t = [] then [] else [CHANGE_TIER])"
    by (auto simp: inferred split: option.splits bool.splits)
next
  fix sid u d' assume "kick_route inet now aid ip sid d = (Inr u, d')"
  from admin_route_logged [OF this [unfolded kick_route_def] assms kick_logged]
  show "audited d' = audited d @ [KICK_SESSION]" by (simp add: infer_def MUTATING_def)
next
  fix nid act r d' assume "node_status_route inet now aid ip nid act d = (Inr r, d')"
  from admin_route_logged [OF this [unfolded node_status_route_def] assms node_active_logged]
  show "audited d' = audited d @ [SET_NODE_STATUS]" by (simp add: infer_def MUTATING_def)
next
  fix nid n d' assume "migrate_route inet now aid ip nid d = (Inr n, d')"
  from admin_route_logged [OF this [unfolded migrate_route_def] assms, where f = "[FORCE_MIGRATE_NODE]"]
  show "audited d' = audited d @ [FORCE_MIGRATE_NODE]"
    using migrate_logged by (simp add: infer_def MUTATING_def)
next
  fix n d' assume "panic_route inet now aid ip d = (Inr n, d')"
  from admin_route_logged [OF this [unfolded panic_route_def] assms, where f = "[PANIC_FREE_SESSIONS]"]
  show "audited d' = audited d @ [PANIC_FREE_SESSIONS]"
    using panic_logged by (simp add: infer_def MUTATING_def)
qed

section \<open>Behaviour at the edges\<close>

text \<open>The dashboard's query names a column the table has not: it fails on every database.\<close>

lemma stats_fails: "stats now d = Inl (PgError ''42703'')"
  by (simp add: stats_def ads_today_def ad_rewards_columns_def)

text \<open>
  \<^verbatim>\<open>normalizeIp\<close> passes a text that is no address on; the insert then fails, and with it
  the ban of the same transaction.
\<close>

lemma malformed_ip_blocks_ban:
  assumes "normalizeIp (ac_ip actor) = Some v" and "\<not> inet v" and "ch_isBanned ch = Some True"
  shows "\<exists>e. mutateUser days inet now uid ch actor d = (Inl e, d)"
proof -
  have "\<exists>e d1. ban_tx inet now actor uid (Some True) d = (Inl e, d1)"
    using assms(1,2) by (simp add: ban_tx_def Let_def recordInTx_def audit_row_def case_prod_beta)
  then show ?thesis unfolding mutateUser_def withTransaction_Inl assms(3) by auto
qed

section \<open>Witnesses\<close>

definition sample_ban :: "(db, nat) prog" where
  "sample_ban = mutateUser 30 (\<lambda>_. True) 1000 1 \<lparr>ch_tier = None, ch_isBanned = Some True\<rparr>
     \<lparr>ac_adminId = None, ac_ip = None\<rparr>"

theorem ban_atomic_witness:
  "\<exists>d' r. sample_ban sample_db = (Inr 1, d') \<and> queued d' = {(4, ''revoke_user'', removal ''s_a'')} \<and>
     audit_logs d' = [r] \<and> al_action_type r = BAN_USER"
proof -
  have ok: "fst (sample_ban sample_db) = Inr 1" by code_simp
  obtain d' where d': "sample_ban sample_db = (Inr 1, d')" using ok by (metis prod.collapse)
  have "{s \<in> set (sessions sample_db). s_user_id s = 1 \<and> live s} = {sample_session}"
    "audit_logs sample_db = []" "queued sample_db = {}"
    by (auto simp: sample_db_def empty_db_def sample_session_def queued_def)
  moreover have "s_id sample_session = 4" "s_panel_username sample_session = ''s_a''"
    by (simp_all add: sample_session_def)
  ultimately show ?thesis
    using d' ban_atomic [where ch = "\<lparr>ch_tier = None, ch_isBanned = Some True\<rparr>" and days = 30
        and inet = "\<lambda>_. True" and now = 1000 and uid = 1
        and actor = "\<lparr>ac_adminId = None, ac_ip = None\<rparr>" and d = sample_db]
    by (auto simp: sample_ban_def)
qed

definition no_actor :: admin_actor where
  "no_actor = \<lparr>ac_adminId = None, ac_ip = None\<rparr>"

theorem migrate_evacuates_witness:
  "\<exists>d'. forceMigrateNode (\<lambda>_. True) 1000 3 no_actor sample_db = (Inr 1, d') \<and>
     queued d' = {(4, ''revoke_user'', removal ''s_a'')}"
proof -
  have ok: "fst (forceMigrateNode (\<lambda>_. True) 1000 3 no_actor sample_db) = Inr 1" by code_simp
  obtain d' where d': "forceMigrateNode (\<lambda>_. True) 1000 3 no_actor sample_db = (Inr 1, d')"
    using ok by (metis prod.collapse)
  have "{s \<in> set (sessions sample_db). s_node_id s = 3 \<and> live s} = {sample_session}"
    "queued sample_db = {}" "s_id sample_session = 4" "s_panel_username sample_session = ''s_a''"
    by (auto simp: sample_db_def empty_db_def sample_session_def queued_def)
  with d' migrate_evacuates [where inet = "\<lambda>_. True" and now = 1000 and nid = 3 and actor = no_actor
      and d = sample_db] show ?thesis by auto
qed

theorem panic_ends_free_witness:
  "\<exists>d'. panicRevokeFreeSessions (\<lambda>_. True) 1000 no_actor sample_db = (Inr 1, d') \<and>
     queued d' = {(4, ''revoke_user'', removal ''s_a'')}"
proof -
  have ok: "fst (panicRevokeFreeSessions (\<lambda>_. True) 1000 no_actor sample_db) = Inr 1" by code_simp
  obtain d' where d': "panicRevokeFreeSessions (\<lambda>_. True) 1000 no_actor sample_db = (Inr 1, d')"
    using ok by (metis prod.collapse)
  have "{s \<in> set (sessions sample_db). s_tier s = Free \<and> live s} = {sample_session}"
    "queued sample_db = {}" "s_id sample_session = 4" "s_panel_username sample_session = ''s_a''"
    by (auto simp: sample_db_def empty_db_def sample_session_def queued_def)
  with d' panic_ends_free [where inet = "\<lambda>_. True" and now = 1000 and actor = no_actor
      and d = sample_db] show ?thesis by auto
qed

definition admin_db :: db where
  "admin_db = sample_db\<lparr>users := [sample_user\<lparr>u_role := Role_admin\<rparr>]\<rparr>"

theorem audit_exactly_once_witness:
  "\<exists>d'. mutate_route 30 (\<lambda>_. True) 1000 (Some 1) None 1 (no_body\<lparr>rb_isBanned := Some True\<rparr>) admin_db =
     (Inr 1, d') \<and> audited d' = [BAN_USER]"
proof -
  let ?r = "mutate_route 30 (\<lambda>_. True) 1000 (Some 1) None 1 (no_body\<lparr>rb_isBanned := Some True\<rparr>) admin_db"
  have ok: "fst ?r = Inr 1" by code_simp
  then obtain d' where d': "?r = (Inr 1, d')" by (metis prod.collapse)
  have "audited admin_db = []" by code_simp
  moreover have "ip_accepted (\<lambda>_. True) None" by (simp add: ip_accepted_def)
  ultimately show ?thesis
    using d' audit_exactly_once [where inet = "\<lambda>_. True" and ip = None and days = 30 and now = 1000
        and aid = "Some 1" and d = admin_db] by (fastforce simp: no_body_def)
qed

end
