(* ===== verification/AttestVerifiers.thy ===== *)
theory AttestVerifiers
  imports Json Encoding
begin

text \<open>
  The two attestation verifiers of backend/src/attest: play-integrity.verifier.ts decides on
  the verdict Google decodes, app-attest.verifier.ts parses Apple's structures and checks the
  binding to the client's key. The decoding of the token by Google, CBOR, X.509 and the
  cryptographic primitives are parameters; the byte-level parsers are written out.
\<close>

section \<open>attest.config.ts\<close>

record attest_config =
  androidPackageName :: string
  androidCertDigests :: "string list"
  androidTokenMaxAgeMs :: int
  appleTeamId :: string
  appleBundleId :: string
  appleAttestEnv :: string
  challengeTtlMs :: int
  attestationTtlMs :: int

section \<open>play-integrity.verifier.ts\<close>

text \<open>
  The decoded payload; every property may be missing. A timestamp is \<open>Some None\<close> when its
  text is not a number.
\<close>

record request_details =
  rd_requestHash :: "string option"
  rd_requestPackageName :: "string option"
  rd_timestampMillis :: "int option option"

record app_integrity =
  ai_appRecognitionVerdict :: "string option"
  ai_certificateSha256Digest :: "string list option"

record device_integrity =
  di_deviceRecognitionVerdict :: "string list option"

record token_payload =
  tp_requestDetails :: "request_details option"
  tp_appIntegrity :: "app_integrity option"
  tp_deviceIntegrity :: "device_integrity option"

text \<open>
  The call to Google gives the payload, nothing, or an error with the HTTP status it
  carries, if any.
\<close>

type_synonym play_decode = "string \<Rightarrow> string \<Rightarrow> nat option + token_payload option"

definition list_default :: "'a list option \<Rightarrow> 'a list" where
  "list_default x = (case x of None \<Rightarrow> [] | Some l \<Rightarrow> l)"

definition constTimeEqualStr :: "string \<Rightarrow> string \<Rightarrow> bool" where
  "constTimeEqualStr a b = (if length a \<noteq> length b then False else a = b)"

definition requestHash :: "(bytes \<Rightarrow> bytes) \<Rightarrow> bytes \<Rightarrow> bytes \<Rightarrow> string" where
  "requestHash sha clientPubKey challenge = toBase64url (sha (clientPubKey @ challenge))"

definition hash_matches :: "request_details option \<Rightarrow> string \<Rightarrow> bool" where
  "hash_matches rd expected =
     (case rd of
        None \<Rightarrow> False
      | Some r \<Rightarrow> (case rd_requestHash r of
                    None \<Rightarrow> False
                  | Some h \<Rightarrow> h \<noteq> [] \<and> constTimeEqualStr h expected))"

definition token_stale :: "attest_config \<Rightarrow> ms \<Rightarrow> request_details \<Rightarrow> bool" where
  "token_stale cfg now rd =
     (case (case rd_timestampMillis rd of None \<Rightarrow> Some 0 | Some v \<Rightarrow> v) of
        None \<Rightarrow> True
      | Some ts \<Rightarrow> now - ts > androidTokenMaxAgeMs cfg)"

definition check_payload ::
  "attest_config \<Rightarrow> (bytes \<Rightarrow> bytes) \<Rightarrow> ms \<Rightarrow> bytes \<Rightarrow> bytes \<Rightarrow> token_payload \<Rightarrow> exn + token_payload" where
  "check_payload cfg sha now clientPubKey challenge p =
     (if \<not> hash_matches (tp_requestDetails p) (requestHash sha clientPubKey challenge)
      then Inl (AttestationError ''request_hash_mismatch'')
      else let rd = the (tp_requestDetails p); ai = tp_appIntegrity p in
      if rd_requestPackageName rd \<noteq> Some (androidPackageName cfg)
      then Inl (AttestationError ''package_mismatch'')
      else if Option.bind ai ai_appRecognitionVerdict \<noteq> Some ''PLAY_RECOGNIZED''
      then Inl (AttestationError ''app_not_recognized'')
      else if androidCertDigests cfg \<noteq> [] \<and>
              \<not> list_ex (\<lambda>g. g \<in> set (androidCertDigests cfg))
                  (list_default (ai_certificateSha256Digest (the ai)))
      then Inl (AttestationError ''cert_digest_mismatch'')
      else if ''MEETS_DEVICE_INTEGRITY'' \<notin> set (list_default
                (Option.bind (tp_deviceIntegrity p) di_deviceRecognitionVerdict))
      then Inl (AttestationError ''device_integrity_failed'')
      else if token_stale cfg now rd then Inl (AttestationError ''token_stale'')
      else Inr p)"

definition playIntegrity_verify ::
  "attest_config \<Rightarrow> (bytes \<Rightarrow> bytes) \<Rightarrow> play_decode \<Rightarrow> ms \<Rightarrow> string \<Rightarrow> bytes \<Rightarrow> bytes \<Rightarrow> exn + token_payload" where
  "playIntegrity_verify cfg sha decode now integrityToken clientPubKey challenge =
     (case decode (androidPackageName cfg) integrityToken of
        Inl status \<Rightarrow>
          Inl (AttestationError (case status of
                 Some st \<Rightarrow> if st \<ge> 400 \<and> st < 500 then ''invalid_token'' else ''transient''
               | None \<Rightarrow> ''transient''))
      | Inr None \<Rightarrow> Inl (AttestationError ''empty_payload'')
      | Inr (Some p) \<Rightarrow> check_payload cfg sha now clientPubKey challenge p)"

section \<open>app-attest.verifier.ts: parameters\<close>

record attestation_object =
  ao_fmt :: "string option"
  ao_x5c :: "bytes list option"
  ao_authData :: "bytes option"

record assertion_object =
  as_signature :: "bytes option"
  as_authenticatorData :: "bytes option"

text \<open>A parsed certificate: its key, Apple's nonce extension, the CA flag of its basic constraints.\<close>

record certificate =
  crt_publicKey :: bytes
  crt_nonceExt :: "bytes option"
  crt_ca :: "bool option"

record jwk =
  jwk_kty :: "string option"
  jwk_crv :: "string option"
  jwk_x :: "string option"
  jwk_y :: "string option"

text \<open>
  \<open>leaf_verify raw key now\<close> says that the certificate's signature verifies with the key and
  that it is valid now; \<open>ecdsa_verify key preimage signature\<close> hashes and verifies.
\<close>

record apple_lib =
  al_sha256 :: "bytes \<Rightarrow> bytes"
  cbor_attestation :: "bytes \<Rightarrow> exn + attestation_object"
  cbor_assertion :: "bytes \<Rightarrow> exn + assertion_object"
  parse_certificate :: "bytes \<Rightarrow> exn + certificate"
  cert_verify :: "bytes \<Rightarrow> bytes \<Rightarrow> ms \<Rightarrow> bool"
  export_jwk :: "bytes \<Rightarrow> exn + jwk"
  ecdsa_verify :: "bytes \<Rightarrow> bytes \<Rightarrow> bytes \<Rightarrow> exn + bool"
  rootKey :: bytes

section \<open>app-attest.verifier.ts: parsers\<close>

definition ascii :: "string \<Rightarrow> bytes" where
  "ascii s = map (\<lambda>c. of_nat (of_char c)) s"

definition AAGUID_PROD :: bytes where
  "AAGUID_PROD = ascii ''appattest'' @ replicate 7 0"

definition AAGUID_DEV :: bytes where
  "AAGUID_DEV = ascii ''appattestdevelop''"

definition FLAG_AT :: byte where
  "FLAG_AT = 0x40"

definition ctEqual :: "bytes \<Rightarrow> bytes \<Rightarrow> bool" where
  "ctEqual a b = (if length a \<noteq> length b then False else a = b)"

record auth_data =
  ad_rpIdHash :: bytes
  ad_flags :: byte
  ad_hasAttestedCredentialData :: bool
  ad_signCount :: int
  ad_aaguid :: "bytes option"

definition subarray :: "bytes \<Rightarrow> nat \<Rightarrow> nat \<Rightarrow> bytes" where
  "subarray b i j = take (j - i) (drop i b)"

definition readUInt32BE :: "bytes \<Rightarrow> nat \<Rightarrow> int" where
  "readUInt32BE b i =
     ((uint (b ! i) * 256 + uint (b ! (i + 1))) * 256 + uint (b ! (i + 2))) * 256 + uint (b ! (i + 3))"

definition parseAuthData :: "bytes \<Rightarrow> exn + auth_data" where
  "parseAuthData b =
     (if length b < 37 then Inl (AttestationError ''authdata_too_short'')
      else let flags = b ! 32; has = (and flags FLAG_AT \<noteq> 0) in
        if has \<and> length b < 55 then Inl (AttestationError ''authdata_missing_cred_data'')
        else Inr \<lparr>ad_rpIdHash = subarray b 0 32, ad_flags = flags,
                  ad_hasAttestedCredentialData = has, ad_signCount = readUInt32BE b 33,
                  ad_aaguid = (if has then Some (subarray b 37 53) else None)\<rparr>)"

text \<open>\<^verbatim>\<open>raw[i]\<close> past the end is \<^verbatim>\<open>undefined\<close>, equal to no byte.\<close>

definition byte_at :: "bytes \<Rightarrow> nat \<Rightarrow> byte option" where
  "byte_at raw i = (if i < length raw then Some (raw ! i) else None)"

definition extractAppleNonce :: "certificate \<Rightarrow> bytes option" where
  "extractAppleNonce cert =
     (case crt_nonceExt cert of
        None \<Rightarrow> None
      | Some raw \<Rightarrow>
          if byte_at raw 0 \<noteq> Some 0x30 then None
          else if byte_at raw 2 \<noteq> Some 0xA1 then None
          else if byte_at raw 4 \<noteq> Some 0x04 then None
          else if byte_at raw 5 \<noteq> Some 0x20 then None
          else if 6 + 32 \<noteq> length raw then None
          else Some (subarray raw 6 38))"

definition nonempty :: "string option \<Rightarrow> bool" where
  "nonempty s = (case s of None \<Rightarrow> False | Some t \<Rightarrow> t \<noteq> [])"

definition uncompressedPoint :: "apple_lib \<Rightarrow> bytes \<Rightarrow> exn + bytes" where
  "uncompressedPoint L spki =
     (case export_jwk L spki of
        Inl e \<Rightarrow> Inl e
      | Inr k \<Rightarrow>
          if jwk_kty k \<noteq> Some ''EC'' \<or> jwk_crv k \<noteq> Some ''P-256'' \<or> \<not> nonempty (jwk_x k) \<or>
             \<not> nonempty (jwk_y k)
          then Inl (AttestationError ''bad_public_key'')
          else let x = fromBase64 (the (jwk_x k)); y = fromBase64 (the (jwk_y k)) in
            if length x \<noteq> 32 \<or> length y \<noteq> 32 then Inl (AttestationError ''bad_public_key'')
            else Inr ([0x04] @ x @ y))"

section \<open>app-attest.verifier.ts: verification\<close>

definition clientDataHash :: "apple_lib \<Rightarrow> bytes \<Rightarrow> bytes \<Rightarrow> bytes" where
  "clientDataHash L clientPubKey challenge = al_sha256 L (clientPubKey @ challenge)"

definition appIdHash :: "apple_lib \<Rightarrow> attest_config \<Rightarrow> bytes" where
  "appIdHash L cfg = al_sha256 L (ascii (appleTeamId cfg @ ''.'' @ appleBundleId cfg))"

definition assertCaConstraints :: "certificate \<Rightarrow> certificate \<Rightarrow> exn + unit" where
  "assertCaConstraints leaf intermediate =
     (if crt_ca leaf = Some True then Inl (AttestationError ''leaf_is_ca'')
      else if crt_ca intermediate \<noteq> Some True then Inl (AttestationError ''intermediate_not_ca'')
      else Inr ())"

text \<open>Steps 2 to 4, once the chain is trusted.\<close>

definition check_leaf ::
  "apple_lib \<Rightarrow> attest_config \<Rightarrow> certificate \<Rightarrow> bytes \<Rightarrow> string \<Rightarrow> bytes \<Rightarrow> bytes \<Rightarrow> exn + (bytes \<times> int)" where
  "check_leaf L cfg leaf authData keyIdB64 clientPubKey challenge =
     (let expectedNonce = al_sha256 L (authData @ clientDataHash L clientPubKey challenge) in
      if (case extractAppleNonce leaf of None \<Rightarrow> True | Some n \<Rightarrow> \<not> ctEqual expectedNonce n)
      then Inl (AttestationError ''nonce_mismatch'')
      else if crt_publicKey leaf = [] then Inl (AttestationError ''bad_public_key'')
      else case uncompressedPoint L (crt_publicKey leaf) of
        Inl e \<Rightarrow> Inl e
      | Inr point \<Rightarrow>
          if \<not> ctEqual (al_sha256 L point) (fromBase64 keyIdB64) then Inl (AttestationError ''keyid_mismatch'')
          else (case parseAuthData authData of
                  Inl e \<Rightarrow> Inl e
                | Inr ad \<Rightarrow>
                    if \<not> ad_hasAttestedCredentialData ad then Inl (AttestationError ''at_flag_unset'')
                    else if \<not> ctEqual (ad_rpIdHash ad) (appIdHash L cfg)
                    then Inl (AttestationError ''rpid_mismatch'')
                    else if ad_signCount ad \<noteq> 0 then Inl (AttestationError ''counter_not_zero'')
                    else if (case ad_aaguid ad of None \<Rightarrow> True
                             | Some g \<Rightarrow> \<not> ctEqual g (if appleAttestEnv cfg = ''production'' then AAGUID_PROD
                                                    else AAGUID_DEV))
                    then Inl (AttestationError ''aaguid_mismatch'')
                    else Inr (crt_publicKey leaf, 0)))"

definition verifyAttestation ::
  "apple_lib \<Rightarrow> attest_config \<Rightarrow> ms \<Rightarrow> string \<Rightarrow> string \<Rightarrow> bytes \<Rightarrow> bytes \<Rightarrow> exn + (bytes \<times> int)" where
  "verifyAttestation L cfg now attestationB64 keyIdB64 clientPubKey challenge =
     (if length clientPubKey \<noteq> 32 then Inl (AttestationError ''bad_pubkey_len'')
      else case cbor_attestation L (fromBase64 attestationB64) of
        Inl _ \<Rightarrow> Inl (AttestationError ''cbor_decode_failed'')
      | Inr obj \<Rightarrow>
          if ao_fmt obj \<noteq> Some ''apple-appattest'' then Inl (AttestationError ''bad_fmt'')
          else (case (ao_x5c obj, ao_authData obj) of
            (Some (c0 # c1 # _), Some authData) \<Rightarrow>
              (case (parse_certificate L c0, parse_certificate L c1) of
                 (Inl e, _) \<Rightarrow> Inl e
               | (_, Inl e) \<Rightarrow> Inl e
               | (Inr leaf, Inr intermediate) \<Rightarrow>
                   if \<not> (cert_verify L c0 (crt_publicKey intermediate) now \<and>
                         cert_verify L c1 (rootKey L) now)
                   then Inl (AttestationError ''cert_chain_invalid'')
                   else (case assertCaConstraints leaf intermediate of
                           Inl e \<Rightarrow> Inl e
                         | Inr _ \<Rightarrow> check_leaf L cfg leaf authData keyIdB64 clientPubKey challenge))
          | _ \<Rightarrow> Inl (AttestationError ''bad_attestation_shape'')))"

definition verifyAssertion ::
  "apple_lib \<Rightarrow> attest_config \<Rightarrow> string \<Rightarrow> bytes \<Rightarrow> int \<Rightarrow> bytes \<Rightarrow> bytes \<Rightarrow> exn + int" where
  "verifyAssertion L cfg assertionB64 storedPublicKeyDer storedSignCount clientPubKey challenge =
     (if length clientPubKey \<noteq> 32 then Inl (AttestationError ''bad_pubkey_len'')
      else case cbor_assertion L (fromBase64 assertionB64) of
        Inl _ \<Rightarrow> Inl (AttestationError ''cbor_decode_failed'')
      | Inr obj \<Rightarrow>
          (case (as_signature obj, as_authenticatorData obj) of
             (Some signature, Some authData) \<Rightarrow>
               (case ecdsa_verify L storedPublicKeyDer
                       (authData @ clientDataHash L clientPubKey challenge) signature of
                  Inl e \<Rightarrow> Inl e
                | Inr False \<Rightarrow> Inl (AttestationError ''assertion_signature_invalid'')
                | Inr True \<Rightarrow>
                    (case parseAuthData authData of
                       Inl e \<Rightarrow> Inl e
                     | Inr ad \<Rightarrow>
                         if ad_hasAttestedCredentialData ad then Inl (AttestationError ''at_flag_set'')
                         else if \<not> ctEqual (ad_rpIdHash ad) (appIdHash L cfg)
                         then Inl (AttestationError ''rpid_mismatch'')
                         else if ad_signCount ad \<le> storedSignCount
                         then Inl (AttestationError ''counter_replay'')
                         else Inr (ad_signCount ad)))
           | _ \<Rightarrow> Inl (AttestationError ''bad_assertion_shape'')))"

end
