(* ===== verification/Auth.thy ===== *)
theory Auth
  imports Db Encoding
begin

text \<open>
  Identity, backend/src/auth and backend/src/admin-auth: the two token types
  (token.service.ts), the services that create accounts, check passwords and rotate refresh
  tokens (auth.service.ts, admin-auth.service.ts), the guard that reads access tokens
  (jwt-auth.guard.ts) and the routes (auth.controller.ts, admin-auth.controller.ts).
  Argon2, SHA-256 and jsonwebtoken are parameters. The rate limiter in front of the
  routes is not modelled.
\<close>

section \<open>Parameters: configuration and cryptography\<close>

record jwt_claims =
  jc_sub :: "id option"
  jc_did :: "id option"

record jwt_options =
  jo_issuer :: "string option"
  jo_audience :: "string option"

record token_config =
  JWT_PRIVATE_KEY :: "string option"
  JWT_PUBLIC_KEY :: "string option"
  JWT_SECRET :: "string option"
  JWT_ISSUER :: "string option"
  JWT_AUDIENCE :: "string option"
  ACCESS_TTL :: string
  REFRESH_TTL_MS :: int
  MAX_FAILED :: int
  LOCKOUT_MS :: int

text \<open>
  \<open>jwt_sign alg key claims expiresIn options now\<close> and \<open>jwt_verify algs key options now token\<close>
  of jsonwebtoken; \<open>argon_hash salt password\<close> and \<open>argon_verify hash password\<close>, which
  throws on a text that is no hash.
\<close>

record token_crypto =
  sha256 :: "string \<Rightarrow> bytes"
  jwt_sign :: "string \<Rightarrow> string \<Rightarrow> jwt_claims \<Rightarrow> string \<Rightarrow> jwt_options \<Rightarrow> ms \<Rightarrow> string"
  jwt_verify :: "string list \<Rightarrow> string \<Rightarrow> jwt_options \<Rightarrow> ms \<Rightarrow> string \<Rightarrow> exn + jwt_claims"
  argon_hash :: "bytes \<Rightarrow> string \<Rightarrow> string"
  argon_verify :: "string \<Rightarrow> string \<Rightarrow> exn + bool"

section \<open>token.service.ts\<close>

definition SIGN_ALG :: "token_config \<Rightarrow> string" where
  "SIGN_ALG cfg = (if env_set (JWT_PRIVATE_KEY cfg) then ''RS256'' else ''HS256'')"

definition SIGN_KEY :: "token_config \<Rightarrow> string" where
  "SIGN_KEY cfg = coalesce (JWT_PRIVATE_KEY cfg) (JWT_SECRET cfg)"

definition jwt_opts :: "token_config \<Rightarrow> jwt_options" where
  "jwt_opts cfg =
     \<lparr>jo_issuer = (if env_set (JWT_ISSUER cfg) then JWT_ISSUER cfg else None),
      jo_audience = (if env_set (JWT_AUDIENCE cfg) then JWT_AUDIENCE cfg else None)\<rparr>"

definition ADMIN_DID :: id where
  "ADMIN_DID = 0"

definition signAccess ::
  "token_config \<Rightarrow> token_crypto \<Rightarrow> ms \<Rightarrow> id \<Rightarrow> id \<Rightarrow> exn + string" where
  "signAccess cfg cr now userId deviceId =
     (if SIGN_KEY cfg = [] then Inl (JsError ''JWT signing key not configured'')
      else Inr (jwt_sign cr (SIGN_ALG cfg) (SIGN_KEY cfg)
             \<lparr>jc_sub = Some userId, jc_did = Some deviceId\<rparr> (ACCESS_TTL cfg) (jwt_opts cfg) now))"

text \<open>The 32 random bytes are the argument.\<close>

definition newRefreshRaw :: "bytes \<Rightarrow> string" where
  "newRefreshRaw rnd = toBase64url rnd"

definition hashRefresh :: "token_crypto \<Rightarrow> string \<Rightarrow> bytes" where
  "hashRefresh cr raw = sha256 cr raw"

definition refreshExpiry :: "token_config \<Rightarrow> ms \<Rightarrow> ms" where
  "refreshExpiry cfg now = now + REFRESH_TTL_MS cfg"

section \<open>jwt-auth.guard.ts\<close>

definition VERIFY_ALGS :: "token_config \<Rightarrow> string list" where
  "VERIFY_ALGS cfg = (if env_set (JWT_PUBLIC_KEY cfg) then [''RS256'', ''ES256''] else [''HS256''])"

definition VERIFY_KEY :: "token_config \<Rightarrow> string" where
  "VERIFY_KEY cfg = coalesce (JWT_PUBLIC_KEY cfg) (JWT_SECRET cfg)"

record auth_user =
  au_userId :: id
  au_deviceId :: id

definition jwtAuthGuard ::
  "token_config \<Rightarrow> token_crypto \<Rightarrow> ms \<Rightarrow> string option \<Rightarrow> exn + auth_user" where
  "jwtAuthGuard cfg cr now header =
     (case header of
        None \<Rightarrow> Inl (UnauthorizedException ''missing bearer token'')
      | Some h \<Rightarrow>
          if \<not> startsWith h ''Bearer '' then Inl (UnauthorizedException ''missing bearer token'')
          else if VERIFY_KEY cfg = [] then Inl (UnauthorizedException ''auth not configured'')
          else (case jwt_verify cr (VERIFY_ALGS cfg) (VERIFY_KEY cfg) (jwt_opts cfg) now (drop 7 h) of
                  Inl _ \<Rightarrow> Inl (UnauthorizedException ''invalid token'')
                | Inr payload \<Rightarrow>
                    (case (jc_sub payload, jc_did payload) of
                       (Some sub, Some did) \<Rightarrow> Inr \<lparr>au_userId = sub, au_deviceId = did\<rparr>
                     | _ \<Rightarrow> Inl (UnauthorizedException ''invalid token''))))"

section \<open>Inserts\<close>

definition new_user :: "ms \<Rightarrow> id \<Rightarrow> user" where
  "new_user now i = \<lparr>u_id = i, u_email = None, u_password_hash = None, u_is_anonymous = True,
     u_status = U_active, u_role = Role_user, u_is_banned = False, u_failed_login_count = 0,
     u_locked_until = None, u_created_at = now, u_updated_at = now\<rparr>"

definition insert_user :: "ms \<Rightarrow> (db, id) prog" where
  "insert_user now d =
     (Inr (next_id d), d\<lparr>users := users d @ [new_user now (next_id d)], next_id := next_id d + 1\<rparr>)"

record device_input =
  di_platform :: device_platform
  di_installId :: string
  di_appVersion :: "string option"

definition new_device :: "id \<Rightarrow> device_input \<Rightarrow> id \<Rightarrow> device" where
  "new_device userId inp i = \<lparr>d_id = i, d_user_id = userId, d_platform = di_platform inp,
     d_install_id = di_installId inp, d_app_version = di_appVersion inp, d_status = D_active,
     d_last_integrity_verdict = None, d_app_attest_key_id = None, d_app_attest_public_key = None,
     d_app_attest_counter = 0, d_is_attested = False, d_attested_until = None,
     d_attested_client_public_key = None, d_last_attested_at = None\<rparr>"

text \<open>The constraints: \<^verbatim>\<open>unique (user_id, install_id)\<close> and the foreign key.\<close>

definition insert_device :: "id \<Rightarrow> device_input \<Rightarrow> (db, id) prog" where
  "insert_device userId inp d =
     (if exists_row (\<lambda>v. d_user_id v = userId \<and> d_install_id v = di_installId inp) (devices d)
      then (Inl (PgError sqlstate_unique_violation), d)
      else if \<not> exists_row (\<lambda>u. u_id u = userId) (users d)
      then (Inl (PgError sqlstate_foreign_key_violation), d)
      else (Inr (next_id d),
            d\<lparr>devices := devices d @ [new_device userId inp (next_id d)], next_id := next_id d + 1\<rparr>))"

text \<open>The constraints: \<^verbatim>\<open>token_hash unique\<close> and the foreign keys.\<close>

definition insert_token :: "(id \<Rightarrow> refresh_token) \<Rightarrow> (db, unit) prog" where
  "insert_token mk d =
     (let t = mk (next_id d) in
      if exists_row (\<lambda>x. t_token_hash x = t_token_hash t) (tokens d)
      then (Inl (PgError sqlstate_unique_violation), d)
      else if \<not> (exists_row (\<lambda>u. u_id u = t_user_id t) (users d) \<and>
                 (case t_device_id t of None \<Rightarrow> True
                  | Some v \<Rightarrow> exists_row (\<lambda>r. d_id r = v) (devices d)))
      then (Inl (PgError sqlstate_foreign_key_violation), d)
      else (Inr (), d\<lparr>tokens := tokens d @ [t], next_id := next_id d + 1\<rparr>))"

text \<open>\<^verbatim>\<open>randomUUID()\<close>: a key nothing in the database has.\<close>

definition randomUUID :: "(db, id) prog" where
  "randomUUID d = (Inr (next_id d), d\<lparr>next_id := next_id d + 1\<rparr>)"

section \<open>auth.service.ts: helpers\<close>

record token_pair =
  tp_accessToken :: string
  tp_refreshToken :: string
  tp_expiresIn :: string

definition pair :: "token_config \<Rightarrow> token_crypto \<Rightarrow> ms \<Rightarrow> id \<Rightarrow> id \<Rightarrow> string \<Rightarrow> exn + token_pair" where
  "pair cfg cr now userId deviceId refreshRaw =
     (case signAccess cfg cr now userId deviceId of
        Inl e \<Rightarrow> Inl e
      | Inr a \<Rightarrow> Inr \<lparr>tp_accessToken = a, tp_refreshToken = refreshRaw, tp_expiresIn = ACCESS_TTL cfg\<rparr>)"

definition new_token ::
  "token_config \<Rightarrow> token_crypto \<Rightarrow> bytes \<Rightarrow> ms \<Rightarrow> id \<Rightarrow> id option \<Rightarrow> id \<Rightarrow> id option \<Rightarrow> id \<Rightarrow> refresh_token" where
  "new_token cfg cr rnd now userId deviceId familyId rotatedFrom i =
     \<lparr>t_id = i, t_user_id = userId, t_device_id = deviceId, t_family_id = familyId,
      t_token_hash = hashRefresh cr (newRefreshRaw rnd), t_expires_at = refreshExpiry cfg now,
      t_rotated_from = rotatedFrom, t_revoked_at = None, t_revoke_reason = None\<rparr>"

definition issueRefresh ::
  "token_config \<Rightarrow> token_crypto \<Rightarrow> bytes \<Rightarrow> ms \<Rightarrow> id \<Rightarrow> id option \<Rightarrow> id \<Rightarrow> id option \<Rightarrow> (db, string) prog" where
  "issueRefresh cfg cr rnd now userId deviceId familyId rotatedFrom =
     and_then (insert_token (new_token cfg cr rnd now userId deviceId familyId rotatedFrom))
       (\<lambda>_. return (newRefreshRaw rnd))"

definition findOrCreateDevice :: "id \<Rightarrow> device_input \<Rightarrow> (db, id) prog" where
  "findOrCreateDevice userId inp d =
     (case find_row (\<lambda>v. d_user_id v = userId \<and> d_install_id v = di_installId inp) (devices d) of
        Some v \<Rightarrow> (Inr (d_id v), d)
      | None \<Rightarrow> insert_device userId inp d)"

definition count_failure :: "token_config \<Rightarrow> ms \<Rightarrow> user \<Rightarrow> user" where
  "count_failure cfg now u =
     u\<lparr>u_failed_login_count := u_failed_login_count u + 1,
       u_locked_until := (if u_failed_login_count u + 1 \<ge> MAX_FAILED cfg then Some (now + LOCKOUT_MS cfg)
                          else u_locked_until u)\<rparr>"

definition recordFailedLogin :: "token_config \<Rightarrow> ms \<Rightarrow> id \<Rightarrow> db \<Rightarrow> db" where
  "recordFailedLogin cfg now userId d =
     d\<lparr>users := update_where (\<lambda>u. u_id u = userId) (count_failure cfg now) (users d)\<rparr>"

section \<open>auth.service.ts: operations\<close>

definition anon_tx ::
  "token_config \<Rightarrow> token_crypto \<Rightarrow> bytes \<Rightarrow> ms \<Rightarrow> device_input \<Rightarrow> (db, id \<times> id \<times> string) prog" where
  "anon_tx cfg cr rnd now inp =
     and_then (insert_user now) (\<lambda>userId.
     and_then (insert_device userId inp) (\<lambda>deviceId.
     and_then randomUUID (\<lambda>family.
     and_then (issueRefresh cfg cr rnd now userId (Some deviceId) family None) (\<lambda>raw.
     return (userId, deviceId, raw)))))"

definition anon ::
  "token_config \<Rightarrow> token_crypto \<Rightarrow> bytes \<Rightarrow> ms \<Rightarrow> device_input \<Rightarrow> (db, token_pair) prog" where
  "anon cfg cr rnd now inp =
     and_then (withTransaction (anon_tx cfg cr rnd now inp))
       (\<lambda>(userId, deviceId, raw). lift_result (pair cfg cr now userId deviceId raw))"

text \<open>\<^verbatim>\<open>email\<close> is \<^verbatim>\<open>citext\<close>: equality ignores case, and the column is unique.\<close>

definition has_email :: "string \<Rightarrow> user \<Rightarrow> bool" where
  "has_email email u \<longleftrightarrow> (case u_email u of None \<Rightarrow> False | Some e \<Rightarrow> toLowerCase e = toLowerCase email)"

definition register_tx :: "ms \<Rightarrow> id \<Rightarrow> string \<Rightarrow> string \<Rightarrow> (db, unit) prog" where
  "register_tx now userId email passwordHash d =
     (case find_row (\<lambda>u. u_id u = userId \<and> u_status u = U_active) (users d) of
        None \<Rightarrow> (Inl (UnauthorizedException ''user not found''), d)
      | Some u \<Rightarrow>
          if \<not> u_is_anonymous u then (Inl (ConflictException ''account already registered''), d)
          else if exists_row (\<lambda>v. u_id v \<noteq> userId \<and> has_email email v) (users d)
          then (Inl (PgError sqlstate_unique_violation), d)
          else (Inr (), d\<lparr>users := update_where (\<lambda>v. u_id v = userId)
                  (\<lambda>v. v\<lparr>u_email := Some (toLowerCase email), u_password_hash := Some passwordHash,
                         u_is_anonymous := False, u_updated_at := now\<rparr>) (users d)\<rparr>))"

definition register ::
  "token_crypto \<Rightarrow> bytes \<Rightarrow> ms \<Rightarrow> id \<Rightarrow> string \<Rightarrow> string \<Rightarrow> (db, unit) prog" where
  "register cr salt now userId email password d =
     (case withTransaction (register_tx now userId email (argon_hash cr salt password)) d of
        (Inl e, d1) \<Rightarrow>
          (Inl (if e = PgError sqlstate_unique_violation then ConflictException ''email already in use''
                else e), d1)
      | (Inr _, d1) \<Rightarrow> (Inr (), d1))"

definition locked :: "ms \<Rightarrow> user \<Rightarrow> bool" where
  "locked now u \<longleftrightarrow> (case u_locked_until u of None \<Rightarrow> False | Some t \<Rightarrow> t > now)"

text \<open>The password check: the dummy verification only takes time.\<close>

definition password_ok :: "token_crypto \<Rightarrow> string \<Rightarrow> user option \<Rightarrow> exn + bool" where
  "password_ok cr password user =
     (case user of
        None \<Rightarrow> Inr False
      | Some u \<Rightarrow>
          (case u_password_hash u of
             None \<Rightarrow> Inr False
           | Some h \<Rightarrow> if h = [] \<or> u_status u \<noteq> U_active then Inr False else argon_verify cr h password))"

definition clear_lockout :: "id \<Rightarrow> (db, unit) prog" where
  "clear_lockout userId d =
     (Inr (), d\<lparr>users := update_where (\<lambda>u. u_id u = userId)
        (\<lambda>u. u\<lparr>u_failed_login_count := 0, u_locked_until := None\<rparr>) (users d)\<rparr>)"

definition check_lock :: "ms \<Rightarrow> id \<Rightarrow> (db, unit) prog" where
  "check_lock now userId d =
     (case find_row (\<lambda>u. u_id u = userId) (users d) of
        None \<Rightarrow> (Inr (), d)
      | Some u \<Rightarrow> if locked now u then (Inl (ForbiddenException ''account temporarily locked''), d)
                  else (Inr (), d))"

definition login_tx ::
  "token_config \<Rightarrow> token_crypto \<Rightarrow> bytes \<Rightarrow> ms \<Rightarrow> id \<Rightarrow> device_input \<Rightarrow> (db, token_pair) prog" where
  "login_tx cfg cr rnd now userId inp =
     and_then (check_lock now userId) (\<lambda>_.
     and_then (clear_lockout userId) (\<lambda>_.
     and_then (findOrCreateDevice userId inp) (\<lambda>deviceId.
     and_then randomUUID (\<lambda>family.
     and_then (issueRefresh cfg cr rnd now userId (Some deviceId) family None) (\<lambda>raw.
     lift_result (pair cfg cr now userId deviceId raw))))))"

text \<open>
  The row is read outside any transaction; \<open>others\<close> is what concurrent requests do to the
  database after that read, while the password is being verified.
\<close>

definition login ::
  "token_config \<Rightarrow> token_crypto \<Rightarrow> bytes \<Rightarrow> ms \<Rightarrow> ms \<Rightarrow> (db \<Rightarrow> db) \<Rightarrow> string \<Rightarrow> string \<Rightarrow> device_input
    \<Rightarrow> (db, token_pair) prog" where
  "login cfg cr rnd now later others email password inp d =
     (let user = find_row (has_email (toLowerCase email)) (users d); d1 = others d in
      if (case user of None \<Rightarrow> False | Some u \<Rightarrow> locked now u)
      then (Inl (ForbiddenException ''account temporarily locked''), d1)
      else (case (password_ok cr password user, user) of
           (Inl e, _) \<Rightarrow> (Inl e, d1)
         | (Inr True, Some u) \<Rightarrow> withTransaction (login_tx cfg cr rnd later (u_id u) inp) d1
         | (Inr _, Some u) \<Rightarrow>
             (Inl (UnauthorizedException ''invalid credentials''), recordFailedLogin cfg later (u_id u) d1)
         | (Inr _, None) \<Rightarrow> (Inl (UnauthorizedException ''invalid credentials''), d1)))"

datatype refresh_outcome =
    R_invalid
  | R_reuse id id
  | R_expired
  | R_rotated id id string

definition revoke_token :: "ms \<Rightarrow> string \<Rightarrow> refresh_token \<Rightarrow> refresh_token" where
  "revoke_token now reason t = t\<lparr>t_revoked_at := Some now, t_revoke_reason := Some reason\<rparr>"

definition revoke_tokens :: "(refresh_token \<Rightarrow> bool) \<Rightarrow> ms \<Rightarrow> string \<Rightarrow> db \<Rightarrow> db" where
  "revoke_tokens P now reason d = d\<lparr>tokens := update_where P (revoke_token now reason) (tokens d)\<rparr>"

definition in_live_family :: "id \<Rightarrow> refresh_token \<Rightarrow> bool" where
  "in_live_family f t \<longleftrightarrow> t_family_id t = f \<and> t_revoked_at t = None"

definition refresh_tx ::
  "token_config \<Rightarrow> token_crypto \<Rightarrow> bytes \<Rightarrow> ms \<Rightarrow> bytes \<Rightarrow> (db, refresh_outcome) prog" where
  "refresh_tx cfg cr rnd now hash d =
     (case find_row (\<lambda>t. t_token_hash t = hash) (tokens d) of
        None \<Rightarrow> (Inr R_invalid, d)
      | Some row \<Rightarrow>
          if t_revoked_at row \<noteq> None
          then (Inr (R_reuse (t_user_id row) (t_family_id row)),
                revoke_tokens (in_live_family (t_family_id row)) now ''reuse_detected'' d)
          else if t_expires_at row \<le> now
          then (Inr R_expired, revoke_tokens (\<lambda>t. t_id t = t_id row) now ''expired'' d)
          else and_then
                 (issueRefresh cfg cr rnd now (t_user_id row) (t_device_id row) (t_family_id row)
                    (Some (t_id row)))
                 (\<lambda>raw. return (R_rotated (t_user_id row)
                    (case t_device_id row of None \<Rightarrow> ADMIN_DID | Some v \<Rightarrow> v) raw))
                 (revoke_tokens (\<lambda>t. t_id t = t_id row) now ''rotated'' d))"

text \<open>The message has an em dash, three bytes in UTF-8.\<close>

definition SESSION_REVOKED :: string where
  "SESSION_REVOKED = ''session revoked '' @ map char_of [0xE2, 0x80, 0x94 :: nat] @ '' please sign in again''"

definition refresh ::
  "token_config \<Rightarrow> token_crypto \<Rightarrow> bytes \<Rightarrow> ms \<Rightarrow> string \<Rightarrow> (db, token_pair) prog" where
  "refresh cfg cr rnd now rawToken =
     and_then (withTransaction (refresh_tx cfg cr rnd now (hashRefresh cr rawToken)))
       (\<lambda>outcome. case outcome of
            R_invalid \<Rightarrow> throw (UnauthorizedException ''invalid refresh token'')
          | R_expired \<Rightarrow> throw (UnauthorizedException ''invalid refresh token'')
          | R_reuse _ _ \<Rightarrow> throw (UnauthorizedException SESSION_REVOKED)
          | R_rotated userId deviceId raw \<Rightarrow> lift_result (pair cfg cr now userId deviceId raw))"

definition logout :: "token_crypto \<Rightarrow> ms \<Rightarrow> id \<Rightarrow> string \<Rightarrow> (db, unit) prog" where
  "logout cr now userId rawToken =
     withTransaction (\<lambda>d.
       case find_row (\<lambda>t. t_token_hash t = hashRefresh cr rawToken) (tokens d) of
         None \<Rightarrow> (Inr (), d)
       | Some r \<Rightarrow>
           if t_user_id r \<noteq> userId
           then (Inl (ForbiddenException ''refresh token does not belong to caller''), d)
           else (Inr (), revoke_tokens (in_live_family (t_family_id r)) now ''logout'' d))"

section \<open>admin-auth.service.ts\<close>

definition admin_login ::
  "token_config \<Rightarrow> token_crypto \<Rightarrow> bytes \<Rightarrow> ms \<Rightarrow> (db \<Rightarrow> db) \<Rightarrow> string \<Rightarrow> string \<Rightarrow> (db, token_pair) prog" where
  "admin_login cfg cr rnd now others email password d =
     (let user = find_row (has_email (toLowerCase email)) (users d); d1 = others d in
      case (password_ok cr password user, user) of
        (Inl e, _) \<Rightarrow> (Inl e, d1)
      | (Inr True, Some u) \<Rightarrow>
          if u_role u \<noteq> Role_admin \<or> u_is_banned u
          then (Inl (ForbiddenException ''not an administrator''), d1)
          else and_then randomUUID (\<lambda>family.
               and_then (insert_token (new_token cfg cr rnd now (u_id u) None family None)) (\<lambda>_.
               lift_result (pair cfg cr now (u_id u) ADMIN_DID (newRefreshRaw rnd)))) d1
      | (Inr _, _) \<Rightarrow> (Inl (UnauthorizedException ''invalid credentials''), d1))"

section \<open>auth.controller.ts and admin-auth.controller.ts\<close>

text \<open>The validation the decorators of the request classes ask for; \<open>isEmail\<close> is the library's.\<close>

definition length_in :: "nat \<Rightarrow> nat \<Rightarrow> string \<Rightarrow> bool" where
  "length_in lo hi s \<longleftrightarrow> lo \<le> length s \<and> length s \<le> hi"

definition valid_DeviceFields :: "device_input \<Rightarrow> bool" where
  "valid_DeviceFields inp \<longleftrightarrow> length_in 8 128 (di_installId inp) \<and>
     (case di_appVersion inp of None \<Rightarrow> True | Some v \<Rightarrow> length_in 0 40 v)"

definition valid_RegisterDto :: "(string \<Rightarrow> bool) \<Rightarrow> string \<Rightarrow> string \<Rightarrow> bool" where
  "valid_RegisterDto isEmail email password \<longleftrightarrow>
     isEmail email \<and> length_in 0 254 email \<and> length_in 12 128 password"

definition valid_LoginDto :: "(string \<Rightarrow> bool) \<Rightarrow> string \<Rightarrow> string \<Rightarrow> device_input \<Rightarrow> bool" where
  "valid_LoginDto isEmail email password inp \<longleftrightarrow>
     isEmail email \<and> length_in 0 254 email \<and> length_in 1 128 password \<and> valid_DeviceFields inp"

definition valid_RefreshDto :: "string \<Rightarrow> bool" where
  "valid_RefreshDto raw \<longleftrightarrow> length_in 16 256 raw"

definition validated :: "bool \<Rightarrow> ('s, 'a) prog \<Rightarrow> ('s, 'a) prog" where
  "validated ok handler = (if ok then handler else throw (BadRequestException ''validation failed''))"

definition guarded :: "exn + 'u \<Rightarrow> ('u \<Rightarrow> ('s, 'a) prog) \<Rightarrow> ('s, 'a) prog" where
  "guarded g handler = (case g of Inl e \<Rightarrow> throw e | Inr u \<Rightarrow> handler u)"

definition anon_route ::
  "token_config \<Rightarrow> token_crypto \<Rightarrow> bytes \<Rightarrow> ms \<Rightarrow> device_input \<Rightarrow> (db, token_pair) prog" where
  "anon_route cfg cr rnd now inp = validated (valid_DeviceFields inp) (anon cfg cr rnd now inp)"

definition register_route ::
  "token_config \<Rightarrow> token_crypto \<Rightarrow> (string \<Rightarrow> bool) \<Rightarrow> bytes \<Rightarrow> ms \<Rightarrow> string option \<Rightarrow> string \<Rightarrow> string
    \<Rightarrow> (db, unit) prog" where
  "register_route cfg cr isEmail salt now header email password =
     guarded (jwtAuthGuard cfg cr now header) (\<lambda>user.
       validated (valid_RegisterDto isEmail email password)
         (register cr salt now (au_userId user) email password))"

definition login_route ::
  "token_config \<Rightarrow> token_crypto \<Rightarrow> (string \<Rightarrow> bool) \<Rightarrow> bytes \<Rightarrow> ms \<Rightarrow> ms \<Rightarrow> (db \<Rightarrow> db) \<Rightarrow> string \<Rightarrow> string
    \<Rightarrow> device_input \<Rightarrow> (db, token_pair) prog" where
  "login_route cfg cr isEmail rnd now later others email password inp =
     validated (valid_LoginDto isEmail email password inp)
       (login cfg cr rnd now later others email password inp)"

definition refresh_route ::
  "token_config \<Rightarrow> token_crypto \<Rightarrow> bytes \<Rightarrow> ms \<Rightarrow> string \<Rightarrow> (db, token_pair) prog" where
  "refresh_route cfg cr rnd now raw = validated (valid_RefreshDto raw) (refresh cfg cr rnd now raw)"

definition logout_route ::
  "token_config \<Rightarrow> token_crypto \<Rightarrow> ms \<Rightarrow> string option \<Rightarrow> string \<Rightarrow> (db, unit) prog" where
  "logout_route cfg cr now header raw =
     guarded (jwtAuthGuard cfg cr now header) (\<lambda>user.
       validated (valid_RefreshDto raw) (logout cr now (au_userId user) raw))"

definition admin_login_route ::
  "token_config \<Rightarrow> token_crypto \<Rightarrow> (string \<Rightarrow> bool) \<Rightarrow> bytes \<Rightarrow> ms \<Rightarrow> (db \<Rightarrow> db) \<Rightarrow> string \<Rightarrow> string
    \<Rightarrow> (db, token_pair) prog" where
  "admin_login_route cfg cr isEmail rnd now others email password =
     validated (isEmail email \<and> length_in 0 254 email \<and> length_in 1 128 password)
       (admin_login cfg cr rnd now others email password)"

end
