(* ===== verification/Attest.thy ===== *)
theory Attest
  imports AttestVerifiers Auth Connection
begin

text \<open>
  Device attestation, backend/src/attest: the service that issues single-use challenges and
  binds a client key to a device (attest.service.ts), the guard in front of
  \<^verbatim>\<open>/connect\<close> (attested.guard.ts), the routes (attest.controller.ts), and the whole
  \<^verbatim>\<open>/connect\<close> endpoint behind its two guards.
\<close>

section \<open>attest.service.ts\<close>

record challenge_result =
  cr_challengeId :: id
  cr_challenge :: string

text \<open>The insert fails when the device does not exist. The random bytes are the argument.\<close>

definition createChallenge ::
  "attest_config \<Rightarrow> bytes \<Rightarrow> ms \<Rightarrow> id \<Rightarrow> (db, challenge_result) prog" where
  "createChallenge cfg rnd now deviceId d =
     (if \<not> exists_row (\<lambda>v. d_id v = deviceId) (devices d)
      then (Inl (PgError sqlstate_foreign_key_violation), d)
      else (Inr \<lparr>cr_challengeId = next_id d, cr_challenge = toBase64 rnd\<rparr>,
            d\<lparr>challenges := challenges d @ [\<lparr>c_id = next_id d, c_device_id = deviceId,
                c_purpose = P_connect, c_challenge = rnd, c_expires_at = now + challengeTtlMs cfg,
                c_consumed_at = None\<rparr>], next_id := next_id d + 1\<rparr>))"

datatype ios_mode = Mode_attest | Mode_assert

datatype attestation =
    AndroidAttestation string
  | IosAttestation ios_mode string "string option" "string option"

record verify_input =
  vi_deviceId :: id
  vi_challengeId :: id
  vi_clientPubKey :: bytes
  vi_attestation :: attestation

text \<open>Phase A: one row, read and marked under its lock.\<close>

definition consume_tx :: "ms \<Rightarrow> id \<Rightarrow> id \<Rightarrow> (db, bytes) prog" where
  "consume_tx now challengeId deviceId d =
     (case find_row (\<lambda>c. c_id c = challengeId \<and> c_device_id c = deviceId \<and> c_purpose c = P_connect)
             (challenges d) of
        None \<Rightarrow> (Inl (AttestationError ''challenge_not_found''), d)
      | Some ch \<Rightarrow>
          if c_consumed_at ch \<noteq> None then (Inl (AttestationError ''challenge_used''), d)
          else if c_expires_at ch \<le> now then (Inl (AttestationError ''challenge_expired''), d)
          else (Inr (c_challenge ch),
                d\<lparr>challenges := update_where (\<lambda>c. c_id c = c_id ch)
                    (\<lambda>c. c\<lparr>c_consumed_at := Some now\<rparr>) (challenges d)\<rparr>))"

definition update_device :: "id \<Rightarrow> (device \<Rightarrow> device) \<Rightarrow> db \<Rightarrow> db" where
  "update_device deviceId f d = d\<lparr>devices := update_where (\<lambda>v. d_id v = deviceId) f (devices d)\<rparr>"

definition mark_attested :: "attest_config \<Rightarrow> ms \<Rightarrow> bytes \<Rightarrow> device \<Rightarrow> device" where
  "mark_attested cfg now key v =
     v\<lparr>d_is_attested := True, d_attested_until := Some (now + attestationTtlMs cfg),
       d_last_attested_at := Some now, d_attested_client_public_key := Some key\<rparr>"

definition opt_json :: "('a \<Rightarrow> json) \<Rightarrow> 'a option \<Rightarrow> json" where
  "opt_json f x = (case x of None \<Rightarrow> JNull | Some v \<Rightarrow> f v)"

definition snapshot_json :: "token_payload \<Rightarrow> json" where
  "snapshot_json p = JObj
     [(''requestDetails'', opt_json (\<lambda>r. JObj
         [(''requestHash'', opt_json JStr (rd_requestHash r)),
          (''requestPackageName'', opt_json JStr (rd_requestPackageName r)),
          (''timestampMillis'', opt_json (opt_json JNum) (rd_timestampMillis r))]) (tp_requestDetails p)),
      (''appIntegrity'', opt_json (\<lambda>a. JObj
         [(''appRecognitionVerdict'', opt_json JStr (ai_appRecognitionVerdict a)),
          (''certificateSha256Digest'', opt_json (\<lambda>l. JArr (map JStr l)) (ai_certificateSha256Digest a))])
        (tp_appIntegrity p)),
      (''deviceIntegrity'', opt_json (\<lambda>v. JObj
         [(''deviceRecognitionVerdict'', opt_json (\<lambda>l. JArr (map JStr l)) (di_deviceRecognitionVerdict v))])
        (tp_deviceIntegrity p))]"

definition android_tx :: "attest_config \<Rightarrow> ms \<Rightarrow> id \<Rightarrow> bytes \<Rightarrow> token_payload \<Rightarrow> (db, unit) prog" where
  "android_tx cfg now deviceId key snapshot d =
     (Inr (), update_device deviceId (mark_attested cfg now key)
        (update_device deviceId (\<lambda>v. v\<lparr>d_last_integrity_verdict := Some (snapshot_json snapshot)\<rparr>) d))"

text \<open>
  The trigger of db/schema.sql on an update that changes the counter: once positive it must
  grow. The partial unique index forbids a key identifier two devices share.
\<close>

definition counter_trigger :: "device \<Rightarrow> int \<Rightarrow> exn + unit" where
  "counter_trigger old new =
     (if new \<noteq> d_app_attest_counter old \<and> new \<le> d_app_attest_counter old \<and> d_app_attest_counter old > 0
      then Inl (PgError sqlstate_raise_exception) else Inr ())"

definition ios_attest ::
  "attest_config \<Rightarrow> apple_lib \<Rightarrow> ms \<Rightarrow> id \<Rightarrow> bytes \<Rightarrow> bytes \<Rightarrow> device \<Rightarrow> string \<Rightarrow> string option \<Rightarrow> (db, unit) prog" where
  "ios_attest cfg L now deviceId key challenge dev keyId att d =
     (if \<not> nonempty att then (Inl (AttestationError ''missing_attestation''), d)
      else if exists_row (\<lambda>v. d_app_attest_key_id v = Some keyId \<and> d_id v \<noteq> deviceId) (devices d)
      then (Inl (AttestationError ''keyid_bound_elsewhere''), d)
      else (case verifyAttestation L cfg now (the att) keyId key challenge of
              Inl e \<Rightarrow> (Inl e, d)
            | Inr (publicKeyDer, signCount) \<Rightarrow>
                (case counter_trigger dev signCount of
                   Inl e \<Rightarrow> (Inl e, d)
                 | Inr _ \<Rightarrow> (Inr (), update_device deviceId
                     (\<lambda>v. v\<lparr>d_app_attest_key_id := Some keyId, d_app_attest_public_key := Some publicKeyDer,
                            d_app_attest_counter := signCount\<rparr>) d))))"

definition ios_assert ::
  "attest_config \<Rightarrow> apple_lib \<Rightarrow> id \<Rightarrow> bytes \<Rightarrow> bytes \<Rightarrow> device \<Rightarrow> string \<Rightarrow> string option \<Rightarrow> (db, unit) prog" where
  "ios_assert cfg L deviceId key challenge dev keyId assertion d =
     (if \<not> nonempty assertion then (Inl (AttestationError ''missing_assertion''), d)
      else (case d_app_attest_public_key dev of
              None \<Rightarrow> (Inl (AttestationError ''key_not_registered''), d)
            | Some pk \<Rightarrow>
                if d_app_attest_key_id dev \<noteq> Some keyId
                then (Inl (AttestationError ''key_not_registered''), d)
                else (case verifyAssertion L cfg (the assertion) pk (d_app_attest_counter dev) key challenge of
                        Inl e \<Rightarrow> (Inl e, d)
                      | Inr newSignCount \<Rightarrow>
                          (case counter_trigger dev newSignCount of
                             Inl e \<Rightarrow> (Inl e, d)
                           | Inr _ \<Rightarrow> (Inr (), update_device deviceId
                               (\<lambda>v. v\<lparr>d_app_attest_counter := newSignCount\<rparr>) d)))))"

definition ios_tx ::
  "attest_config \<Rightarrow> apple_lib \<Rightarrow> ms \<Rightarrow> id \<Rightarrow> bytes \<Rightarrow> bytes \<Rightarrow> ios_mode \<Rightarrow> string \<Rightarrow> string option
    \<Rightarrow> string option \<Rightarrow> (db, unit) prog" where
  "ios_tx cfg L now deviceId key challenge mode keyId att assertion d =
     (case find_row (\<lambda>v. d_id v = deviceId) (devices d) of
        None \<Rightarrow> (Inl (AttestationError ''device_not_found''), d)
      | Some dev \<Rightarrow>
          and_then
            (case mode of
               Mode_attest \<Rightarrow> ios_attest cfg L now deviceId key challenge dev keyId att
             | Mode_assert \<Rightarrow> ios_assert cfg L deviceId key challenge dev keyId assertion)
            (\<lambda>_ d1. (Inr (), update_device deviceId (mark_attested cfg now key) d1)) d)"

text \<open>
  The whole loop. \<open>others\<close> is what concurrent requests do between the transaction that
  consumes the challenge and the one that marks the device.
\<close>

definition verify_attestation ::
  "attest_config \<Rightarrow> apple_lib \<Rightarrow> (bytes \<Rightarrow> bytes) \<Rightarrow> play_decode \<Rightarrow> ms \<Rightarrow> ms \<Rightarrow> (db \<Rightarrow> db) \<Rightarrow> verify_input
    \<Rightarrow> (db, unit) prog" where
  "verify_attestation cfg L sha decode now later others inp d =
     (if length (vi_clientPubKey inp) \<noteq> 32 then (Inl (AttestationError ''bad_pubkey_len''), d)
      else (case withTransaction (consume_tx now (vi_challengeId inp) (vi_deviceId inp)) d of
        (Inl e, d1) \<Rightarrow> (Inl e, d1)
      | (Inr challenge, d1) \<Rightarrow>
          (case vi_attestation inp of
             AndroidAttestation token \<Rightarrow>
               (case playIntegrity_verify cfg sha decode later token (vi_clientPubKey inp) challenge of
                  Inl e \<Rightarrow> (Inl e, others d1)
                | Inr snapshot \<Rightarrow>
                    withTransaction (android_tx cfg later (vi_deviceId inp) (vi_clientPubKey inp) snapshot)
                      (others d1))
           | IosAttestation mode keyId att assertion \<Rightarrow>
               withTransaction (ios_tx cfg L later (vi_deviceId inp) (vi_clientPubKey inp) challenge
                 mode keyId att assertion) (others d1))))"

text \<open>The audit insert; its failure (a malformed address, a device that is gone) is swallowed.\<close>

definition audit_attempt ::
  "(string \<Rightarrow> bool) \<Rightarrow> id option \<Rightarrow> device_platform option \<Rightarrow> string \<Rightarrow> string option \<Rightarrow> string option \<Rightarrow> db \<Rightarrow> db" where
  "audit_attempt inet deviceId platform outcome reason ip d =
     (if (case ip of None \<Rightarrow> False | Some v \<Rightarrow> \<not> inet v) \<or>
         (case deviceId of None \<Rightarrow> False | Some i \<Rightarrow> \<not> exists_row (\<lambda>v. d_id v = i) (devices d))
      then d
      else d\<lparr>attempts := attempts d @ [\<lparr>at_device_id = deviceId, at_platform = platform,
               at_outcome = outcome, at_reason = reason, at_ip = ip\<rparr>]\<rparr>)"

section \<open>attested.guard.ts\<close>

text \<open>
  The guard runs before the validation of the body. The field \<^verbatim>\<open>clientPublicKey\<close> is given here as a
  text, or as missing; a value of another type, at which \<^verbatim>\<open>Buffer.from\<close> may throw or take an array,
  is outside the model.
\<close>

definition attestedGuard :: "ms \<Rightarrow> id option \<Rightarrow> string option \<Rightarrow> db \<Rightarrow> exn + bytes" where
  "attestedGuard now deviceId clientPubB64 d =
     (case deviceId of
        None \<Rightarrow> Inl (ForbiddenException ''unauthenticated'')
      | Some did \<Rightarrow>
          if \<not> nonempty clientPubB64 then Inl (ForbiddenException ''missing clientPublicKey'')
          else let presented = fromBase64 (the clientPubB64);
                   dev = find_row (\<lambda>v. d_id v = did \<and> exists_row (\<lambda>u. u_id u = d_user_id v) (users d))
                           (devices d);
                   owner = Option.bind dev (\<lambda>v. find_row (\<lambda>u. u_id u = d_user_id v) (users d)) in
            (case (dev, owner) of
               (Some v, Some u) \<Rightarrow>
                 if u_is_banned u \<or> u_status u \<noteq> U_active then Inl (ForbiddenException ''account suspended'')
                 else if d_status v \<noteq> D_active \<or> \<not> d_is_attested v \<or>
                         (case d_attested_until v of None \<Rightarrow> True | Some t \<Rightarrow> t \<le> now)
                 then Inl (ForbiddenException ''device attestation required'')
                 else (case d_attested_client_public_key v of
                         None \<Rightarrow> Inl (ForbiddenException ''key not bound to attestation'')
                       | Some bound \<Rightarrow>
                           if length bound \<noteq> length presented \<or> bound \<noteq> presented
                           then Inl (ForbiddenException ''key not bound to attestation'')
                           else Inr bound)
             | _ \<Rightarrow> Inl (ForbiddenException ''device attestation required'')))"

section \<open>attest.controller.ts\<close>

record attestation_dto =
  dto_platform :: device_platform
  dto_integrityToken :: "string option"
  dto_mode :: "ios_mode option"
  dto_keyId :: "string option"
  dto_attestation :: "string option"
  dto_assertion :: "string option"

definition toPayload :: "attestation_dto \<Rightarrow> exn + attestation" where
  "toPayload a =
     (if dto_platform a = Android then
        (if \<not> nonempty (dto_integrityToken a) then Inl (ForbiddenException ''missing integrityToken'')
         else Inr (AndroidAttestation (the (dto_integrityToken a))))
      else (case dto_mode a of
              None \<Rightarrow> Inl (ForbiddenException ''missing ios attestation fields'')
            | Some m \<Rightarrow>
                if \<not> nonempty (dto_keyId a) then Inl (ForbiddenException ''missing ios attestation fields'')
                else Inr (IosAttestation m (the (dto_keyId a)) (dto_attestation a) (dto_assertion a))))"

text \<open>The address: the first entry of \<^verbatim>\<open>x-forwarded-for\<close>, else the peer's, else null.\<close>

definition client_ip :: "string option \<Rightarrow> string option \<Rightarrow> string option" where
  "client_ip xff ip =
     (let first = (case xff of None \<Rightarrow> []
                   | Some s \<Rightarrow> trim (takeWhile (\<lambda>c. c \<noteq> CHR '','') s))
      in if first \<noteq> [] then Some first else if nonempty ip then ip else None)"

definition attest_error :: "exn \<Rightarrow> string \<times> exn" where
  "attest_error e =
     (case e of
        AttestationError reason \<Rightarrow>
          (reason, if reason = ''transient''
                   then ServiceUnavailableException ''attestation temporarily unavailable''
                   else ForbiddenException ''attestation failed'')
      | _ \<Rightarrow> (''internal_error'', ForbiddenException ''attestation failed''))"

definition challenge_route ::
  "attest_config \<Rightarrow> token_config \<Rightarrow> token_crypto \<Rightarrow> bytes \<Rightarrow> ms \<Rightarrow> string option \<Rightarrow> (db, challenge_result) prog" where
  "challenge_route cfg tc cr rnd now header =
     guarded (jwtAuthGuard tc cr now header) (\<lambda>user. createChallenge cfg rnd now (au_deviceId user))"

definition verify_route ::
  "attest_config \<Rightarrow> apple_lib \<Rightarrow> (bytes \<Rightarrow> bytes) \<Rightarrow> play_decode \<Rightarrow> (string \<Rightarrow> bool) \<Rightarrow> ms \<Rightarrow> ms \<Rightarrow> (db \<Rightarrow> db)
    \<Rightarrow> exn + auth_user \<Rightarrow> id \<Rightarrow> string \<Rightarrow> attestation_dto \<Rightarrow> string option \<Rightarrow> string option \<Rightarrow> (db, unit) prog" where
  "verify_route cfg L sha decode inet now later others user challengeId clientPublicKey dto xff ip =
     guarded user (\<lambda>u.
       guarded (toPayload dto) (\<lambda>payload d.
         (let addr = client_ip xff ip; did = Some (au_deviceId u); pf = Some (dto_platform dto) in
          case verify_attestation cfg L sha decode now later others
                 \<lparr>vi_deviceId = au_deviceId u, vi_challengeId = challengeId,
                  vi_clientPubKey = fromBase64 clientPublicKey, vi_attestation = payload\<rparr> d of
            (Inr _, d1) \<Rightarrow> (Inr (), audit_attempt inet did pf ''passed'' None addr d1)
          | (Inl e, d1) \<Rightarrow>
              (Inl (snd (attest_error e)),
               audit_attempt inet did pf ''rejected'' (Some (fst (attest_error e))) addr d1))))"

section \<open>The connect endpoint\<close>

text \<open>
  \<^verbatim>\<open>@UseGuards(JwtAuthGuard, AttestedGuard)\<close> of connection.controller.ts: the user and device
  of the token, then the device's attestation, then the handler with the attested key.
\<close>

definition connect_endpoint ::
  "token_config \<Rightarrow> token_crypto \<Rightarrow> connect_env \<Rightarrow> crypto \<Rightarrow> 'p panel_client \<Rightarrow> connect_random \<Rightarrow> ms \<Rightarrow> ms
    \<Rightarrow> string option \<Rightarrow> string option \<Rightarrow> ('p world, connect_result) prog" where
  "connect_endpoint tc cr env C pc rnd now now' header clientPubB64 w =
     (case jwtAuthGuard tc cr now header of
        Inl e \<Rightarrow> (Inl e, w)
      | Inr user \<Rightarrow>
          (case attestedGuard now (Some (au_deviceId user)) clientPubB64 (wdb w) of
             Inl e \<Rightarrow> (Inl e, w)
           | Inr key \<Rightarrow>
               connect_route env C pc rnd now now' (au_userId user) (au_deviceId user) (Some key) w))"

end
