(* ===== verification/Auth_Correct.thy ===== *)
theory Auth_Correct
  imports Auth Samples
begin

text \<open>
  Correctness of the identity component: every operation moves each family of refresh
  tokens along a three-state machine, so a family has at most one live token and a dead
  family stays dead; passwords are rate-limited by the lockout; an access token read back
  by the guard names the user and device it was issued for.
\<close>

section \<open>Families of refresh tokens\<close>

datatype family_state = Unused | Live bytes | Dead

text \<open>The life of a family: opened by a login, kept alive by rotation, closed for good.\<close>

inductive fam_step :: "family_state \<Rightarrow> family_state \<Rightarrow> bool" where
  stay: "fam_step s s"
| opened: "fam_step Unused (Live h)"
| rotated: "fam_step (Live h) (Live h')"
| closed: "fam_step (Live h) Dead"

inductive_cases fam_step_Dead [elim!]: "fam_step Dead s"
inductive_simps fam_step_simps [simp]: "fam_step Unused s" "fam_step (Live h) s"

definition family_live :: "db \<Rightarrow> id \<Rightarrow> refresh_token list" where
  "family_live d f = filter (in_live_family f) (tokens d)"

definition family_state :: "db \<Rightarrow> id \<Rightarrow> family_state" where
  "family_state d f =
     (case family_live d f of
        t # _ \<Rightarrow> Live (t_token_hash t)
      | [] \<Rightarrow> if exists_row (\<lambda>t. t_family_id t = f) (tokens d) then Dead else Unused)"

definition family_ok :: "db \<Rightarrow> bool" where
  "family_ok d \<longleftrightarrow>
     (\<forall>t \<in> set (tokens d). t_family_id t < next_id d) \<and>
     distinct (map t_token_hash (tokens d)) \<and>
     (\<forall>f. length (family_live d f) \<le> 1)"

section \<open>What an operation may do to the token table\<close>

inductive token_move :: "db \<Rightarrow> db \<Rightarrow> bool" where
  frame: "tokens d' = tokens d \<Longrightarrow> next_id d \<le> next_id d' \<Longrightarrow> token_move d d'"
| revoke: "tokens d' = update_where P (revoke_token now reason) (tokens d) \<Longrightarrow>
    next_id d \<le> next_id d' \<Longrightarrow> token_move d d'"
| issue: "tokens d' = tokens d @ [t] \<Longrightarrow> t_revoked_at t = None \<Longrightarrow>
    next_id d \<le> t_family_id t \<Longrightarrow> t_family_id t < next_id d' \<Longrightarrow>
    t_token_hash t \<notin> t_token_hash ` set (tokens d) \<Longrightarrow> token_move d d'"
| rotate: "tokens d' = update_where (\<lambda>x. t_id x = t_id r) (revoke_token now reason) (tokens d) @ [t] \<Longrightarrow>
    r \<in> set (tokens d) \<Longrightarrow> t_revoked_at r = None \<Longrightarrow> t_revoked_at t = None \<Longrightarrow>
    t_family_id t = t_family_id r \<Longrightarrow> next_id d \<le> next_id d' \<Longrightarrow>
    t_token_hash t \<notin> t_token_hash ` set (tokens d) \<Longrightarrow> token_move d d'"

lemma revoke_token_simps [simp]:
  "t_id (revoke_token now r t) = t_id t" "t_user_id (revoke_token now r t) = t_user_id t"
  "t_device_id (revoke_token now r t) = t_device_id t"
  "t_family_id (revoke_token now r t) = t_family_id t"
  "t_token_hash (revoke_token now r t) = t_token_hash t"
  "t_expires_at (revoke_token now r t) = t_expires_at t"
  "t_rotated_from (revoke_token now r t) = t_rotated_from t"
  "t_revoked_at (revoke_token now r t) = Some now"
  "t_revoke_reason (revoke_token now r t) = Some r"
  by (simp_all add: revoke_token_def)

lemma revoke_live: "filter (in_live_family f) (update_where P (revoke_token now r) ts) =
    filter (\<lambda>t. \<not> P t) (filter (in_live_family f) ts)"
  by (rule filter_dead_update) (simp add: in_live_family_def)

lemma revoke_hashes:
  "map t_token_hash (update_where P (revoke_token now r) ts) = map t_token_hash ts"
  by (simp add: map_update_where)

lemma revoke_families:
  "t_family_id ` set (update_where P (revoke_token now r) ts) = t_family_id ` set ts"
  unfolding set_map [symmetric] by (simp add: map_update_where)

lemma list_one: "length xs \<le> 1 \<Longrightarrow> xs = [] \<or> (\<exists>x. xs = [x])"
  by (cases xs) auto

lemma family_one: "family_ok d \<Longrightarrow> family_live d f = [] \<or> (\<exists>x. family_live d f = [x])"
  by (rule list_one) (simp add: family_ok_def)

lemma exists_family: "exists_row (\<lambda>t. t_family_id t = f) ts \<longleftrightarrow> f \<in> t_family_id ` set ts"
  by auto

lemma family_state_def':
  "family_state d f = (if family_live d f = [] then (if f \<in> t_family_id ` set (tokens d) then Dead else Unused)
     else Live (t_token_hash (hd (family_live d f))))"
  unfolding family_state_def exists_family by (simp split: list.split)

lemma move_ok:
  assumes "token_move d d'" and "family_ok d"
  shows "family_ok d'"
  using assms
proof cases
  case frame
  then show ?thesis using assms(2) by (auto simp: family_ok_def family_live_def)
next
  case (revoke P now reason)
  have "length (family_live d' f) \<le> 1" for f
    using assms(2) length_filter_le [of _ "family_live d f"]
    by (fastforce simp: family_ok_def family_live_def revoke(1) revoke_live intro: order_trans)
  then show ?thesis using assms(2) revoke
    by (auto simp: family_ok_def revoke_hashes update_where_ball)
next
  case (issue t)
  have "family_live d (t_family_id t) = []"
    using assms(2) issue(3) by (fastforce simp: family_ok_def family_live_def in_live_family_def filter_empty_conv)
  then have "length (family_live d' f) \<le> 1" for f
    using assms(2) issue(2) by (cases "t_family_id t = f")
      (auto simp: family_ok_def family_live_def issue(1) in_live_family_def)
  then show ?thesis using assms(2) issue
    by (fastforce simp: family_ok_def)
next
  case (rotate r now reason t)
  have one: "length (family_live d f) \<le> 1" for f using assms(2) by (simp add: family_ok_def)
  have r: "r \<in> set (family_live d (t_family_id r))"
    using rotate by (simp add: family_live_def in_live_family_def)
  then have "family_live d (t_family_id r) = [r]"
    using list_one [OF one [of "t_family_id r"]] by auto
  moreover have "family_live d' f = filter (\<lambda>x. t_id x \<noteq> t_id r) (family_live d f) @
      (if t_family_id r = f then [t] else [])" for f
    using rotate(4,5) by (simp add: family_live_def rotate(1) revoke_live in_live_family_def)
  ultimately have "length (family_live d' f) \<le> 1" for f
    using family_one [OF assms(2), of f] by auto
  moreover have "distinct (map t_token_hash (tokens d'))"
    using assms(2) rotate(7) by (simp add: family_ok_def rotate(1) revoke_hashes set_map [symmetric] del: set_map)
  ultimately show ?thesis using assms(2) rotate
    by (fastforce simp: family_ok_def update_where_ball)
qed

lemma move_steps:
  assumes "token_move d d'" and "family_ok d"
  shows "fam_step (family_state d f) (family_state d' f)"
  using assms
proof cases
  case frame
  then have "family_state d' f = family_state d f" by (simp add: family_state_def' family_live_def)
  then show ?thesis by (simp add: stay)
next
  case (revoke P now reason)
  have l: "family_live d' f = filter (\<lambda>t. \<not> P t) (family_live d f)"
    by (simp add: family_live_def revoke(1) revoke_live)
  have "f \<in> t_family_id ` set (tokens d)" if "family_live d f \<noteq> []"
    using that by (auto simp: family_live_def in_live_family_def filter_empty_conv)
  moreover have "family_live d f = [] \<or> (\<exists>x. family_live d f = [x])"
    by (rule family_one [OF assms(2)])
  ultimately show ?thesis
    by (auto simp: family_state_def' l revoke(1) revoke_families intro: stay)
next
  case (issue t)
  have new: "family_live d (t_family_id t) = []" "t_family_id t \<notin> t_family_id ` set (tokens d)"
    using assms(2) issue(3) by (fastforce simp: family_ok_def family_live_def in_live_family_def filter_empty_conv)+
  show ?thesis
  proof (cases "t_family_id t = f")
    case True
    with new have "family_state d f = Unused" by (simp add: family_state_def')
    moreover have "family_live d' f = [t]"
      using new issue(1,2) True by (simp add: family_live_def in_live_family_def)
    ultimately show ?thesis by (simp add: family_state_def')
  next
    case False
    then have "family_state d' f = family_state d f"
      by (simp add: family_state_def' family_live_def issue(1) in_live_family_def)
    then show ?thesis by (simp add: stay)
  qed
next
  case (rotate r now reason t)
  have one: "family_live d f = [] \<or> (\<exists>x. family_live d f = [x])" for f
    by (rule family_one [OF assms(2)])
  have r: "r \<in> set (family_live d (t_family_id r))"
    using rotate by (simp add: family_live_def in_live_family_def)
  show ?thesis
  proof (cases "t_family_id r = f")
    case True
    with r one [of f] have "family_live d f = [r]" by fastforce
    moreover from this True have "family_live d' f = [t]"
      using rotate(4,5) by (simp add: family_live_def rotate(1) revoke_live in_live_family_def)
    ultimately show ?thesis by (simp add: family_state_def')
  next
    case False
    then have l: "family_live d' f = filter (\<lambda>x. t_id x \<noteq> t_id r) (family_live d f)"
      and m: "f \<in> t_family_id ` set (tokens d') \<longleftrightarrow> f \<in> t_family_id ` set (tokens d)"
      using rotate(5) by (auto simp: family_live_def rotate(1) revoke_live in_live_family_def revoke_families)
    have "f \<in> t_family_id ` set (tokens d)" if "family_live d f \<noteq> []"
      using that by (auto simp: family_live_def in_live_family_def filter_empty_conv)
    with one [of f] show ?thesis
      unfolding family_state_def' m by (auto simp: l intro: stay)
  qed
qed

section \<open>The operations move the table\<close>

lemma insert_token_Inr:
  assumes "insert_token mk d = (Inr u, d')"
  shows "d' = d\<lparr>tokens := tokens d @ [mk (next_id d)], next_id := next_id d + 1\<rparr>"
    and "t_token_hash (mk (next_id d)) \<notin> t_token_hash ` set (tokens d)"
  using assms by (auto simp: insert_token_def Let_def split: if_splits)

lemma insert_token_Inl: "insert_token mk d = (Inl e, d') \<Longrightarrow> d' = d"
  by (auto simp: insert_token_def Let_def split: if_splits)

lemma new_token_simps [simp]:
  "t_id (new_token cfg cr rnd now u v f r i) = i" "t_user_id (new_token cfg cr rnd now u v f r i) = u"
  "t_device_id (new_token cfg cr rnd now u v f r i) = v"
  "t_family_id (new_token cfg cr rnd now u v f r i) = f"
  "t_token_hash (new_token cfg cr rnd now u v f r i) = hashRefresh cr (newRefreshRaw rnd)"
  "t_expires_at (new_token cfg cr rnd now u v f r i) = now + REFRESH_TTL_MS cfg"
  "t_rotated_from (new_token cfg cr rnd now u v f r i) = r"
  "t_revoked_at (new_token cfg cr rnd now u v f r i) = None"
  by (simp_all add: new_token_def refreshExpiry_def)

lemma issueRefresh_Inr:
  "issueRefresh cfg cr rnd now u v f r d = (Inr raw, d') \<longleftrightarrow>
     raw = newRefreshRaw rnd \<and> insert_token (new_token cfg cr rnd now u v f r) d = (Inr (), d')"
  by (auto simp: issueRefresh_def and_then_Inr)

lemma randomUUID_Inr [simp]:
  "randomUUID d = (Inr f, d') \<longleftrightarrow> f = next_id d \<and> d' = d\<lparr>next_id := next_id d + 1\<rparr>"
  by (auto simp: randomUUID_def)

text \<open>A token in a fresh family, whatever the operation wrote to other tables before.\<close>

lemma open_family:
  assumes "insert_token (new_token cfg cr rnd now u v (next_id d0) None) (d0\<lparr>next_id := Suc (next_id d0)\<rparr>) =
      (Inr x, d')" and "tokens d0 = tokens d" and "next_id d \<le> next_id d0"
  shows "token_move d d'"
  using insert_token_Inr [OF assms(1)] assms(2,3) by (intro token_move.issue) auto

lemma insert_device_frame:
  "insert_device u inp d = (r, d') \<Longrightarrow> tokens d' = tokens d \<and> users d' = users d \<and> next_id d \<le> next_id d'"
  by (auto simp: insert_device_def split: if_splits)

lemma findOrCreateDevice_frame:
  "findOrCreateDevice u inp d = (r, d') \<Longrightarrow> tokens d' = tokens d \<and> users d' = users d \<and> next_id d \<le> next_id d'"
  by (auto simp: findOrCreateDevice_def dest: insert_device_frame split: option.splits)

lemma tokens_same: "tokens d' = tokens d \<Longrightarrow> next_id d' = next_id d \<Longrightarrow> token_move d d'"
  by (rule token_move.frame) auto

lemma move_refl [simp]: "token_move d d"
  by (rule tokens_same) auto

lemma snd_lift [simp]: "snd (lift_result r s) = s"
  by (simp add: lift_result_def)

lemma lift_result_pair [simp]: "lift_result r s = (x, s') \<longleftrightarrow> r = x \<and> s' = s"
  by (auto simp: lift_result_def)

lemma anon_move: "token_move d (snd (anon cfg cr rnd now inp d))"
proof (cases rule: withTransaction_cases [of "anon_tx cfg cr rnd now inp" d])
  case (1 e)
  then show ?thesis by (simp add: anon_def and_then_fails)
next
  case (2 a d')
  obtain u v raw where a: "a = (u, v, raw)" by (cases a)
  from 2(2) obtain d1 d2 where dev: "insert_user now d = (Inr u, d1)" "insert_device u inp d1 = (Inr v, d2)"
    and tok: "insert_token (new_token cfg cr rnd now u (Some v) (next_id d2) None)
      (d2\<lparr>next_id := Suc (next_id d2)\<rparr>) = (Inr (), d')"
    by (auto simp: a anon_tx_def and_then_Inr issueRefresh_Inr)
  have "tokens d2 = tokens d" "next_id d \<le> next_id d2"
    using dev(1) insert_device_frame [OF dev(2)] by (auto simp: insert_user_def)
  from open_family [OF tok this] 2(1) show ?thesis by (simp add: a anon_def and_then_runs)
qed

lemma login_tx_move:
  assumes "login_tx cfg cr rnd now u inp d = (Inr p, d')"
  shows "token_move d d'"
proof -
  from assms obtain d1 d2 d3 v where s: "check_lock now u d = (Inr (), d1)" "clear_lockout u d1 = (Inr (), d2)"
    "findOrCreateDevice u inp d2 = (Inr v, d3)"
    and tok: "insert_token (new_token cfg cr rnd now u (Some v) (next_id d3) None)
      (d3\<lparr>next_id := Suc (next_id d3)\<rparr>) = (Inr (), d')"
    by (auto simp: login_tx_def and_then_Inr issueRefresh_Inr)
  have "tokens d3 = tokens d" "next_id d \<le> next_id d3"
    using s(1,2) findOrCreateDevice_frame [OF s(3)]
    by (auto simp: check_lock_def clear_lockout_def split: option.splits if_splits)
  from open_family [OF tok this] show ?thesis .
qed

lemma recordFailedLogin_move: "token_move d (recordFailedLogin cfg now u d)"
  by (rule tokens_same) (simp_all add: recordFailedLogin_def)

lemma login_move: "token_move (others d) (snd (login cfg cr rnd now later others email pw inp d))"
proof -
  have "token_move d1 (snd (withTransaction (login_tx cfg cr rnd later u inp) d1))" for u d1
    by (rule withTransaction_preserves) (auto intro: login_tx_move)
  then show ?thesis
    by (auto simp: login_def Let_def recordFailedLogin_move split: option.split sum.split bool.split)
qed

lemma refresh_tx_move:
  assumes "refresh_tx cfg cr rnd now h d = (Inr r, d')"
  shows "token_move d d'"
proof (cases "find_row (\<lambda>t. t_token_hash t = h) (tokens d)")
  case None
  with assms show ?thesis by (simp add: refresh_tx_def)
next
  case (Some row)
  consider "t_revoked_at row \<noteq> None" | "t_revoked_at row = None" "t_expires_at row \<le> now"
    | "t_revoked_at row = None" "\<not> t_expires_at row \<le> now" by blast
  then show ?thesis
  proof cases
    case 3
    let ?d = "revoke_tokens (\<lambda>t. t_id t = t_id row) now ''rotated'' d"
    from assms Some 3 have tok: "insert_token (new_token cfg cr rnd now (t_user_id row) (t_device_id row)
        (t_family_id row) (Some (t_id row))) ?d = (Inr (), d')"
      by (auto simp: refresh_tx_def and_then_Inr issueRefresh_Inr)
    have "t_token_hash ` set (tokens ?d) = t_token_hash ` set (tokens d)"
      unfolding set_map [symmetric] by (simp add: revoke_tokens_def revoke_hashes)
    with insert_token_Inr [OF tok] find_row_Some [OF Some] 3 show ?thesis
      by (intro token_move.rotate [where r = row and now = now and reason = "''rotated''" and
          t = "new_token cfg cr rnd now (t_user_id row) (t_device_id row) (t_family_id row)
            (Some (t_id row)) (next_id d)"])
        (auto simp: revoke_tokens_def)
  qed (use assms Some in \<open>auto simp: refresh_tx_def revoke_tokens_def intro!: token_move.revoke\<close>)
qed

lemma refresh_state: "snd (refresh cfg cr rnd now raw d) =
    snd (withTransaction (refresh_tx cfg cr rnd now (hashRefresh cr raw)) d)"
  by (auto simp: refresh_def and_then_def throw_def lift_result_def split: prod.split sum.split refresh_outcome.split)

lemma refresh_move: "token_move d (snd (refresh cfg cr rnd now raw d))"
  unfolding refresh_state by (rule withTransaction_preserves) (auto intro: refresh_tx_move)

lemma logout_move: "token_move d (snd (logout cr now u raw d))"
  unfolding logout_def
  by (rule withTransaction_preserves)
    (auto simp: revoke_tokens_def intro!: token_move.revoke split: option.splits if_splits)

lemma register_move: "token_move d (snd (register cr salt now u email pw d))"
proof -
  have "token_move d (snd (withTransaction (register_tx now u email h) d))" for h
    by (rule withTransaction_preserves)
      (auto simp: register_tx_def intro!: tokens_same split: option.splits if_splits)
  moreover have "snd (register cr salt now u email pw d) =
      snd (withTransaction (register_tx now u email (argon_hash cr salt pw)) d)"
    by (simp add: register_def split: prod.split sum.split)
  ultimately show ?thesis by simp
qed

lemma admin_login_move: "token_move (others d) (snd (admin_login cfg cr rnd now others email pw d))"
proof -
  have "token_move d1 (snd (and_then randomUUID (\<lambda>family.
      and_then (insert_token (new_token cfg cr rnd now u None family None)) (\<lambda>_. lift_result r)) d1))"
    for u d1 and r :: "exn + token_pair"
  proof (cases "insert_token (new_token cfg cr rnd now u None (next_id d1) None)
      (d1\<lparr>next_id := Suc (next_id d1)\<rparr>)")
    case (Pair x d2)
    show ?thesis
    proof (cases x)
      case (Inl e)
      with Pair have "token_move d1 d2"
        by (auto dest!: insert_token_Inl intro: token_move.frame)
      with Pair Inl show ?thesis by (simp add: and_then_def randomUUID_def)
    next
      case (Inr y)
      with Pair have "token_move d1 d2" by (auto intro: open_family)
      with Pair Inr show ?thesis by (simp add: and_then_def randomUUID_def)
    qed
  qed
  then show ?thesis
    by (auto simp: admin_login_def Let_def split: option.split sum.split bool.split)
qed

section \<open>Runs\<close>

text \<open>
  One step is one call of an operation, with any argument, at any time; a login's first
  read may be of any earlier database. Operations of the other components leave the table
  of tokens alone.
\<close>

inductive auth_step :: "token_config \<Rightarrow> token_crypto \<Rightarrow> db \<Rightarrow> db \<Rightarrow> bool" for cfg :: token_config and cr :: token_crypto where
  anon: "auth_step cfg cr d (snd (anon cfg cr rnd now inp d))"
| register: "auth_step cfg cr d (snd (register cr salt now u email pw d))"
| login: "auth_step cfg cr d (snd (login cfg cr rnd now later (\<lambda>_. d) email pw inp d0))"
| refresh: "auth_step cfg cr d (snd (refresh cfg cr rnd now raw d))"
| logout: "auth_step cfg cr d (snd (logout cr now u raw d))"
| admin_login: "auth_step cfg cr d (snd (admin_login cfg cr rnd now (\<lambda>_. d) email pw d0))"
| other: "tokens d' = tokens d \<Longrightarrow> next_id d \<le> next_id d' \<Longrightarrow> auth_step cfg cr d d'"

lemma auth_step_moves: "auth_step cfg cr d d' \<Longrightarrow> token_move d d'"
proof (induction rule: auth_step.induct)
  case (login d rnd now later email pw inp d0)
  then show ?case using login_move [of "\<lambda>_. d" d0] by simp
next
  case (admin_login d rnd now email pw d0)
  then show ?case using admin_login_move [of "\<lambda>_. d" d0] by simp
qed (auto intro: anon_move register_move refresh_move logout_move token_move.frame)

lemma runs_ok:
  assumes "(auth_step cfg cr)\<^sup>*\<^sup>* d d'" and "family_ok d"
  shows "family_ok d'" and "family_state d f = Dead \<Longrightarrow> family_state d' f = Dead"
  using assms
  by (induction rule: rtranclp_induct)
    (auto dest!: auth_step_moves dest: move_steps [of _ _ f] intro: move_ok)

lemma refresh_uses:
  assumes "refresh cfg cr rnd now raw d = (Inr p, d')"
  obtains row where "find_row (\<lambda>t. t_token_hash t = hashRefresh cr raw) (tokens d) = Some row"
    "t_revoked_at row = None" "now < t_expires_at row" "tp_refreshToken p = newRefreshRaw rnd"
    "insert_token (new_token cfg cr rnd now (t_user_id row) (t_device_id row) (t_family_id row)
       (Some (t_id row))) (revoke_tokens (\<lambda>t. t_id t = t_id row) now ''rotated'' d) = (Inr (), d')"
    "signAccess cfg cr now (t_user_id row) (case t_device_id row of None \<Rightarrow> ADMIN_DID | Some v \<Rightarrow> v) =
       Inr (tp_accessToken p)"
proof -
  from assms obtain o' where tx: "refresh_tx cfg cr rnd now (hashRefresh cr raw) d = (Inr o', d')"
    and out: "(case o' of R_invalid \<Rightarrow> throw (UnauthorizedException ''invalid refresh token'')
          | R_expired \<Rightarrow> throw (UnauthorizedException ''invalid refresh token'')
          | R_reuse _ _ \<Rightarrow> throw (UnauthorizedException SESSION_REVOKED)
          | R_rotated userId deviceId raw \<Rightarrow> lift_result (pair cfg cr now userId deviceId raw)) d' = (Inr p, d')"
    unfolding refresh_def and_then_Inr withTransaction_Inr
    by (fastforce split: refresh_outcome.splits simp: throw_def)
  from out obtain u v w where o': "o' = R_rotated u v w" "pair cfg cr now u v w = Inr p"
    by (auto simp: throw_def split: refresh_outcome.splits)
  from tx show thesis
    using that o' unfolding refresh_tx_def o'(1)
    by (fastforce simp: and_then_Inr issueRefresh_Inr pair_def split: option.splits if_splits sum.splits)
qed

section \<open>Properties\<close>

text \<open>
  C7. Whatever sequence of calls is made, a family of refresh tokens never has more than
  one live token, token hashes stay unique, and every call moves every family along the
  life cycle unused, live, dead.
\<close>

theorem families_invariant:
  assumes "(auth_step cfg cr)\<^sup>*\<^sup>* empty_db d"
  shows "family_ok d \<and> (\<forall>d'. auth_step cfg cr d d' \<longrightarrow> fam_step (family_state d f) (family_state d' f))"
proof -
  have "family_ok empty_db" by (simp add: family_ok_def family_live_def empty_db_def)
  from runs_ok(1) [OF assms this] show ?thesis by (auto dest!: auth_step_moves intro: move_steps)
qed

text \<open>
  C18. Theft detection is final: presenting a revoked refresh token fails and kills its
  family, and no refresh of any token of that family succeeds in any later state.
\<close>

theorem reuse_kills_family:
  assumes "family_ok d" and "t \<in> set (tokens d)" and "t_token_hash t = hashRefresh cr raw"
    and "t_revoked_at t \<noteq> None"
    and "(auth_step cfg cr)\<^sup>*\<^sup>* (snd (refresh cfg cr rnd now raw d)) d'"
  shows "fst (refresh cfg cr rnd now raw d) = Inl (UnauthorizedException SESSION_REVOKED) \<and>
    family_state d' (t_family_id t) = Dead \<and>
    (\<forall>t' rnd' now' raw'. t' \<in> set (tokens d') \<and> t_family_id t' = t_family_id t \<and>
       t_token_hash t' = hashRefresh cr raw' \<longrightarrow> isl (fst (refresh cfg cr rnd' now' raw' d')))"
proof -
  have found: "find_row (\<lambda>x. t_token_hash x = t_token_hash y) (tokens e) = Some y"
    if "family_ok e" "y \<in> set (tokens e)" for e y
    using that by (intro find_row_unique) (auto simp: family_ok_def)
  let ?d1 = "revoke_tokens (in_live_family (t_family_id t)) now ''reuse_detected'' d"
  have "refresh_tx cfg cr rnd now (hashRefresh cr raw) d = (Inr (R_reuse (t_user_id t) (t_family_id t)), ?d1)"
    using found [OF assms(1,2)] assms(3,4) by (simp add: refresh_tx_def)
  then have r: "refresh cfg cr rnd now raw d =
      (Inl (UnauthorizedException SESSION_REVOKED), ?d1)"
    by (simp add: refresh_def and_then_def withTransaction_def throw_def)
  have "family_live ?d1 (t_family_id t) = []"
    by (simp add: family_live_def revoke_tokens_def revoke_live filter_empty_conv)
  moreover have "t_family_id t \<in> t_family_id ` set (tokens ?d1)"
    using assms(2) by (simp add: revoke_tokens_def revoke_families)
  ultimately have "family_state ?d1 (t_family_id t) = Dead" by (simp add: family_state_def')
  moreover have ok1: "family_ok ?d1" using move_ok [OF refresh_move assms(1)] r by (metis snd_conv)
  ultimately have dead: "family_state d' (t_family_id t) = Dead" and ok: "family_ok d'"
    using runs_ok [of cfg cr ?d1 d'] assms(5) r by simp_all
  have "isl (fst (refresh cfg cr rnd' now' raw' d'))"
    if "t' \<in> set (tokens d')" "t_family_id t' = t_family_id t" "t_token_hash t' = hashRefresh cr raw'"
    for t' :: refresh_token and rnd' now' raw'
  proof (rule ccontr)
    assume "\<not> isl (fst (refresh cfg cr rnd' now' raw' d'))"
    then obtain p d2 where "refresh cfg cr rnd' now' raw' d' = (Inr p, d2)"
      by (metis isl_def prod.collapse sum.collapse(2))
    then have "t_revoked_at t' = None"
      by (rule refresh_uses) (use found [OF ok that(1)] that(3) in auto)
    with that have "t' \<in> set (family_live d' (t_family_id t))"
      by (simp add: family_live_def in_live_family_def)
    with dead show False by (auto simp: family_state_def split: list.splits)
  qed
  then show ?thesis using r dead by (intro conjI) (simp, simp, blast)
qed

text \<open>
  A successful refresh spends the presented token: it was known, live and unexpired,
  it is revoked now, and exactly one token is added, for the same user, device and family,
  whose raw value is the one handed out and which expires a whole period later.
\<close>

theorem refresh_rotates:
  assumes "family_ok d" and "refresh cfg cr rnd now raw d = (Inr p, d')"
  shows "\<exists>t t'. t \<in> set (tokens d) \<and> t_token_hash t = hashRefresh cr raw \<and> t_revoked_at t = None \<and>
    now < t_expires_at t \<and>
    tokens d' = update_where (\<lambda>x. t_id x = t_id t) (revoke_token now ''rotated'') (tokens d) @ [t'] \<and>
    t_user_id t' = t_user_id t \<and> t_device_id t' = t_device_id t \<and> t_family_id t' = t_family_id t \<and>
    t_rotated_from t' = Some (t_id t) \<and> t_token_hash t' = hashRefresh cr (tp_refreshToken p) \<and>
    t_expires_at t' = now + REFRESH_TTL_MS cfg \<and> family_state d' (t_family_id t) = Live (t_token_hash t')"
  using assms(2)
proof (rule refresh_uses)
  fix row :: refresh_token
  let ?t = "new_token cfg cr rnd now (t_user_id row) (t_device_id row) (t_family_id row) (Some (t_id row)) (next_id d)"
  assume row: "find_row (\<lambda>t. t_token_hash t = hashRefresh cr raw) (tokens d) = Some row"
    "t_revoked_at row = None" "now < t_expires_at row" "tp_refreshToken p = newRefreshRaw rnd"
    and ins: "insert_token (new_token cfg cr rnd now (t_user_id row) (t_device_id row) (t_family_id row)
      (Some (t_id row))) (revoke_tokens (\<lambda>t. t_id t = t_id row) now ''rotated'' d) = (Inr (), d')"
  note r = find_row_Some [OF row(1)]
  have tok: "tokens d' = update_where (\<lambda>x. t_id x = t_id row) (revoke_token now ''rotated'') (tokens d) @ [?t]"
    using insert_token_Inr(1) [OF ins] by (simp add: revoke_tokens_def)
  have "row \<in> set (family_live d (t_family_id row))"
    using r row(2) by (simp add: family_live_def in_live_family_def)
  with family_one [OF assms(1), of "t_family_id row"] have "family_live d (t_family_id row) = [row]" by auto
  then have "family_live d' (t_family_id row) = [?t]"
    by (simp add: family_live_def tok revoke_live in_live_family_def)
  then have "family_state d' (t_family_id row) = Live (t_token_hash ?t)" by (simp add: family_state_def')
  with r row tok show ?thesis by (intro exI [of _ row] exI [of _ ?t]) simp
qed

lemma logout_found:
  assumes "find_row (\<lambda>x. t_token_hash x = hashRefresh cr raw) (tokens d) = Some t"
  shows "logout cr now uid raw d =
    (if t_user_id t \<noteq> uid then (Inl (ForbiddenException ''refresh token does not belong to caller''), d)
     else (Inr (), revoke_tokens (in_live_family (t_family_id t)) now ''logout'' d))"
  using assms by (simp add: logout_def withTransaction_def)

lemma find_token:
  "family_ok d \<Longrightarrow> t \<in> set (tokens d) \<Longrightarrow>
    find_row (\<lambda>x. t_token_hash x = t_token_hash t) (tokens d) = Some t"
  by (rule find_row_unique) (simp_all add: family_ok_def)

text \<open>
  Logging out ends the session of the presented token and no other: its family is
  dead, every other family keeps its live token, and a token of somebody else changes
  nothing.
\<close>

theorem logout_scope:
  assumes "family_ok d" and "t \<in> set (tokens d)" and "t_token_hash t = hashRefresh cr raw"
  shows "if t_user_id t = uid
    then fst (logout cr now uid raw d) = Inr () \<and>
      family_state (snd (logout cr now uid raw d)) (t_family_id t) = Dead \<and>
      (\<forall>f. f \<noteq> t_family_id t \<longrightarrow> family_live (snd (logout cr now uid raw d)) f = family_live d f)
    else logout cr now uid raw d = (Inl (ForbiddenException ''refresh token does not belong to caller''), d)"
proof -
  note l = logout_found [OF find_token [OF assms(1,2), unfolded assms(3)], of now uid]
  let ?d = "revoke_tokens (in_live_family (t_family_id t)) now ''logout'' d"
  have "family_live ?d f = (if f = t_family_id t then [] else family_live d f)" for f
    by (auto simp: family_live_def revoke_tokens_def revoke_live filter_empty_conv in_live_family_def
        intro: filter_cong)
  moreover have "t_family_id t \<in> t_family_id ` set (tokens ?d)"
    using assms(2) by (simp add: revoke_tokens_def revoke_families)
  ultimately show ?thesis by (simp add: l family_state_def')
qed

section \<open>Lockout\<close>

definition failures :: "token_config \<Rightarrow> id \<Rightarrow> ms list \<Rightarrow> db \<Rightarrow> db" where
  "failures cfg uid ts d = fold (\<lambda>now. recordFailedLogin cfg now uid) ts d"

lemma recordFailedLogin_find:
  "find_row (\<lambda>u. u_id u = uid) (users (recordFailedLogin cfg now uid d)) =
     map_option (count_failure cfg now) (find_row (\<lambda>u. u_id u = uid) (users d))"
proof -
  have "find_row (\<lambda>u. u_id u = uid) (update_where (\<lambda>u. u_id u = uid) (count_failure cfg now) t) =
      map_option (count_failure cfg now) (find_row (\<lambda>u. u_id u = uid) t)" for t
    by (induction t) (auto simp: count_failure_def)
  then show ?thesis by (simp add: recordFailedLogin_def)
qed

lemma failures_count:
  assumes "find_row (\<lambda>u. u_id u = uid) (users d) = Some u"
  shows "\<exists>u'. find_row (\<lambda>u. u_id u = uid) (users (failures cfg uid ts d)) = Some u' \<and>
      u_failed_login_count u' = u_failed_login_count u + int (length ts)"
    and "tokens (failures cfg uid ts d) = tokens d"
proof -
  show "\<exists>u'. find_row (\<lambda>u. u_id u = uid) (users (failures cfg uid ts d)) = Some u' \<and>
      u_failed_login_count u' = u_failed_login_count u + int (length ts)"
    using assms
  proof (induction ts arbitrary: d u)
    case (Cons t ts)
    have "find_row (\<lambda>u. u_id u = uid) (users (recordFailedLogin cfg t uid d)) = Some (count_failure cfg t u)"
      using Cons.prems by (simp add: recordFailedLogin_find)
    from Cons.IH [OF this] show ?case by (simp add: failures_def count_failure_def algebra_simps)
  qed (simp add: failures_def)
  show "tokens (failures cfg uid ts d) = tokens d"
    by (induction ts arbitrary: d) (simp_all add: failures_def recordFailedLogin_def)
qed

lemma failures_lock:
  assumes "find_row (\<lambda>u. u_id u = uid) (users d) = Some u" and "0 \<le> u_failed_login_count u"
    and "ts \<noteq> []" and "MAX_FAILED cfg \<le> int (length ts)"
  shows "\<exists>u'. find_row (\<lambda>u. u_id u = uid) (users (failures cfg uid ts d)) = Some u' \<and>
    u_locked_until u' = Some (last ts + LOCKOUT_MS cfg)"
proof -
  from assms(3) obtain l x where ts: "ts = l @ [x]" by (metis rev_exhaust)
  from failures_count(1) [OF assms(1), of cfg l] obtain u1
    where u1: "find_row (\<lambda>u. u_id u = uid) (users (failures cfg uid l d)) = Some u1"
      "u_failed_login_count u1 = u_failed_login_count u + int (length l)" by blast
  have "failures cfg uid ts d = recordFailedLogin cfg x uid (failures cfg uid l d)"
    by (simp add: failures_def ts)
  with u1 assms(2,4) show ?thesis
    by (simp add: recordFailedLogin_find count_failure_def ts)
qed

text \<open>
  C20. After the configured number of failed attempts no password opens the account until
  the lockout has passed: a login that commits before then fails and issues no token, even
  one that had read the account before the attempts and knows the password.
\<close>

theorem lockout_blocks:
  assumes "find_row (\<lambda>u. u_id u = uid) (users d) = Some u" and "0 \<le> u_failed_login_count u"
    and "ts \<noteq> []" and "MAX_FAILED cfg \<le> int (length ts)" and "later < last ts + LOCKOUT_MS cfg"
    and "find_row (has_email (toLowerCase email)) (users d0) = Some u0" and "u_id u0 = uid"
  shows "isl (fst (login cfg cr rnd now later (\<lambda>_. failures cfg uid ts d) email pw inp d0)) \<and>
    tokens (snd (login cfg cr rnd now later (\<lambda>_. failures cfg uid ts d) email pw inp d0)) = tokens d"
proof -
  from failures_lock [OF assms(1-4)] assms(5)
  have "check_lock later uid (failures cfg uid ts d) =
      (Inl (ForbiddenException ''account temporarily locked''), failures cfg uid ts d)"
    by (auto simp: check_lock_def locked_def)
  then have "withTransaction (login_tx cfg cr rnd later uid inp) (failures cfg uid ts d) =
      (Inl (ForbiddenException ''account temporarily locked''), failures cfg uid ts d)"
    by (simp add: withTransaction_def login_tx_def and_then_fails)
  moreover note failures_count(2) [OF assms(1)]
  ultimately show ?thesis
    using assms(6,7)
    by (auto simp: login_def Let_def recordFailedLogin_def split: sum.split bool.split)
qed

section \<open>Access tokens\<close>

text \<open>
  What the code relies on from jsonwebtoken: a token signed with the signing key verifies
  with the verification key while it has not expired, and gives the claims back.
\<close>

definition jwt_key_pair :: "token_config \<Rightarrow> token_crypto \<Rightarrow> ms \<Rightarrow> ms \<Rightarrow> bool" where
  "jwt_key_pair cfg cr now later \<longleftrightarrow>
     (\<forall>c. jwt_verify cr (VERIFY_ALGS cfg) (VERIFY_KEY cfg) (jwt_opts cfg) later
        (jwt_sign cr (SIGN_ALG cfg) (SIGN_KEY cfg) c (ACCESS_TTL cfg) (jwt_opts cfg) now) = Inr c)"

lemma signed_guarded:
  assumes "signAccess cfg cr now u v = Inr a" and "VERIFY_KEY cfg \<noteq> []" and "jwt_key_pair cfg cr now later"
  shows "jwtAuthGuard cfg cr later (Some (''Bearer '' @ a)) = Inr \<lparr>au_userId = u, au_deviceId = v\<rparr>"
  using assms by (auto simp: signAccess_def jwtAuthGuard_def jwt_key_pair_def split: if_splits)

text \<open>
  The access token a refresh hands out authenticates as the owner of the refresh
  token: the guard reads back the user of the spent token and its device, the nil device
  for an administrator's token.
\<close>

theorem refreshed_access_identifies:
  assumes "refresh cfg cr rnd now raw d = (Inr p, d')" and "VERIFY_KEY cfg \<noteq> []"
    and "jwt_key_pair cfg cr now later"
  shows "\<exists>t \<in> set (tokens d). t_token_hash t = hashRefresh cr raw \<and>
    jwtAuthGuard cfg cr later (Some (''Bearer '' @ tp_accessToken p)) =
      Inr \<lparr>au_userId = t_user_id t,
           au_deviceId = (case t_device_id t of None \<Rightarrow> ADMIN_DID | Some v \<Rightarrow> v)\<rparr>"
  using assms(1)
proof (rule refresh_uses)
  fix row :: refresh_token
  assume row: "find_row (\<lambda>t. t_token_hash t = hashRefresh cr raw) (tokens d) = Some row"
    and sig: "signAccess cfg cr now (t_user_id row) (case t_device_id row of None \<Rightarrow> ADMIN_DID | Some v \<Rightarrow> v) =
       Inr (tp_accessToken p)"
  from find_row_Some [OF row] signed_guarded [OF sig assms(2,3)] show ?thesis
    by (intro bexI [of _ row]) simp_all
qed

section \<open>Behaviour at the edges\<close>

text \<open>Rotation does not look at the account: a banned user keeps refreshing.\<close>

lemma ban_keeps_refresh:
  "fst (refresh cfg cr rnd now raw (d\<lparr>users := update_where P (\<lambda>u. u\<lparr>u_is_banned := True\<rparr>) (users d)\<rparr>)) =
   fst (refresh cfg cr rnd now raw d)"
proof -
  have e: "(\<exists>r \<in> set (update_where P (\<lambda>u. u\<lparr>u_is_banned := True\<rparr>) t). u_id r = i) \<longleftrightarrow>
      (\<exists>r \<in> set t. u_id r = i)" for i t by (induction t) auto
  show ?thesis
    by (auto simp: refresh_def and_then_def withTransaction_def refresh_tx_def revoke_tokens_def
        issueRefresh_def insert_token_def Let_def e return_def throw_def lift_result_def
        split: option.split prod.split sum.split refresh_outcome.split if_splits)
qed

text \<open>
  The counter outlives the lock: once an account has been locked, a single failure after
  the lock has expired locks it again.
\<close>

lemma one_failure_relocks:
  assumes "MAX_FAILED cfg \<le> u_failed_login_count u" and "0 < LOCKOUT_MS cfg"
  shows "locked now (count_failure cfg now u)"
  using assms by (simp add: locked_def count_failure_def)

text \<open>Without a signing key the first launch fails after its transaction: the account stays.\<close>

lemma anon_orphan:
  assumes "SIGN_KEY cfg = []" and "anon_tx cfg cr rnd now inp d = (Inr r, d')"
  shows "anon cfg cr rnd now inp d = (Inl (JsError ''JWT signing key not configured''), d')"
  using assms by (cases r) (simp add: anon_def and_then_def withTransaction_def lift_result_def pair_def signAccess_def)

section \<open>Witnesses\<close>

definition sample_config :: token_config where
  "sample_config = \<lparr>JWT_PRIVATE_KEY = None, JWT_PUBLIC_KEY = None, JWT_SECRET = Some ''k'',
     JWT_ISSUER = None, JWT_AUDIENCE = None, ACCESS_TTL = ''15m'', REFRESH_TTL_MS = 1000000,
     MAX_FAILED = 2, LOCKOUT_MS = 5000\<rparr>"

text \<open>Stand-ins with the types of the primitives; a token spells its claims in unary.\<close>

definition claim_text :: "char \<Rightarrow> id option \<Rightarrow> string" where
  "claim_text c x = (case x of None \<Rightarrow> [] | Some n \<Rightarrow> replicate (Suc n) c)"

definition read_claim :: "char \<Rightarrow> string \<Rightarrow> id option" where
  "read_claim c s = (case length (filter (\<lambda>x. x = c) s) of 0 \<Rightarrow> None | Suc n \<Rightarrow> Some n)"

definition sample_tokens :: token_crypto where
  "sample_tokens = \<lparr>sha256 = map (\<lambda>c. of_nat (of_char c)),
     jwt_sign = (\<lambda>_ _ c _ _ _. claim_text CHR ''s'' (jc_sub c) @ claim_text CHR ''d'' (jc_did c)),
     jwt_verify = (\<lambda>_ _ _ _ t. Inr \<lparr>jc_sub = read_claim CHR ''s'' t, jc_did = read_claim CHR ''d'' t\<rparr>),
     argon_hash = (\<lambda>_ p. p), argon_verify = (\<lambda>h p. Inr (h = p))\<rparr>"

lemma sample_key_pair: "jwt_key_pair sample_config sample_tokens now later"
proof -
  have "read_claim CHR ''s'' (claim_text CHR ''s'' x @ claim_text CHR ''d'' y) = x"
    "read_claim CHR ''d'' (claim_text CHR ''s'' x @ claim_text CHR ''d'' y) = y" for x y
    by (auto simp: read_claim_def claim_text_def filter_replicate split: option.split)
  then show ?thesis by (simp add: jwt_key_pair_def sample_tokens_def)
qed

definition sample_token :: "string \<Rightarrow> id \<Rightarrow> ms option \<Rightarrow> refresh_token" where
  "sample_token raw i r = \<lparr>t_id = i, t_user_id = 1, t_device_id = Some 2, t_family_id = 9,
     t_token_hash = hashRefresh sample_tokens raw, t_expires_at = 500000, t_rotated_from = None,
     t_revoked_at = r, t_revoke_reason = None\<rparr>"

definition token_db :: db where
  "token_db = sample_db\<lparr>tokens := [sample_token ''old'' 8 (Some 10), sample_token ''new'' 9 None]\<rparr>"

lemma token_db_ok: "family_ok token_db"
proof -
  have "tokens token_db = [sample_token ''old'' 8 (Some 10), sample_token ''new'' 9 None]" "next_id token_db = 10"
    by (simp_all add: token_db_def sample_db_def)
  then show ?thesis
    by (simp add: family_ok_def family_live_def sample_token_def in_live_family_def hashRefresh_def sample_tokens_def)
qed

lemma token_db_members:
  "sample_token ''old'' 8 (Some 10) \<in> set (tokens token_db)" "sample_token ''new'' 9 None \<in> set (tokens token_db)"
  by (simp_all add: token_db_def)

lemma sample_token_simps [simp]:
  "t_token_hash (sample_token raw i r) = hashRefresh sample_tokens raw"
  "t_revoked_at (sample_token raw i r) = r" "t_family_id (sample_token raw i r) = 9"
  "t_user_id (sample_token raw i r) = 1" "t_device_id (sample_token raw i r) = Some 2"
  by (simp_all add: sample_token_def)

theorem families_invariant_witness:
  "family_ok (snd (anon sample_config sample_tokens [] 1000 \<lparr>di_platform = Ios, di_installId = ''device-1'',
     di_appVersion = None\<rparr> empty_db))"
proof -
  have "(auth_step sample_config sample_tokens)\<^sup>*\<^sup>* empty_db
    (snd (anon sample_config sample_tokens [] 1000 \<lparr>di_platform = Ios, di_installId = ''device-1'',
       di_appVersion = None\<rparr> empty_db))"
    by (intro r_into_rtranclp auth_step.anon)
  from families_invariant [OF this] show ?thesis by simp
qed

theorem reuse_kills_family_witness:
  "family_state (snd (refresh sample_config sample_tokens [] 1000 ''old'' token_db)) 9 = Dead"
proof -
  have "(auth_step sample_config sample_tokens)\<^sup>*\<^sup>* (snd (refresh sample_config sample_tokens [] 1000 ''old'' token_db))
    (snd (refresh sample_config sample_tokens [] 1000 ''old'' token_db))" by simp
  from reuse_kills_family [OF token_db_ok token_db_members(1) _ _ this] show ?thesis by simp
qed

definition sample_refresh :: "(exn + token_pair) \<times> db" where
  "sample_refresh = refresh sample_config sample_tokens [1, 2, 3] 1000 ''new'' token_db"

lemma sample_refresh_ok: "refresh sample_config sample_tokens [1, 2, 3] 1000 ''new'' token_db =
    (Inr (projr (fst sample_refresh)), snd sample_refresh)"
proof -
  have "\<not> isl (fst sample_refresh)" by code_simp
  then show ?thesis unfolding sample_refresh_def by (metis prod.collapse sum.collapse(2))
qed

theorem refresh_rotates_witness:
  "\<exists>t'. length (tokens (snd sample_refresh)) = 3 \<and> t' \<in> set (tokens (snd sample_refresh)) \<and>
     t_user_id t' = 1 \<and> t_expires_at t' = 1001000 \<and> family_state (snd sample_refresh) 9 = Live (t_token_hash t')"
proof -
  from refresh_rotates [OF token_db_ok sample_refresh_ok] obtain t t' where
    t: "t \<in> set (tokens token_db)" "t_user_id t' = t_user_id t"
    "family_state (snd sample_refresh) (t_family_id t) = Live (t_token_hash t')"
    "t_expires_at t' = 1000 + REFRESH_TTL_MS sample_config"
    "tokens (snd sample_refresh) = update_where (\<lambda>x. t_id x = t_id t) (revoke_token 1000 ''rotated'') (tokens token_db) @ [t']"
    by blast
  moreover have "t_family_id t = 9" "t_user_id t = 1"
    using t(1) by (auto simp: token_db_def)
  ultimately show ?thesis by (intro exI [of _ t']) (simp add: sample_config_def token_db_def)
qed

theorem logout_scope_witness:
  "family_state (snd (logout sample_tokens 1000 1 ''new'' token_db)) 9 = Dead"
  using logout_scope [OF token_db_ok token_db_members(2), of sample_tokens "''new''" 1] by simp

definition password_user :: user where
  "password_user = sample_user\<lparr>u_email := Some ''a@b'', u_password_hash := Some ''secret''\<rparr>"

theorem lockout_blocks_witness:
  "isl (fst (login sample_config sample_tokens [] 100 2500
     (\<lambda>_. failures sample_config 1 [1000, 2000] (sample_db\<lparr>users := [password_user]\<rparr>)) ''A@B'' ''secret''
     \<lparr>di_platform = Ios, di_installId = ''device-1'', di_appVersion = None\<rparr> (sample_db\<lparr>users := [password_user]\<rparr>)))"
proof -
  have u: "find_row (\<lambda>u. u_id u = 1) (users (sample_db\<lparr>users := [password_user]\<rparr>)) = Some password_user"
    by (simp add: password_user_def sample_user_def)
  have e: "find_row (has_email (toLowerCase ''A@B'')) (users (sample_db\<lparr>users := [password_user]\<rparr>)) = Some password_user"
    by code_simp
  show ?thesis
    using lockout_blocks [OF u _ _ _ _ e, of "[1000, 2000]" sample_config 2500]
    by (simp add: password_user_def sample_user_def sample_config_def)
qed

theorem refreshed_access_identifies_witness:
  "jwtAuthGuard sample_config sample_tokens 1001 (Some (''Bearer '' @ tp_accessToken (projr (fst sample_refresh)))) =
     Inr \<lparr>au_userId = 1, au_deviceId = 2\<rparr>"
proof -
  have "VERIFY_KEY sample_config \<noteq> []" by (simp add: VERIFY_KEY_def sample_config_def coalesce_def)
  from refreshed_access_identifies [OF sample_refresh_ok this sample_key_pair, of 1001] show ?thesis
    by (auto simp: token_db_def)
qed

end
