(* ===== verification/Attest_Correct.thy ===== *)
theory Attest_Correct
  imports Attest Auth_Correct Connection_Correct
begin

text \<open>
  Correctness of device attestation: evidence is bound to the client's key and to a challenge
  that is used once, the assertion counter never goes back, a rejected attestation changes
  no device, and the guard lets exactly the bound key connect.
\<close>

section \<open>The verifiers\<close>

definition genuine_verdict :: "attest_config \<Rightarrow> (bytes \<Rightarrow> bytes) \<Rightarrow> ms \<Rightarrow> bytes \<Rightarrow> bytes \<Rightarrow> token_payload \<Rightarrow> bool" where
  "genuine_verdict cfg sha now key challenge p \<longleftrightarrow>
     (\<exists>rd ai di ts l.
        tp_requestDetails p = Some rd \<and> rd_requestHash rd = Some (toBase64url (sha (key @ challenge))) \<and>
        rd_requestPackageName rd = Some (androidPackageName cfg) \<and>
        tp_appIntegrity p = Some ai \<and> ai_appRecognitionVerdict ai = Some ''PLAY_RECOGNIZED'' \<and>
        (androidCertDigests cfg = [] \<or>
           set (list_default (ai_certificateSha256Digest ai)) \<inter> set (androidCertDigests cfg) \<noteq> {}) \<and>
        tp_deviceIntegrity p = Some di \<and> di_deviceRecognitionVerdict di = Some l \<and>
        ''MEETS_DEVICE_INTEGRITY'' \<in> set l \<and>
        (rd_timestampMillis rd = Some (Some ts) \<or> rd_timestampMillis rd = None \<and> ts = 0) \<and>
        now - ts \<le> androidTokenMaxAgeMs cfg)"

lemma hash_matches_iff:
  "hash_matches rdo h \<longleftrightarrow> h \<noteq> [] \<and> (\<exists>rd. rdo = Some rd \<and> rd_requestHash rd = Some h)"
  by (auto simp: hash_matches_def constTimeEqualStr_def split: option.splits)

lemma in_list_default: "x \<in> set (list_default o') \<longleftrightarrow> (\<exists>l. o' = Some l \<and> x \<in> set l)"
  by (cases o') (simp_all add: list_default_def)

lemma check_payload_sound:
  assumes "check_payload cfg sha now key ch p = Inr q"
  shows "q = p \<and> genuine_verdict cfg sha now key ch p"
proof -
  from assms obtain rd where rd: "tp_requestDetails p = Some rd"
    "rd_requestHash rd = Some (toBase64url (sha (key @ ch)))"
    by (auto simp: check_payload_def hash_matches_iff requestHash_def split: if_splits)
  from assms obtain ai where ai: "tp_appIntegrity p = Some ai"
    "ai_appRecognitionVerdict ai = Some ''PLAY_RECOGNIZED''"
    by (auto simp: check_payload_def Let_def bind_eq_Some_conv split: if_splits)
  have di: "''MEETS_DEVICE_INTEGRITY'' \<in> set (list_default (Option.bind (tp_deviceIntegrity p) di_deviceRecognitionVerdict))"
    and q: "q = p" and pkg: "rd_requestPackageName rd = Some (androidPackageName cfg)"
    and dg: "androidCertDigests cfg = [] \<or> list_ex (\<lambda>g. g \<in> set (androidCertDigests cfg))
      (list_default (ai_certificateSha256Digest ai))" and fresh: "\<not> token_stale cfg now rd"
    using assms rd ai by (auto simp: check_payload_def Let_def split: if_splits)
  from di obtain dv l where dv: "tp_deviceIntegrity p = Some dv" "di_deviceRecognitionVerdict dv = Some l"
    "''MEETS_DEVICE_INTEGRITY'' \<in> set l"
    by (auto simp: in_list_default bind_eq_Some_conv)
  from fresh obtain ts where ts: "rd_timestampMillis rd = Some (Some ts) \<or> rd_timestampMillis rd = None \<and> ts = 0"
    "now - ts \<le> androidTokenMaxAgeMs cfg"
    by (auto simp: token_stale_def split: option.splits)
  have "androidCertDigests cfg = [] \<or>
      set (list_default (ai_certificateSha256Digest ai)) \<inter> set (androidCertDigests cfg) \<noteq> {}"
    using dg by (auto simp: list_ex_iff)
  with rd ai pkg dv ts q show ?thesis unfolding genuine_verdict_def by blast
qed

lemma playIntegrity_sound:
  assumes "playIntegrity_verify cfg sha decode now token key ch = Inr p"
  shows "decode (androidPackageName cfg) token = Inr (Some p) \<and> genuine_verdict cfg sha now key ch p"
  using assms check_payload_sound
  by (fastforce simp: playIntegrity_verify_def split: sum.splits option.splits)

lemma ctEqual_iff [simp]: "ctEqual a b \<longleftrightarrow> a = b"
  by (auto simp: ctEqual_def)

lemma assertion_sound:
  assumes "verifyAssertion L cfg a pk stored key ch = Inr n"
  shows "stored < n \<and> (\<exists>authData sig. ecdsa_verify L pk (authData @ al_sha256 L (key @ ch)) sig = Inr True \<and>
    n = readUInt32BE authData 33 \<and> subarray authData 0 32 = appIdHash L cfg)"
  using assms
  by (auto simp: verifyAssertion_def parseAuthData_def clientDataHash_def Let_def
      split: if_splits sum.splits option.splits bool.splits)

lemma check_leaf_sound:
  assumes "check_leaf L cfg leaf authData keyId key ch = Inr (pk, n)"
  shows "n = 0 \<and> pk = crt_publicKey leaf \<and>
    extractAppleNonce leaf = Some (al_sha256 L (authData @ al_sha256 L (key @ ch)))"
  using assms
  by (auto simp: check_leaf_def clientDataHash_def Let_def split: if_splits sum.splits option.splits)

lemma attestation_sound:
  assumes "verifyAttestation L cfg now a keyId key ch = Inr (pk, n)"
  shows "n = 0 \<and> (\<exists>leaf authData. pk = crt_publicKey leaf \<and>
    extractAppleNonce leaf = Some (al_sha256 L (authData @ al_sha256 L (key @ ch))))"
  using assms
  by (auto simp: verifyAttestation_def split: if_splits sum.splits option.splits list.splits
      dest: check_leaf_sound)

text \<open>
  The parser of the nonce extension does not look at the two outer length bytes: whatever
  they are, the 32 bytes come out.
\<close>

lemma outer_lengths_ignored:
  assumes "length n = 32"
  shows "extractAppleNonce \<lparr>crt_publicKey = k, crt_nonceExt = Some ([0x30, x, 0xA1, y, 0x04, 0x20] @ n),
    crt_ca = c\<rparr> = Some n"
  using assms by (simp add: extractAppleNonce_def byte_at_def subarray_def)

lemma extracted_nonce_length: "extractAppleNonce c = Some n \<Longrightarrow> length n = 32"
  by (auto simp: extractAppleNonce_def subarray_def split: option.splits if_splits)

section \<open>The transactions\<close>

lemma consume_tx_Inr:
  assumes "consume_tx now cid did d = (Inr ch, d1)"
  obtains c where "c \<in> set (challenges d)" "c_id c = cid" "c_device_id c = did" "c_purpose c = P_connect"
    "c_consumed_at c = None" "now < c_expires_at c" "c_challenge c = ch"
    "d1 = d\<lparr>challenges := update_where (\<lambda>x. c_id x = cid) (\<lambda>x. x\<lparr>c_consumed_at := Some now\<rparr>) (challenges d)\<rparr>"
  using assms
  by (auto simp: consume_tx_def split: option.splits if_splits dest!: find_row_Some)

lemma consume_tx_Inl: "consume_tx now cid did d = (Inl e, d1) \<Longrightarrow> d1 = d"
  by (auto simp: consume_tx_def split: option.splits if_splits)

lemma update_device_find:
  assumes "\<And>v. d_id (f v) = d_id v"
  shows "find_row (\<lambda>v. d_id v = i) (devices (update_device j f d)) =
    map_option (\<lambda>v. if d_id v = j then f v else v) (find_row (\<lambda>v. d_id v = i) (devices d))"
  unfolding update_device_def using assms by (simp add: find_row_update_where)

lemma update_device_frame [simp]:
  "challenges (update_device j f d) = challenges d" "users (update_device j f d) = users d"
  by (simp_all add: update_device_def)

text \<open>What one run of the platform transaction does to a device, on the state it finds.\<close>

definition attested_as :: "attest_config \<Rightarrow> ms \<Rightarrow> bytes \<Rightarrow> device \<Rightarrow> bool" where
  "attested_as cfg now key v \<longleftrightarrow> d_is_attested v \<and> d_attested_until v = Some (now + attestationTtlMs cfg) \<and>
     d_attested_client_public_key v = Some key"

lemma mark_attested_simps [simp]:
  "d_id (mark_attested cfg now key v) = d_id v" "d_user_id (mark_attested cfg now key v) = d_user_id v"
  "d_status (mark_attested cfg now key v) = d_status v"
  "d_app_attest_counter (mark_attested cfg now key v) = d_app_attest_counter v"
  "attested_as cfg now key (mark_attested cfg now key v)"
  by (simp_all add: mark_attested_def attested_as_def)

lemma android_tx_device:
  assumes "android_tx cfg now did key p d = (Inr u, d')"
  shows "challenges d' = challenges d \<and> find_row (\<lambda>v. d_id v = did) (devices d') =
    map_option (\<lambda>v. mark_attested cfg now key (v\<lparr>d_last_integrity_verdict := Some (snapshot_json p)\<rparr>))
      (find_row (\<lambda>v. d_id v = did) (devices d))"
proof (cases "find_row (\<lambda>v. d_id v = did) (devices d)")
  case None
  with assms show ?thesis by (auto simp: android_tx_def update_device_find)
next
  case (Some v)
  with assms find_row_Some [OF Some] show ?thesis by (auto simp: android_tx_def update_device_find)
qed

lemma ios_tx_device:
  assumes "ios_tx cfg L now did key ch mode keyId att asr d = (Inr u, d')"
  obtains dev n pk where "challenges d' = challenges d" "find_row (\<lambda>v. d_id v = did) (devices d) = Some dev"
    "\<exists>v. find_row (\<lambda>v. d_id v = did) (devices d') = Some v \<and> attested_as cfg now key v \<and>
       d_app_attest_counter v = n"
    "counter_trigger dev n = Inr ()"
    "case mode of Mode_attest \<Rightarrow> verifyAttestation L cfg now (the att) keyId key ch = Inr (pk, n)
     | Mode_assert \<Rightarrow> d_app_attest_public_key dev = Some pk \<and>
         verifyAssertion L cfg (the asr) pk (d_app_attest_counter dev) key ch = Inr n"
proof -
  from assms obtain dev d1 where dev: "find_row (\<lambda>v. d_id v = did) (devices d) = Some dev"
    and run: "(case mode of Mode_attest \<Rightarrow> ios_attest cfg L now did key ch dev keyId att
      | Mode_assert \<Rightarrow> ios_assert cfg L did key ch dev keyId asr) d = (Inr (), d1)"
    and d': "d' = update_device did (mark_attested cfg now key) d1"
    by (auto simp: ios_tx_def and_then_Inr split: option.splits)
  note id = find_row_Some [OF dev]
  show thesis
  proof (cases mode)
    case Mode_attest
    with run obtain pk n where v: "verifyAttestation L cfg now (the att) keyId key ch = Inr (pk, n)"
      and t: "counter_trigger dev n = Inr ()"
      and d1: "d1 = update_device did (\<lambda>v. v\<lparr>d_app_attest_key_id := Some keyId,
        d_app_attest_public_key := Some pk, d_app_attest_counter := n\<rparr>) d"
      by (auto simp: ios_attest_def split: if_splits sum.splits)
    show ?thesis
      by (rule that [of dev n pk]) (use v t dev id Mode_attest in
        \<open>simp_all add: d' d1 update_device_find\<close>)
  next
    case Mode_assert
    with run obtain pk n where p: "d_app_attest_public_key dev = Some pk"
      and v: "verifyAssertion L cfg (the asr) pk (d_app_attest_counter dev) key ch = Inr n"
      and t: "counter_trigger dev n = Inr ()"
      and d1: "d1 = update_device did (\<lambda>v. v\<lparr>d_app_attest_counter := n\<rparr>) d"
      by (auto simp: ios_assert_def split: if_splits sum.splits option.splits)
    show ?thesis
      by (rule that [of dev n pk]) (use v p t dev id Mode_assert in
        \<open>simp_all add: d' d1 update_device_find\<close>)
  qed
qed

text \<open>A successful verification, taken apart.\<close>

lemma verify_uses:
  assumes "verify_attestation cfg L sha decode now later others inp d = (Inr u, d')"
  obtains ch d1 where "length (vi_clientPubKey inp) = 32"
    "consume_tx now (vi_challengeId inp) (vi_deviceId inp) d = (Inr ch, d1)"
    "case vi_attestation inp of
       AndroidAttestation token \<Rightarrow> \<exists>p. playIntegrity_verify cfg sha decode later token (vi_clientPubKey inp) ch = Inr p \<and>
         android_tx cfg later (vi_deviceId inp) (vi_clientPubKey inp) p (others d1) = (Inr u, d')
     | IosAttestation mode keyId att asr \<Rightarrow>
         ios_tx cfg L later (vi_deviceId inp) (vi_clientPubKey inp) ch mode keyId att asr (others d1) = (Inr u, d')"
proof -
  from assms obtain ch d1 where c: "length (vi_clientPubKey inp) = 32"
    "withTransaction (consume_tx now (vi_challengeId inp) (vi_deviceId inp)) d = (Inr ch, d1)"
    by (auto simp: verify_attestation_def split: if_splits prod.splits sum.splits)
  from assms that [OF c(1) c(2) [unfolded withTransaction_Inr]] show thesis
    by (cases "vi_attestation inp")
      (auto simp: verify_attestation_def c withTransaction_Inr split: sum.splits)
qed

lemma verify_marks:
  assumes "verify_attestation cfg L sha decode now later others inp d = (Inr u, d')"
    and "find_row (\<lambda>v. d_id v = vi_deviceId inp) (devices d') = Some v"
  shows "attested_as cfg later (vi_clientPubKey inp) v"
proof (rule verify_uses [OF assms(1)])
  fix ch d1
  assume run: "case vi_attestation inp of
       AndroidAttestation token \<Rightarrow> \<exists>p. playIntegrity_verify cfg sha decode later token (vi_clientPubKey inp) ch = Inr p \<and>
         android_tx cfg later (vi_deviceId inp) (vi_clientPubKey inp) p (others d1) = (Inr u, d')
     | IosAttestation mode keyId att asr \<Rightarrow>
         ios_tx cfg L later (vi_deviceId inp) (vi_clientPubKey inp) ch mode keyId att asr (others d1) = (Inr u, d')"
  show ?thesis
  proof (cases "vi_attestation inp")
    case (AndroidAttestation token)
    with run android_tx_device assms(2) show ?thesis by fastforce
  next
    case (IosAttestation mode keyId att asr)
    with run have "ios_tx cfg L later (vi_deviceId inp) (vi_clientPubKey inp) ch mode keyId att asr (others d1) = (Inr u, d')"
      by simp
    then show ?thesis by (rule ios_tx_device) (use assms(2) in auto)
  qed
qed

section \<open>Properties\<close>

text \<open>
  What counts as evidence, by platform. A registration rests on a leaf certificate that chains to
  the pinned root, whose extension carries the hash of exactly these bytes and whose key is the
  one the request names and the device gets; an assertion rests on a signature under the key the
  device already has.
\<close>

definition chain_to_root :: "apple_lib \<Rightarrow> ms \<Rightarrow> bytes list \<Rightarrow> certificate \<Rightarrow> bool" where
  "chain_to_root L now x5c leaf \<longleftrightarrow>
     (\<exists>c0 c1 rest inter. x5c = c0 # c1 # rest \<and>
        parse_certificate L c0 = Inr leaf \<and> parse_certificate L c1 = Inr inter \<and>
        cert_verify L c0 (crt_publicKey inter) now \<and> cert_verify L c1 (rootKey L) now \<and>
        crt_ca leaf \<noteq> Some True \<and> crt_ca inter = Some True)"

definition attest_evidence ::
  "attest_config \<Rightarrow> apple_lib \<Rightarrow> ms \<Rightarrow> string \<Rightarrow> string \<Rightarrow> bytes \<Rightarrow> bytes \<Rightarrow> bytes \<Rightarrow> bool" where
  "attest_evidence cfg L now att keyId key ch pk \<longleftrightarrow>
     (\<exists>obj x5c authData leaf point.
        cbor_attestation L (fromBase64 att) = Inr obj \<and> ao_fmt obj = Some ''apple-appattest'' \<and>
        ao_x5c obj = Some x5c \<and> ao_authData obj = Some authData \<and> chain_to_root L now x5c leaf \<and>
        extractAppleNonce leaf = Some (al_sha256 L (authData @ al_sha256 L (key @ ch))) \<and>
        crt_publicKey leaf = pk \<and> pk \<noteq> [] \<and> uncompressedPoint L pk = Inr point \<and>
        al_sha256 L point = fromBase64 keyId \<and>
        55 \<le> length authData \<and> and (authData ! 32) FLAG_AT \<noteq> 0 \<and>
        subarray authData 0 32 = appIdHash L cfg \<and> readUInt32BE authData 33 = 0 \<and>
        subarray authData 37 53 = (if appleAttestEnv cfg = ''production'' then AAGUID_PROD else AAGUID_DEV))"

definition assert_evidence ::
  "attest_config \<Rightarrow> apple_lib \<Rightarrow> string \<Rightarrow> bytes \<Rightarrow> int \<Rightarrow> bytes \<Rightarrow> bytes \<Rightarrow> int \<Rightarrow> bool" where
  "assert_evidence cfg L asr pk stored key ch n \<longleftrightarrow>
     (\<exists>obj authData sig.
        cbor_assertion L (fromBase64 asr) = Inr obj \<and> as_signature obj = Some sig \<and>
        as_authenticatorData obj = Some authData \<and>
        ecdsa_verify L pk (authData @ al_sha256 L (key @ ch)) sig = Inr True \<and>
        37 \<le> length authData \<and> and (authData ! 32) FLAG_AT = 0 \<and>
        subarray authData 0 32 = appIdHash L cfg \<and> n = readUInt32BE authData 33 \<and> stored < n)"

lemma parseAuthData_iff:
  "parseAuthData b = Inr ad \<longleftrightarrow> 37 \<le> length b \<and> (and (b ! 32) FLAG_AT \<noteq> 0 \<longrightarrow> 55 \<le> length b) \<and>
     ad = \<lparr>ad_rpIdHash = subarray b 0 32, ad_flags = b ! 32,
           ad_hasAttestedCredentialData = (and (b ! 32) FLAG_AT \<noteq> 0), ad_signCount = readUInt32BE b 33,
           ad_aaguid = (if and (b ! 32) FLAG_AT \<noteq> 0 then Some (subarray b 37 53) else None)\<rparr>"
  by (auto simp: parseAuthData_def Let_def)

lemma check_leaf_evidence:
  assumes "check_leaf L cfg leaf authData keyId key ch = Inr (pk, n)"
  shows "n = 0 \<and> crt_publicKey leaf = pk \<and> pk \<noteq> [] \<and> 55 \<le> length authData \<and>
    extractAppleNonce leaf = Some (al_sha256 L (authData @ al_sha256 L (key @ ch))) \<and>
    (\<exists>point. uncompressedPoint L pk = Inr point \<and> al_sha256 L point = fromBase64 keyId) \<and>
    and (authData ! 32) FLAG_AT \<noteq> 0 \<and> subarray authData 0 32 = appIdHash L cfg \<and>
    readUInt32BE authData 33 = 0 \<and>
    subarray authData 37 53 = (if appleAttestEnv cfg = ''production'' then AAGUID_PROD else AAGUID_DEV)"
  using assms
  by (auto simp: check_leaf_def clientDataHash_def Let_def parseAuthData_iff
      split: if_splits sum.splits option.splits)

lemma attestation_evidence:
  assumes "verifyAttestation L cfg now att keyId key ch = Inr (pk, n)"
  shows "n = 0 \<and> attest_evidence cfg L now att keyId key ch pk"
proof -
  from assms obtain obj c0 c1 rest authData leaf inter
    where obj: "cbor_attestation L (fromBase64 att) = Inr obj" "ao_fmt obj = Some ''apple-appattest''"
      "ao_x5c obj = Some (c0 # c1 # rest)" "ao_authData obj = Some authData"
      and certs: "parse_certificate L c0 = Inr leaf" "parse_certificate L c1 = Inr inter"
      "cert_verify L c0 (crt_publicKey inter) now" "cert_verify L c1 (rootKey L) now"
      "assertCaConstraints leaf inter = Inr ()"
      and leaf: "check_leaf L cfg leaf authData keyId key ch = Inr (pk, n)"
    by (auto simp: verifyAttestation_def split: if_splits sum.splits option.splits list.splits)
  have "chain_to_root L now (c0 # c1 # rest) leaf"
    using certs by (auto simp: chain_to_root_def assertCaConstraints_def split: if_splits)
  with obj check_leaf_evidence [OF leaf] show ?thesis
    unfolding attest_evidence_def by blast
qed

lemma assertion_evidence:
  assumes "verifyAssertion L cfg asr pk stored key ch = Inr n"
  shows "assert_evidence cfg L asr pk stored key ch n"
  using assms unfolding assert_evidence_def
  by (auto simp: verifyAssertion_def clientDataHash_def parseAuthData_iff
      split: if_splits sum.splits option.splits bool.splits)

definition device_of :: "id \<Rightarrow> db \<Rightarrow> device option" where
  "device_of i d = find_row (\<lambda>v. d_id v = i) (devices d)"

text \<open>
  The evidence together with what it is used on and what it leads to: \<open>d1\<close> is the database the
  marking transaction finds and \<open>d'\<close> the one it commits.
\<close>

definition bound_evidence ::
  "attest_config \<Rightarrow> apple_lib \<Rightarrow> (bytes \<Rightarrow> bytes) \<Rightarrow> play_decode \<Rightarrow> ms \<Rightarrow> verify_input \<Rightarrow> bytes \<Rightarrow> db \<Rightarrow> db \<Rightarrow> bool" where
  "bound_evidence cfg L sha decode now inp ch d1 d' =
     (let key = vi_clientPubKey inp; i = vi_deviceId inp; mark = mark_attested cfg now key in
      case vi_attestation inp of
        AndroidAttestation token \<Rightarrow>
          (\<exists>p. decode (androidPackageName cfg) token = Inr (Some p) \<and> genuine_verdict cfg sha now key ch p \<and>
             device_of i d' = map_option (\<lambda>v. mark (v\<lparr>d_last_integrity_verdict := Some (snapshot_json p)\<rparr>))
               (device_of i d1))
      | IosAttestation Mode_attest keyId att _ \<Rightarrow>
          (\<exists>a v pk. att = Some a \<and> a \<noteq> [] \<and> device_of i d1 = Some v \<and>
             (\<forall>w \<in> set (devices d1). d_app_attest_key_id w = Some keyId \<longrightarrow> d_id w = i) \<and>
             attest_evidence cfg L now a keyId key ch pk \<and>
             device_of i d' = Some (mark (v\<lparr>d_app_attest_key_id := Some keyId,
               d_app_attest_public_key := Some pk, d_app_attest_counter := 0\<rparr>)))
      | IosAttestation Mode_assert keyId _ asr \<Rightarrow>
          (\<exists>a v pk n. asr = Some a \<and> a \<noteq> [] \<and> device_of i d1 = Some v \<and>
             d_app_attest_key_id v = Some keyId \<and> d_app_attest_public_key v = Some pk \<and>
             assert_evidence cfg L a pk (d_app_attest_counter v) key ch n \<and>
             device_of i d' = Some (mark (v\<lparr>d_app_attest_counter := n\<rparr>))))"

lemma nonempty_iff: "nonempty x \<longleftrightarrow> (\<exists>a. x = Some a \<and> a \<noteq> [])"
  by (auto simp: nonempty_def split: option.splits)

lemma ios_attest_Inr:
  assumes "ios_attest cfg L now i key ch v keyId att d = (Inr u, d2)"
  shows "\<exists>a pk. att = Some a \<and> a \<noteq> [] \<and>
    (\<forall>w \<in> set (devices d). d_app_attest_key_id w = Some keyId \<longrightarrow> d_id w = i) \<and>
    attest_evidence cfg L now a keyId key ch pk \<and>
    d2 = update_device i (\<lambda>v. v\<lparr>d_app_attest_key_id := Some keyId, d_app_attest_public_key := Some pk,
      d_app_attest_counter := 0\<rparr>) d"
  using assms
  by (fastforce simp: ios_attest_def nonempty_iff exists_row_def list_ex_iff split: if_splits sum.splits
      dest: attestation_evidence)

lemma ios_assert_Inr:
  assumes "ios_assert cfg L i key ch v keyId asr d = (Inr u, d2)"
  shows "\<exists>a pk n. asr = Some a \<and> a \<noteq> [] \<and> d_app_attest_key_id v = Some keyId \<and>
    d_app_attest_public_key v = Some pk \<and> assert_evidence cfg L a pk (d_app_attest_counter v) key ch n \<and>
    d2 = update_device i (\<lambda>v. v\<lparr>d_app_attest_counter := n\<rparr>) d"
  using assms
  by (fastforce simp: ios_assert_def nonempty_iff split: if_splits sum.splits option.splits
      dest: assertion_evidence)

lemma ios_tx_evidence:
  assumes "ios_tx cfg L now (vi_deviceId inp) (vi_clientPubKey inp) ch mode keyId att asr d1 = (Inr u, d')"
    and inp: "vi_attestation inp = IosAttestation mode keyId att asr"
  shows "bound_evidence cfg L sha decode now inp ch d1 d'"
proof -
  let ?i = "vi_deviceId inp" and ?key = "vi_clientPubKey inp"
  from assms(1) obtain v d2 where v: "find_row (\<lambda>v. d_id v = ?i) (devices d1) = Some v"
    and run: "(case mode of Mode_attest \<Rightarrow> ios_attest cfg L now ?i ?key ch v keyId att
      | Mode_assert \<Rightarrow> ios_assert cfg L ?i ?key ch v keyId asr) d1 = (Inr (), d2)"
    and d': "d' = update_device ?i (mark_attested cfg now ?key) d2"
    by (auto simp: ios_tx_def and_then_Inr split: option.splits)
  note i = find_row_Some [OF v]
  show ?thesis
  proof (cases mode)
    case Mode_attest
    with run have "ios_attest cfg L now ?i ?key ch v keyId att d1 = (Inr (), d2)" by simp
    from ios_attest_Inr [OF this] obtain a pk where a: "att = Some a" "a \<noteq> []"
      "\<forall>w \<in> set (devices d1). d_app_attest_key_id w = Some keyId \<longrightarrow> d_id w = ?i"
      "attest_evidence cfg L now a keyId ?key ch pk"
      and d2: "d2 = update_device ?i (\<lambda>v. v\<lparr>d_app_attest_key_id := Some keyId,
        d_app_attest_public_key := Some pk, d_app_attest_counter := 0\<rparr>) d1" by blast
    have "device_of ?i d' = Some (mark_attested cfg now ?key (v\<lparr>d_app_attest_key_id := Some keyId,
        d_app_attest_public_key := Some pk, d_app_attest_counter := 0\<rparr>))"
      using v i by (simp add: device_of_def d' d2 update_device_find)
    with a v Mode_attest inp show ?thesis by (auto simp: bound_evidence_def device_of_def Let_def)
  next
    case Mode_assert
    with run have "ios_assert cfg L ?i ?key ch v keyId asr d1 = (Inr (), d2)" by simp
    from ios_assert_Inr [OF this] obtain a pk n where a: "asr = Some a" "a \<noteq> []"
      "d_app_attest_key_id v = Some keyId" "d_app_attest_public_key v = Some pk"
      "assert_evidence cfg L a pk (d_app_attest_counter v) ?key ch n"
      and d2: "d2 = update_device ?i (\<lambda>v. v\<lparr>d_app_attest_counter := n\<rparr>) d1" by blast
    have "device_of ?i d' = Some (mark_attested cfg now ?key (v\<lparr>d_app_attest_counter := n\<rparr>))"
      using v i by (simp add: device_of_def d' d2 update_device_find)
    with a v Mode_assert inp show ?thesis by (auto simp: bound_evidence_def device_of_def Let_def)
  qed
qed

lemma android_tx_evidence:
  assumes "playIntegrity_verify cfg sha decode now token (vi_clientPubKey inp) ch = Inr p"
    and "android_tx cfg now (vi_deviceId inp) (vi_clientPubKey inp) p d1 = (Inr u, d')"
    and "vi_attestation inp = AndroidAttestation token"
  shows "bound_evidence cfg L sha decode now inp ch d1 d'"
  using playIntegrity_sound [OF assms(1)] android_tx_device [OF assms(2)] assms(3)
  by (auto simp: bound_evidence_def device_of_def)

text \<open>
  C8. A device is only attested on evidence: the challenge was issued to this device, unused and
  unexpired, and is marked before the evidence is looked at. The evidence covers exactly the
  client's key and this challenge: Google's genuine verdict; or an Apple registration whose leaf
  certificate chains to the pinned root and whose key, held by no other device, is what the
  device gets with the counter at zero; or an assertion that verifies under the key the device
  already has, with a larger counter. What is stored is the client's key with the end of the
  attestation window, and nothing else of the device changes.
\<close>

theorem attest_sound:
  assumes "verify_attestation cfg L sha decode now later others inp d = (Inr u, d')"
  shows "\<exists>c \<in> set (challenges d). c_id c = vi_challengeId inp \<and> c_device_id c = vi_deviceId inp \<and>
      c_purpose c = P_connect \<and> c_consumed_at c = None \<and> now < c_expires_at c \<and>
      length (vi_clientPubKey inp) = 32 \<and>
      bound_evidence cfg L sha decode later inp (c_challenge c)
        (others (d\<lparr>challenges := update_where (\<lambda>x. c_id x = c_id c) (\<lambda>x. x\<lparr>c_consumed_at := Some now\<rparr>)
           (challenges d)\<rparr>)) d' \<and>
      (\<forall>v. device_of (vi_deviceId inp) d' = Some v \<longrightarrow> attested_as cfg later (vi_clientPubKey inp) v)"
proof (rule verify_uses [OF assms])
  fix ch d1
  assume len: "length (vi_clientPubKey inp) = 32"
    and consume: "consume_tx now (vi_challengeId inp) (vi_deviceId inp) d = (Inr ch, d1)"
    and run: "case vi_attestation inp of
       AndroidAttestation token \<Rightarrow> \<exists>p. playIntegrity_verify cfg sha decode later token (vi_clientPubKey inp) ch = Inr p \<and>
         android_tx cfg later (vi_deviceId inp) (vi_clientPubKey inp) p (others d1) = (Inr u, d')
     | IosAttestation mode keyId att asr \<Rightarrow>
         ios_tx cfg L later (vi_deviceId inp) (vi_clientPubKey inp) ch mode keyId att asr (others d1) = (Inr u, d')"
  from run have ev: "bound_evidence cfg L sha decode later inp ch (others d1) d'"
    by (cases "vi_attestation inp") (auto intro: android_tx_evidence ios_tx_evidence)
  from consume show ?thesis
    by (rule consume_tx_Inr) (use ev len verify_marks [OF assms] in \<open>auto simp: device_of_def\<close>)
qed

definition consumed :: "db \<Rightarrow> id set" where
  "consumed d = {c_id c |c. c \<in> set (challenges d) \<and> c_consumed_at c \<noteq> None}"

lemma consumedI: "c \<in> set (challenges d) \<Longrightarrow> c_consumed_at c \<noteq> None \<Longrightarrow> c_id c \<in> consumed d"
  by (auto simp: consumed_def)

lemma consume_consumes:
  assumes "consume_tx now cid did d = (Inr ch, d1)"
  shows "cid \<in> consumed d1" and "consumed d \<subseteq> consumed d1"
proof -
  from assms obtain c where c: "c \<in> set (challenges d)" "c_id c = cid"
    and d1: "d1 = d\<lparr>challenges := update_where (\<lambda>x. c_id x = cid) (\<lambda>x. x\<lparr>c_consumed_at := Some now\<rparr>) (challenges d)\<rparr>"
    by (rule consume_tx_Inr)
  have "c\<lparr>c_consumed_at := Some now\<rparr> \<in> set (challenges d1)"
    using c by (auto simp: d1 set_update_where intro!: imageI)
  from consumedI [OF this] show "cid \<in> consumed d1" using c(2) by simp
  show "consumed d \<subseteq> consumed d1"
  proof
    fix i assume "i \<in> consumed d"
    then obtain x where x: "x \<in> set (challenges d)" "c_consumed_at x \<noteq> None" "c_id x = i"
      by (auto simp: consumed_def)
    let ?x = "if c_id x = cid then x\<lparr>c_consumed_at := Some now\<rparr> else x"
    have "?x \<in> set (challenges d1)" using x(1) by (auto simp: d1 set_update_where)
    moreover have "c_consumed_at ?x \<noteq> None" "c_id ?x = i" using x by auto
    ultimately show "i \<in> consumed d1" using consumedI by blast
  qed
qed

lemma consumed_rejects:
  assumes "table_ok c_id n (challenges d)" and "vi_challengeId inp \<in> consumed d"
  shows "\<exists>e. verify_attestation cfg L sha decode now later others inp d = (Inl e, d)"
proof (cases "consume_tx now (vi_challengeId inp) (vi_deviceId inp) d")
  case (Pair r d1)
  have "isl r"
  proof (rule ccontr)
    assume "\<not> isl r"
    with Pair obtain ch where "consume_tx now (vi_challengeId inp) (vi_deviceId inp) d = (Inr ch, d1)"
      by (cases r) auto
    then obtain c where c: "c \<in> set (challenges d)" "c_id c = vi_challengeId inp" "c_consumed_at c = None"
      by (rule consume_tx_Inr)
    from assms(2) obtain x where x: "x \<in> set (challenges d)" "c_id x = vi_challengeId inp" "c_consumed_at x \<noteq> None"
      by (auto simp: consumed_def)
    from table_ok_inj [OF assms(1) c(1) x(1)] c x show False by simp
  qed
  then obtain e where "r = Inl e" by (cases r) auto
  with Pair have "withTransaction (consume_tx now (vi_challengeId inp) (vi_deviceId inp)) d = (Inl e, d)"
    by (simp add: withTransaction_def)
  then show ?thesis by (simp add: verify_attestation_def)
qed

lemma final_tx_challenges:
  "android_tx cfg now did key p d = (Inr u, d') \<Longrightarrow> challenges d' = challenges d"
  "ios_tx cfg L now did key ch mode keyId att asr d = (Inr u, d') \<Longrightarrow> challenges d' = challenges d"
  using android_tx_device by (blast, auto elim!: ios_tx_device)

text \<open>
  C19. A challenge is good for one verification: after a successful one, any later call that
  names the same challenge fails without changing the database, whatever other requests
  did meanwhile, as long as they do not clear the mark.
\<close>

theorem challenge_single_use:
  assumes "verify_attestation cfg L sha decode now later others inp d = (Inr u, d')"
    and "\<And>x. consumed x \<subseteq> consumed (others x)" and "consumed d' \<subseteq> consumed d2"
    and "keys_ok d2" and "vi_challengeId inp2 = vi_challengeId inp"
  shows "\<exists>e. verify_attestation cfg2 L2 sha2 decode2 now2 later2 others2 inp2 d2 = (Inl e, d2)"
proof -
  have "vi_challengeId inp \<in> consumed d'"
  proof (rule verify_uses [OF assms(1)])
    fix ch d1
    assume consume: "consume_tx now (vi_challengeId inp) (vi_deviceId inp) d = (Inr ch, d1)"
      and run: "case vi_attestation inp of
       AndroidAttestation token \<Rightarrow> \<exists>p. playIntegrity_verify cfg sha decode later token (vi_clientPubKey inp) ch = Inr p \<and>
         android_tx cfg later (vi_deviceId inp) (vi_clientPubKey inp) p (others d1) = (Inr u, d')
     | IosAttestation mode keyId att asr \<Rightarrow>
         ios_tx cfg L later (vi_deviceId inp) (vi_clientPubKey inp) ch mode keyId att asr (others d1) = (Inr u, d')"
    from run have "challenges d' = challenges (others d1)"
      by (auto dest: final_tx_challenges split: attestation.splits)
    with consume_consumes(1) [OF consume] assms(2) [of d1] show ?thesis
      by (auto simp: consumed_def)
  qed
  with assms(3,5) have "vi_challengeId inp2 \<in> consumed d2" by auto
  from consumed_rejects [OF keys_okD(7) [OF assms(4)] this] show ?thesis .
qed

text \<open>
  C34. The assertion counter of a device never goes back: a successful assertion makes it
  strictly larger, a new registration is only possible while it is zero, and an Android
  verification leaves it alone.
\<close>

theorem counter_monotone:
  assumes "verify_attestation cfg L sha decode now later (\<lambda>x. x) inp d = (Inr u, d')"
    and "find_row (\<lambda>v. d_id v = vi_deviceId inp) (devices d) = Some v" and "0 \<le> d_app_attest_counter v"
  shows "\<exists>v'. find_row (\<lambda>v. d_id v = vi_deviceId inp) (devices d') = Some v' \<and>
    (case vi_attestation inp of
       AndroidAttestation _ \<Rightarrow> d_app_attest_counter v' = d_app_attest_counter v
     | IosAttestation Mode_attest _ _ _ \<Rightarrow> d_app_attest_counter v = 0 \<and> d_app_attest_counter v' = 0
     | IosAttestation Mode_assert _ _ _ \<Rightarrow> d_app_attest_counter v < d_app_attest_counter v')"
proof (rule verify_uses [OF assms(1)])
  fix ch d1
  assume consume: "consume_tx now (vi_challengeId inp) (vi_deviceId inp) d = (Inr ch, d1)"
    and run: "case vi_attestation inp of
       AndroidAttestation token \<Rightarrow> \<exists>p. playIntegrity_verify cfg sha decode later token (vi_clientPubKey inp) ch = Inr p \<and>
         android_tx cfg later (vi_deviceId inp) (vi_clientPubKey inp) p d1 = (Inr u, d')
     | IosAttestation mode keyId att asr \<Rightarrow>
         ios_tx cfg L later (vi_deviceId inp) (vi_clientPubKey inp) ch mode keyId att asr d1 = (Inr u, d')"
  have d1: "devices d1 = devices d" using consume by (rule consume_tx_Inr) simp
  show ?thesis
  proof (cases "vi_attestation inp")
    case (AndroidAttestation token)
    with run obtain p where "android_tx cfg later (vi_deviceId inp) (vi_clientPubKey inp) p d1 = (Inr u, d')"
      by auto
    from android_tx_device [OF this] AndroidAttestation assms(2) show ?thesis by (simp add: d1)
  next
    case (IosAttestation mode keyId att asr)
    with run have "ios_tx cfg L later (vi_deviceId inp) (vi_clientPubKey inp) ch mode keyId att asr d1 = (Inr u, d')"
      by simp
    then show ?thesis
    proof (rule ios_tx_device)
      fix dev n pk
      assume dev: "find_row (\<lambda>v. d_id v = vi_deviceId inp) (devices d1) = Some dev"
        and new: "\<exists>v. find_row (\<lambda>v. d_id v = vi_deviceId inp) (devices d') = Some v \<and>
          attested_as cfg later (vi_clientPubKey inp) v \<and> d_app_attest_counter v = n"
        and t: "counter_trigger dev n = Inr ()"
        and how: "case mode of
          Mode_attest \<Rightarrow> verifyAttestation L cfg later (the att) keyId (vi_clientPubKey inp) ch = Inr (pk, n)
        | Mode_assert \<Rightarrow> d_app_attest_public_key dev = Some pk \<and>
            verifyAssertion L cfg (the asr) pk (d_app_attest_counter dev) (vi_clientPubKey inp) ch = Inr n"
      from dev assms(2) have "dev = v" by (simp add: d1)
      with how t new assms(3) IosAttestation show ?thesis
        by (auto simp: counter_trigger_def dest!: attestation_sound assertion_sound
            split: ios_mode.splits if_splits)
    qed
  qed
qed

lemma attestedGuard_iff:
  "attestedGuard now (Some did) b64 d = Inr k \<longleftrightarrow>
     nonempty b64 \<and> (\<exists>v u t. find_row (\<lambda>v. d_id v = did \<and> exists_row (\<lambda>u. u_id u = d_user_id v) (users d)) (devices d) = Some v \<and>
       find_row (\<lambda>u. u_id u = d_user_id v) (users d) = Some u \<and> \<not> u_is_banned u \<and> u_status u = U_active \<and>
       d_status v = D_active \<and> d_is_attested v \<and> d_attested_until v = Some t \<and> now < t \<and>
       d_attested_client_public_key v = Some k \<and> k = fromBase64 (the b64))"
  by (auto simp: attestedGuard_def Let_def split: option.splits if_splits)

text \<open>
  After a successful verification the guard lets exactly the verified key through, and
  only until the window ends.
\<close>

theorem guard_only_bound_key:
  assumes "verify_attestation cfg L sha decode now later others inp d = (Inr x, d')"
    and "find_row (\<lambda>v. d_id v = vi_deviceId inp) (devices d') = Some v" and "d_status v = D_active"
    and "find_row (\<lambda>u. u_id u = d_user_id v) (users d') = Some u"
    and "\<not> u_is_banned u" and "u_status u = U_active" and "b64 \<noteq> []"
  shows "(\<exists>k. attestedGuard t (Some (vi_deviceId inp)) (Some b64) d' = Inr k) \<longleftrightarrow>
    fromBase64 b64 = vi_clientPubKey inp \<and> t < later + attestationTtlMs cfg"
proof -
  have "find_row (\<lambda>v. d_id v = vi_deviceId inp \<and> exists_row (\<lambda>u. u_id u = d_user_id v) (users d')) l = Some v"
    if "find_row (\<lambda>v. d_id v = vi_deviceId inp) l = Some v" for l
    using that find_row_Some [OF assms(4)] by (induction l) (auto split: if_splits)
  note row = this [OF assms(2)]
  show ?thesis
    unfolding attestedGuard_iff using row assms(3-7) verify_marks [OF assms(1,2)]
    by (auto simp: attested_as_def nonempty_def)
qed

text \<open>
  C9. Nothing is provisioned through \<^verbatim>\<open>/connect\<close> unless the access token verifies, the
  token's device is attested now with exactly the key the request carries, and its owner
  is active and not banned.
\<close>

theorem connect_gate:
  assumes "connect_endpoint tc cr env C pc rnd now now' header b64 w = (Inr r, w')"
  shows "\<exists>user v u t. jwtAuthGuard tc cr now header = Inr user \<and>
    v \<in> set (devices (wdb w)) \<and> d_id v = au_deviceId user \<and> d_status v = D_active \<and> d_is_attested v \<and>
    d_attested_until v = Some t \<and> now < t \<and>
    d_attested_client_public_key v = Some (fromBase64 (the b64)) \<and> length (fromBase64 (the b64)) = 32 \<and>
    u \<in> set (users (wdb w)) \<and> u_id u = d_user_id v \<and> \<not> u_is_banned u \<and> u_status u = U_active"
proof -
  from assms obtain user k where g: "jwtAuthGuard tc cr now header = Inr user"
    "attestedGuard now (Some (au_deviceId user)) b64 (wdb w) = Inr k"
    and r: "connect_route env C pc rnd now now' (au_userId user) (au_deviceId user) (Some k) w = (Inr r, w')"
    by (auto simp: connect_endpoint_def split: sum.splits)
  from r have "length k = 32" by (auto simp: connect_route_def split: if_splits)
  with g show ?thesis unfolding attestedGuard_iff by (auto dest!: find_row_Some)
qed

text \<open>
  An administrator's access token never opens a tunnel: it carries the nil device, and
  as no device has that key the endpoint refuses and changes nothing.
\<close>

theorem admin_token_never_connects:
  assumes "admin_login tc cr rnd now others email pw d = (Inr p, d')" and "VERIFY_KEY tc \<noteq> []"
    and "jwt_key_pair tc cr now later" and "\<forall>v \<in> set (devices (wdb w)). d_id v \<noteq> 0"
  shows "\<exists>m. connect_endpoint tc cr env C pc crnd later later' (Some (''Bearer '' @ tp_accessToken p)) b64 w =
    (Inl (ForbiddenException m), w)"
proof -
  from assms(1) obtain uid where "signAccess tc cr now uid ADMIN_DID = Inr (tp_accessToken p)"
    by (auto simp: admin_login_def Let_def and_then_Inr pair_def split: sum.splits option.splits bool.splits if_splits)
  from signed_guarded [OF this assms(2,3)]
  have j: "jwtAuthGuard tc cr later (Some (''Bearer '' @ tp_accessToken p)) =
    Inr \<lparr>au_userId = uid, au_deviceId = 0\<rparr>" by (simp add: ADMIN_DID_def)
  have "find_row (\<lambda>v. d_id v = 0 \<and> P v) (devices (wdb w)) = None" for P
    using assms(4) by (auto simp: find_row_None)
  then have "\<exists>m. attestedGuard later (Some 0) b64 (wdb w) = Inl (ForbiddenException m)"
    by (simp add: attestedGuard_def)
  with j show ?thesis by (auto simp: connect_endpoint_def)
qed

lemma ios_tx_fails: "ios_tx cfg L now did key ch mode keyId att asr d = (Inl e, d') \<Longrightarrow> devices d' = devices d"
  by (auto simp: ios_tx_def and_then_def ios_attest_def ios_assert_def
      split: option.splits if_splits sum.splits prod.splits ios_mode.splits)

lemma verify_fails:
  assumes "verify_attestation cfg L sha decode now later (\<lambda>x. x) inp d = (Inl e, d')"
  shows "devices d' = devices d"
proof -
  have c: "devices d1 = devices d" if "withTransaction (consume_tx now cid did) d = (r, d1)" for r d1 cid did
    using that by (cases r) (auto simp: withTransaction_Inl withTransaction_Inr elim!: consume_tx_Inr)
  show ?thesis
    using assms c
    by (auto simp: verify_attestation_def withTransaction_Inl split: if_splits prod.splits sum.splits attestation.splits)
qed

text \<open>
  The verification route fails closed: whatever goes wrong the client sees 401, 403 or,
  only when Google's service could not be reached, 503, and no device has changed.
\<close>

theorem attest_route_fails_closed:
  assumes "verify_route cfg L sha decode inet now later (\<lambda>x. x) user cid key dto xff ip d = (Inl e, d')"
    and "user = jwtAuthGuard tc cr now header"
  shows "devices d' = devices d \<and>
    (\<exists>m. e = UnauthorizedException m \<or> e = ForbiddenException m \<or> e = ServiceUnavailableException m)"
proof (cases user)
  case (Inl x)
  with assms show ?thesis
    by (auto simp: verify_route_def guarded_def throw_def jwtAuthGuard_def split: option.splits if_splits sum.splits)
next
  case (Inr usr)
  show ?thesis
  proof (cases "toPayload dto")
    case (Inl x)
    with Inr assms(1) show ?thesis
      by (auto simp: verify_route_def guarded_def throw_def toPayload_def split: if_splits option.splits)
  next
    case payload: (Inr p)
    from Inr payload assms(1) obtain x d1
      where v: "verify_attestation cfg L sha decode now later (\<lambda>x. x)
          \<lparr>vi_deviceId = au_deviceId usr, vi_challengeId = cid, vi_clientPubKey = fromBase64 key,
           vi_attestation = p\<rparr> d = (Inl x, d1)"
        and e: "e = snd (attest_error x)" and d': "devices d' = devices d1"
      by (auto simp: verify_route_def guarded_def audit_attempt_def Let_def split: prod.splits sum.splits if_splits)
    from verify_fails [OF v] show ?thesis
      by (auto simp: e d' attest_error_def split: exn.splits)
  qed
qed

section \<open>Witnesses\<close>

definition sample_attest_config :: attest_config where
  "sample_attest_config = \<lparr>androidPackageName = ''app'', androidCertDigests = [], androidTokenMaxAgeMs = 300000,
     appleTeamId = ''T'', appleBundleId = ''b'', appleAttestEnv = ''production'', challengeTtlMs = 300000,
     attestationTtlMs = 86400000\<rparr>"

definition sample_apple :: apple_lib where
  "sample_apple = \<lparr>al_sha256 = (\<lambda>b. b), cbor_attestation = (\<lambda>_. Inl (JsError [])),
     cbor_assertion = (\<lambda>b. Inr \<lparr>as_signature = Some [], as_authenticatorData = Some b\<rparr>),
     parse_certificate = (\<lambda>_. Inl (JsError [])), cert_verify = (\<lambda>_ _ _. False),
     export_jwk = (\<lambda>_. Inl (JsError [])), ecdsa_verify = (\<lambda>_ _ _. Inr True), rootKey = []\<rparr>"

definition sample_key :: bytes where
  "sample_key = replicate 32 7"

definition sample_payload :: token_payload where
  "sample_payload =
     \<lparr>tp_requestDetails = Some \<lparr>rd_requestHash = Some (toBase64url (sample_key @ [1, 2, 3])),
        rd_requestPackageName = Some ''app'', rd_timestampMillis = Some (Some 1000)\<rparr>,
      tp_appIntegrity = Some \<lparr>ai_appRecognitionVerdict = Some ''PLAY_RECOGNIZED'', ai_certificateSha256Digest = None\<rparr>,
      tp_deviceIntegrity = Some \<lparr>di_deviceRecognitionVerdict = Some [''MEETS_DEVICE_INTEGRITY'']\<rparr>\<rparr>"

definition sample_decode :: play_decode where
  "sample_decode pkg token = Inr (Some sample_payload)"

definition sample_input :: verify_input where
  "sample_input = \<lparr>vi_deviceId = 2, vi_challengeId = 9, vi_clientPubKey = sample_key,
     vi_attestation = AndroidAttestation ''t''\<rparr>"

definition attest_db :: db where
  "attest_db = sample_db\<lparr>challenges := [\<lparr>c_id = 9, c_device_id = 2, c_purpose = P_connect,
     c_challenge = [1, 2, 3], c_expires_at = 5000, c_consumed_at = None\<rparr>]\<rparr>"

definition sample_verify :: "db \<Rightarrow> (exn + unit) \<times> db" where
  "sample_verify = verify_attestation sample_attest_config sample_apple (\<lambda>b. b) sample_decode 1000 1001
     (\<lambda>x. x) sample_input"

lemma sample_verify_ok: "verify_attestation sample_attest_config sample_apple (\<lambda>b. b) sample_decode 1000 1001
     (\<lambda>x. x) sample_input attest_db = (Inr (), snd (sample_verify attest_db))"
proof -
  have "fst (sample_verify attest_db) = Inr ()" by code_simp
  then show ?thesis unfolding sample_verify_def by (metis prod.collapse)
qed

definition attested_device :: device where
  "attested_device = hd (devices (snd (sample_verify attest_db)))"

lemma attested_device_found:
  "find_row (\<lambda>v. d_id v = vi_deviceId sample_input) (devices (snd (sample_verify attest_db))) = Some attested_device"
  unfolding attested_device_def by code_simp

text \<open>
  On iOS: a registration with a chain to the root, and then an assertion under the key it
  registered, with the counter at one.
\<close>

definition pad32 :: "bytes \<Rightarrow> bytes" where
  "pad32 b = take 32 (drop (length b - 32) b @ replicate 32 0)"

definition apple_app_id :: bytes where
  "apple_app_id = pad32 (ascii ''T.b'')"

definition apple_authData :: bytes where
  "apple_authData = apple_app_id @ [0x40, 0, 0, 0, 0] @ AAGUID_PROD @ [0, 0]"

definition apple_point :: bytes where
  "apple_point = [0x04] @ replicate 64 0"

definition apple_leaf :: certificate where
  "apple_leaf = \<lparr>crt_publicKey = [1], crt_nonceExt = Some ([0x30, 0x24, 0xA1, 0x22, 0x04, 0x20] @
     pad32 (apple_authData @ pad32 (sample_key @ [1, 2, 3]))), crt_ca = None\<rparr>"

definition apple_phone :: apple_lib where
  "apple_phone = \<lparr>al_sha256 = pad32,
     cbor_attestation = (\<lambda>_. Inr \<lparr>ao_fmt = Some ''apple-appattest'', ao_x5c = Some [[10], [11]],
       ao_authData = Some apple_authData\<rparr>),
     cbor_assertion = (\<lambda>_. Inr \<lparr>as_signature = Some [5],
       as_authenticatorData = Some (apple_app_id @ [0, 0, 0, 0, 1])\<rparr>),
     parse_certificate = (\<lambda>c. if c = [10] then Inr apple_leaf
       else Inr \<lparr>crt_publicKey = [2], crt_nonceExt = None, crt_ca = Some True\<rparr>),
     cert_verify = (\<lambda>c k _. (c, k) \<in> {([10], [2]), ([11], [3])}),
     export_jwk = (\<lambda>_. Inr \<lparr>jwk_kty = Some ''EC'', jwk_crv = Some ''P-256'',
       jwk_x = Some (toBase64url (replicate 32 0)), jwk_y = Some (toBase64url (replicate 32 0))\<rparr>),
     ecdsa_verify = (\<lambda>k _ s. Inr (k = [1] \<and> s = [5])), rootKey = [3]\<rparr>"

definition ios_input :: "ios_mode \<Rightarrow> verify_input" where
  "ios_input m = sample_input\<lparr>vi_attestation :=
     IosAttestation m (toBase64 (pad32 apple_point)) (Some ''AA'') (Some ''AA'')\<rparr>"

definition ios_verify :: "ios_mode \<Rightarrow> db \<Rightarrow> (exn + unit) \<times> db" where
  "ios_verify m = verify_attestation sample_attest_config apple_phone pad32 sample_decode 1000 1001
     (\<lambda>x. x) (ios_input m)"

definition ios_registered :: db where
  "ios_registered = (snd (ios_verify Mode_attest attest_db))\<lparr>challenges := challenges attest_db\<rparr>"

lemma ios_verify_ok:
  "verify_attestation sample_attest_config apple_phone pad32 sample_decode 1000 1001 (\<lambda>x. x)
     (ios_input Mode_attest) attest_db = (Inr (), snd (ios_verify Mode_attest attest_db))"
  "verify_attestation sample_attest_config apple_phone pad32 sample_decode 1000 1001 (\<lambda>x. x)
     (ios_input Mode_assert) ios_registered = (Inr (), snd (ios_verify Mode_assert ios_registered))"
proof -
  have "fst (ios_verify Mode_attest attest_db) = Inr ()" by code_simp
  then show "verify_attestation sample_attest_config apple_phone pad32 sample_decode 1000 1001 (\<lambda>x. x)
     (ios_input Mode_attest) attest_db = (Inr (), snd (ios_verify Mode_attest attest_db))"
    unfolding ios_verify_def by (metis prod.collapse)
  have "fst (ios_verify Mode_assert ios_registered) = Inr ()" by code_simp
  then show "verify_attestation sample_attest_config apple_phone pad32 sample_decode 1000 1001 (\<lambda>x. x)
     (ios_input Mode_assert) ios_registered = (Inr (), snd (ios_verify Mode_assert ios_registered))"
    unfolding ios_verify_def by (metis prod.collapse)
qed

theorem attest_sound_witness:
  "(\<exists>c \<in> set (challenges attest_db). c_consumed_at c = None) \<and>
   d_attested_client_public_key attested_device = Some sample_key \<and>
   d_attested_until attested_device = Some 86401001 \<and>
   (\<exists>pk v. attest_evidence sample_attest_config apple_phone 1001 ''AA'' (toBase64 (pad32 apple_point))
      sample_key [1, 2, 3] pk \<and> device_of 2 (snd (ios_verify Mode_attest attest_db)) = Some v \<and>
      d_app_attest_public_key v = Some pk) \<and>
   (\<exists>n v. 0 < n \<and> device_of 2 (snd (ios_verify Mode_assert ios_registered)) = Some v \<and>
      d_app_attest_counter v = n)"
proof -
  have k: "vi_clientPubKey sample_input = sample_key" "vi_deviceId sample_input = 2"
    by (simp_all add: sample_input_def)
  have ch: "c_challenge c = [1, 2, 3]" if "c \<in> set (challenges attest_db)" for c
    using that by (simp add: attest_db_def)
  have d: "device_of 2 (snd (sample_verify attest_db)) = Some attested_device"
    using attested_device_found by (simp add: device_of_def k)
  have i: "vi_clientPubKey (ios_input m) = sample_key" "vi_deviceId (ios_input m) = 2"
    "vi_attestation (ios_input m) =
       IosAttestation m (toBase64 (pad32 apple_point)) (Some ''AA'') (Some ''AA'')" for m
    by (simp_all add: ios_input_def k)
  have "\<exists>c \<in> set (challenges attest_db). c_consumed_at c = None \<and>
      attested_as sample_attest_config 1001 sample_key attested_device"
    using attest_sound [OF sample_verify_ok] d by (auto simp: k)
  moreover have "\<exists>pk v. attest_evidence sample_attest_config apple_phone 1001 ''AA''
      (toBase64 (pad32 apple_point)) sample_key [1, 2, 3] pk \<and>
      device_of 2 (snd (ios_verify Mode_attest attest_db)) = Some v \<and> d_app_attest_public_key v = Some pk"
    using attest_sound [OF ios_verify_ok(1)] ch
    by (fastforce simp: bound_evidence_def i mark_attested_def)
  moreover have "\<forall>v \<in> set (devices ios_registered). 0 \<le> d_app_attest_counter v" by code_simp
  then have "0 \<le> d_app_attest_counter v" if "device_of i ios_registered = Some v" for i v
    using that by (auto simp: device_of_def dest: find_row_Some)
  then have "0 \<le> d_app_attest_counter v" if "device_of i (ios_registered\<lparr>challenges := cs\<rparr>) = Some v" for i v cs
    using that by (auto simp: device_of_def)
  with attest_sound [OF ios_verify_ok(2)] have "\<exists>n v. 0 < n \<and>
      device_of 2 (snd (ios_verify Mode_assert ios_registered)) = Some v \<and> d_app_attest_counter v = n"
    by (fastforce simp: bound_evidence_def assert_evidence_def i)
  ultimately show ?thesis by (auto simp: attested_as_def sample_attest_config_def)
qed

theorem challenge_single_use_witness:
  "\<exists>e. sample_verify (snd (sample_verify attest_db)) = (Inl e, snd (sample_verify attest_db))"
proof -
  have "keys_ok (snd (sample_verify attest_db))" by code_simp
  from challenge_single_use [OF sample_verify_ok _ subset_refl this refl] show ?thesis
    unfolding sample_verify_def by simp
qed

theorem counter_monotone_witness:
  "\<exists>v'. find_row (\<lambda>v. d_id v = 2) (devices (snd (sample_verify attest_db))) = Some v' \<and> d_app_attest_counter v' = 0"
proof -
  have "find_row (\<lambda>v. d_id v = vi_deviceId sample_input) (devices attest_db) = Some sample_device"
    by (simp add: sample_input_def attest_db_def sample_db_def sample_device_def)
  from counter_monotone [OF sample_verify_ok this] show ?thesis
    by (simp add: sample_input_def sample_device_def)
qed

theorem guard_only_bound_key_witness:
  "\<exists>k. attestedGuard 2000 (Some (vi_deviceId sample_input)) (Some (toBase64 sample_key)) (snd (sample_verify attest_db)) = Inr k"
proof -
  have "find_row (\<lambda>u. u_id u = d_user_id attested_device) (users (snd (sample_verify attest_db))) = Some sample_user"
    "d_status attested_device = D_active" "toBase64 sample_key \<noteq> []" "fromBase64 (toBase64 sample_key) = sample_key"
    by code_simp+
  moreover have "\<not> u_is_banned sample_user" "u_status sample_user = U_active"
    by (simp_all add: sample_user_def)
  ultimately show ?thesis
    using guard_only_bound_key [OF sample_verify_ok attested_device_found, of sample_user "toBase64 sample_key" 2000]
    by (simp add: sample_input_def sample_attest_config_def)
qed

definition gate_db :: db where
  "gate_db = sample_db\<lparr>devices := [attested_device], sessions := [], grants := [], rewards := []\<rparr>"

definition gate_header :: string where
  "gate_header = ''Bearer '' @ jwt_sign sample_tokens [] [] \<lparr>jc_sub = Some 1, jc_did = Some 2\<rparr> [] (jwt_opts sample_config) 0"

definition sample_gate :: "(exn + connect_result) \<times> sample_panel_state world" where
  "sample_gate = connect_endpoint sample_config sample_tokens connect_defaults sample_crypto sample_panel
     connect_sample_random 2000 2001 (Some gate_header) (Some (toBase64 sample_key))
     \<lparr>wdb = gate_db, wpanel = []\<rparr>"

theorem connect_gate_witness:
  "\<exists>v. v \<in> set (devices gate_db) \<and> d_id v = 2 \<and> d_attested_client_public_key v = Some sample_key"
proof -
  have ok: "\<not> isl (fst sample_gate)" by code_simp
  then have "connect_endpoint sample_config sample_tokens connect_defaults sample_crypto sample_panel
     connect_sample_random 2000 2001 (Some gate_header) (Some (toBase64 sample_key))
     \<lparr>wdb = gate_db, wpanel = []\<rparr> = (Inr (projr (fst sample_gate)), snd sample_gate)"
    unfolding sample_gate_def by (metis prod.collapse sum.collapse(2))
  from connect_gate [OF this] obtain user v where v: "v \<in> set (devices gate_db)" "d_id v = au_deviceId user"
    "jwtAuthGuard sample_config sample_tokens 2000 (Some gate_header) = Inr user"
    "d_attested_client_public_key v = Some (fromBase64 (toBase64 sample_key))" by auto
  moreover have "jwtAuthGuard sample_config sample_tokens 2000 (Some gate_header) =
      Inr \<lparr>au_userId = 1, au_deviceId = 2\<rparr>" "fromBase64 (toBase64 sample_key) = sample_key"
    by code_simp+
  ultimately show ?thesis by (intro exI [of _ v]) auto
qed

definition admin_login_db :: db where
  "admin_login_db = sample_db\<lparr>users := [password_user\<lparr>u_role := Role_admin\<rparr>]\<rparr>"

definition sample_admin_login :: "(exn + token_pair) \<times> db" where
  "sample_admin_login = admin_login sample_config sample_tokens [] 1000 (\<lambda>x. x) ''a@b'' ''secret'' admin_login_db"

theorem admin_token_never_connects_witness:
  "\<exists>m. fst (connect_endpoint sample_config sample_tokens connect_defaults sample_crypto sample_panel
     connect_sample_random 2000 2001 (Some (''Bearer '' @ tp_accessToken (projr (fst sample_admin_login))))
     (Some ''AA'') sample_world) = Inl (ForbiddenException m)"
proof -
  have ok: "\<not> isl (fst sample_admin_login)" by code_simp
  then have l: "admin_login sample_config sample_tokens [] 1000 (\<lambda>x. x) ''a@b'' ''secret'' admin_login_db =
      (Inr (projr (fst sample_admin_login)), snd sample_admin_login)"
    unfolding sample_admin_login_def by (metis prod.collapse sum.collapse(2))
  have "VERIFY_KEY sample_config \<noteq> []" by code_simp
  moreover have "\<forall>v \<in> set (devices (wdb sample_world)). d_id v \<noteq> 0" by code_simp
  ultimately show ?thesis
    using admin_token_never_connects [OF l _ sample_key_pair [of 1000 2000], of sample_world connect_defaults
        sample_crypto sample_panel connect_sample_random 2001 "Some ''AA''"] by auto
qed

definition bad_dto :: attestation_dto where
  "bad_dto = \<lparr>dto_platform = Android, dto_integrityToken = Some ''t'', dto_mode = None, dto_keyId = None,
     dto_attestation = None, dto_assertion = None\<rparr>"

definition sample_route :: "(exn + unit) \<times> db" where
  "sample_route = verify_route sample_attest_config sample_apple (\<lambda>b. b) (\<lambda>_ _. Inl None) (\<lambda>_. True) 1000 1001
     (\<lambda>x. x) (jwtAuthGuard sample_config sample_tokens 1000 (Some gate_header)) 9 (toBase64 sample_key) bad_dto
     None None attest_db"

theorem attest_route_fails_closed_witness:
  "devices (snd sample_route) = devices attest_db \<and>
   fst sample_route = Inl (ServiceUnavailableException ''attestation temporarily unavailable'')"
proof -
  have r: "fst sample_route = Inl (ServiceUnavailableException ''attestation temporarily unavailable'')"
    by code_simp
  then have "verify_route sample_attest_config sample_apple (\<lambda>b. b) (\<lambda>_ _. Inl None) (\<lambda>_. True) 1000 1001
     (\<lambda>x. x) (jwtAuthGuard sample_config sample_tokens 1000 (Some gate_header)) 9 (toBase64 sample_key) bad_dto
     None None attest_db = (Inl (ServiceUnavailableException ''attestation temporarily unavailable''), snd sample_route)"
    unfolding sample_route_def by (metis prod.collapse)
  from attest_route_fails_closed [OF this refl] r show ?thesis by simp
qed

end
