(* ===== verification/Lifecycle.thy ===== *)
theory Lifecycle
  imports Ads_Correct Connection_Correct Workers Outbox_Correct Admin_Correct Attest_Correct
begin

text \<open>
  The whole backend as one transition system. A step is one transaction or statement of one
  request or worker, so the reachable states are those of every interleaving, including
  requests that fail or stop half way. The invariants hold in all of them: the ledger of
  ad views is sound, a device has at most one live session, and every session that has
  ended has an operation in the outbox that removes its panel user.
\<close>

section \<open>The invariant\<close>

definition system_ok :: "db \<Rightarrow> bool" where
  "system_ok d \<longleftrightarrow> ledger_ok d \<and> one_live d \<and> reclaim_ok d"

text \<open>What every step does: it keeps the invariant and reopens no session.\<close>

definition sound_step :: "db \<Rightarrow> db \<Rightarrow> bool" where
  "sound_step d d' \<longleftrightarrow> (system_ok d \<longrightarrow> system_ok d' \<and> no_reopen d d')"

lemma system_keys: "system_ok d \<Longrightarrow> keys_ok d"
  by (simp add: system_ok_def ledger_okD(1))

lemma sound_refl [simp]: "sound_step d d"
  by (simp add: sound_step_def no_reopen_refl)

lemma sound_trans: "sound_step a b \<Longrightarrow> sound_step b c \<Longrightarrow> sound_step a c"
  unfolding sound_step_def using no_reopen_trans by blast

lemma ledger_frame:
  "ledger_ok d \<Longrightarrow> grants d' = grants d \<Longrightarrow> rewards d' = rewards d \<Longrightarrow> keys_ok d' \<Longrightarrow> ledger_ok d'"
  by (simp add: ledger_ok_def credit_ok_def rewards_of_def)

context session_closer begin

lemma step_sound:
  assumes "grants (step d) = grants d" and "rewards (step d) = rewards d"
  shows "sound_step d (step d)"
  unfolding sound_step_def
proof
  assume ok: "system_ok d"
  note k = system_keys [OF ok]
  have "ledger_ok (step d)"
    using ok ledger_frame [OF _ assms step_keys [OF k]] by (simp add: system_ok_def)
  then show "system_ok (step d) \<and> no_reopen d (step d)"
    using ok k keeps_one_live keeps_reclaim_ok keeps_closed by (simp add: system_ok_def)
qed

end

section \<open>Steps that leave sessions, grants and the outbox alone\<close>

definition quiet :: "db \<Rightarrow> db \<Rightarrow> bool" where
  "quiet d d' \<longleftrightarrow> sessions d' = sessions d \<and> ops d' = ops d \<and> grants d' = grants d \<and>
     rewards d' = rewards d \<and> (keys_ok d \<longrightarrow> keys_ok d')"

named_theorems quiet_intros

lemma quiet_refl [simp, quiet_intros]: "quiet d d"
  by (simp add: quiet_def)

lemma quiet_trans: "quiet a b \<Longrightarrow> quiet b c \<Longrightarrow> quiet a c"
  by (simp add: quiet_def)

lemma quiet_sound:
  assumes "quiet d d'"
  shows "sound_step d d'"
proof -
  have "no_reopen d d'" using assms by (auto simp: quiet_def no_reopen_def)
  moreover have "system_ok d'" if "system_ok d"
    using that assms ledger_frame [of d d'] system_keys [OF that]
    by (simp add: system_ok_def quiet_def one_live_def reclaim_ok_def reclaimed_def queued_def)
  ultimately show ?thesis by (simp add: sound_step_def)
qed

definition quiet_prog :: "(db, 'a) prog \<Rightarrow> bool" where
  "quiet_prog m \<longleftrightarrow> (\<forall>d. quiet d (snd (m d)))"

lemma quiet_progD: "quiet_prog m \<Longrightarrow> quiet d (snd (m d))"
  by (simp add: quiet_prog_def)

lemma quiet_and_then [quiet_intros]:
  assumes "quiet_prog m" and "\<And>a. quiet_prog (k a)"
  shows "quiet_prog (and_then m k)"
  unfolding quiet_prog_def
proof
  fix d
  obtain r d1 where m: "m d = (r, d1)" by fastforce
  with quiet_progD [OF assms(1), of d] have "quiet d d1" by simp
  with m assms(2) show "quiet d (snd (and_then m k d))"
    by (cases r) (auto simp: and_then_def quiet_prog_def intro: quiet_trans)
qed

lemma quiet_withTransaction [quiet_intros]: "quiet_prog m \<Longrightarrow> quiet_prog (withTransaction m)"
  by (auto simp: quiet_prog_def withTransaction_def split: prod.split sum.split)
    (metis snd_conv)

lemma quiet_basic [quiet_intros]:
  "quiet_prog (return a)" "quiet_prog (throw e)" "quiet_prog (lift_result r)"
  by (simp_all add: quiet_prog_def return_def throw_def lift_result_def)

lemma quiet_validated [quiet_intros]: "quiet_prog h \<Longrightarrow> quiet_prog (validated ok h)"
  by (simp add: validated_def quiet_basic)

lemma quiet_guarded [quiet_intros]: "(\<And>u. quiet_prog (h u)) \<Longrightarrow> quiet_prog (guarded g h)"
  by (auto simp: guarded_def quiet_basic split: sum.split)

text \<open>The statements on the tables of users, devices, tokens and challenges.\<close>

lemma quiet_tables:
  "(\<And>x. u_id (fu x) = u_id x) \<Longrightarrow> quiet d (d\<lparr>users := update_where P fu (users d)\<rparr>)"
  "(\<And>x. d_id (fd x) = d_id x) \<Longrightarrow> quiet d (d\<lparr>devices := update_where Q fd (devices d)\<rparr>)"
  "(\<And>x. t_id (ft x) = t_id x) \<Longrightarrow> quiet d (d\<lparr>tokens := update_where R ft (tokens d)\<rparr>)"
  "(\<And>x. c_id (fc x) = c_id x) \<Longrightarrow> quiet d (d\<lparr>challenges := update_where S fc (challenges d)\<rparr>)"
  by (simp_all add: quiet_def keys_ok_def table_ok_update)

lemma quiet_next: "quiet d (d\<lparr>next_id := Suc (next_id d)\<rparr>)"
  by (simp add: quiet_def keys_ok_def table_ok_Suc)

lemma quiet_insert_user [quiet_intros]: "quiet_prog (insert_user now)"
  by (simp add: quiet_prog_def insert_user_def quiet_def keys_ok_def table_ok_Suc table_ok_snoc new_user_def)

lemma quiet_insert_device [quiet_intros]: "quiet_prog (insert_device u inp)"
  by (simp add: quiet_prog_def insert_device_def quiet_def keys_ok_def table_ok_Suc table_ok_snoc new_device_def)

lemma quiet_insert_token [quiet_intros]:
  "(\<And>i. t_id (mk i) = i) \<Longrightarrow> quiet_prog (insert_token mk)"
  by (simp add: quiet_prog_def insert_token_def Let_def quiet_def keys_ok_def table_ok_Suc table_ok_snoc)

lemma quiet_randomUUID [quiet_intros]: "quiet_prog randomUUID"
  by (simp add: quiet_prog_def randomUUID_def quiet_next)

lemma quiet_issueRefresh [quiet_intros]: "quiet_prog (issueRefresh cfg cr rnd now u v f r)"
  unfolding issueRefresh_def by (intro quiet_intros) simp

lemma quiet_findOrCreateDevice [quiet_intros]: "quiet_prog (findOrCreateDevice u inp)"
  using quiet_insert_device [of u inp]
  by (auto simp: quiet_prog_def findOrCreateDevice_def split: option.split)

lemma quiet_clear_lockout [quiet_intros]: "quiet_prog (clear_lockout u)"
  by (simp add: quiet_prog_def clear_lockout_def quiet_tables)

lemma quiet_check_lock [quiet_intros]: "quiet_prog (check_lock now u)"
  by (auto simp: quiet_prog_def check_lock_def split: option.split)

lemma quiet_register_tx [quiet_intros]: "quiet_prog (register_tx now u email h)"
  by (auto simp: quiet_prog_def register_tx_def quiet_tables split: option.split)

lemma quiet_recordFailedLogin: "quiet d (recordFailedLogin cfg now u d)"
  unfolding recordFailedLogin_def by (rule quiet_tables) (simp add: count_failure_def)

lemma quiet_revoke_tokens: "quiet d (revoke_tokens P now r d)"
  unfolding revoke_tokens_def by (rule quiet_tables) simp

lemma quiet_anon: "quiet_prog (anon cfg cr rnd now inp)"
  unfolding anon_def anon_tx_def by (intro quiet_intros) (auto simp: quiet_basic split: prod.split)

lemma quiet_register: "quiet_prog (register cr salt now u email pw)"
proof -
  have "snd (register cr salt now u email pw d) =
      snd (withTransaction (register_tx now u email (argon_hash cr salt pw)) d)" for d
    by (simp add: register_def split: prod.split sum.split)
  then show ?thesis
    using quiet_withTransaction [OF quiet_register_tx] by (simp add: quiet_prog_def)
qed

lemma quiet_login: "quiet d (snd (login cfg cr rnd now later (\<lambda>_. d) email pw inp d0))"
proof -
  have "quiet_prog (withTransaction (login_tx cfg cr rnd later u inp))" for u
    unfolding login_tx_def by (intro quiet_intros)
  then show ?thesis
    by (auto simp: login_def Let_def quiet_recordFailedLogin quiet_prog_def
        split: option.split sum.split bool.split)
qed

lemma quiet_refresh: "quiet_prog (refresh cfg cr rnd now raw)"
proof -
  have "quiet_prog (refresh_tx cfg cr rnd now h)" for h
    unfolding quiet_prog_def
  proof
    fix d
    have rot: "quiet d (snd (and_then (issueRefresh cfg cr rnd now u v f r) (\<lambda>raw. return (g raw))
        (revoke_tokens P now reason d)))" for u v f r P reason and g :: "string \<Rightarrow> refresh_outcome"
      by (rule quiet_trans [OF quiet_revoke_tokens quiet_progD]) (intro quiet_intros)
    show "quiet d (snd (refresh_tx cfg cr rnd now h d))"
      by (simp add: refresh_tx_def quiet_revoke_tokens rot split: option.split)
  qed
  then show ?thesis
    unfolding refresh_def by (intro quiet_intros) (auto simp: quiet_basic split: refresh_outcome.split)
qed

lemma quiet_logout: "quiet_prog (logout cr now u raw)"
  unfolding logout_def
  by (rule quiet_withTransaction) (auto simp: quiet_prog_def quiet_revoke_tokens split: option.split)

lemma quiet_admin_login: "quiet d (snd (admin_login cfg cr rnd now (\<lambda>_. d) email pw d0))"
proof -
  have "quiet_prog (and_then randomUUID (\<lambda>family.
      and_then (insert_token (new_token cfg cr rnd now u None family None)) (\<lambda>_. lift_result r)))"
    for u and r :: "exn + token_pair"
    by (intro quiet_intros) simp
  then show ?thesis
    by (auto simp: admin_login_def Let_def quiet_prog_def split: option.split sum.split bool.split)
qed

lemma quiet_createChallenge: "quiet_prog (createChallenge cfg rnd now did)"
  by (simp add: quiet_prog_def createChallenge_def quiet_def keys_ok_def table_ok_Suc table_ok_snoc)

lemma quiet_update_device: "(\<And>v. d_id (f v) = d_id v) \<Longrightarrow> quiet d (update_device j f d)"
  unfolding update_device_def by (rule quiet_tables)

lemma quiet_consume: "quiet_prog (consume_tx now cid did)"
  by (auto simp: quiet_prog_def consume_tx_def quiet_tables split: option.split)

lemma quiet_android_tx: "quiet_prog (android_tx cfg now did key p)"
  unfolding quiet_prog_def android_tx_def snd_conv
  by (intro allI quiet_trans [OF quiet_update_device quiet_update_device]) simp_all

lemma quiet_ios_tx: "quiet_prog (ios_tx cfg L now did key ch mode keyId att asr)"
proof -
  have "quiet_prog (case mode of Mode_attest \<Rightarrow> ios_attest cfg L now did key ch dev keyId att
      | Mode_assert \<Rightarrow> ios_assert cfg L did key ch dev keyId asr)" for dev
    by (auto simp: quiet_prog_def ios_attest_def ios_assert_def quiet_update_device
        split: ios_mode.split sum.split option.split)
  then have "quiet_prog (and_then (case mode of Mode_attest \<Rightarrow> ios_attest cfg L now did key ch dev keyId att
      | Mode_assert \<Rightarrow> ios_assert cfg L did key ch dev keyId asr)
      (\<lambda>_ d1. (Inr (), update_device did (mark_attested cfg now key) d1)))" for dev
    by (intro quiet_and_then) (simp_all add: quiet_prog_def quiet_update_device)
  then show ?thesis by (auto simp: quiet_prog_def ios_tx_def split: option.split)
qed

section \<open>The steps that move sessions\<close>

lemma outbox_sound:
  assumes "outbox_frame d d'" and "map op_core (ops d') = map op_core (ops d)"
  shows "sound_step d d'"
proof -
  have m: "map session_core (sessions d') = map session_core (sessions d)"
    using assms(1) by (simp add: outbox_frame_def)
  have dev: "map s_device_id (filter live t) = map s_device_id (filter live (map session_core t))" for t
    by (induction t) (auto simp: session_core_def)
  have origin: "\<exists>r \<in> set (sessions d). session_core r = session_core r'" if "r' \<in> set (sessions d')" for r'
    using map_eq_member [OF m that] by blast
  have core: "live a = live b" "s_id a = s_id b" "s_panel_username a = s_panel_username b"
    if "session_core a = session_core b" for a b
    using that by (metis session_core_simps)+
  have q: "queued d' = queued d" by (rule queued_core [OF assms(2)])
  have "no_reopen d d'"
    unfolding no_reopen_def using session_in_frame [OF assms(1)] core by metis
  moreover have "system_ok d'" if ok: "system_ok d"
  proof -
    have "one_live d'" using ok m dev unfolding one_live_def system_ok_def by metis
    moreover have "reclaim_ok d'"
      unfolding reclaim_ok_def
    proof
      fix s' assume "s' \<in> set (sessions d')"
      then obtain s where s: "s \<in> set (sessions d)" "session_core s = session_core s'" using origin by blast
      with ok have "live s \<or> reclaimed d s" by (simp add: system_ok_def reclaim_ok_def)
      with core [OF s(2)] show "live s' \<or> reclaimed d' s'" by (simp add: reclaimed_def q)
    qed
    ultimately show ?thesis using ok outbox_ledger_ok [OF assms] by (simp add: system_ok_def)
  qed
  ultimately show ?thesis by (simp add: sound_step_def)
qed

lemma connect_sound:
  assumes "connect_tx env rnd now uid did key tier e mc d = (Inr tx, d')"
  shows "sound_step d d'"
  unfolding sound_step_def
proof
  assume ok: "system_ok d"
  let ?r = "room now uid mc d"
  have "sound_step d ?r" by (rule displacement.step_sound) simp_all
  with ok have r: "system_ok ?r" "no_reopen d ?r" by (simp_all add: sound_step_def)
  note k' = connect_tx_sessions(3) [OF assms system_keys [OF ok]]
  from assms show "system_ok d' \<and> no_reopen d d'"
  proof (rule connect_tx_InrE)
    fix node un cred d2
    let ?mk = "new_session now uid did tier node un cred key e"
    assume ins: "insert_session ?mk ?r = (Inr (tx_sessionId tx), d2)"
      and fin: "if tier = Free then \<exists>gid. tx_grantId tx = Some gid \<and>
          tx_nonce tx = Some (randomUrlToken (cr_nonce rnd)) \<and>
          insert_grant (connect_grant env uid did (tx_sessionId tx) (randomUrlToken (cr_nonce rnd)) e) d2 =
            (Inr gid, d')
        else tx_grantId tx = None \<and> tx_nonce tx = None \<and> d' = d2"
    note d2 = insert_session_Inr [OF ins]
    have l2: "ledger_ok d2"
      by (rule ledger_frame [of ?r]) (use r keys_ok_insert_session [OF system_keys [OF r(1)] ins] in
        \<open>simp_all add: d2(2) system_ok_def\<close>)
    have F: "ledger_ok d' \<and> sessions d' = sessions d2 \<and> queued d' = queued d2"
    proof (cases "tier = Free")
      case True
      with fin obtain gid where g: "insert_grant (connect_grant env uid did (tx_sessionId tx)
          (randomUrlToken (cr_nonce rnd)) e) d2 = (Inr gid, d')" by auto
      from insert_grant_Inr [OF g] k' l2 show ?thesis
        by (auto simp: ledger_ok_def credit_ok_def rewards_of_def list_all_iff connect_grant_def)
    qed (use fin l2 in simp)
    have s: "sessions d2 = sessions ?r @ [?mk (tx_sessionId tx)]" "queued d2 = queued ?r"
      by (simp_all add: d2(2))
    have "one_live d'"
      using r(1) d2(5) F by (auto simp: one_live_def s system_ok_def)
    moreover have "reclaim_ok d'"
      using r(1) F by (auto simp: reclaim_ok_def reclaimed_def s system_ok_def)
    moreover have "no_reopen ?r d'" using F by (auto simp: no_reopen_def s)
    ultimately show ?thesis
      using no_reopen_trans [OF r(2)] F by (simp add: system_ok_def)
  qed
qed

lemma fail_sound:
  assumes "s \<in> set (sessions d)"
  shows "sound_step d (failSession now (s_id s) (s_panel_username s) nid d)"
  unfolding sound_step_def
proof
  let ?d = "failSession now (s_id s) (s_panel_username s) nid d"
  let ?f = "close_session S_failed ''panel_provision_failed'' now"
  assume ok: "system_ok d"
  note k = system_keys [OF ok]
  have sess: "sessions ?d = update_where (\<lambda>x. s_id x = s_id s) ?f (sessions d)"
    by (simp add: failSession_def Let_def)
  have q: "queued ?d = insert (s_id s, ''delete_user'', removal (s_panel_username s)) (queued d)"
    by (simp add: failSession_def Let_def)
  have "keys_ok ?d"
  proof -
    have "keys_ok (insert_op now (s_id s) ''delete_user'' (removal (s_panel_username s))
        (d\<lparr>sessions := update_where (\<lambda>x. s_id x = s_id s) ?f (sessions d)\<rparr>))"
      using keys_ok_sessions [OF k, of ?f] by (intro keys_ok_insert_op) simp
    then show ?thesis by (simp add: failSession_def Let_def keys_ok_def)
  qed
  then have "ledger_ok ?d"
    by (rule ledger_frame [rotated 3]) (use ok in \<open>simp_all add: system_ok_def failSession_def Let_def\<close>)
  moreover have "one_live ?d"
    using ok by (simp add: one_live_def sess system_ok_def filter_dead_update distinct_map_filter_sub
        del: filter_filter)
  moreover have "reclaim_ok ?d"
    unfolding reclaim_ok_def sess update_where_ball
  proof
    fix x assume x: "x \<in> set (sessions d)"
    show "live (if s_id x = s_id s then ?f x else x) \<or> reclaimed ?d (if s_id x = s_id s then ?f x else x)"
    proof (cases "s_id x = s_id s")
      case True
      then have "x = s" by (rule table_ok_inj [OF keys_okD(1) [OF k] x assms])
      then show ?thesis by (auto simp: reclaimed_def q removal_op_def)
    next
      case False
      with ok x show ?thesis by (auto simp: system_ok_def reclaim_ok_def reclaimed_def q)
    qed
  qed
  moreover have "no_reopen d ?d" by (rule no_reopen_update [OF sess]) simp_all
  ultimately show "system_ok ?d \<and> no_reopen d ?d" by (simp add: system_ok_def)
qed

text \<open>Updating sessions without touching what the invariants read.\<close>

lemma session_update_sound:
  assumes "\<And>s. s_id (f s) = s_id s" "\<And>s. live (f s) = live s" "\<And>s. s_device_id (f s) = s_device_id s"
    "\<And>s. s_panel_username (f s) = s_panel_username s"
    and "sessions d' = update_where P f (sessions d)" and "queued d \<subseteq> queued d'"
    and "ledger_ok d \<Longrightarrow> ledger_ok d'"
  shows "sound_step d d'"
  unfolding sound_step_def
proof
  assume ok: "system_ok d"
  have "filter live (update_where P f t) = update_where P f (filter live t)" for t
    by (rule filter_update_where) (simp add: assms(2))
  then have "one_live d'"
    using ok assms(3) by (simp add: one_live_def assms(5) map_update_where system_ok_def)
  moreover have "reclaim_ok d'"
    unfolding reclaim_ok_def assms(5) update_where_ball
  proof
    fix s assume "s \<in> set (sessions d)"
    with ok have "live s \<or> reclaimed d s" by (simp add: system_ok_def reclaim_ok_def)
    moreover have "reclaimed d' (f s) = reclaimed d' s" by (simp add: reclaimed_def assms(1,4))
    ultimately show "live (if P s then f s else s) \<or> reclaimed d' (if P s then f s else s)"
      using reclaimed_mono [OF assms(6)] by (auto simp: assms(2))
  qed
  moreover have "no_reopen d d'" by (rule no_reopen_update [OF assms(5,1)]) (simp add: assms(2))
  ultimately show "system_ok d' \<and> no_reopen d d'" using ok assms(7) by (simp add: system_ok_def)
qed

lemma activate_sound: "sound_step d (activate now sid d)"
proof (rule session_update_sound [where P = "\<lambda>s. s_id s = sid" and f = "\<lambda>s. s\<lparr>s_activated_at := Some now\<rparr>"])
  assume "ledger_ok d"
  then show "ledger_ok (activate now sid d)"
    by (rule ledger_frame) (use \<open>ledger_ok d\<close> in \<open>simp_all add: activate_def keys_ok_sessions ledger_okD(1)\<close>)
qed (simp_all add: activate_def)

lemma claim_sound:
  assumes "verify_tx env now uid gid sid d = (Inr p, d')"
  shows "sound_step d d'"
proof (cases p)
  case (PlanIdempotent b e)
  with assms have "d' = d" using verify_tx_idempotentE by blast
  then show ?thesis by simp
next
  case (PlanExtend sid' un e m oid)
  with assms obtain g s where c: "d' = claimed_db now e g s d" by (auto elim!: verify_tx_extendE)
  show ?thesis
  proof (cases "g_grant_minutes g > 0")
    case True
    then show ?thesis unfolding c
      by (intro session_update_sound [where P = "\<lambda>x. s_id x = s_id s" and f = "fund_session e (g_id g)"])
        (simp_all add: claimed_ledger_ok, simp_all add: claimed_db_def Let_def subset_insertI)
  next
    case False
    then show ?thesis unfolding c
      by (intro session_update_sound [where P = "\<lambda>_. False" and f = "\<lambda>s. s"])
        (simp_all add: claimed_ledger_ok, simp_all add: claimed_db_def Let_def update_where_none)
  qed
qed

lemma ledger_step_sound:
  assumes "sessions d' = sessions d" and "queued d' = queued d" and "ledger_ok d \<Longrightarrow> ledger_ok d'"
  shows "sound_step d d'"
  by (rule session_update_sound [where P = "\<lambda>_. False" and f = "\<lambda>s. s"])
    (simp_all add: assms update_where_none)

section \<open>The system\<close>

text \<open>
  One step per transaction, statement or panel call. \<open>'p\<close> is the state of the panel; what a
  panel call answers is up to the client \<open>pc\<close>. A connect is its transaction, the inline
  revocations, the provisioning, and then either the failure statements or the activation;
  a claim is its transaction and the mirroring of the expiry; the drainer's tick is a claim
  and one step per operation. Each may be followed by the steps of any other request.
\<close>

inductive sys_step :: "'p world \<Rightarrow> 'p world \<Rightarrow> bool" where
  connect_tx: "connect_tx env rnd now uid did key tier e mc (wdb w) = (Inr tx, d') \<Longrightarrow>
    sys_step w (w\<lparr>wdb := d'\<rparr>)"
| connect_revoke: "sys_step w (revoke_inline pc now un w)"
| connect_provision: "sys_step w (snd (provision env pc tx e w))"
| connect_fail: "s \<in> set (sessions (wdb w)) \<Longrightarrow>
    sys_step w (w\<lparr>wdb := failSession now (s_id s) (s_panel_username s) nid (wdb w)\<rparr>)"
| connect_activate: "sys_step w (w\<lparr>wdb := activate now sid (wdb w)\<rparr>)"
| ad_token: "sys_step w (w\<lparr>wdb := snd (requestAdToken aenv now rnda uid did pu sido (wdb w))\<rparr>)"
| ad_callback: "sys_step w (w\<lparr>wdb := snd (recordVerifiedReward now rw (wdb w))\<rparr>)"
| ad_claim: "verify_tx aenv now uid gid sid (wdb w) = (Inr p, d') \<Longrightarrow> sys_step w (w\<lparr>wdb := d'\<rparr>)"
| ad_mirror: "sys_step w (snd (mirror_expiry pc now oid sid un e w))"
| reap: "sys_step w (w\<lparr>wdb := snd (sweepOnce batch locks now (wdb w))\<rparr>)"
| outbox_claim: "sys_step w (w\<lparr>wdb := snd (claim oenv locks now (wdb w))\<rparr>)"
| outbox_drain: "sys_step w (drain_one oenv pc now op w)"
| node_sync: "sys_step w (w\<lparr>wdb := sync_node now pn (wdb w)\<rparr>)"
| admin_mutate: "sys_step w (w\<lparr>wdb := snd (mutateUser days inet now uid ch actor (wdb w))\<rparr>)"
| admin_kick: "sys_step w (w\<lparr>wdb := snd (kickSession now sid (wdb w))\<rparr>)"
| admin_panic: "sys_step w (w\<lparr>wdb := snd (panicRevokeFreeSessions inet now actor (wdb w))\<rparr>)"
| admin_migrate: "sys_step w (w\<lparr>wdb := snd (forceMigrateNode inet now nid actor (wdb w))\<rparr>)"
| admin_switch: "sys_step w (w\<lparr>wdb := snd (setNodeActive now nid b (wdb w))\<rparr>)"
| admin_audit: "sys_step w (w\<lparr>wdb := record_audit inet now entry (wdb w)\<rparr>)"
| admin_signin: "sys_step w (w\<lparr>wdb := snd (admin_login cfg cr rnda now (\<lambda>_. wdb w) email pw d0)\<rparr>)"
| first_launch: "sys_step w (w\<lparr>wdb := snd (anon cfg cr rnda now inp (wdb w))\<rparr>)"
| sign_up: "sys_step w (w\<lparr>wdb := snd (register cr rnda now uid email pw (wdb w))\<rparr>)"
| sign_in: "sys_step w (w\<lparr>wdb := snd (login cfg cr rnda now later (\<lambda>_. wdb w) email pw inp d0)\<rparr>)"
| rotate: "sys_step w (w\<lparr>wdb := snd (refresh cfg cr rnda now raw (wdb w))\<rparr>)"
| sign_out: "sys_step w (w\<lparr>wdb := snd (logout cr now uid raw (wdb w))\<rparr>)"
| attest_challenge: "sys_step w (w\<lparr>wdb := snd (createChallenge acfg rnda now did (wdb w))\<rparr>)"
| attest_consume: "sys_step w (w\<lparr>wdb := snd (consume_tx now cid did (wdb w))\<rparr>)"
| attest_android: "sys_step w (w\<lparr>wdb := snd (android_tx acfg now did key payload (wdb w))\<rparr>)"
| attest_ios: "sys_step w (w\<lparr>wdb := snd (withTransaction (ios_tx acfg L now did key ch mode keyId att asr) (wdb w))\<rparr>)"

lemma quiet_fields:
  assumes "sessions d' = sessions d" "ops d' = ops d" "grants d' = grants d" "rewards d' = rewards d"
    "tokens d' = tokens d" "users d' = users d" "devices d' = devices d" "challenges d' = challenges d"
    "next_id d \<le> next_id d'"
  shows "quiet d d'"
  using assms(1-8) by (auto simp: quiet_def keys_ok_def intro: table_ok_mono [OF _ assms(9)])

lemma record_sound:
  assumes "recordInTx inet now e d = (r, d')"
  shows "quiet d d'"
  using assms by (auto simp: recordInTx_def Let_def split: if_splits intro!: quiet_fields)

lemma set_tier_quiet: "quiet d (set_tier days now uid t d)"
  by (rule quiet_fields)
    (auto simp: set_tier_def grantInternalPremium_def ensure_admin_plan_def expire_internal_def Let_def
      split: option.split plan_tier.split)

lemma revoke_sound: "sound_step d (snd (revoke_where P reason now d))"
  by (rule revocation.step_sound) (simp_all add: revoke_where_def close_where_def Let_def)

lemma revoke_log_sound:
  assumes "(case revoke_where P reason now d of (n, d1) \<Rightarrow>
      (case recordInTx inet now (e n) d1 of (Inl x, d2) \<Rightarrow> (Inl x, d2) | (Inr _, d2) \<Rightarrow> (Inr n, d2)))
    = (Inr m, d')"
  shows "sound_step d d'"
proof -
  obtain n d1 where r: "revoke_where P reason now d = (n, d1)" by fastforce
  from assms obtain u where "recordInTx inet now (e n) d1 = (Inr u, d')"
    by (auto simp: r split: prod.splits sum.splits)
  from record_sound [OF this] have "sound_step d1 d'" by (rule quiet_sound)
  with revoke_sound [of d P reason now] show ?thesis by (auto simp: r intro: sound_trans)
qed

lemma mutate_sound:
  assumes "mutateUser days inet now uid ch actor d = (Inr n, d')"
  shows "sound_step d d'"
proof -
  from assms obtain d1 where b: "ban_tx inet now actor uid (ch_isBanned ch) d = (Inr n, d1)"
    and d': "d' = set_tier days now uid (ch_tier ch) d1"
    unfolding mutateUser_def withTransaction_Inr by (auto split: if_splits prod.splits sum.splits)
  let ?d = "d\<lparr>users := update_where (\<lambda>u. u_id u = uid)
      (\<lambda>u. u\<lparr>u_is_banned := the (ch_isBanned ch), u_updated_at := now\<rparr>) (users d)\<rparr>"
  have u: "sound_step d ?d" by (intro quiet_sound quiet_tables) simp
  have "sound_step d d1"
  proof (cases "ch_isBanned ch = Some True")
    case True
    have "sound_step ?d d1"
      using b True unfolding ban_tx_def revokeUserSessions_def Let_def
      by (intro revoke_log_sound) auto
    with u show ?thesis by (rule sound_trans)
  next
    case False
    with b u show ?thesis by (auto simp: ban_tx_def Let_def split: option.splits if_splits)
  qed
  then show ?thesis unfolding d' using quiet_sound [OF set_tier_quiet] by (rule sound_trans)
qed

lemma switch_quiet: "quiet d (set_active now nid b d)"
  by (rule quiet_fields) (simp_all add: set_active_def)

lemma transaction_sound:
  "(\<And>a d'. m d = (Inr a, d') \<Longrightarrow> sound_step d d') \<Longrightarrow> sound_step d (snd (withTransaction m d))"
  by (rule withTransaction_preserves) simp_all

lemma snd_sound: "(\<And>a d'. m d = (Inr a, d') \<Longrightarrow> sound_step d d') \<Longrightarrow> (\<And>e d'. m d = (Inl e, d') \<Longrightarrow> d' = d)
    \<Longrightarrow> sound_step d (snd (m d))"
  by (cases "m d"; cases "fst (m d)") auto

lemma migrate_sound: "sound_step d (snd (forceMigrateNode inet now nid actor d))"
  unfolding forceMigrateNode_def
proof (rule transaction_sound)
  fix a d'
  assume "(if \<not> exists_row (\<lambda>n. n_id n = nid) (nodes d) then (Inl (NotFoundException ''node not found''), d)
     else case revoke_where (\<lambda>s. s_node_id s = nid) ''force_migrate'' now (set_active now nid False d) of
       (evicted, d1) \<Rightarrow>
         (case recordInTx inet now
             \<lparr>ae_adminId = ac_adminId actor, ae_actionType = FORCE_MIGRATE_NODE, ae_targetId = Some nid,
              ae_details = Some (JObj [(''evicted'', JNum (int evicted))]), ae_ip = ac_ip actor\<rparr> d1 of
            (Inl e, d2) \<Rightarrow> (Inl e, d2) | (Inr _, d2) \<Rightarrow> (Inr evicted, d2))) = (Inr a, d')"
  then have "sound_step (set_active now nid False d) d'"
    by (auto split: if_splits elim!: revoke_log_sound)
  with quiet_sound [OF switch_quiet] show "sound_step d d'" by (rule sound_trans)
qed

lemma sys_step_sound:
  assumes "sys_step w w'"
  shows "sound_step (wdb w) (wdb w')"
  using assms
proof cases
  case (ad_token aenv now rnda uid did pu sido)
  have "sessions (snd (requestAdToken aenv now rnda uid did pu sido d)) = sessions d \<and>
      queued (snd (requestAdToken aenv now rnda uid did pu sido d)) = queued d" for d
    by (auto simp: requestAdToken_def Let_def insert_grant_def split: prod.split)
  with ad_token requestAdToken_ledger show ?thesis by (auto intro: ledger_step_sound)
next
  case (ad_callback now rw)
  have "sessions (snd (recordVerifiedReward now rw d)) = sessions d \<and>
      queued (snd (recordVerifiedReward now rw d)) = queued d" for d
    by (cases rule: record_cases [of rw now d]) (simp_all add: recorded_db_def counted_db_def)
  with ad_callback recordVerifiedReward_ledger show ?thesis by (auto intro: ledger_step_sound)
next
  case (ad_mirror pc now oid sid un e)
  then show ?thesis using mirror_expiry_frame [OF prod.collapse [symmetric]]
    by (auto intro!: outbox_sound)
next
  case (reap batch locks now)
  have "sound_step d (snd (sweepOnce batch locks now d))" for d
    by (rule reaper.step_sound) (simp_all add: sweepOnce_def close_where_def Let_def)
  with reap show ?thesis by simp
next
  case (outbox_drain oenv pc now op)
  then show ?thesis
    using drain_one_outbox_frame [of w oenv pc now op] drain_one_core [of oenv pc now op w]
    by (auto intro: outbox_sound)
next
  case (admin_mutate days inet now uid ch actor)
  have "sound_step d (snd (mutateUser days inet now uid ch actor d))" for d
    by (rule snd_sound) (auto simp: mutate_sound mutateUser_def withTransaction_Inl)
  with admin_mutate show ?thesis by simp
next
  case (admin_kick now sid)
  have "sound_step d (snd (kickSession now sid d))" for d
    by (rule kick.step_sound; cases rule: kick_cases [of now sid d]) simp_all
  with admin_kick show ?thesis by simp
next
  case (admin_panic inet now actor)
  have "sound_step d (snd (panicRevokeFreeSessions inet now actor d))" for d
    unfolding panicRevokeFreeSessions_def by (rule transaction_sound) (rule revoke_log_sound)
  with admin_panic show ?thesis by simp
next
  case (admin_switch now nid b)
  then show ?thesis using quiet_sound [OF switch_quiet] by (simp add: setNodeActive_def)
next
  case (admin_audit inet now entry)
  then show ?thesis
    using quiet_sound [OF record_sound [OF prod.collapse [symmetric]]] by (simp add: record_audit_def)
next
  case (node_sync now pn)
  then show ?thesis by (auto simp: sync_node_def Let_def intro!: quiet_sound quiet_fields)
next
  case (attest_consume now cid did)
  then show ?thesis using quiet_progD [OF quiet_consume] by (auto intro: quiet_sound)
qed (auto simp: provision_wdb intro: connect_sound fail_sound activate_sound claim_sound migrate_sound
    outbox_sound [OF revoke_inline_frame] outbox_sound [OF claim_outbox_frame claim_core]
    quiet_sound [OF quiet_admin_login] quiet_sound [OF quiet_login]
    quiet_sound [OF quiet_progD [OF quiet_anon]] quiet_sound [OF quiet_progD [OF quiet_register]]
    quiet_sound [OF quiet_progD [OF quiet_refresh]] quiet_sound [OF quiet_progD [OF quiet_logout]]
    quiet_sound [OF quiet_progD [OF quiet_createChallenge]] quiet_sound [OF quiet_progD [OF quiet_android_tx]]
    quiet_sound [OF quiet_progD [OF quiet_withTransaction [OF quiet_ios_tx]]])

text \<open>
  Where a run starts: no session, no operation, no grant; the seeded tables (plans, nodes,
  inbounds, endpoints) and the accounts are arbitrary.
\<close>

definition initial_db :: "db \<Rightarrow> bool" where
  "initial_db d \<longleftrightarrow> sessions d = [] \<and> ops d = [] \<and> grants d = [] \<and> rewards d = [] \<and> keys_ok d"

lemma initial_ok: "initial_db d \<Longrightarrow> system_ok d"
  by (simp add: initial_db_def system_ok_def ledger_ok_def credit_ok_def one_live_def reclaim_ok_def)

lemma runs_sound:
  assumes "sys_step\<^sup>*\<^sup>* w w'" and "system_ok (wdb w)"
  shows "system_ok (wdb w') \<and> no_reopen (wdb w) (wdb w')"
  using assms(1)
proof (induction rule: rtranclp_induct)
  case base
  with assms(2) show ?case by (simp add: no_reopen_refl)
next
  case (step y z)
  from sys_step_sound [OF step.hyps(2)] step.IH show ?case
    by (auto simp: sound_step_def intro: no_reopen_trans)
qed

text \<open>
  C4. In every state any interleaving of requests, workers and administrators reaches from
  a database without sessions: keys are unique, callbacks are recorded once and no grant counts more
  ads than it has recorded callbacks, a device has at most one live session, and every
  session that is not live has an operation in the outbox removing its panel user.
\<close>

theorem system_invariant:
  assumes "sys_step\<^sup>*\<^sup>* w w'" and "initial_db (wdb w)"
  shows "ledger_ok (wdb w') \<and> one_live (wdb w') \<and> reclaim_ok (wdb w')"
  using runs_sound [OF assms(1) initial_ok [OF assms(2)]] by (simp add: system_ok_def)

text \<open>
  C11. A session that has ended never becomes live again, and no session row disappears,
  whatever runs after it.
\<close>

theorem ended_stays_ended:
  assumes "sys_step\<^sup>*\<^sup>* w0 w" and "initial_db (wdb w0)" and "sys_step\<^sup>*\<^sup>* w w'"
    and "s \<in> set (sessions (wdb w))"
  shows "\<exists>s'. find_row (\<lambda>x. s_id x = s_id s) (sessions (wdb w')) = Some s' \<and> (live s' \<longrightarrow> live s)"
proof -
  have ok: "system_ok (wdb w)" using runs_sound [OF assms(1) initial_ok [OF assms(2)]] by simp
  from runs_sound [OF assms(3) ok] assms(4) obtain s'
    where s': "s' \<in> set (sessions (wdb w'))" "s_id s' = s_id s" "live s' \<longrightarrow> live s"
    and k: "keys_ok (wdb w')"
    by (auto simp: no_reopen_def dest: system_keys)
  from table_ok_find [OF keys_okD(1) [OF k] s'(1)] s'(2,3) show ?thesis by simp
qed

section \<open>Witnesses\<close>

definition start_world :: "sample_panel_state world" where
  "start_world = \<lparr>wdb = gate_db, wpanel = []\<rparr>"

definition connected_world :: "sample_panel_state world" where
  "connected_world = start_world\<lparr>wdb := snd (connect_tx connect_defaults connect_sample_random 1000 1 2
     sample_key Free 301000 1 gate_db)\<rparr>"

lemma start_initial: "initial_db (wdb start_world)"
  by code_simp

lemma connected_step: "sys_step start_world connected_world"
proof -
  let ?r = "connect_tx connect_defaults connect_sample_random 1000 1 2 sample_key Free 301000 1 gate_db"
  have "\<not> isl (fst ?r)" by code_simp
  then obtain tx where "?r = (Inr tx, snd ?r)" by (metis prod.collapse sum.collapse(2))
  then have "sys_step start_world (start_world\<lparr>wdb := snd ?r\<rparr>)"
    by (intro sys_step.connect_tx) (simp add: start_world_def)
  then show ?thesis by (simp add: connected_world_def)
qed

lemma connected_run: "sys_step\<^sup>*\<^sup>* start_world connected_world"
  by (rule r_into_rtranclp) (rule connected_step)

definition kicked_world :: "sample_panel_state world" where
  "kicked_world = connected_world\<lparr>wdb := snd (kickSession 2000 (s_id (hd (sessions (wdb connected_world))))
     (wdb connected_world))\<rparr>"

lemma kicked_run: "sys_step\<^sup>*\<^sup>* connected_world kicked_world"
  unfolding kicked_world_def by (intro r_into_rtranclp sys_step.admin_kick)

theorem system_invariant_witness:
  "length (sessions (wdb kicked_world)) = 1 \<and> reclaim_ok (wdb kicked_world) \<and> one_live (wdb kicked_world)"
proof -
  have "length (sessions (wdb kicked_world)) = 1" by code_simp
  moreover have "sys_step\<^sup>*\<^sup>* start_world kicked_world" using connected_run kicked_run by simp
  ultimately show ?thesis using system_invariant [OF _ start_initial] by blast
qed

definition kicked_session :: vpn_session where
  "kicked_session = hd (sessions (wdb kicked_world))"

theorem ended_stays_ended_witness:
  "\<exists>s'. find_row (\<lambda>x. s_id x = s_id kicked_session) (sessions (wdb kicked_world)) = Some s' \<and> \<not> live s'"
proof -
  have m: "kicked_session \<in> set (sessions (wdb kicked_world))" "\<not> live kicked_session" by code_simp+
  have "sys_step\<^sup>*\<^sup>* start_world kicked_world" using connected_run kicked_run by simp
  from ended_stays_ended [OF this start_initial rtranclp.rtrancl_refl m(1)] m(2) show ?thesis by auto
qed

end
