(* ===== verification/Http.thy ===== *)
theory Http
  imports Json PanelTypes
begin

text \<open>
  What the panel clients need of the language and of the network: the text, number and
  array readings JavaScript gives a JSON value, percent encoding, and \<^verbatim>\<open>fetchWithTimeout\<close>
  of backend/src/common/http.ts over a network that is a parameter.

  Response bodies are read without a check, as the code does. A property the model needs
  as a number or a text and that is neither reads as if it were absent; numbers in texts
  are integers in decimal.
\<close>

section \<open>Readings of a JSON value\<close>

text \<open>A template literal or \<^verbatim>\<open>String(v)\<close>; \<open>None\<close> is \<^verbatim>\<open>undefined\<close>.\<close>

fun json_text :: "json \<Rightarrow> string" where
  "json_text JNull = ''null''"
| "json_text (JBool b) = (if b then ''true'' else ''false'')"
| "json_text (JNum n) = show_int n"
| "json_text (JStr s) = s"
| "json_text (JArr xs) = join_comma (map (\<lambda>x. if x = JNull then [] else json_text x) xs)"
| "json_text (JObj _) = ''[object Object]''"

definition js_text :: "json option \<Rightarrow> string" where
  "js_text v = (case v of None \<Rightarrow> ''undefined'' | Some j \<Rightarrow> json_text j)"

text \<open>\<^verbatim>\<open>Number(v)\<close>; \<open>None\<close> is \<^verbatim>\<open>NaN\<close>.\<close>

definition number_text :: "string \<Rightarrow> int option" where
  "number_text s =
     (case trim s of
        [] \<Rightarrow> Some 0
      | c # r \<Rightarrow>
          if c = CHR ''-'' then
            (if r = [] then None else map_option (\<lambda>n. - int n) (digits_val 0 r))
          else if c = CHR ''+'' then
            (if r = [] then None else map_option int (digits_val 0 r))
          else map_option int (digits_val 0 (c # r)))"

fun js_number :: "json \<Rightarrow> int option" where
  "js_number JNull = Some 0"
| "js_number (JBool b) = Some (if b then 1 else 0)"
| "js_number (JNum n) = Some n"
| "js_number (JStr s) = number_text s"
| "js_number (JArr xs) = number_text (json_text (JArr xs))"
| "js_number (JObj _) = None"

definition as_int :: "json option \<Rightarrow> int option" where
  "as_int v = (case v of Some (JNum n) \<Rightarrow> Some n | _ \<Rightarrow> None)"

definition as_text :: "json option \<Rightarrow> string option" where
  "as_text v = (case v of Some (JStr s) \<Rightarrow> Some s | _ \<Rightarrow> None)"

definition text_or_empty :: "json option \<Rightarrow> string" where
  "text_or_empty v = (case as_text v of None \<Rightarrow> [] | Some s \<Rightarrow> s)"

text \<open>Reading a property of \<^verbatim>\<open>undefined\<close> or \<^verbatim>\<open>null\<close> throws.\<close>

definition is_nullish :: "json option \<Rightarrow> bool" where
  "is_nullish v \<longleftrightarrow> v = None \<or> v = Some JNull"

definition read_of :: "json option \<Rightarrow> string \<Rightarrow> exn + json" where
  "read_of v k =
     (case v of
        Some j \<Rightarrow> if j = JNull then Inl (JsError (''Cannot read properties of null (reading '' @ k @ '')''))
                  else Inr j
      | None \<Rightarrow> Inl (JsError (''Cannot read properties of undefined (reading '' @ k @ '')'')))"

text \<open>\<^verbatim>\<open>(v ?? []).map(f)\<close> for an \<open>f\<close> that may throw, and \<^verbatim>\<open>reduce\<close> alike.\<close>

fun collect :: "('a \<Rightarrow> exn + 'b) \<Rightarrow> 'a list \<Rightarrow> exn + 'b list" where
  "collect f [] = Inr []"
| "collect f (x # xs) =
     (case f x of
        Inl e \<Rightarrow> Inl e
      | Inr y \<Rightarrow> (case collect f xs of Inl e \<Rightarrow> Inl e | Inr ys \<Rightarrow> Inr (y # ys)))"

definition array_or_empty :: "string \<Rightarrow> json option \<Rightarrow> exn + json list" where
  "array_or_empty op v =
     (case v of
        None \<Rightarrow> Inr []
      | Some JNull \<Rightarrow> Inr []
      | Some (JArr xs) \<Rightarrow> Inr xs
      | Some _ \<Rightarrow> Inl (JsError (op @ '' is not a function'')))"

section \<open>Percent encoding\<close>

definition hex_upper :: "nat \<Rightarrow> char" where
  "hex_upper n = ''0123456789ABCDEF'' ! n"

definition percent :: "char \<Rightarrow> string" where
  "percent c = (let n = of_char c :: nat in [CHR ''%'', hex_upper (n div 16), hex_upper (n mod 16)])"

definition is_alnum :: "char \<Rightarrow> bool" where
  "is_alnum c \<longleftrightarrow> (let n = of_char c :: nat in
     (48 \<le> n \<and> n \<le> 57) \<or> (65 \<le> n \<and> n \<le> 90) \<or> (97 \<le> n \<and> n \<le> 122))"

text \<open>A text is the list of its UTF-8 bytes here.\<close>

definition encodeURIComponent :: "string \<Rightarrow> string" where
  "encodeURIComponent s =
     concat (map (\<lambda>c. if is_alnum c \<or> c \<in> set ''-_.!~*'' \<or> c \<in> {CHR 0x27, CHR ''('', CHR '')''}
                      then [c] else percent c) s)"

text \<open>\<^verbatim>\<open>URLSearchParams.toString()\<close>.\<close>

definition form_text :: "string \<Rightarrow> string" where
  "form_text s =
     concat (map (\<lambda>c. if is_alnum c \<or> c \<in> set ''*-._'' then [c]
                      else if c = CHR '' '' then ''+'' else percent c) s)"

fun form_body :: "(string \<times> string) list \<Rightarrow> string" where
  "form_body [] = []"
| "form_body [(k, v)] = form_text k @ ''='' @ form_text v"
| "form_body ((k, v) # x # xs) = form_text k @ ''='' @ form_text v @ ''&'' @ form_body (x # xs)"

section \<open>The network\<close>

record http_request =
  hq_method :: string
  hq_url :: string
  hq_headers :: "(string \<times> string) list"
  hq_body :: "string option"

text \<open>\<^verbatim>\<open>text()\<close> and \<^verbatim>\<open>json()\<close> of a response may reject.\<close>

record http_response =
  hs_status :: nat
  hs_text :: "exn + string"
  hs_json :: "exn + json"

definition res_ok :: "http_response \<Rightarrow> bool" where
  "res_ok r \<longleftrightarrow> 200 \<le> hs_status r \<and> hs_status r \<le> 299"

text \<open>
  The environment of a client: the network (the outcome of a request, the milliseconds
  until its headers are there, and the network afterwards, with what the panel did), the
  clock, and \<^verbatim>\<open>Date\<close> parsing of texts that are not in the ISO format.
\<close>

record 'n http_env =
  fetch :: "http_request \<Rightarrow> 'n \<Rightarrow> ((exn + http_response) \<times> int) \<times> 'n"
  clock :: "'n \<Rightarrow> ms"
  date_text :: "string \<Rightarrow> ms option"

text \<open>An aborted request may have reached the panel all the same.\<close>

definition fetchWithTimeout ::
  "('n, 'z) http_env_scheme \<Rightarrow> http_request \<Rightarrow> int \<Rightarrow> ('n, http_response) prog" where
  "fetchWithTimeout env rq timeoutMs n =
     (case fetch env rq n of
        ((r, took), n') \<Rightarrow>
          if timeoutMs \<le> took then (Inl (JsError (''timeout after '' @ show_int timeoutMs @ ''ms'')), n')
          else (r, n'))"

definition body_text :: "http_response \<Rightarrow> string" where
  "body_text r = (case hs_text r of Inl _ \<Rightarrow> [] | Inr t \<Rightarrow> t)"

section \<open>What both clients share\<close>

definition panel_failure :: "string \<Rightarrow> string \<Rightarrow> string \<Rightarrow> http_response \<Rightarrow> exn" where
  "panel_failure name m path res =
     PanelError (name @ '' '' @ m @ '' '' @ path @ '' -> '' @ show_nat (hs_status res) @ '': '' @
         take 300 (body_text res))
       (Some (hs_status res)) (500 \<le> hs_status res \<or> hs_status res = 429)"

definition date_iso :: "js_date option \<Rightarrow> string" where
  "date_iso d = (case d of Some (Instant t) \<Rightarrow> toISOString t | _ \<Rightarrow> ''null'')"

definition assertExpiryRoundTrip :: "panel_user \<Rightarrow> ms \<Rightarrow> string \<Rightarrow> exn + unit" where
  "assertExpiryRoundTrip user sent op =
     (if (case pu_expireAt user of
            None \<Rightarrow> True
          | Some d \<Rightarrow> (case getTime d of None \<Rightarrow> False | Some got \<Rightarrow> \<bar>got - sent\<bar> > 2000))
      then Inl (PanelError (op @ '': expire round-trip mismatch (sent '' @ toISOString sent @
             '', panel stored '' @ date_iso (pu_expireAt user) @ '')'') None False)
      else Inr ())"

lemma assertExpiryRoundTrip_ok:
  "assertExpiryRoundTrip u sent op = Inr x \<longleftrightarrow> expiry_accepted u sent"
  by (auto simp: assertExpiryRoundTrip_def expiry_accepted_def split: option.splits)

text \<open>Statuses of the two panels, by the words they use.\<close>

definition status_of :: "(string \<times> panel_user_status) list \<Rightarrow> string \<Rightarrow> panel_user_status" where
  "status_of statusMap s = (case map_of statusMap s of None \<Rightarrow> PU_active | Some v \<Rightarrow> v)"

end
