(* ===== verification/Rebecca.thy ===== *)
theory Rebecca
  imports Http
begin

text \<open>
  backend/src/panel/RebeccaPanelClient.ts: the client of a Marzban-family panel. Its own
  state is the admin token and the instant to renew it; the network is a parameter.
  The sharing of one authentication request between concurrent callers
  (\<^verbatim>\<open>inflightAuth\<close>) is the subject of the theory SingleFlight; here one call runs at a
  time, so no authentication is in flight when a call starts.
\<close>

section \<open>Configuration and state\<close>

record rebecca_config =
  rc_baseUrl :: string
  rc_username :: string
  rc_password :: string
  rc_timeout :: int

text \<open>The environment variables; the timeout is already read by \<^verbatim>\<open>Number\<close>.\<close>

record panel_environ =
  PANEL_PROVIDER :: "string option"
  PANEL_BASE_URL :: "string option"
  PANEL_ADMIN_USER :: "string option"
  PANEL_ADMIN_PASS :: "string option"
  PANEL_TIMEOUT_MS :: "int option"
  REMNAWAVE_BASE_URL :: "string option"
  REMNAWAVE_TOKEN :: "string option"
  REMNAWAVE_CADDY_TOKEN :: "string option"
  REMNAWAVE_SQUAD_UUIDS :: "string option"

text \<open>\<^verbatim>\<open>cfg?.k\<close>, and \<^verbatim>\<open>cfg?.k ?? process.env.K ?? ''\<close>.\<close>

definition cfg_get :: "json option \<Rightarrow> string \<Rightarrow> json option" where
  "cfg_get cfg k = (case cfg of None \<Rightarrow> None | Some j \<Rightarrow> jget k j)"

definition cfg_text :: "json option \<Rightarrow> string \<Rightarrow> string option \<Rightarrow> string" where
  "cfg_text cfg k env =
     (if is_nullish (cfg_get cfg k) then (case env of None \<Rightarrow> [] | Some s \<Rightarrow> s)
      else js_text (cfg_get cfg k))"

definition cfg_timeout :: "json option \<Rightarrow> panel_environ \<Rightarrow> int" where
  "cfg_timeout cfg e =
     (case as_int (cfg_get cfg ''requestTimeoutMs'') of
        Some n \<Rightarrow> n
      | None \<Rightarrow> (case PANEL_TIMEOUT_MS e of None \<Rightarrow> 8000 | Some n \<Rightarrow> n))"

definition rebecca_new :: "json option \<Rightarrow> panel_environ \<Rightarrow> exn + rebecca_config" where
  "rebecca_new cfg e =
     (let c = \<lparr>rc_baseUrl = cfg_text cfg ''baseUrl'' (PANEL_BASE_URL e),
               rc_username = cfg_text cfg ''username'' (PANEL_ADMIN_USER e),
               rc_password = cfg_text cfg ''password'' (PANEL_ADMIN_PASS e),
               rc_timeout = cfg_timeout cfg e\<rparr>
      in if rc_baseUrl c = [] then Inl (JsError ''PANEL_BASE_URL is required'') else Inr c)"

record 'n rebecca_state =
  rb_token :: "json option"
  rb_tokenExpiresAt :: ms
  rb_net :: 'n

definition rb_fetch ::
  "('n, 'z) http_env_scheme \<Rightarrow> rebecca_config \<Rightarrow> http_request \<Rightarrow> ('n rebecca_state, http_response) prog" where
  "rb_fetch env cfg rq s =
     (case fetchWithTimeout env rq (rc_timeout cfg) (rb_net s) of (r, n) \<Rightarrow> (r, s\<lparr>rb_net := n\<rparr>))"

section \<open>Authentication\<close>

definition set_token :: "('n, 'z) http_env_scheme \<Rightarrow> json \<Rightarrow> ('n rebecca_state, json option) prog" where
  "set_token env j s =
     (let tok = jget ''access_token'' j in
      (Inr tok, s\<lparr>rb_token := tok, rb_tokenExpiresAt := clock env (rb_net s) + 60 * 60 * 1000\<rparr>))"

definition auth_request :: "rebecca_config \<Rightarrow> http_request" where
  "auth_request cfg =
     \<lparr>hq_method = ''POST'', hq_url = rc_baseUrl cfg @ ''/api/admin/token'',
      hq_headers = [(''content-type'', ''application/x-www-form-urlencoded'')],
      hq_body = Some (form_body [(''username'', rc_username cfg), (''password'', rc_password cfg),
                   (''grant_type'', ''password'')])\<rparr>"

definition authenticate ::
  "('n, 'z) http_env_scheme \<Rightarrow> rebecca_config \<Rightarrow> ('n rebecca_state, json option) prog" where
  "authenticate env cfg =
     and_then (rb_fetch env cfg (auth_request cfg)) (\<lambda>res.
     if \<not> res_ok res
     then throw (PanelError (''panel auth failed: '' @ show_nat (hs_status res))
                   (Some (hs_status res)) (500 \<le> hs_status res))
     else and_then (lift_result (hs_json res)) (\<lambda>j.
          and_then (lift_result (read_of (Some j) ''access_token'')) (set_token env)))"

definition getToken ::
  "('n, 'z) http_env_scheme \<Rightarrow> rebecca_config \<Rightarrow> ('n rebecca_state, json option) prog" where
  "getToken env cfg s =
     (if truthy (rb_token s) \<and> clock env (rb_net s) < rb_tokenExpiresAt s - 60000
      then (Inr (rb_token s), s)
      else authenticate env cfg s)"

section \<open>Requests\<close>

definition api_request ::
  "rebecca_config \<Rightarrow> string \<Rightarrow> string \<Rightarrow> json option \<Rightarrow> json option \<Rightarrow> http_request" where
  "api_request cfg m path body token =
     \<lparr>hq_method = m, hq_url = rc_baseUrl cfg @ path,
      hq_headers = (''authorization'', ''Bearer '' @ js_text token) #
        (if body \<noteq> None then [(''content-type'', ''application/json'')] else []),
      hq_body = map_option stringify body\<rparr>"

definition rb_send ::
  "('n, 'z) http_env_scheme \<Rightarrow> rebecca_config \<Rightarrow> string \<Rightarrow> string \<Rightarrow> json option
    \<Rightarrow> ('n rebecca_state, http_response) prog" where
  "rb_send env cfg m path body =
     and_then (getToken env cfg) (\<lambda>token. rb_fetch env cfg (api_request cfg m path body token))"

text \<open>The result is \<open>None\<close> where the code returns \<^verbatim>\<open>undefined\<close>.\<close>

definition rb_result :: "string \<Rightarrow> string \<Rightarrow> http_response \<Rightarrow> exn + json option" where
  "rb_result m path res =
     (if hs_status res = 404 then Inr None
      else if \<not> res_ok res then Inl (panel_failure ''panel'' m path res)
      else if hs_status res = 204 then Inr None
      else map_sum id Some (hs_json res))"

definition forget_token :: "('n rebecca_state, unit) prog" where
  "forget_token s = (Inr (), s\<lparr>rb_token := None, rb_tokenExpiresAt := 0\<rparr>)"

text \<open>One re-authentication on 401; the second attempt runs with \<^verbatim>\<open>retryOn401\<close> off.\<close>

definition rb_request ::
  "('n, 'z) http_env_scheme \<Rightarrow> rebecca_config \<Rightarrow> string \<Rightarrow> string \<Rightarrow> json option
    \<Rightarrow> ('n rebecca_state, json option) prog" where
  "rb_request env cfg m path body =
     and_then (rb_send env cfg m path body) (\<lambda>res.
       if hs_status res = 401
       then and_then forget_token (\<lambda>_. and_then (rb_send env cfg m path body) (\<lambda>res2.
              lift_result (rb_result m path res2)))
       else lift_result (rb_result m path res))"

section \<open>Mapping\<close>

definition rb_statuses :: "(string \<times> panel_user_status) list" where
  "rb_statuses = [(''active'', PU_active), (''disabled'', PU_disabled), (''limited'', PU_limited),
     (''expired'', PU_expired), (''on_hold'', PU_on_hold)]"

definition rb_expire :: "json option \<Rightarrow> js_date option" where
  "rb_expire v =
     (if truthy v
      then Some (case js_number (the v) of None \<Rightarrow> InvalidDate | Some n \<Rightarrow> newDate (n * 1000))
      else None)"

definition rb_toPanelUser :: "json option \<Rightarrow> exn + panel_user" where
  "rb_toPanelUser v =
     (case read_of v ''username'' of
        Inl e \<Rightarrow> Inl e
      | Inr dto \<Rightarrow> Inr
          \<lparr>pu_username = text_or_empty (jget ''username'' dto),
           pu_expireAt = rb_expire (jget ''expire'' dto),
           pu_dataLimitBytes = as_int (jget ''data_limit'' dto),
           pu_status = status_of rb_statuses (js_text (jget ''status'' dto)),
           pu_usedTrafficBytes = (case as_int (jget ''used_traffic'' dto) of None \<Rightarrow> 0 | Some n \<Rightarrow> n),
           pu_subscriptionToken = as_text (jget ''subscription_url'' dto)\<rparr>)"

definition toEpochSeconds :: "ms \<Rightarrow> int" where
  "toEpochSeconds d = d div 1000"

section \<open>The interface\<close>

definition json_credential :: "proxy_credential \<Rightarrow> json" where
  "json_credential c =
     JObj ((case pc_id c of None \<Rightarrow> [] | Some v \<Rightarrow> [(''id'', JStr v)]) @
           (case pc_password c of None \<Rightarrow> [] | Some v \<Rightarrow> [(''password'', JStr v)]) @
           (case pc_flow c of None \<Rightarrow> [] | Some v \<Rightarrow> [(''flow'', JStr v)]))"

definition no_inbounds :: "create_user_params \<Rightarrow> bool" where
  "no_inbounds params \<longleftrightarrow>
     list_all (\<lambda>(p, _). case map_of (cu_inboundsByProtocol params) p of None \<Rightarrow> True | Some l \<Rightarrow> l = [])
       (cu_inboundsByProtocol params)"

definition rb_payload :: "create_user_params \<Rightarrow> json" where
  "rb_payload params = JObj
     [(''username'', JStr (cu_username params)),
      (''expire'', JNum (toEpochSeconds (cu_expireAt params))),
      (''data_limit'', JNum (case cu_dataLimitBytes params of None \<Rightarrow> 0 | Some n \<Rightarrow> n)),
      (''data_limit_reset_strategy'', JStr ''no_reset''),
      (''status'', JStr ''active''),
      (''proxies'', JObj (map (\<lambda>(p, c). (p, json_credential c)) (cu_proxies params))),
      (''inbounds'', JObj (map (\<lambda>(p, l). (p, JArr (map JStr l))) (cu_inboundsByProtocol params)))]"

definition rb_createUser ::
  "('n, 'z) http_env_scheme \<Rightarrow> rebecca_config \<Rightarrow> create_user_params \<Rightarrow> ('n rebecca_state, panel_user) prog" where
  "rb_createUser env cfg params =
     (if no_inbounds params
      then throw (PanelError ''refusing to create user with empty inbounds allow-list'' None False)
      else and_then (rb_request env cfg ''POST'' ''/api/user'' (Some (rb_payload params))) (\<lambda>created.
           and_then (lift_result (rb_toPanelUser created)) (\<lambda>user.
           and_then (lift_result (assertExpiryRoundTrip user (cu_expireAt params) ''createUser'')) (\<lambda>_.
             return user))))"

definition user_path :: "string \<Rightarrow> string" where
  "user_path username = ''/api/user/'' @ encodeURIComponent username"

definition rb_getUser ::
  "('n, 'z) http_env_scheme \<Rightarrow> rebecca_config \<Rightarrow> string \<Rightarrow> ('n rebecca_state, panel_user option) prog" where
  "rb_getUser env cfg username =
     and_then (rb_request env cfg ''GET'' (user_path username) None) (\<lambda>dto.
       if truthy dto then lift_result (map_sum id Some (rb_toPanelUser dto)) else return None)"

definition rb_setUserExpiry ::
  "('n, 'z) http_env_scheme \<Rightarrow> rebecca_config \<Rightarrow> string \<Rightarrow> ms \<Rightarrow> ('n rebecca_state, panel_user) prog" where
  "rb_setUserExpiry env cfg username expireAt =
     and_then (rb_request env cfg ''PUT'' (user_path username)
         (Some (JObj [(''expire'', JNum (toEpochSeconds expireAt))]))) (\<lambda>_.
     and_then (rb_getUser env cfg username) (\<lambda>found.
       case found of
         None \<Rightarrow> throw (PanelError (''user '' @ username @ '' vanished after expiry update'') None True)
       | Some user \<Rightarrow>
           and_then (lift_result (assertExpiryRoundTrip user expireAt ''setUserExpiry'')) (\<lambda>_.
             return user)))"

definition rb_disableUser ::
  "('n, 'z) http_env_scheme \<Rightarrow> rebecca_config \<Rightarrow> string \<Rightarrow> ('n rebecca_state, unit) prog" where
  "rb_disableUser env cfg username =
     and_then (rb_request env cfg ''PUT'' (user_path username)
       (Some (JObj [(''status'', JStr ''disabled'')]))) (\<lambda>_. return ())"

definition rb_deleteUser ::
  "('n, 'z) http_env_scheme \<Rightarrow> rebecca_config \<Rightarrow> string \<Rightarrow> ('n rebecca_state, unit) prog" where
  "rb_deleteUser env cfg username =
     and_then (rb_request env cfg ''DELETE'' (user_path username) None) (\<lambda>_. return ())"

definition usage_of :: "json option \<Rightarrow> exn + int" where
  "usage_of dto =
     (if \<not> truthy dto then Inr 0
      else case as_int (jget ''used_traffic'' (the dto)) of
        Some n \<Rightarrow> Inr n
      | None \<Rightarrow>
          (case array_or_empty ''(dto.usages ?? []).reduce'' (jget ''usages'' (the dto)) of
             Inl e \<Rightarrow> Inl e
           | Inr us \<Rightarrow>
               map_sum id sum_list (collect (\<lambda>u. map_sum id (\<lambda>j. case as_int (jget ''used_traffic'' j) of
                   None \<Rightarrow> 0 | Some n \<Rightarrow> n) (read_of (Some u) ''used_traffic'')) us)))"

definition rb_getUserUsage ::
  "('n, 'z) http_env_scheme \<Rightarrow> rebecca_config \<Rightarrow> string \<Rightarrow> ms option \<Rightarrow> ms option
    \<Rightarrow> ('n rebecca_state, int) prog" where
  "rb_getUserUsage env cfg username start end' =
     (let qs = form_body ((case start of None \<Rightarrow> [] | Some t \<Rightarrow> [(''start'', toISOString t)]) @
                          (case end' of None \<Rightarrow> [] | Some t \<Rightarrow> [(''end'', toISOString t)]));
          suffix = (if qs = [] then [] else CHR ''?'' # qs)
      in and_then (rb_request env cfg ''GET'' (user_path username @ ''/usage'' @ suffix) None) (\<lambda>dto.
           lift_result (usage_of dto)))"

definition rb_node :: "json \<Rightarrow> exn + panel_node" where
  "rb_node j =
     map_sum id (\<lambda>n. \<lparr>pn_panelNodeId = js_text (jget ''id'' n), pn_name = text_or_empty (jget ''name'' n),
         pn_status = text_or_empty (jget ''status'' n), pn_address = as_text (jget ''address'' n)\<rparr>)
       (read_of (Some j) ''id'')"

definition rb_listNodes ::
  "('n, 'z) http_env_scheme \<Rightarrow> rebecca_config \<Rightarrow> ('n rebecca_state, panel_node list) prog" where
  "rb_listNodes env cfg =
     and_then (rb_request env cfg ''GET'' ''/api/nodes'' None) (\<lambda>nodes.
     and_then (lift_result (array_or_empty ''(nodes ?? []).map'' nodes)) (\<lambda>ns.
       lift_result (collect rb_node ns)))"

definition rebecca_client :: "('n, 'z) http_env_scheme \<Rightarrow> rebecca_config \<Rightarrow> 'n rebecca_state panel_client" where
  "rebecca_client env cfg =
     \<lparr>createUser = rb_createUser env cfg, setUserExpiry = rb_setUserExpiry env cfg,
      getUser = rb_getUser env cfg, disableUser = rb_disableUser env cfg,
      deleteUser = rb_deleteUser env cfg,
      getUserUsage = (\<lambda>username. rb_getUserUsage env cfg username None None),
      listNodes = rb_listNodes env cfg\<rparr>"

section \<open>The contract\<close>

lemma rb_createUser_accepted:
  "rb_createUser env cfg ps s = (Inr u, s') \<Longrightarrow> expiry_accepted u (cu_expireAt ps)"
  by (auto simp: rb_createUser_def and_then_Inr lift_result_def assertExpiryRoundTrip_ok
      split: if_splits)

lemma rb_setUserExpiry_accepted:
  "rb_setUserExpiry env cfg n e s = (Inr u, s') \<Longrightarrow> expiry_accepted u e"
  by (auto simp: rb_setUserExpiry_def and_then_Inr lift_result_def assertExpiryRoundTrip_ok
      split: option.splits)

interpretation rb: panel_contract "rb_createUser env cfg" "rb_setUserExpiry env cfg" "\<lambda>_ _. False"
  for env cfg
  by unfold_locales (auto dest: rb_createUser_accepted rb_setUserExpiry_accepted)

end
