(* ===== verification/Remnawave.thy ===== *)
theory Remnawave
  imports Rebecca
begin

text \<open>
  backend/src/panel/RemnawavePanelClient.ts: the client of a Remnawave panel. It keeps no
  state of its own (a static token), so its programs run over the network.
\<close>

section \<open>Configuration\<close>

record remnawave_config =
  rw_baseUrl :: string
  rw_token :: string
  rw_caddyToken :: "string option"
  rw_squadUuids :: "string list"
  rw_timeout :: int
  rw_apiBase :: string

text \<open>
  \<^verbatim>\<open>split\<close> at the characters that satisfy \<open>P\<close>. The code splits at runs of them and then
  drops the empty pieces, which is the same.
\<close>

fun split_at :: "(char \<Rightarrow> bool) \<Rightarrow> string \<Rightarrow> string list" where
  "split_at P [] = [[]]"
| "split_at P (c # s) =
     (if P c then [] # split_at P s
      else case split_at P s of [] \<Rightarrow> [[c]] | t # ts \<Rightarrow> (c # t) # ts)"

definition splitCsv :: "string option \<Rightarrow> string list" where
  "splitCsv v =
     filter (\<lambda>s. s \<noteq> []) (map trim (split_at (\<lambda>c. c = CHR '','' \<or> is_space c)
       (case v of None \<Rightarrow> [] | Some s \<Rightarrow> s)))"

definition endsWith :: "string \<Rightarrow> string \<Rightarrow> bool" where
  "endsWith s p \<longleftrightarrow> startsWith (rev s) (rev p)"

definition strip_slashes :: "string \<Rightarrow> string" where
  "strip_slashes s = rev (dropWhile (\<lambda>c. c = CHR ''/'') (rev s))"

definition json_texts :: "json option \<Rightarrow> string list" where
  "json_texts v = (case v of Some (JArr xs) \<Rightarrow> map json_text xs | _ \<Rightarrow> [])"

definition remnawave_new :: "json option \<Rightarrow> panel_environ \<Rightarrow> exn + remnawave_config" where
  "remnawave_new cfg e =
     (let rawSquads = (if is_nullish (cfg_get cfg ''squadUuids'') then splitCsv (REMNAWAVE_SQUAD_UUIDS e)
                       else json_texts (cfg_get cfg ''squadUuids''));
          base = cfg_text cfg ''baseUrl'' (REMNAWAVE_BASE_URL e);
          token = cfg_text cfg ''token'' (REMNAWAVE_TOKEN e);
          caddy = (if is_nullish (cfg_get cfg ''caddyToken'') then REMNAWAVE_CADDY_TOKEN e
                   else Some (js_text (cfg_get cfg ''caddyToken'')));
          origin = strip_slashes base
      in if base = [] then Inl (JsError ''REMNAWAVE_BASE_URL is required'')
         else if token = [] then Inl (JsError ''REMNAWAVE_TOKEN is required'')
         else Inr \<lparr>rw_baseUrl = base, rw_token = token, rw_caddyToken = caddy,
                   rw_squadUuids = rawSquads, rw_timeout = cfg_timeout cfg e,
                   rw_apiBase = (if endsWith origin ''/api'' then origin else origin @ ''/api'')\<rparr>)"

section \<open>Transport\<close>

definition rw_headers :: "remnawave_config \<Rightarrow> bool \<Rightarrow> (string \<times> string) list" where
  "rw_headers cfg hasBody =
     (''authorization'', if startsWith (rw_token cfg) ''Bearer '' then rw_token cfg
                         else ''Bearer '' @ rw_token cfg) #
     (if hasBody then [(''content-type'', ''application/json'')] else []) @
     (if env_set (rw_caddyToken cfg) then [(''x-api-key'', the (rw_caddyToken cfg))] else []) @
     (if startsWith (rw_apiBase cfg) ''http://''
      then [(''x-forwarded-proto'', ''https''), (''x-forwarded-for'', ''127.0.0.1'')] else [])"

definition unwrap :: "json \<Rightarrow> json" where
  "unwrap j = (case jget ''response'' j of Some r \<Rightarrow> r | None \<Rightarrow> j)"

definition rw_result :: "string \<Rightarrow> string \<Rightarrow> http_response \<Rightarrow> exn + json option" where
  "rw_result m path res =
     (if hs_status res = 404 then Inr None
      else if hs_status res = 204 then Inr None
      else if \<not> res_ok res then Inl (panel_failure ''remnawave'' m path res)
      else Inr (Some (unwrap (case hs_json res of Inl _ \<Rightarrow> JObj [] | Inr j \<Rightarrow> j))))"

definition rw_request ::
  "('n, 'z) http_env_scheme \<Rightarrow> remnawave_config \<Rightarrow> string \<Rightarrow> string \<Rightarrow> json option
    \<Rightarrow> ('n, json option) prog" where
  "rw_request env cfg m path body =
     and_then (\<lambda>n. fetchWithTimeout env
         \<lparr>hq_method = m, hq_url = rw_apiBase cfg @ path, hq_headers = rw_headers cfg (body \<noteq> None),
          hq_body = map_option stringify body\<rparr> (rw_timeout cfg) n)
       (\<lambda>res. lift_result (rw_result m path res))"

section \<open>Mapping\<close>

definition rw_statuses :: "(string \<times> panel_user_status) list" where
  "rw_statuses = [(''ACTIVE'', PU_active), (''DISABLED'', PU_disabled), (''LIMITED'', PU_limited),
     (''EXPIRED'', PU_expired)]"

text \<open>\<^verbatim>\<open>new Date(v)\<close> of a JSON value: a number or boolean is an instant, the rest is read as text.\<close>

fun json_date :: "(string \<Rightarrow> ms option) \<Rightarrow> json \<Rightarrow> js_date" where
  "json_date other JNull = newDate 0"
| "json_date other (JBool b) = newDate (if b then 1 else 0)"
| "json_date other (JNum n) = newDate n"
| "json_date other j = parseDate other (json_text j)"

definition rw_expire :: "(string \<Rightarrow> ms option) \<Rightarrow> json option \<Rightarrow> js_date option" where
  "rw_expire other v = (if truthy v then Some (json_date other (the v)) else None)"

definition rw_used :: "json \<Rightarrow> int" where
  "rw_used dto =
     (case cfg_get (jget ''userTraffic'' dto) ''usedTrafficBytes'' of Some (JNum n) \<Rightarrow> n | _ \<Rightarrow> 0)"

definition rw_toPanelUser :: "('n, 'z) http_env_scheme \<Rightarrow> json \<Rightarrow> panel_user" where
  "rw_toPanelUser env dto =
     \<lparr>pu_username = text_or_empty (jget ''username'' dto),
      pu_expireAt = rw_expire (date_text env) (jget ''expireAt'' dto),
      pu_dataLimitBytes = (case as_int (jget ''trafficLimitBytes'' dto) of
                             None \<Rightarrow> None | Some n \<Rightarrow> if n = 0 then None else Some n),
      pu_status = status_of rw_statuses (js_text (jget ''status'' dto)),
      pu_usedTrafficBytes = rw_used dto,
      pu_subscriptionToken = as_text (jget ''subscriptionUrl'' dto)\<rparr>"

section \<open>The interface\<close>

text \<open>\<^verbatim>\<open>a ?? b\<close> for credentials, and a field that is set and not empty.\<close>

definition cred_or :: "create_user_params \<Rightarrow> string \<Rightarrow> string \<Rightarrow> proxy_credential option" where
  "cred_or ps a b = (case map_of (cu_proxies ps) a of Some c \<Rightarrow> Some c | None \<Rightarrow> map_of (cu_proxies ps) b)"

definition cred_field :: "string \<Rightarrow> string option \<Rightarrow> (string \<times> json) list" where
  "cred_field k v = (if env_set v then [(k, JStr (the v))] else [])"

definition rw_payload :: "remnawave_config \<Rightarrow> create_user_params \<Rightarrow> json" where
  "rw_payload cfg ps =
     (let vless = cred_or ps ''vless'' ''vmess''; trojan = map_of (cu_proxies ps) ''trojan'';
          ss = cred_or ps ''shadowsocks'' ''ss''
      in JObj ([(''username'', JStr (cu_username ps)), (''status'', JStr ''ACTIVE''),
          (''expireAt'', JStr (toISOString (cu_expireAt ps))),
          (''trafficLimitBytes'', JNum (case cu_dataLimitBytes ps of None \<Rightarrow> 0 | Some n \<Rightarrow> n)),
          (''trafficLimitStrategy'', JStr ''NO_RESET''),
          (''activeInternalSquads'', JArr (map JStr (rw_squadUuids cfg)))] @
         cred_field ''vlessUuid'' (Option.bind vless pc_id) @
         cred_field ''trojanPassword'' (Option.bind trojan pc_password) @
         cred_field ''ssPassword'' (Option.bind ss pc_password)))"

definition rw_createUser ::
  "('n, 'z) http_env_scheme \<Rightarrow> remnawave_config \<Rightarrow> create_user_params \<Rightarrow> ('n, panel_user) prog" where
  "rw_createUser env cfg ps =
     (if rw_squadUuids cfg = []
      then throw (PanelError ''refusing to create user: REMNAWAVE_SQUAD_UUIDS is empty (no access scope)''
                   None False)
      else and_then (rw_request env cfg ''POST'' ''/users'' (Some (rw_payload cfg ps))) (\<lambda>created.
           if \<not> truthy created then throw (PanelError ''remnawave createUser returned no body'' None False)
           else (let user = rw_toPanelUser env (the created) in
                 and_then (lift_result (assertExpiryRoundTrip user (cu_expireAt ps) ''createUser'')) (\<lambda>_.
                   return user))))"

definition rw_user_path :: "string \<Rightarrow> string" where
  "rw_user_path username = ''/users/by-username/'' @ encodeURIComponent username"

definition rw_getUser ::
  "('n, 'z) http_env_scheme \<Rightarrow> remnawave_config \<Rightarrow> string \<Rightarrow> ('n, panel_user option) prog" where
  "rw_getUser env cfg username =
     and_then (rw_request env cfg ''GET'' (rw_user_path username) None) (\<lambda>dto.
       return (if truthy dto then Some (rw_toPanelUser env (the dto)) else None))"

definition rw_current ::
  "('n, 'z) http_env_scheme \<Rightarrow> remnawave_config \<Rightarrow> string \<Rightarrow> ('n, panel_user) prog" where
  "rw_current env cfg username =
     and_then (rw_getUser env cfg username) (\<lambda>current.
       case current of
         None \<Rightarrow> throw (PanelError (''user '' @ username @ '' vanished during past-expiry no-op'') None True)
       | Some u \<Rightarrow> return u)"

definition rw_patchExpiry ::
  "('n, 'z) http_env_scheme \<Rightarrow> remnawave_config \<Rightarrow> string \<Rightarrow> ms \<Rightarrow> ('n, panel_user) prog" where
  "rw_patchExpiry env cfg username expireAt =
     and_then (rw_request env cfg ''PATCH'' ''/users''
         (Some (JObj [(''username'', JStr username), (''status'', JStr ''ACTIVE''),
                      (''expireAt'', JStr (toISOString expireAt))]))) (\<lambda>updated.
       if \<not> truthy updated
       then throw (PanelError (''user '' @ username @ '' vanished after expiry update'') None True)
       else (let user = rw_toPanelUser env (the updated) in
             and_then (lift_result (assertExpiryRoundTrip user expireAt ''setUserExpiry'')) (\<lambda>_.
               return user)))"

definition rw_setUserExpiry ::
  "('n, 'z) http_env_scheme \<Rightarrow> remnawave_config \<Rightarrow> string \<Rightarrow> ms \<Rightarrow> ('n, panel_user) prog" where
  "rw_setUserExpiry env cfg username expireAt n =
     (if expireAt \<le> clock env n + 2000 then rw_current env cfg username n
      else rw_patchExpiry env cfg username expireAt n)"

definition rw_disableUser ::
  "('n, 'z) http_env_scheme \<Rightarrow> remnawave_config \<Rightarrow> string \<Rightarrow> ('n, unit) prog" where
  "rw_disableUser env cfg username =
     and_then (rw_request env cfg ''PATCH'' ''/users''
       (Some (JObj [(''username'', JStr username), (''status'', JStr ''DISABLED'')]))) (\<lambda>_. return ())"

definition rw_deleteUser ::
  "('n, 'z) http_env_scheme \<Rightarrow> remnawave_config \<Rightarrow> string \<Rightarrow> ('n, unit) prog" where
  "rw_deleteUser env cfg username =
     and_then (rw_request env cfg ''GET'' (rw_user_path username) None) (\<lambda>dto.
       if \<not> truthy (cfg_get dto ''uuid'') then return ()
       else and_then (rw_request env cfg ''DELETE''
              (''/users/'' @ encodeURIComponent (js_text (cfg_get dto ''uuid''))) None) (\<lambda>_. return ()))"

definition rw_getUserUsage ::
  "('n, 'z) http_env_scheme \<Rightarrow> remnawave_config \<Rightarrow> string \<Rightarrow> ('n, int) prog" where
  "rw_getUserUsage env cfg username =
     and_then (rw_request env cfg ''GET'' (rw_user_path username) None) (\<lambda>dto.
       return (case dto of None \<Rightarrow> 0 | Some j \<Rightarrow> rw_used j))"

definition rw_status_word :: "json \<Rightarrow> string" where
  "rw_status_word n =
     (if truthy (jget ''isDisabled'' n) then ''disabled''
      else if truthy (jget ''isConnected'' n) then ''connected''
      else if truthy (jget ''isConnecting'' n) then ''connecting''
      else ''disconnected'')"

definition rw_node :: "json \<Rightarrow> exn + panel_node" where
  "rw_node j =
     map_sum id (\<lambda>n. \<lparr>pn_panelNodeId = text_or_empty (jget ''uuid'' n),
         pn_name = text_or_empty (jget ''name'' n), pn_status = rw_status_word n,
         pn_address = as_text (jget ''address'' n)\<rparr>)
       (read_of (Some j) ''uuid'')"

definition rw_listNodes ::
  "('n, 'z) http_env_scheme \<Rightarrow> remnawave_config \<Rightarrow> ('n, panel_node list) prog" where
  "rw_listNodes env cfg =
     and_then (rw_request env cfg ''GET'' ''/nodes'' None) (\<lambda>nodes.
     and_then (lift_result (array_or_empty ''(nodes ?? []).map'' nodes)) (\<lambda>ns.
       lift_result (collect rw_node ns)))"

definition remnawave_client :: "('n, 'z) http_env_scheme \<Rightarrow> remnawave_config \<Rightarrow> 'n panel_client" where
  "remnawave_client env cfg =
     \<lparr>createUser = rw_createUser env cfg, setUserExpiry = rw_setUserExpiry env cfg,
      getUser = rw_getUser env cfg, disableUser = rw_disableUser env cfg,
      deleteUser = rw_deleteUser env cfg, getUserUsage = rw_getUserUsage env cfg,
      listNodes = rw_listNodes env cfg\<rparr>"

section \<open>The contract\<close>

definition rw_elapsed :: "('n, 'z) http_env_scheme \<Rightarrow> 'n \<Rightarrow> ms \<Rightarrow> bool" where
  "rw_elapsed env n e \<longleftrightarrow> e \<le> clock env n + 2000"

lemma rw_createUser_accepted:
  "rw_createUser env cfg ps n = (Inr u, n') \<Longrightarrow> expiry_accepted u (cu_expireAt ps)"
  by (auto simp: rw_createUser_def and_then_Inr lift_result_def assertExpiryRoundTrip_ok Let_def
      split: if_splits)

lemma rw_setUserExpiry_accepted:
  "rw_setUserExpiry env cfg un e n = (Inr u, n') \<Longrightarrow> \<not> rw_elapsed env n e \<Longrightarrow> expiry_accepted u e"
  by (auto simp: rw_setUserExpiry_def rw_patchExpiry_def rw_elapsed_def and_then_Inr lift_result_def
      assertExpiryRoundTrip_ok Let_def split: if_splits)

interpretation rw: panel_contract "rw_createUser env cfg" "rw_setUserExpiry env cfg" "rw_elapsed env"
  for env cfg
  by unfold_locales (auto dest: rw_createUser_accepted rw_setUserExpiry_accepted)

end
