(* ===== verification/Ssv.thy ===== *)
theory Ssv
  imports Ads Auth Remnawave
begin

text \<open>
  The trust anchor of the rewards: backend/src/ads/admob-ssv.verifier.ts, which checks the
  signature of an ad callback against the keys of the ad network, and the routes of
  backend/src/ads/ads.controller.ts. ECDSA and the network are parameters; texts are their
  UTF-8 bytes.
\<close>

section \<open>Query strings\<close>

text \<open>\<^verbatim>\<open>lastIndexOf\<close>: what is before the last occurrence, and the rest from there on.\<close>

fun lastSplit :: "string \<Rightarrow> string \<Rightarrow> (string \<times> string) option" where
  "lastSplit p [] = None"
| "lastSplit p (c # s) =
     (case lastSplit p s of
        Some (a, b) \<Rightarrow> Some (c # a, b)
      | None \<Rightarrow> if startsWith (c # s) p then Some ([], c # s) else None)"

text \<open>What is before the first occurrence of a character, and what is after it.\<close>

fun cut :: "char \<Rightarrow> string \<Rightarrow> string \<times> string option" where
  "cut x [] = ([], None)"
| "cut x (c # s) = (if c = x then ([], Some s) else (case cut x s of (a, b) \<Rightarrow> (c # a, b)))"

definition hex_val :: "char \<Rightarrow> nat option" where
  "hex_val c =
     (let n = of_char c :: nat in
      if 48 \<le> n \<and> n \<le> 57 then Some (n - 48)
      else if 65 \<le> n \<and> n \<le> 70 then Some (n - 55)
      else if 97 \<le> n \<and> n \<le> 102 then Some (n - 87) else None)"

definition plus_to_space :: "char \<Rightarrow> char" where
  "plus_to_space c = (if c = CHR ''+'' then CHR '' '' else c)"

fun form_decode :: "string \<Rightarrow> string" where
  "form_decode (a # b # c # s) =
     (if a = CHR ''%'' \<and> hex_val b \<noteq> None \<and> hex_val c \<noteq> None
      then char_of (16 * the (hex_val b) + the (hex_val c)) # form_decode s
      else plus_to_space a # form_decode (b # c # s))"
| "form_decode (a # s) = plus_to_space a # form_decode s"
| "form_decode [] = []"

text \<open>\<^verbatim>\<open>new URLSearchParams(s)\<close>, its \<^verbatim>\<open>get\<close>, and the truth value of what \<^verbatim>\<open>get\<close> gives.\<close>

definition parse_query :: "string \<Rightarrow> (string \<times> string) list" where
  "parse_query s =
     map (\<lambda>p. case cut (CHR ''='') p of
                (k, None) \<Rightarrow> (form_decode k, [])
              | (k, Some v) \<Rightarrow> (form_decode k, form_decode v))
       (filter (\<lambda>p. p \<noteq> []) (split_at (\<lambda>c. c = CHR ''&'')
         (if startsWith s ''?'' then drop 1 s else s)))"

definition get_param :: "(string \<times> string) list \<Rightarrow> string \<Rightarrow> string option" where
  "get_param q k = map_of q k"

definition set_param :: "(string \<times> string) list \<Rightarrow> string \<Rightarrow> string option" where
  "set_param q k = (if env_set (get_param q k) then get_param q k else None)"

text \<open>The object \<^verbatim>\<open>forEach\<close> fills: a later value replaces an earlier one in its place.\<close>

fun put :: "string \<Rightarrow> string \<Rightarrow> (string \<times> string) list \<Rightarrow> (string \<times> string) list" where
  "put k v [] = [(k, v)]"
| "put k v ((a, b) # r) = (if a = k then (a, v) # r else (a, b) # put k v r)"

definition raw_object :: "(string \<times> string) list \<Rightarrow> (string \<times> string) list" where
  "raw_object q = foldl (\<lambda>o' (k, v). put k v o') [] q"

section \<open>The verifier keys\<close>

definition KEY_SERVER_URL :: string where
  "KEY_SERVER_URL = ''https://www.gstatic.com/admob/reward/verifier-keys.json''"

definition KEY_TTL_MS :: int where "KEY_TTL_MS = 6 * 60 * 60 * 1000"
definition MAX_CALLBACK_AGE_MS :: int where "MAX_CALLBACK_AGE_MS = 10 * 60 * 1000"
definition MAX_CLOCK_SKEW_MS :: int where "MAX_CLOCK_SKEW_MS = 60 * 1000"

text \<open>The cached keys (key id and PEM), when they were fetched, and the network.\<close>

record 'n ssv_state =
  sv_keys :: "(string \<times> string) list"
  sv_fetchedAt :: ms
  sv_net :: 'n

definition read_key :: "json \<Rightarrow> exn + (string \<times> string)" where
  "read_key j =
     map_sum id (\<lambda>k. (js_text (jget ''keyId'' k), text_or_empty (jget ''pem'' k))) (read_of (Some j) ''keyId'')"

definition read_keys :: "json \<Rightarrow> exn + (string \<times> string) list" where
  "read_keys body =
     (case read_of (Some body) ''keys'' of
        Inl e \<Rightarrow> Inl e
      | Inr b \<Rightarrow>
          (case array_or_empty ''body.keys'' (jget ''keys'' b) of
             Inl e \<Rightarrow> Inl e
           | Inr ks \<Rightarrow> map_sum id raw_object (collect read_key ks)))"

definition refreshKeys :: "('n, 'z) http_env_scheme \<Rightarrow> ('n ssv_state, unit) prog" where
  "refreshKeys env s =
     (case fetchWithTimeout env \<lparr>hq_method = ''GET'', hq_url = KEY_SERVER_URL, hq_headers = [],
              hq_body = None\<rparr> 5000 (sv_net s) of
        (Inl e, n) \<Rightarrow> (Inl e, s\<lparr>sv_net := n\<rparr>)
      | (Inr res, n) \<Rightarrow>
          if \<not> res_ok res
          then (Inl (SsvVerificationError (''verifier keys fetch failed: '' @ show_nat (hs_status res))),
                s\<lparr>sv_net := n\<rparr>)
          else (case hs_json res of
                  Inl e \<Rightarrow> (Inl e, s\<lparr>sv_net := n\<rparr>)
                | Inr body \<Rightarrow>
                    (case read_keys body of
                       Inl e \<Rightarrow> (Inl e, s\<lparr>sv_net := n\<rparr>)
                     | Inr next \<Rightarrow>
                         if next = []
                         then (Inl (SsvVerificationError ''verifier key set was empty''), s\<lparr>sv_net := n\<rparr>)
                         else (Inr (), s\<lparr>sv_keys := next, sv_fetchedAt := clock env n, sv_net := n\<rparr>))))"

definition getKey :: "('n, 'z) http_env_scheme \<Rightarrow> string \<Rightarrow> ('n ssv_state, string option) prog" where
  "getKey env keyId s =
     (let stale = clock env (sv_net s) - sv_fetchedAt s > KEY_TTL_MS in
      if map_of (sv_keys s) keyId \<noteq> None \<and> \<not> stale then (Inr (map_of (sv_keys s) keyId), s)
      else and_then (refreshKeys env) (\<lambda>_ s'. (Inr (map_of (sv_keys s') keyId), s')) s)"

section \<open>Verification\<close>

text \<open>A missing or unreadable timestamp is not checked.\<close>

definition check_age :: "ms \<Rightarrow> int option \<Rightarrow> exn + unit" where
  "check_age now timestampMs =
     (case timestampMs of
        None \<Rightarrow> Inr ()
      | Some t \<Rightarrow>
          if now - t > MAX_CALLBACK_AGE_MS \<or> now - t < - MAX_CLOCK_SKEW_MS
          then Inl (SsvVerificationError (''callback timestamp out of window (age '' @
                 show_int ((now - t + 500) div 1000) @ ''s)''))
          else Inr ())"

text \<open>The callback as it is parsed, from the signed text only.\<close>

definition reward_of :: "string \<Rightarrow> string \<Rightarrow> ms \<Rightarrow> exn + admob_reward" where
  "reward_of signedContent keyId now =
     (let p = parse_query signedContent;
          timestampMs = Option.bind (set_param p ''timestamp'') number_text
      in case set_param p ''custom_data'' of
           None \<Rightarrow> Inl (SsvVerificationError ''missing custom_data (grant nonce)'')
         | Some customData \<Rightarrow>
             (case set_param p ''transaction_id'' of
                None \<Rightarrow> Inl (SsvVerificationError ''missing transaction_id'')
              | Some transactionId \<Rightarrow>
                  map_sum id (\<lambda>_.
                    \<lparr>ar_customData = customData, ar_transactionId = transactionId,
                     ar_adNetwork = get_param p ''ad_network'', ar_adUnit = get_param p ''ad_unit'',
                     ar_rewardItem = get_param p ''reward_item'',
                     ar_rewardAmount = map_option number_text (set_param p ''reward_amount''),
                     ar_userId = get_param p ''user_id'', ar_timestampMs = timestampMs,
                     ar_keyId = keyId, ar_raw = raw_object p\<rparr>)
                  (check_age now timestampMs)))"

text \<open>\<open>ecdsa pem content signature\<close> is \<^verbatim>\<open>createVerify('SHA256')\<close>; it throws on a text that is no PEM.\<close>

definition check_signature ::
  "(string \<Rightarrow> string \<Rightarrow> bytes \<Rightarrow> exn + bool) \<Rightarrow> string \<Rightarrow> string \<Rightarrow> string \<Rightarrow> exn + unit" where
  "check_signature ecdsa pem signedContent signatureB64Url =
     (case ecdsa pem signedContent (fromBase64 (base64UrlToBase64 signatureB64Url)) of
        Inl e \<Rightarrow> Inl e
      | Inr ok \<Rightarrow> if ok then Inr () else Inl (SsvVerificationError ''signature verification failed''))"

text \<open>The signed text, the signature and the key id of a raw query.\<close>

definition split_callback :: "string \<Rightarrow> exn + (string \<times> string \<times> string)" where
  "split_callback rawQuery =
     (case lastSplit ''&signature='' rawQuery of
        None \<Rightarrow> Inl (SsvVerificationError ''missing signature/key_id'')
      | Some (signedContent, rest) \<Rightarrow>
          (let tail = parse_query (drop 1 rest) in
           case (set_param tail ''signature'', set_param tail ''key_id'') of
             (Some sig, Some keyId) \<Rightarrow> Inr (signedContent, sig, keyId)
           | _ \<Rightarrow> Inl (SsvVerificationError ''missing signature/key_id'')))"

definition ssv_verify ::
  "('n, 'z) http_env_scheme \<Rightarrow> (string \<Rightarrow> string \<Rightarrow> bytes \<Rightarrow> exn + bool) \<Rightarrow> string
    \<Rightarrow> ('n ssv_state, admob_reward) prog" where
  "ssv_verify env ecdsa rawQuery =
     and_then (lift_result (split_callback rawQuery)) (\<lambda>(signedContent, sig, keyId).
     and_then (getKey env keyId) (\<lambda>pem.
       if \<not> env_set pem then throw (SsvVerificationError (''unknown key_id '' @ keyId))
       else and_then (lift_result (check_signature ecdsa (the pem) signedContent sig)) (\<lambda>_ s.
              (reward_of signedContent keyId (clock env (sv_net s)), s))))"

section \<open>The routes of ads.controller.ts\<close>

definition ad_purpose :: "string \<Rightarrow> ad_grant_purpose option" where
  "ad_purpose s =
     (if s = ''connect'' then Some Connect else if s = ''extend'' then Some Extend
      else if s = ''disconnect'' then Some Disconnect else None)"

text \<open>
  The guard runs before the body is validated; \<open>user\<close> is its outcome, ids in the body are
  UUIDs that are already parsed.
\<close>

definition request_ad_token_route ::
  "ads_env \<Rightarrow> ms \<Rightarrow> bytes \<Rightarrow> exn + auth_user \<Rightarrow> string \<Rightarrow> id option \<Rightarrow> (db, request_token_result) prog" where
  "request_ad_token_route env now rnd user purpose sessionId =
     and_then (lift_result user) (\<lambda>u.
       case ad_purpose purpose of
         None \<Rightarrow> throw (BadRequestException
             ''purpose must be one of the following values: connect, extend, disconnect'')
       | Some p \<Rightarrow> requestAdToken env now rnd (au_userId u) (au_deviceId u) p sessionId)"

definition verify_ad_reward_route ::
  "ads_env \<Rightarrow> string \<Rightarrow> crypto \<Rightarrow> enc_random \<Rightarrow> 'p panel_client \<Rightarrow> ms \<Rightarrow> ms
    \<Rightarrow> exn + auth_user \<Rightarrow> id \<Rightarrow> id \<Rightarrow> ('p world, verify_reward_result) prog" where
  "verify_ad_reward_route env fl C rnd pc now now' user grantId sessionId =
     and_then (lift_result user) (\<lambda>u.
       verifyAdReward env fl C rnd pc now now' (au_userId u) grantId sessionId)"

text \<open>The public callback: the verifier and the database side by side.\<close>

record 'n ssv_world =
  sw_ssv :: "'n ssv_state"
  sw_db :: db

definition record_route :: "ms \<Rightarrow> admob_reward \<Rightarrow> (db, string) prog" where
  "record_route now reward d =
     (case recordVerifiedReward now reward d of
        (Inr _, d') \<Rightarrow> (Inr ''ok'', d')
      | (Inl (NotFoundException _), d') \<Rightarrow> (Inl (BadRequestException ''unknown grant''), d')
      | (Inl _, d') \<Rightarrow> (Inl (InternalServerErrorException ''record failed''), d'))"

definition ssv_error :: "exn \<Rightarrow> exn" where
  "ssv_error e = (case e of SsvVerificationError _ \<Rightarrow> BadRequestException ''invalid signature'' | _ \<Rightarrow> e)"

definition admobSsv ::
  "('n, 'z) http_env_scheme \<Rightarrow> (string \<Rightarrow> string \<Rightarrow> bytes \<Rightarrow> exn + bool) \<Rightarrow> ms \<Rightarrow> string
    \<Rightarrow> ('n ssv_world, string) prog" where
  "admobSsv env ecdsa now originalUrl w =
     (let rawQuery = (case cut (CHR ''?'') originalUrl of (_, None) \<Rightarrow> [] | (_, Some q) \<Rightarrow> q) in
      if rawQuery = [] then (Inl (BadRequestException ''empty callback''), w)
      else (case ssv_verify env ecdsa rawQuery (sw_ssv w) of
              (Inl e, v) \<Rightarrow> (Inl (ssv_error e), w\<lparr>sw_ssv := v\<rparr>)
            | (Inr reward, v) \<Rightarrow>
                (case record_route now reward (sw_db w) of
                   (r, d) \<Rightarrow> (r, w\<lparr>sw_ssv := v, sw_db := d\<rparr>))))"

end
