(* ===== verification/Ssv_Correct.thy ===== *)
theory Ssv_Correct
  imports Ssv Ads_Correct
begin

text \<open>
  What the ad callback guarantees: only what the network signed under a key of its current key
  set becomes a reward, over any sequence of callbacks, and no failed callback changes the
  database. Also which failures of the key server are answered as forgeries.
\<close>

section \<open>The signed text\<close>

lemma startsWith_append: "startsWith s p \<longleftrightarrow> (\<exists>r. s = p @ r)"
  by (induction s p rule: startsWith.induct) auto

lemma lastSplit_None: "lastSplit p s = None \<Longrightarrow> s = a @ p @ b \<Longrightarrow> p = []"
proof (induction s arbitrary: a)
  case Nil
  then show ?case by simp
next
  case (Cons c s)
  from Cons.prems(1) have none: "lastSplit p s = None" "\<not> startsWith (c # s) p"
    by (auto split: option.splits if_splits)
  show ?case
  proof (cases a)
    case Nil
    with Cons.prems(2) none(2) show ?thesis by (metis append_Nil startsWith_append)
  next
    case (Cons x a')
    with Cons.prems(2) Cons.IH [OF none(1)] show ?thesis by simp
  qed
qed

text \<open>The split is at an occurrence, and no later one exists.\<close>

lemma lastSplit_Some:
  assumes "lastSplit p s = Some (a, b)"
  shows "s = a @ b \<and> startsWith b p"
  using assms by (induction s arbitrary: a) (auto split: option.splits if_splits)

lemma lastSplit_last:
  "lastSplit p s = Some (a, b) \<Longrightarrow> p \<noteq> [] \<Longrightarrow> s = a' @ p @ b' \<Longrightarrow> length a' \<le> length a"
proof (induction s arbitrary: a a')
  case Nil
  then show ?case by simp
next
  case (Cons c s)
  show ?case
  proof (cases a')
    case Nil
    then show ?thesis by simp
  next
    case (Cons x a'')
    with Cons.prems have s: "s = a'' @ p @ b'" by simp
    show ?thesis
    proof (cases "lastSplit p s")
      case None
      with lastSplit_None [OF None s] Cons.prems(2) show ?thesis by simp
    next
      case (Some ab)
      with Cons.prems(1) obtain a0 where "lastSplit p s = Some (a0, b)" "a = c # a0"
        by (auto split: prod.splits)
      with Cons.IH [OF this(1) Cons.prems(2) s] Cons show ?thesis by simp
    qed
  qed
qed

lemma set_param_Some: "set_param q k = Some v \<longleftrightarrow> get_param q k = Some v \<and> v \<noteq> []"
  by (auto simp: set_param_def env_set_def split: option.splits)

text \<open>
  \<open>signed_callback ecdsa keys raw content keyId\<close>: the raw query carries a text, a signature of
  it and the id of a key of the set under which the signature verifies.
\<close>

definition signed_callback ::
  "(string \<Rightarrow> string \<Rightarrow> bytes \<Rightarrow> exn + bool) \<Rightarrow> (string \<times> string) list \<Rightarrow> string \<Rightarrow> string \<Rightarrow> string \<Rightarrow> bool" where
  "signed_callback ecdsa keys raw content keyId \<longleftrightarrow>
     (\<exists>rest sig pem. raw = content @ ''&signature='' @ rest
        \<and> get_param (parse_query (''signature='' @ rest)) ''signature'' = Some sig
        \<and> get_param (parse_query (''signature='' @ rest)) ''key_id'' = Some keyId
        \<and> map_of keys keyId = Some pem
        \<and> ecdsa pem content (fromBase64 (base64UrlToBase64 sig)) = Inr True)"

lemma split_callback_Inr:
  assumes "split_callback raw = Inr (content, sig, keyId)"
  shows "\<exists>rest. raw = content @ ''&signature='' @ rest
    \<and> get_param (parse_query (''signature='' @ rest)) ''signature'' = Some sig
    \<and> get_param (parse_query (''signature='' @ rest)) ''key_id'' = Some keyId"
proof -
  obtain b where split: "lastSplit ''&signature='' raw = Some (content, b)"
    and tail: "set_param (parse_query (drop 1 b)) ''signature'' = Some sig"
      "set_param (parse_query (drop 1 b)) ''key_id'' = Some keyId"
    using assms by (auto simp: split_callback_def Let_def split: option.splits)
  obtain rest where "b = ''&signature='' @ rest"
    using lastSplit_Some [OF split] by (auto simp: startsWith_append)
  with lastSplit_Some [OF split] tail show ?thesis by (auto simp: set_param_Some)
qed

section \<open>The keys\<close>

lemma refreshKeys_Inr:
  assumes "refreshKeys env s = (Inr (), s')"
  shows "sv_fetchedAt s' = clock env (sv_net s')"
  using assms by (auto simp: refreshKeys_def split: prod.splits sum.splits if_splits)

lemma refreshKeys_Inl:
  assumes "refreshKeys env s = (Inl e, s')"
  shows "sv_keys s' = sv_keys s \<and> sv_fetchedAt s' = sv_fetchedAt s"
  using assms by (auto simp: refreshKeys_def split: prod.splits sum.splits if_splits)

text \<open>A key is read from a set that is not older than the time to live.\<close>

lemma getKey_Inr:
  assumes "getKey env keyId s = (Inr pem, s')"
  shows "pem = map_of (sv_keys s') keyId \<and> clock env (sv_net s') - sv_fetchedAt s' \<le> KEY_TTL_MS"
  using assms refreshKeys_Inr
  by (fastforce simp: getKey_def Let_def and_then_def KEY_TTL_MS_def split: prod.splits sum.splits if_splits)

section \<open>Soundness of the verifier\<close>

lemma check_signature_Inr:
  "check_signature ecdsa pem content sig = Inr u \<Longrightarrow>
     ecdsa pem content (fromBase64 (base64UrlToBase64 sig)) = Inr True"
  by (auto simp: check_signature_def split: sum.splits if_splits)

definition fresh :: "ms \<Rightarrow> int option \<Rightarrow> bool" where
  "fresh now t \<longleftrightarrow> (\<forall>x. t = Some x \<longrightarrow> now - x \<le> MAX_CALLBACK_AGE_MS \<and> x - now \<le> MAX_CLOCK_SKEW_MS)"

lemma check_age_Inr: "check_age now t = Inr u \<longleftrightarrow> fresh now t"
  by (cases t) (auto simp: check_age_def fresh_def)

text \<open>What a reward says is what the signed text says.\<close>

definition says :: "string \<Rightarrow> admob_reward \<Rightarrow> bool" where
  "says content rw \<longleftrightarrow>
     get_param (parse_query content) ''custom_data'' = Some (ar_customData rw)
     \<and> get_param (parse_query content) ''transaction_id'' = Some (ar_transactionId rw)
     \<and> ar_customData rw \<noteq> [] \<and> ar_transactionId rw \<noteq> []
     \<and> ar_timestampMs rw = Option.bind (set_param (parse_query content) ''timestamp'') number_text
     \<and> ar_raw rw = raw_object (parse_query content)"

lemma map_sum_Inr: "map_sum f g r = Inr y \<longleftrightarrow> (\<exists>x. r = Inr x \<and> y = g x)"
  by (cases r) auto

lemma reward_of_Inr:
  "reward_of content keyId now = Inr rw \<Longrightarrow>
     says content rw \<and> ar_keyId rw = keyId \<and> fresh now (ar_timestampMs rw)"
  by (auto simp: reward_of_def Let_def says_def set_param_Some check_age_Inr map_sum_Inr
      split: option.splits sum.splits)

lemma ssv_verify_Inr:
  assumes "ssv_verify env ecdsa raw s = (Inr rw, s')"
  shows "clock env (sv_net s') - sv_fetchedAt s' \<le> KEY_TTL_MS
    \<and> (\<exists>content. signed_callback ecdsa (sv_keys s') raw content (ar_keyId rw) \<and> says content rw
         \<and> fresh (clock env (sv_net s')) (ar_timestampMs rw))"
proof -
  obtain content sig keyId pem where
      split: "split_callback raw = Inr (content, sig, keyId)"
    and key: "getKey env keyId s = (Inr pem, s')" and set: "env_set pem"
    and ok: "check_signature ecdsa (the pem) content sig = Inr ()"
    and rw: "reward_of content keyId (clock env (sv_net s')) = Inr rw"
    using assms unfolding ssv_verify_def
    by (auto simp: and_then_Inr lift_result_def throw_def split: if_splits)
  have "map_of (sv_keys s') keyId = Some (the pem)"
    using getKey_Inr [OF key] set by (auto simp: env_set_def split: option.splits)
  with split_callback_Inr [OF split] check_signature_Inr [OF ok]
  have "signed_callback ecdsa (sv_keys s') raw content keyId"
    unfolding signed_callback_def by blast
  with getKey_Inr [OF key] reward_of_Inr [OF rw] show ?thesis by auto
qed

section \<open>The callback route\<close>

definition callback_query :: "string \<Rightarrow> string" where
  "callback_query url = (case cut (CHR ''?'') url of (_, None) \<Rightarrow> [] | (_, Some q) \<Rightarrow> q)"

text \<open>A callback either fails before the database is read, or its verified reward is recorded.\<close>

lemma admobSsv_cases:
  obtains
    (refused) e v where "admobSsv env ecdsa now url w = (Inl e, w\<lparr>sw_ssv := v\<rparr>)"
  | (recorded) rw v where "ssv_verify env ecdsa (callback_query url) (sw_ssv w) = (Inr rw, v)"
      "admobSsv env ecdsa now url w =
         (fst (record_route now rw (sw_db w)),
          w\<lparr>sw_ssv := v, sw_db := snd (recordVerifiedReward now rw (sw_db w))\<rparr>)"
proof (cases "callback_query url = []")
  case True
  then have "admobSsv env ecdsa now url w = (Inl (BadRequestException ''empty callback''), w\<lparr>sw_ssv := sw_ssv w\<rparr>)"
    by (simp add: admobSsv_def callback_query_def [symmetric])
  then show thesis by (rule refused)
next
  case False
  obtain r v where verify: "ssv_verify env ecdsa (callback_query url) (sw_ssv w) = (r, v)"
    by (cases "ssv_verify env ecdsa (callback_query url) (sw_ssv w)")
  show thesis
  proof (cases r)
    case (Inl e)
    with False verify have "admobSsv env ecdsa now url w = (Inl (ssv_error e), w\<lparr>sw_ssv := v\<rparr>)"
      by (simp add: admobSsv_def callback_query_def [symmetric])
    then show thesis by (rule refused)
  next
    case (Inr rw)
    have "snd (record_route now rw d) = snd (recordVerifiedReward now rw d)" for d
      by (auto simp: record_route_def split: prod.splits sum.splits exn.splits)
    with Inr False verify show thesis
      by (intro recorded) (auto simp: admobSsv_def callback_query_def [symmetric] prod_eq_iff split: prod.splits)
  qed
qed

lemma recorded_rewards:
  assumes "r \<in> set (rewards (snd (recordVerifiedReward now rw d)))" "r \<notin> set (rewards d)"
  shows "r_transaction_id r = ar_transactionId rw \<and> r_raw r = ar_raw rw
    \<and> r_signature_key_id r = ar_keyId rw
    \<and> (\<exists>g \<in> set (grants d). g_nonce g = ar_customData rw \<and> g_id g = r_grant_id r)"
  using assms
  by (cases rule: record_cases [of rw now d])
    (auto simp: recorded_db_def counted_db_def reward_row_def dest: find_row_Some)

lemma recorded_failure:
  assumes "fst (recordVerifiedReward now rw d) = Inl e"
  shows "snd (recordVerifiedReward now rw d) = d"
  using assms by (cases rule: record_cases [of rw now d]) auto

text \<open>
  Any sequence of callbacks. Between two of them the network, and with it the clock the verifier
  reads, moves on to any state; then the callback arrives, \<open>now\<close> being the time of its
  transaction.
\<close>

definition arrive :: "'n \<Rightarrow> 'n ssv_world \<Rightarrow> 'n ssv_world" where
  "arrive n w = w\<lparr>sw_ssv := (sw_ssv w)\<lparr>sv_net := n\<rparr>\<rparr>"

lemma arrive_simps [simp]:
  "sw_db (arrive n w) = sw_db w" "sv_keys (sw_ssv (arrive n w)) = sv_keys (sw_ssv w)"
  "sv_fetchedAt (sw_ssv (arrive n w)) = sv_fetchedAt (sw_ssv w)" "sv_net (sw_ssv (arrive n w)) = n"
  by (simp_all add: arrive_def)

fun deliver ::
  "('n, 'z) http_env_scheme \<Rightarrow> (string \<Rightarrow> string \<Rightarrow> bytes \<Rightarrow> exn + bool) \<Rightarrow> ('n \<times> ms \<times> string) list
    \<Rightarrow> 'n ssv_world \<Rightarrow> 'n ssv_world" where
  "deliver env ecdsa [] w = w"
| "deliver env ecdsa ((n, now, url) # calls) w =
     deliver env ecdsa calls (snd (admobSsv env ecdsa now url (arrive n w)))"

text \<open>Where a key set can come from: it was there, or the key server answered it.\<close>

definition key_request :: http_request where
  "key_request = \<lparr>hq_method = ''GET'', hq_url = KEY_SERVER_URL, hq_headers = [], hq_body = None\<rparr>"

definition served_keys :: "('n, 'z) http_env_scheme \<Rightarrow> (string \<times> string) list \<Rightarrow> bool" where
  "served_keys env keys \<longleftrightarrow>
     (\<exists>n res n' body. fetchWithTimeout env key_request 5000 n = (Inr res, n') \<and> res_ok res
        \<and> hs_json res = Inr body \<and> read_keys body = Inr keys)"

lemma refreshKeys_served:
  assumes "refreshKeys env s = (r, s')"
  shows "sv_keys s' = sv_keys s \<or> served_keys env (sv_keys s')"
  using assms unfolding served_keys_def
  by (fastforce simp: refreshKeys_def key_request_def split: prod.splits sum.splits if_splits)

lemma getKey_served:
  assumes "getKey env k s = (r, s')"
  shows "sv_keys s' = sv_keys s \<or> served_keys env (sv_keys s')"
  using assms refreshKeys_served
  by (fastforce simp: getKey_def Let_def and_then_def split: prod.splits sum.splits if_splits)

lemma ssv_verify_served:
  assumes "ssv_verify env ecdsa raw s = (r, s')"
  shows "sv_keys s' = sv_keys s \<or> served_keys env (sv_keys s')"
proof (cases "split_callback raw")
  case (Inl e)
  with assms show ?thesis by (simp add: ssv_verify_def and_then_def lift_result_def)
next
  case (Inr x)
  obtain content sig keyId where x: "x = (content, sig, keyId)" by (cases x)
  obtain r1 s1 where key: "getKey env keyId s = (r1, s1)" by fastforce
  with assms Inr x have "s' = s1"
    by (auto simp: ssv_verify_def and_then_def lift_result_def throw_def
        split: prod.splits sum.splits if_splits)
  with getKey_served [OF key] show ?thesis by simp
qed

text \<open>\<open>vouched\<close>: a reward row is the reading of a text signed in one of the callbacks.\<close>

definition vouched ::
  "('n, 'z) http_env_scheme \<Rightarrow> (string \<Rightarrow> string \<Rightarrow> bytes \<Rightarrow> exn + bool) \<Rightarrow> (string \<times> string) list
    \<Rightarrow> (ms \<times> string) list \<Rightarrow> ad_reward \<Rightarrow> bool" where
  "vouched env ecdsa keys0 calls r \<longleftrightarrow>
     (\<exists>(now, url) \<in> set calls. \<exists>content keys.
        (keys = keys0 \<or> served_keys env keys)
        \<and> signed_callback ecdsa keys (callback_query url) content (r_signature_key_id r)
        \<and> get_param (parse_query content) ''transaction_id'' = Some (r_transaction_id r)
        \<and> r_raw r = raw_object (parse_query content))"

lemma admobSsv_vouches:
  assumes "admobSsv env ecdsa now url w = (res, w')"
  shows "(sv_keys (sw_ssv w') = sv_keys (sw_ssv w) \<or> served_keys env (sv_keys (sw_ssv w')))
    \<and> (\<forall>r \<in> set (rewards (sw_db w')). r \<in> set (rewards (sw_db w))
         \<or> vouched env ecdsa (sv_keys (sw_ssv w)) [(now, url)] r)"
proof -
  have keys: "sv_keys (sw_ssv w') = sv_keys (sw_ssv w) \<or> served_keys env (sv_keys (sw_ssv w'))"
    using assms ssv_verify_served
    by (fastforce simp: admobSsv_def Let_def split: if_splits prod.splits sum.splits)
  show ?thesis
  proof (cases rule: admobSsv_cases [of env ecdsa now url w])
    case (refused e v)
    with assms keys show ?thesis by auto
  next
    case (recorded rw v)
    then have w': "w' = w\<lparr>sw_ssv := v, sw_db := snd (recordVerifiedReward now rw (sw_db w))\<rparr>"
      using assms by simp
    obtain content where sig: "signed_callback ecdsa (sv_keys v) (callback_query url) content (ar_keyId rw)"
      and says: "says content rw"
      using ssv_verify_Inr [OF recorded(1)] by blast
    have "vouched env ecdsa (sv_keys (sw_ssv w)) [(now, url)] r"
      if "r \<in> set (rewards (sw_db w'))" "r \<notin> set (rewards (sw_db w))" for r
      using recorded_rewards [of r now rw "sw_db w"] that w' sig says keys
      by (auto simp: vouched_def says_def)
    with keys show ?thesis by blast
  qed
qed

lemma vouched_more:
  "vouched env ecdsa keys calls r \<Longrightarrow> set calls \<subseteq> set calls' \<Longrightarrow> keys = keys0 \<or> served_keys env keys
     \<Longrightarrow> vouched env ecdsa keys0 calls' r"
  unfolding vouched_def by fast

section \<open>Properties of the callback\<close>

text \<open>
  C10. An accepted callback is a text with a signature of it under a key from a set not older than
  six hours; the reward repeats what that text says, and its timestamp, when it is readable,
  is at most ten minutes old and one minute ahead.
\<close>

theorem ssv_sound:
  assumes "ssv_verify env ecdsa raw s = (Inr rw, s')"
  shows "clock env (sv_net s') - sv_fetchedAt s' \<le> KEY_TTL_MS
    \<and> (\<exists>content. signed_callback ecdsa (sv_keys s') raw content (ar_keyId rw) \<and> says content rw
         \<and> fresh (clock env (sv_net s')) (ar_timestampMs rw))"
  using assms by (rule ssv_verify_Inr)

text \<open>
  C2. Whatever callbacks arrive in whatever order and at whatever times, every reward row they add was signed: one of
  them carries a text with its transaction, signed under a key that was cached before or that
  the key server answered.
\<close>

theorem rewards_are_signed:
  assumes "r \<in> set (rewards (sw_db (deliver env ecdsa calls w)))"
  shows "r \<in> set (rewards (sw_db w)) \<or> vouched env ecdsa (sv_keys (sw_ssv w)) (map snd calls) r"
  using assms
proof (induction calls arbitrary: w)
  case Nil
  then show ?case by simp
next
  case (Cons call calls)
  obtain n now url where call: "call = (n, now, url)" by (cases call)
  obtain res w' where step: "admobSsv env ecdsa now url (arrive n w) = (res, w')" by fastforce
  with Cons.prems call have "r \<in> set (rewards (sw_db (deliver env ecdsa calls w')))" by simp
  with Cons.IH have "r \<in> set (rewards (sw_db w')) \<or> vouched env ecdsa (sv_keys (sw_ssv w')) (map snd calls) r" .
  with admobSsv_vouches [OF step] show ?case
    by (auto simp: call intro: vouched_more)
qed

text \<open>
  C38. When the keys have to be fetched and the key server answers with an error status, the
  callback is answered as a forgery, status 400, not as a transient failure; any other failure
  of the fetch is passed on. The database is not touched.
\<close>

theorem ssv_key_outage:
  assumes "split_callback (callback_query url) = Inr (content, sig, keyId)"
    and "map_of (sv_keys (sw_ssv w)) keyId = None
      \<or> clock env (sv_net (sw_ssv w)) - sv_fetchedAt (sw_ssv w) > KEY_TTL_MS"
    and "fetchWithTimeout env key_request 5000 (sv_net (sw_ssv w)) = (answer, n)"
    and "\<And>res. answer = Inr res \<Longrightarrow> \<not> res_ok res"
  shows "admobSsv env ecdsa now url w =
     (Inl (case answer of Inl e \<Rightarrow> ssv_error e | Inr _ \<Rightarrow> BadRequestException ''invalid signature''),
      w\<lparr>sw_ssv := (sw_ssv w)\<lparr>sv_net := n\<rparr>\<rparr>)"
proof -
  let ?e = "case answer of Inl e \<Rightarrow> e
    | Inr res \<Rightarrow> SsvVerificationError (''verifier keys fetch failed: '' @ show_nat (hs_status res))"
  have "refreshKeys env (sw_ssv w) = (Inl ?e, (sw_ssv w)\<lparr>sv_net := n\<rparr>)"
    using assms(3,4) by (auto simp: refreshKeys_def key_request_def [symmetric] split: sum.splits)
  then have "getKey env keyId (sw_ssv w) = (Inl ?e, (sw_ssv w)\<lparr>sv_net := n\<rparr>)"
    using assms(2) by (auto simp: getKey_def Let_def and_then_def)
  then have "ssv_verify env ecdsa (callback_query url) (sw_ssv w) = (Inl ?e, (sw_ssv w)\<lparr>sv_net := n\<rparr>)"
    using assms(1) by (simp add: ssv_verify_def and_then_def lift_result_def)
  moreover have "callback_query url \<noteq> []"
    using assms(1) by (auto simp: split_callback_def)
  ultimately show ?thesis
    by (simp add: admobSsv_def callback_query_def [symmetric] ssv_error_def split: sum.splits)
qed

section \<open>Witnesses\<close>

definition key_answer :: "nat \<Rightarrow> http_request \<Rightarrow> nat \<Rightarrow> ((exn + http_response) \<times> int) \<times> nat" where
  "key_answer code _ n =
     ((Inr \<lparr>hs_status = code, hs_text = Inr [],
            hs_json = Inr (JObj [(''keys'', JArr [JObj [(''keyId'', JNum 1), (''pem'', JStr ''P'')]])])\<rparr>, 5),
      n + 1)"

definition key_env :: "nat \<Rightarrow> nat http_env" where
  "key_env code = \<lparr>fetch = key_answer code, clock = (\<lambda>n. 20 + int n), date_text = (\<lambda>_. None)\<rparr>"

definition sample_ecdsa :: "string \<Rightarrow> string \<Rightarrow> bytes \<Rightarrow> exn + bool" where
  "sample_ecdsa pem content sig = Inr (pem = ''P'' \<and> sig = [0 :: 8 word])"

definition sample_url :: string where
  "sample_url = ''/ssv?custom_data=n&transaction_id=t3&timestamp=9&signature=AA&key_id=1''"

definition no_keys :: "nat ssv_state" where
  "no_keys = \<lparr>sv_keys = [], sv_fetchedAt = 0, sv_net = 0\<rparr>"

definition ssv_sample_world :: "nat ssv_world" where
  "ssv_sample_world = \<lparr>sw_ssv = no_keys, sw_db = sample_db\<rparr>"

lemma sample_callback_verifies:
  "fst (ssv_verify (key_env 200) sample_ecdsa (callback_query sample_url) no_keys) =
     Inr \<lparr>ar_customData = ''n'', ar_transactionId = ''t3'', ar_adNetwork = None, ar_adUnit = None,
       ar_rewardItem = None, ar_rewardAmount = None, ar_userId = None,
       ar_timestampMs = Some 9, ar_keyId = ''1'',
       ar_raw = [(''custom_data'', ''n''), (''transaction_id'', ''t3''), (''timestamp'', ''9'')]\<rparr>"
  by code_simp

lemma sample_callback_recorded:
  "map r_transaction_id (rewards (sw_db (deliver (key_env 200) sample_ecdsa [(30, 600, sample_url)] ssv_sample_world)))
     = [''t1'', ''t2'', ''t3'']"
  by code_simp

theorem ssv_sound_witness:
  "\<exists>rw s'. ssv_verify (key_env 200) sample_ecdsa (callback_query sample_url) no_keys = (Inr rw, s')
     \<and> ar_transactionId rw = ''t3'' \<and> clock (key_env 200) (sv_net s') - sv_fetchedAt s' \<le> KEY_TTL_MS
     \<and> (\<exists>content. signed_callback sample_ecdsa (sv_keys s') (callback_query sample_url) content ''1''
          \<and> says content rw)"
proof -
  obtain rw s' where run: "ssv_verify (key_env 200) sample_ecdsa (callback_query sample_url) no_keys = (Inr rw, s')"
    and "ar_transactionId rw = ''t3''" "ar_keyId rw = ''1''"
    using sample_callback_verifies
    by (cases "ssv_verify (key_env 200) sample_ecdsa (callback_query sample_url) no_keys") auto
  with ssv_sound [OF run] show ?thesis by auto
qed

theorem rewards_are_signed_witness:
  "\<exists>r \<in> set (rewards (sw_db (deliver (key_env 200) sample_ecdsa [(30, 600, sample_url)] ssv_sample_world))).
     r_transaction_id r = ''t3'' \<and> vouched (key_env 200) sample_ecdsa [] [(600, sample_url)] r"
proof -
  let ?w = "deliver (key_env 200) sample_ecdsa [(30, 600, sample_url)] ssv_sample_world"
  have "''t3'' \<in> set (map r_transaction_id (rewards (sw_db ?w)))"
    unfolding sample_callback_recorded by simp
  then obtain r where r: "r \<in> set (rewards (sw_db ?w))" "r_transaction_id r = ''t3''"
    unfolding set_map by (elim imageE) (erule that, erule sym)
  moreover have "r \<notin> set (rewards (sw_db ssv_sample_world))"
    using r(2) by (auto simp: ssv_sample_world_def sample_db_def sample_reward_def)
  ultimately show ?thesis
    using rewards_are_signed [OF r(1)] by (auto simp: ssv_sample_world_def no_keys_def)
qed

theorem ssv_key_outage_witness:
  "fst (admobSsv (key_env 503) sample_ecdsa 600 sample_url ssv_sample_world) =
     Inl (BadRequestException ''invalid signature'')"
proof -
  let ?content = "''custom_data=n&transaction_id=t3&timestamp=9''"
  have split: "split_callback (callback_query sample_url) = Inr (?content, ''AA'', ''1'')" by code_simp
  have answer: "fetchWithTimeout (key_env 503) key_request 5000 (sv_net (sw_ssv ssv_sample_world)) =
      (fst (fst (key_answer 503 key_request 0)), 1)"
    by (simp add: fetchWithTimeout_def key_env_def key_answer_def ssv_sample_world_def no_keys_def)
  have "admobSsv (key_env 503) sample_ecdsa 600 sample_url ssv_sample_world =
      (Inl (case fst (fst (key_answer 503 key_request 0)) of Inl e \<Rightarrow> ssv_error e
         | Inr _ \<Rightarrow> BadRequestException ''invalid signature''),
       ssv_sample_world\<lparr>sw_ssv := (sw_ssv ssv_sample_world)\<lparr>sv_net := 1\<rparr>\<rparr>)"
    by (rule ssv_key_outage [OF split _ answer]) (auto simp: key_answer_def res_ok_def ssv_sample_world_def no_keys_def)
  then show ?thesis by (simp add: key_answer_def)
qed

end
