(* ===== verification/EndToEnd.thy ===== *)
theory EndToEnd
  imports Lifecycle Ssv_Correct
begin

text \<open>
  The money path from end to end: the backend of Lifecycle beside the callback verifier of Ssv.
  Rewards enter the ledger through the public callback route alone, so the minutes a claim
  grants rest on texts the ad network signed, each naming the nonce of the claimed grant, and no
  step of the backend makes a consumed grant count again.
\<close>

section \<open>What every step keeps of the ledger\<close>

text \<open>
  Most steps only add grants and no rewards. A grant keeps its id and its nonce for ever; only a
  callback adds reward rows, and nothing touches a grant that is spent.
\<close>

definition nonces_kept :: "db \<Rightarrow> db \<Rightarrow> bool" where
  "nonces_kept d d' \<longleftrightarrow> (\<forall>g \<in> set (grants d). \<exists>g' \<in> set (grants d'). g_id g' = g_id g \<and> g_nonce g' = g_nonce g)"

definition ledger_kept :: "db \<Rightarrow> db \<Rightarrow> bool" where
  "ledger_kept d d' \<longleftrightarrow> set (grants d) \<subseteq> set (grants d') \<and> rewards d' = rewards d"

definition spent_kept :: "db \<Rightarrow> db \<Rightarrow> bool" where
  "spent_kept d d' \<longleftrightarrow> (\<forall>g \<in> set (grants d). g_status g = G_consumed \<longrightarrow> g \<in> set (grants d'))"

lemma nonces_more: "ledger_kept d d' \<Longrightarrow> nonces_kept d d'"
  by (auto simp: nonces_kept_def ledger_kept_def)

lemma spent_more: "ledger_kept d d' \<Longrightarrow> spent_kept d d'"
  by (auto simp: spent_kept_def ledger_kept_def)

lemma spent_trans: "spent_kept a b \<Longrightarrow> spent_kept b c \<Longrightarrow> spent_kept a c"
  unfolding spent_kept_def by blast

lemma nonces_same: "grants d' = grants d \<Longrightarrow> nonces_kept d d'"
  by (auto simp: nonces_kept_def)

lemma nonces_update:
  assumes "grants d' = update_where P f (grants d)" "\<And>g. g_id (f g) = g_id g" "\<And>g. g_nonce (f g) = g_nonce g"
  shows "nonces_kept d d'"
  unfolding nonces_kept_def assms(1)
proof
  fix g assume "g \<in> set (grants d)"
  then have "(if P g then f g else g) \<in> set (update_where P f (grants d))" by (auto simp: set_update_where)
  moreover have "g_id (if P g then f g else g) = g_id g" "g_nonce (if P g then f g else g) = g_nonce g"
    using assms(2,3) by simp_all
  ultimately show "\<exists>g' \<in> set (update_where P f (grants d)). g_id g' = g_id g \<and> g_nonce g' = g_nonce g" by blast
qed

lemma nonces_record: "nonces_kept d (snd (recordVerifiedReward now rw d))"
proof (cases rule: record_cases [of rw now d])
  case (counted g)
  then show ?thesis
    by (intro nonces_update [of _ _ "bump_grant now (g_verified_ads g + 1) (g_verified_ads g + 1 \<ge> g_required_ads g)"])
      (auto simp: counted_db_def bump_grant_def)
qed (simp_all add: nonces_same recorded_db_def)

text \<open>An update of the row of an unspent grant, under unique ids, keeps the spent ones.\<close>

lemma spent_update:
  assumes "keys_ok d" and "g \<in> set (grants d)" and "g_status g \<noteq> G_consumed"
    and "grants d' = update_where (\<lambda>x. g_id x = g_id g) f (grants d)"
  shows "spent_kept d d'"
  unfolding spent_kept_def
proof (intro ballI impI)
  fix h assume h: "h \<in> set (grants d)" "g_status h = G_consumed"
  with assms(2,3) table_ok_inj [OF keys_okD(2) [OF assms(1)]] have "g_id h \<noteq> g_id g" by metis
  with h(1) assms(4) show "h \<in> set (grants d')" by (force simp: set_update_where)
qed

lemma spent_record:
  assumes "keys_ok d"
  shows "spent_kept d (snd (recordVerifiedReward now rw d))"
proof (cases rule: record_cases [of rw now d])
  case (counted g)
  with assms find_row_Some [OF counted(1)] show ?thesis
    by (intro spent_update [of d g]) (simp_all add: counted_db_def recorded_db_def)
qed (simp_all add: spent_kept_def recorded_db_def)

lemma kept_same: "grants d' = grants d \<Longrightarrow> rewards d' = rewards d \<Longrightarrow> ledger_kept d d'"
  by (simp add: ledger_kept_def)

lemma kept_more: "set (grants d) \<subseteq> set (grants d') \<Longrightarrow> rewards d' = rewards d \<Longrightarrow> ledger_kept d d'"
  by (simp add: ledger_kept_def)

lemma kept_trans: "ledger_kept a b \<Longrightarrow> ledger_kept b c \<Longrightarrow> ledger_kept a c"
  unfolding ledger_kept_def by auto

lemma kept_quiet: "quiet d d' \<Longrightarrow> ledger_kept d d'"
  by (rule kept_same) (simp_all add: quiet_def)

lemma kept_frame: "outbox_frame d d' \<Longrightarrow> ledger_kept d d'"
  by (rule kept_same) (simp_all add: outbox_frame_fields)

lemma kept_request: "ledger_kept d (snd (requestAdToken env now rnd uid did pu sid d))"
  by (rule kept_more) (auto simp: requestAdToken_def Let_def insert_grant_def split: prod.split)

lemma claim_grants:
  assumes "verify_tx env now uid gid sid d = (Inr p, d')"
  obtains (replay) "d' = d"
  | (spend) g i where "g \<in> set (grants d)" "g_status g \<noteq> G_consumed" "rewards d' = rewards d"
      "grants d' = update_where (\<lambda>x. g_id x = g_id g) (consume_grant now i) (grants d)"
proof (cases p)
  case (PlanIdempotent b e)
  with assms replay show thesis using verify_tx_idempotentE by blast
next
  case (PlanExtend sid' un e m oid)
  with assms obtain g s where c: "claimable env now uid gid sid d g s" "d' = claimed_db now e g s d"
    by (auto elim!: verify_tx_extendE)
  have "grants d' = update_where (\<lambda>x. g_id x = g_id g) (consume_grant now (s_id s)) (grants d)"
    "rewards d' = rewards d"
    by (simp_all add: c(2) claimed_db_def Let_def)
  with c(1) show thesis by (intro spend [of g "s_id s"]) (auto simp: claimable_def dest: find_row_Some)
qed

lemma nonces_claim:
  assumes "verify_tx env now uid gid sid d = (Inr p, d')"
  shows "nonces_kept d d'"
proof (rule claim_grants [OF assms])
  fix g i assume "grants d' = update_where (\<lambda>x. g_id x = g_id g) (consume_grant now i) (grants d)"
  then show ?thesis by (rule nonces_update) (simp_all add: consume_grant_def)
qed (simp add: nonces_same)

lemma spent_claim:
  assumes "verify_tx env now uid gid sid d = (Inr p, d')" and "keys_ok d"
  shows "spent_kept d d'"
proof (rule claim_grants [OF assms(1)])
  assume "d' = d"
  then show ?thesis by (simp add: spent_kept_def)
qed (rule spent_update [OF assms(2)])

lemma kept_connect:
  assumes "connect_tx env rnd now uid did key tier e mc d = (Inr tx, d')"
  shows "ledger_kept d d'"
  using assms
proof (rule connect_tx_InrE)
  fix node un cred d2
  let ?r = "room now uid mc d"
  assume ins: "insert_session (new_session now uid did tier node un cred key e) ?r = (Inr (tx_sessionId tx), d2)"
    and fin: "if tier = Free then \<exists>gid. tx_grantId tx = Some gid \<and>
        tx_nonce tx = Some (randomUrlToken (cr_nonce rnd)) \<and>
        insert_grant (connect_grant env uid did (tx_sessionId tx) (randomUrlToken (cr_nonce rnd)) e) d2 =
          (Inr gid, d')
      else tx_grantId tx = None \<and> tx_nonce tx = None \<and> d' = d2"
  have "grants d2 = grants d" "rewards d2 = rewards d" by (simp_all add: insert_session_Inr(2) [OF ins])
  moreover have "set (grants d2) \<subseteq> set (grants d')" "rewards d' = rewards d2"
    using fin by (auto split: if_splits dest: insert_grant_Inr(2))
  ultimately show ?thesis by (intro kept_more) simp_all
qed

lemma kept_revoke: "ledger_kept d (snd (revoke_where P reason now d))"
  by (rule kept_same) (simp_all add: revoke_where_def close_where_def Let_def)

lemma kept_revoke_log:
  assumes "(case revoke_where P reason now d of (n, d1) \<Rightarrow>
      (case recordInTx inet now (e n) d1 of (Inl x, d2) \<Rightarrow> (Inl x, d2) | (Inr _, d2) \<Rightarrow> (Inr n, d2)))
    = (Inr m, d')"
  shows "ledger_kept d d'"
proof -
  obtain n d1 where r: "revoke_where P reason now d = (n, d1)" by fastforce
  from assms obtain u where "recordInTx inet now (e n) d1 = (Inr u, d')"
    by (auto simp: r split: prod.splits sum.splits)
  from kept_quiet [OF record_sound [OF this]] kept_revoke [of d P reason now] show ?thesis
    by (auto simp: r intro: kept_trans)
qed

lemma kept_transaction:
  "(\<And>a d'. m d = (Inr a, d') \<Longrightarrow> ledger_kept d d') \<Longrightarrow> ledger_kept d (snd (withTransaction m d))"
  by (rule withTransaction_preserves) (simp_all add: kept_same)

lemma kept_mutate: "ledger_kept d (snd (mutateUser days inet now uid ch actor d))"
  unfolding mutateUser_def
proof (rule kept_transaction)
  fix n d'
  assume run: "(if \<not> exists_row (\<lambda>u. u_id u = uid) (users d) then (Inl (NotFoundException ''user not found''), d)
     else case ban_tx inet now actor uid (ch_isBanned ch) d of
       (Inl e, d1) \<Rightarrow> (Inl e, d1)
     | (Inr revoked, d1) \<Rightarrow> (Inr revoked, set_tier days now uid (ch_tier ch) d1)) = (Inr n, d')"
  then obtain d1 where ban: "ban_tx inet now actor uid (ch_isBanned ch) d = (Inr n, d1)"
    and d': "d' = set_tier days now uid (ch_tier ch) d1"
    by (auto split: if_splits prod.splits sum.splits)
  have "ledger_kept d d1"
  proof (cases "ch_isBanned ch = Some True")
    case True
    from ban_tx_Inr [OF ban [unfolded True]] have "grants d1 = grants d" "rewards d1 = rewards d"
      by (auto simp: banned_db_def revokeUserSessions_def revoke_where_def close_where_def Let_def)
    then show ?thesis by (rule kept_same)
  next
    case False
    with ban have "grants d1 = grants d" "rewards d1 = rewards d" by (auto simp: ban_tx_def Let_def split: option.splits if_splits)
    then show ?thesis by (rule kept_same)
  qed
  then show "ledger_kept d d'" unfolding d' using kept_quiet [OF set_tier_quiet] kept_trans by blast
qed

lemma kept_panic: "ledger_kept d (snd (panicRevokeFreeSessions inet now actor d))"
  unfolding panicRevokeFreeSessions_def by (rule kept_transaction) (rule kept_revoke_log)

lemma kept_migrate: "ledger_kept d (snd (forceMigrateNode inet now nid actor d))"
  unfolding forceMigrateNode_def
proof (rule kept_transaction)
  fix a d'
  assume "(if \<not> exists_row (\<lambda>n. n_id n = nid) (nodes d) then (Inl (NotFoundException ''node not found''), d)
     else case revoke_where (\<lambda>s. s_node_id s = nid) ''force_migrate'' now (set_active now nid False d) of
       (evicted, d1) \<Rightarrow>
         (case recordInTx inet now
             \<lparr>ae_adminId = ac_adminId actor, ae_actionType = FORCE_MIGRATE_NODE, ae_targetId = Some nid,
              ae_details = Some (JObj [(''evicted'', JNum (int evicted))]), ae_ip = ac_ip actor\<rparr> d1 of
            (Inl e, d2) \<Rightarrow> (Inl e, d2) | (Inr _, d2) \<Rightarrow> (Inr evicted, d2))) = (Inr a, d')"
  then have "ledger_kept (set_active now nid False d) d'"
    by (auto split: if_splits elim!: kept_revoke_log)
  with kept_quiet [OF switch_quiet] show "ledger_kept d d'" using kept_trans by blast
qed

lemma kept_sweep: "ledger_kept d (snd (sweepOnce batch locks now d))"
  by (rule kept_same) (simp_all add: sweepOnce_def close_where_def Let_def)

lemma kept_kick: "ledger_kept d (snd (kickSession now sid d))"
  by (rule kept_same; cases rule: kick_cases [of now sid d]) simp_all

lemma kept_fail: "ledger_kept d (failSession now sid un nid d)"
  by (rule kept_same) (simp_all add: failSession_def Let_def)

lemma kept_mirror: "ledger_kept (wdb w) (wdb (snd (mirror_expiry pc now oid sid un e w)))"
  by (rule kept_frame) (rule mirror_expiry_frame(1) [OF prod.collapse [symmetric]])

lemma kept_sync: "ledger_kept d (sync_node now pn d)"
  by (rule kept_same) (simp_all add: sync_node_def Let_def)

lemma sys_step_kept: 
  "sys_step w w' \<Longrightarrow> ledger_kept (wdb w) (wdb w')
     \<or> (\<exists>now rw. wdb w' = snd (recordVerifiedReward now rw (wdb w)))
     \<or> (\<exists>env now uid gid sid p. verify_tx env now uid gid sid (wdb w) = (Inr p, wdb w'))"
proof (induction rule: sys_step.induct)
  case (connect_activate w now sid)
  then show ?case by (simp add: kept_same activate_def)
next
  case (admin_switch w now nid b)
  then show ?case using kept_quiet [OF switch_quiet] by (simp add: setNodeActive_def kept_same)
next
  case (admin_audit w inet now entry)
  then show ?case using kept_quiet [OF record_sound [OF prod.collapse [symmetric]]]
    by (simp add: record_audit_def)
next
  case (ad_callback w now rw)
  then show ?case by auto
next
  case (ad_claim aenv now uid gid sid w p d')
  then show ?case by auto
qed (simp_all add: kept_connect kept_request kept_mirror kept_sweep kept_mutate
    kept_kick kept_panic kept_migrate kept_fail kept_sync provision_wdb kept_same
    kept_frame [OF revoke_inline_frame(1)] kept_frame [OF claim_outbox_frame] kept_frame [OF drain_one_outbox_frame]
    kept_quiet [OF quiet_admin_login] kept_quiet [OF quiet_login]
    kept_quiet [OF quiet_progD [OF quiet_anon]] kept_quiet [OF quiet_progD [OF quiet_register]]
    kept_quiet [OF quiet_progD [OF quiet_refresh]] kept_quiet [OF quiet_progD [OF quiet_logout]]
    kept_quiet [OF quiet_progD [OF quiet_createChallenge]] kept_quiet [OF quiet_progD [OF quiet_consume]]
    kept_quiet [OF quiet_progD [OF quiet_android_tx]]
    kept_quiet [OF quiet_progD [OF quiet_withTransaction [OF quiet_ios_tx]]])

lemma sys_step_nonces: "sys_step w w' \<Longrightarrow> nonces_kept (wdb w) (wdb w')"
  using sys_step_kept nonces_more nonces_record nonces_claim by metis

lemma sys_step_spent: "sys_step w w' \<Longrightarrow> keys_ok (wdb w) \<Longrightarrow> spent_kept (wdb w) (wdb w')"
  using sys_step_kept spent_more spent_record spent_claim by metis

lemma sys_steps_spent:
  assumes "sys_step\<^sup>*\<^sup>* w w'" and "system_ok (wdb w)"
  shows "spent_kept (wdb w) (wdb w') \<and> system_ok (wdb w')"
  using assms(1)
proof induction
  case base
  with assms(2) show ?case by (simp add: spent_kept_def)
next
  case (step w1 w2)
  then have "keys_ok (wdb w1)" by (simp add: system_keys)
  with step sys_step_sound [OF step(2)] sys_step_spent [OF step(2)] show ?case
    by (auto simp: sound_step_def intro: spent_trans)
qed

section \<open>The backend beside the verifier\<close>

text \<open>
  A run: steps of the backend that record no reward, interleaved with callbacks on the public
  route, the only caller of \<^verbatim>\<open>recordVerifiedReward\<close>. The list holds the callbacks so far, each
  with its time; the world and the state of the verifier are where the run stands. Between the
  callbacks the network, and the clock the verifier reads, move on to any state \<open>n\<close>.
\<close>

inductive full_run ::
  "('n, 'z) http_env_scheme \<Rightarrow> (string \<Rightarrow> string \<Rightarrow> bytes \<Rightarrow> exn + bool) \<Rightarrow> 'p world \<Rightarrow> 'n ssv_state
    \<Rightarrow> (ms \<times> string) list \<Rightarrow> 'p world \<Rightarrow> 'n ssv_state \<Rightarrow> bool"
  for env ecdsa w0 s0 where
  start: "full_run env ecdsa w0 s0 [] w0 s0"
| backend: "full_run env ecdsa w0 s0 calls w s \<Longrightarrow> sys_step w w' \<Longrightarrow> rewards (wdb w') = rewards (wdb w) \<Longrightarrow>
    full_run env ecdsa w0 s0 calls w' s"
| callback: "full_run env ecdsa w0 s0 calls w s \<Longrightarrow>
    admobSsv env ecdsa now url (arrive n \<lparr>sw_ssv = s, sw_db = wdb w\<rparr>) = (res, v) \<Longrightarrow>
    full_run env ecdsa w0 s0 (calls @ [(now, url)]) (w\<lparr>wdb := sw_db v\<rparr>) (sw_ssv v)"

text \<open>One of the callbacks carries a signed text with this transaction and this nonce.\<close>

definition evidence ::
  "('n, 'z) http_env_scheme \<Rightarrow> (string \<Rightarrow> string \<Rightarrow> bytes \<Rightarrow> exn + bool) \<Rightarrow> (string \<times> string) list
    \<Rightarrow> (ms \<times> string) list \<Rightarrow> string \<Rightarrow> string \<Rightarrow> bool" where
  "evidence env ecdsa keys0 calls transaction nonce \<longleftrightarrow>
     (\<exists>(now, url) \<in> set calls. \<exists>content keyId keys.
        (keys = keys0 \<or> served_keys env keys)
        \<and> signed_callback ecdsa keys (callback_query url) content keyId
        \<and> get_param (parse_query content) ''transaction_id'' = Some transaction
        \<and> get_param (parse_query content) ''custom_data'' = Some nonce)"

definition backed :: "(string \<Rightarrow> string \<Rightarrow> bool) \<Rightarrow> db \<Rightarrow> bool" where
  "backed E d \<longleftrightarrow> (\<forall>r \<in> set (rewards d). r_network r = ''admob'' \<and>
     (\<exists>g \<in> set (grants d). g_id g = r_grant_id r \<and> E (r_transaction_id r) (g_nonce g)))"

lemma backed_kept:
  assumes "backed E d" "nonces_kept d d'" "rewards d' = rewards d" and "\<And>t n. E t n \<Longrightarrow> E' t n"
  shows "backed E' d'"
  using assms unfolding backed_def nonces_kept_def by metis

lemma backed_record:
  assumes "backed E d" "E (ar_transactionId rw) (ar_customData rw)"
  shows "backed E (snd (recordVerifiedReward now rw d))"
  unfolding backed_def
proof
  let ?d = "snd (recordVerifiedReward now rw d)"
  fix r assume r: "r \<in> set (rewards ?d)"
  have kept: "\<exists>g' \<in> set (grants ?d). g_id g' = g_id g \<and> g_nonce g' = g_nonce g" if "g \<in> set (grants d)" for g
    using nonces_record that unfolding nonces_kept_def by blast
  show "r_network r = ''admob'' \<and> (\<exists>g \<in> set (grants ?d). g_id g = r_grant_id r \<and> E (r_transaction_id r) (g_nonce g))"
  proof (cases "r \<in> set (rewards d)")
    case True
    with assms(1) kept show ?thesis unfolding backed_def by metis
  next
    case False
    have "r_network r = ''admob''"
      using r False by (cases rule: record_cases [of rw now d])
        (auto simp: recorded_db_def counted_db_def reward_row_def)
    moreover obtain g where g: "g \<in> set (grants d)" "g_nonce g = ar_customData rw" "g_id g = r_grant_id r"
      and t: "r_transaction_id r = ar_transactionId rw"
      using recorded_rewards [OF r False] by blast
    moreover from kept [OF g(1)] obtain g' where "g' \<in> set (grants ?d)" "g_id g' = g_id g" "g_nonce g' = g_nonce g"
      by blast
    ultimately show ?thesis using assms(2) by (intro conjI bexI [of _ g']) simp_all
  qed
qed

lemma evidence_more:
  "evidence env ecdsa k calls t n \<Longrightarrow> set calls \<subseteq> set calls' \<Longrightarrow> evidence env ecdsa k calls' t n"
  unfolding evidence_def by blast

text \<open>The invariant of a run, by rule induction.\<close>

lemma full_run_invariant:
  assumes "full_run env ecdsa w0 s0 calls w s" and "initial_db (wdb w0)"
  shows "system_ok (wdb w) \<and> (sv_keys s = sv_keys s0 \<or> served_keys env (sv_keys s))
    \<and> backed (evidence env ecdsa (sv_keys s0) calls) (wdb w)"
  using assms(1)
proof induction
  case start
  with assms(2) show ?case by (simp add: initial_ok) (simp add: initial_db_def backed_def)
next
  case (backend calls w s w')
  have "nonces_kept (wdb w) (wdb w')" by (rule sys_step_nonces [OF backend(2)])
  then have "backed (evidence env ecdsa (sv_keys s0) calls) (wdb w')"
    by (rule backed_kept [OF conjunct2 [OF conjunct2 [OF backend.IH]] _ backend(3)])
  with backend.IH sys_step_sound [OF backend(2)] show ?case by (simp add: sound_step_def)
next
  case (callback calls w s now url n res v)
  let ?E = "evidence env ecdsa (sv_keys s0)" and ?c = "calls @ [(now, url)]"
  have old: "backed (?E ?c) (wdb w)"
    by (rule backed_kept [OF conjunct2 [OF conjunct2 [OF callback.IH]] nonces_same [OF refl] refl])
      (auto elim: evidence_more)
  show ?case
  proof (cases rule: admobSsv_cases [of env ecdsa now url "arrive n \<lparr>sw_ssv = s, sw_db = wdb w\<rparr>"])
    case (refused e t)
    with callback(2) admobSsv_vouches [OF callback(2)] callback.IH old show ?thesis by auto
  next
    case (recorded rw t)
    with callback(2) have v: "v = \<lparr>sw_ssv = t, sw_db = snd (recordVerifiedReward now rw (wdb w))\<rparr>"
      by (simp add: arrive_def)
    have keys: "sv_keys t = sv_keys s0 \<or> served_keys env (sv_keys t)"
      using ssv_verify_served [OF recorded(1)] callback.IH by auto
    obtain content where "signed_callback ecdsa (sv_keys t) (callback_query url) content (ar_keyId rw)"
      "says content rw"
      using ssv_verify_Inr [OF recorded(1)] by blast
    with keys have "?E ?c (ar_transactionId rw) (ar_customData rw)"
      unfolding evidence_def says_def by auto
    with old have "backed (?E ?c) (sw_db v)" by (simp add: v backed_record)
    moreover have "system_ok (sw_db v)"
      using sys_step_sound [OF sys_step.ad_callback [of w now rw]] callback.IH by (simp add: sound_step_def v)
    ultimately show ?thesis using keys by (simp add: v)
  qed
qed

section \<open>The property\<close>

text \<open>
  C1. From a fresh ledger, after any interleaving of the backend with callbacks, a claim that
  grants minutes rests on at least as many different ad views as its grant requires, and each of
  them is in a callback the ad network signed, under a key that was cached at the start or served
  by the key server, and names the nonce of that very grant.
\<close>

theorem minutes_rest_on_signatures:
  assumes "full_run env ecdsa w0 s0 calls w s" and "initial_db (wdb w0)"
    and "verifyAdReward aenv fl C rnd pc now now' uid gid sid w = (Inr r, w')" and "vr_grantedMinutes r > 0"
  shows "\<exists>g T. find_row (\<lambda>x. g_id x = gid) (grants (wdb w)) = Some g \<and> finite T
    \<and> g_required_ads g \<le> int (card T)
    \<and> (\<forall>t \<in> T. evidence env ecdsa (sv_keys s0) calls t (g_nonce g))"
proof -
  from full_run_invariant [OF assms(1,2)] have ok: "system_ok (wdb w)"
    and backed: "backed (evidence env ecdsa (sv_keys s0) calls) (wdb w)" by blast+
  let ?R = "{x \<in> set (rewards (wdb w)). r_grant_id x = gid}"
  have "ledger_ok (wdb w)" using ok by (simp add: system_ok_def)
  with claim_paid [OF assms(3,4)] obtain g where
      g: "find_row (\<lambda>x. g_id x = gid) (grants (wdb w)) = Some g"
    and paid: "g_required_ads g \<le> int (card (reward_key ` ?R))" by blast
  have "reward_key ` ?R = Pair ''admob'' ` r_transaction_id ` ?R"
    unfolding image_image using backed by (intro image_cong) (simp_all add: backed_def reward_key_def)
  then have "card (reward_key ` ?R) \<le> card (r_transaction_id ` ?R)"
    by (simp add: card_image_le)
  moreover have "evidence env ecdsa (sv_keys s0) calls (r_transaction_id x) (g_nonce g)" if "x \<in> ?R" for x
  proof -
    from that backed obtain h where h: "h \<in> set (grants (wdb w))" "g_id h = gid"
      "evidence env ecdsa (sv_keys s0) calls (r_transaction_id x) (g_nonce h)"
      by (auto simp: backed_def)
    have "h = g"
      using table_ok_inj [OF keys_okD(2) [OF system_keys [OF ok]] h(1)] find_row_Some [OF g] h(2) by simp
    with h(3) show ?thesis by simp
  qed
  ultimately show ?thesis
    using g paid by (intro exI [of _ g] exI [of _ "r_transaction_id ` ?R"]) auto
qed

lemma claimable_verify_tx:
  "claimable env now uid gid sid d g s \<Longrightarrow>
     \<exists>p. verify_tx env now uid gid sid d = (Inr p, claimed_db now (new_expiry env now g s) g s d)"
  by (auto simp: claimable_def verify_tx_def claim_session_def claimed_db_def Let_def dest: find_row_Some)

lemma claim_runs:
  assumes "verifyAdReward aenv fl C rnd pc now now' uid gid sid w = (Inr r, w1)" and "vr_grantedMinutes r > 0"
  shows "sys_step\<^sup>*\<^sup>* w w1 \<and> (\<exists>g \<in> set (grants (wdb w1)). g_id g = gid \<and> g_status g = G_consumed)"
proof (cases rule: verifyAdReward_cases [of aenv fl C rnd pc now now' uid gid sid w])
  case (funded g s sync w2)
  let ?e = "new_expiry aenv now g s"
  have g: "find_row (\<lambda>x. g_id x = gid) (grants (wdb w)) = Some g" using funded(1) by (simp add: claimable_def)
  note frame = outbox_frame_fields(11) [OF mirror_expiry_frame(1) [OF funded(3)]]
  have w1: "w1 = w2" using funded(4) assms(1) by simp
  have "consume_grant now (s_id s) g \<in> set (grants (wdb w1))"
    using find_row_Some [OF g] frame w1 by (auto simp: claimed_db_def Let_def set_update_where)
  moreover have "sys_step\<^sup>*\<^sup>* w w1"
  proof (rule converse_rtranclp_into_rtranclp)
    obtain p where "verify_tx aenv now uid gid sid (wdb w) = (Inr p, claimed_db now ?e g s (wdb w))"
      using claimable_verify_tx [OF funded(1)] ..
    then show "sys_step w (w\<lparr>wdb := claimed_db now ?e g s (wdb w)\<rparr>)" by (rule sys_step.ad_claim)
    show "sys_step\<^sup>*\<^sup>* (w\<lparr>wdb := claimed_db now ?e g s (wdb w)\<rparr>) w1"
      using sys_step.ad_mirror [of "w\<lparr>wdb := claimed_db now ?e g s (wdb w)\<rparr>" pc now' "next_id (wdb w)" sid
          "s_panel_username s" ?e] funded(3) w1 by (simp add: r_into_rtranclp)
  qed
  moreover have "g_id g = gid" using find_row_Some [OF g] by simp
  ultimately show ?thesis by (auto simp: consume_grant_def intro!: bexI [of _ "consume_grant now (s_id s) g"])
qed (use assms in simp_all)

text \<open>
  C16. A grant is spent once: after a claim that granted minutes, whatever the backend does then, in
  any interleaving of requests, callbacks, workers and administrators, no further claim of the same
  grant, by whoever and for whatever session, changes the database, calls the panel or grants a
  minute.
\<close>

theorem grant_spent_once:
  assumes "verifyAdReward aenv fl C rnd pc now now' uid gid sid w = (Inr r, w1)"
    and "vr_grantedMinutes r > 0" and "system_ok (wdb w)" and "sys_step\<^sup>*\<^sup>* w1 w2"
  shows "snd (verifyAdReward aenv2 fl2 C2 rnd2 pc2 now2 now2' uid2 gid sid2 w2) = w2 \<and>
    (\<forall>r2. fst (verifyAdReward aenv2 fl2 C2 rnd2 pc2 now2 now2' uid2 gid sid2 w2) = Inr r2 \<longrightarrow>
       vr_grantedMinutes r2 = 0)"
proof -
  from claim_runs [OF assms(1,2)] obtain g where steps: "sys_step\<^sup>*\<^sup>* w w1"
    and g: "g \<in> set (grants (wdb w1))" "g_id g = gid" "g_status g = G_consumed" by blast
  from sys_steps_spent [OF steps assms(3)] have "system_ok (wdb w1)" ..
  from sys_steps_spent [OF assms(4) this] g have "g \<in> set (grants (wdb w2))" "keys_ok (wdb w2)"
    by (auto simp: spent_kept_def system_keys)
  with table_ok_find [OF keys_okD(2)] g(2) have "find_row (\<lambda>x. g_id x = gid) (grants (wdb w2)) = Some g"
    by fastforce
  from consumed_no_effect [OF this g(3)] show ?thesis .
qed

section \<open>Witness\<close>

text \<open>A device connects, two signed callbacks name its grant, and the claim funds the session.\<close>

definition view_url :: "string \<Rightarrow> string" where
  "view_url txn = ''/ssv?custom_data='' @ randomUrlToken (cr_nonce connect_sample_random) @
     ''&transaction_id='' @ txn @ ''&timestamp=9&signature=AA&key_id=1''"

definition view1 :: "nat ssv_world" where
  "view1 = snd (admobSsv (key_env 200) sample_ecdsa 2000 (view_url ''a'')
     \<lparr>sw_ssv = no_keys, sw_db = wdb connected_world\<rparr>)"

definition view2 :: "nat ssv_world" where
  "view2 = snd (admobSsv (key_env 200) sample_ecdsa 2001 (view_url ''b'') view1)"

definition viewed_world :: "sample_panel_state world" where
  "viewed_world = connected_world\<lparr>wdb := sw_db view2\<rparr>"

abbreviation viewed_grant where
  "viewed_grant \<equiv> hd (grants (wdb connected_world))"

abbreviation viewed_claim where
  "viewed_claim \<equiv> verifyAdReward ads_defaults [] sample_crypto sample_random sample_panel 3000 3001 1
     (g_id viewed_grant) (the (g_session_id viewed_grant)) viewed_world"

lemma viewed_claim_run: "map_sum id vr_grantedMinutes (fst viewed_claim) = Inr 60"
  by code_simp

lemma ssv_world_eta: "\<lparr>sw_ssv = sw_ssv v, sw_db = sw_db v\<rparr> = (v :: 'n ssv_world)"
  by (cases v) simp

lemma arrive_here [simp]:
  "arrive (sv_net s) \<lparr>sw_ssv = s, sw_db = d\<rparr> = \<lparr>sw_ssv = s, sw_db = d\<rparr>"
  "arrive (sv_net (sw_ssv v)) v = v"
  by (simp_all add: arrive_def)

lemma viewed_run:
  "full_run (key_env 200) sample_ecdsa start_world no_keys [(2000, view_url ''a''), (2001, view_url ''b'')]
     viewed_world (sw_ssv view2)"
proof -
  let ?run = "full_run (key_env 200) sample_ecdsa start_world no_keys"
  have "?run [] connected_world no_keys"
  proof (rule full_run.backend [OF full_run.start])
    show "sys_step start_world connected_world" by (rule connected_step)
    show "rewards (wdb connected_world) = rewards (wdb start_world)" by code_simp
  qed
  from full_run.callback [OF this, of 2000 "view_url ''a''" "sv_net no_keys"]
  have "?run [(2000, view_url ''a'')] (connected_world\<lparr>wdb := sw_db view1\<rparr>) (sw_ssv view1)"
    by (simp add: view1_def prod_eq_iff)
  from full_run.callback [OF this, of 2001 "view_url ''b''" "sv_net (sw_ssv view1)"] show ?thesis
    by (simp add: view2_def viewed_world_def prod_eq_iff ssv_world_eta)
qed

theorem minutes_rest_on_signatures_witness:
  "\<exists>T. finite T \<and> 2 \<le> card T \<and> (\<forall>t \<in> T. evidence (key_env 200) sample_ecdsa []
     [(2000, view_url ''a''), (2001, view_url ''b'')] t (g_nonce viewed_grant))"
proof -
  obtain r where r: "viewed_claim = (Inr r, snd viewed_claim)" "vr_grantedMinutes r > 0"
    using viewed_claim_run by (cases "fst viewed_claim") (auto simp: prod_eq_iff)
  have g: "map_option (\<lambda>g. (g_required_ads g, g_nonce g))
      (find_row (\<lambda>x. g_id x = g_id viewed_grant) (grants (wdb viewed_world))) = Some (2, g_nonce viewed_grant)"
    by code_simp
  from minutes_rest_on_signatures [OF viewed_run start_initial r] g show ?thesis
    by (auto simp: no_keys_def)
qed

text \<open>The same claim, then the reaper and a worker, then the claim again.\<close>

definition later_world :: "sample_panel_state world" where
  "later_world = (let w = snd viewed_claim; w2 = w\<lparr>wdb := snd (sweepOnce 10 (\<lambda>_. False) 9000000 (wdb w))\<rparr>
     in w2\<lparr>wdb := snd (claim outbox_defaults (\<lambda>_. False) 9000001 (wdb w2))\<rparr>)"

theorem grant_spent_once_witness:
  "snd (verifyAdReward ads_defaults [] sample_crypto sample_random sample_panel 9000002 9000003 1
     (g_id viewed_grant) (the (g_session_id viewed_grant)) later_world) = later_world \<and>
   length (ops (wdb later_world)) > length (ops (wdb viewed_world))"
proof -
  obtain r where r: "viewed_claim = (Inr r, snd viewed_claim)" "vr_grantedMinutes r > 0"
    using viewed_claim_run by (cases "fst viewed_claim") (auto simp: prod_eq_iff)
  have ok: "system_ok (wdb viewed_world)" using full_run_invariant [OF viewed_run start_initial] by simp
  have steps: "sys_step\<^sup>*\<^sup>* (snd viewed_claim) later_world"
    unfolding later_world_def Let_def
    by (rule rtranclp.rtrancl_into_rtrancl [OF rtranclp.rtrancl_into_rtrancl [OF rtranclp.rtrancl_refl]])
      (rule sys_step.reap, rule sys_step.outbox_claim)
  have "length (ops (wdb later_world)) > length (ops (wdb viewed_world))" by code_simp
  with grant_spent_once [OF r(1) r(2) ok steps] show ?thesis by blast
qed

end
