(* ===== verification/DynamicPanel.thy ===== *)
theory DynamicPanel
  imports Remnawave
begin

text \<open>
  The panel client the backend really injects: backend/src/panel/DynamicPanelClient.ts,
  chosen by core/core.module.ts, and the settings it reads
  (backend/src/core/settings.service.ts, table \<^verbatim>\<open>system_settings\<close>). It builds a Rebecca or
  a Remnawave client from the stored configuration and keeps it until the configuration
  changes.
\<close>

section \<open>Settings\<close>

record system_setting =
  ss_key :: string
  ss_value :: json
  ss_updated_at :: ms

definition getSetting :: "string \<Rightarrow> system_setting list \<Rightarrow> json option" where
  "getSetting key t = map_option ss_value (find_row (\<lambda>r. ss_key r = key) t)"

definition setSetting :: "ms \<Rightarrow> string \<Rightarrow> json \<Rightarrow> system_setting list \<Rightarrow> system_setting list" where
  "setSetting now key v t =
     (if exists_row (\<lambda>r. ss_key r = key) t
      then update_where (\<lambda>r. ss_key r = key) (\<lambda>r. r\<lparr>ss_value := v, ss_updated_at := now\<rparr>) t
      else t @ [\<lparr>ss_key = key, ss_value = v, ss_updated_at = now\<rparr>])"

definition env_text :: "string option \<Rightarrow> json" where
  "env_text v = JStr (case v of None \<Rightarrow> [] | Some s \<Rightarrow> s)"

definition env_panel_config :: "panel_environ \<Rightarrow> json" where
  "env_panel_config e = JObj
     [(''provider'', JStr (case PANEL_PROVIDER e of None \<Rightarrow> ''rebecca'' | Some p \<Rightarrow> p)),
      (''rebecca'', JObj [(''baseUrl'', env_text (PANEL_BASE_URL e)),
         (''username'', env_text (PANEL_ADMIN_USER e)), (''password'', env_text (PANEL_ADMIN_PASS e))]),
      (''remnawave'', JObj [(''baseUrl'', env_text (REMNAWAVE_BASE_URL e)),
         (''token'', env_text (REMNAWAVE_TOKEN e)), (''caddyToken'', env_text (REMNAWAVE_CADDY_TOKEN e)),
         (''squadUuids'', if env_set (REMNAWAVE_SQUAD_UUIDS e)
            then JArr (map JStr (split_at (\<lambda>c. c = CHR '','') (the (REMNAWAVE_SQUAD_UUIDS e))))
            else JArr [])])]"

definition getPanelConfig :: "panel_environ \<Rightarrow> system_setting list \<Rightarrow> json" where
  "getPanelConfig e t =
     (let config = getSetting ''panel_config'' t
      in if truthy config then the config else env_panel_config e)"

definition setPanelConfig :: "ms \<Rightarrow> json \<Rightarrow> system_setting list \<Rightarrow> system_setting list" where
  "setPanelConfig now config t = setSetting now ''panel_config'' config t"

section \<open>The client in use\<close>

text \<open>A Rebecca client carries its token and the instant to renew it.\<close>

datatype panel_impl =
    UseRebecca rebecca_config "json option" ms
  | UseRemnawave remnawave_config

record 'n dynamic_state =
  dy_settings :: "system_setting list"
  dy_cachedClient :: "panel_impl option"
  dy_lastConfigJson :: string
  dy_net :: 'n

definition new_client :: "panel_environ \<Rightarrow> json \<Rightarrow> exn + panel_impl" where
  "new_client e config =
     (if jget ''provider'' config = Some (JStr ''remnawave'')
      then map_sum id UseRemnawave (remnawave_new (jget ''remnawave'' config) e)
      else map_sum id (\<lambda>c. UseRebecca c None 0) (rebecca_new (jget ''rebecca'' config) e))"

definition getClient :: "panel_environ \<Rightarrow> ('n dynamic_state, panel_impl) prog" where
  "getClient e s =
     (let config = getPanelConfig e (dy_settings s); configStr = stringify config in
      case dy_cachedClient s of
        Some c \<Rightarrow>
          if dy_lastConfigJson s = configStr then (Inr c, s)
          else (case new_client e config of
                  Inl x \<Rightarrow> (Inl x, s)
                | Inr c' \<Rightarrow> (Inr c', s\<lparr>dy_cachedClient := Some c', dy_lastConfigJson := configStr\<rparr>))
      | None \<Rightarrow>
          (case new_client e config of
             Inl x \<Rightarrow> (Inl x, s)
           | Inr c' \<Rightarrow> (Inr c', s\<lparr>dy_cachedClient := Some c', dy_lastConfigJson := configStr\<rparr>)))"

text \<open>A call on the client in use; a Rebecca client may renew its token on the way.\<close>

definition delegate ::
  "panel_environ \<Rightarrow> (rebecca_config \<Rightarrow> ('n rebecca_state, 'a) prog) \<Rightarrow> (remnawave_config \<Rightarrow> ('n, 'a) prog)
    \<Rightarrow> ('n dynamic_state, 'a) prog" where
  "delegate e onRebecca onRemnawave =
     and_then (getClient e) (\<lambda>c s.
       case c of
         UseRebecca cfg tok expires \<Rightarrow>
           (case onRebecca cfg \<lparr>rb_token = tok, rb_tokenExpiresAt = expires, rb_net = dy_net s\<rparr> of
              (r, t) \<Rightarrow> (r, s\<lparr>dy_cachedClient := Some (UseRebecca cfg (rb_token t) (rb_tokenExpiresAt t)),
                             dy_net := rb_net t\<rparr>))
       | UseRemnawave cfg \<Rightarrow>
           (case onRemnawave cfg (dy_net s) of (r, n) \<Rightarrow> (r, s\<lparr>dy_net := n\<rparr>)))"

definition dy_createUser ::
  "('n, 'z) http_env_scheme \<Rightarrow> panel_environ \<Rightarrow> create_user_params \<Rightarrow> ('n dynamic_state, panel_user) prog" where
  "dy_createUser env e ps = delegate e (\<lambda>c. rb_createUser env c ps) (\<lambda>c. rw_createUser env c ps)"

definition dy_deleteUser ::
  "('n, 'z) http_env_scheme \<Rightarrow> panel_environ \<Rightarrow> string \<Rightarrow> ('n dynamic_state, unit) prog" where
  "dy_deleteUser env e un = delegate e (\<lambda>c. rb_deleteUser env c un) (\<lambda>c. rw_deleteUser env c un)"

text \<open>
  The other three methods of the class call methods that neither client has: the call
  itself throws, after the client is built.
\<close>

definition not_a_function :: "string \<Rightarrow> exn" where
  "not_a_function f = JsError (f @ '' is not a function'')"

definition dy_extendUser :: "panel_environ \<Rightarrow> string \<Rightarrow> create_user_params \<Rightarrow> ('n dynamic_state, unit) prog" where
  "dy_extendUser e un ps =
     and_then (getClient e) (\<lambda>_. throw (not_a_function ''(intermediate value).extendUser''))"

definition dy_revokeUser :: "panel_environ \<Rightarrow> string \<Rightarrow> ('n dynamic_state, unit) prog" where
  "dy_revokeUser e un =
     and_then (getClient e) (\<lambda>_. throw (not_a_function ''(intermediate value).revokeUser''))"

definition dy_getUserDataUsage :: "panel_environ \<Rightarrow> string \<Rightarrow> ('n dynamic_state, int option) prog" where
  "dy_getUserDataUsage e un =
     and_then (getClient e) (\<lambda>_. throw (not_a_function ''(intermediate value).getUserDataUsage''))"

text \<open>
  As the services see it, through the interface IPanelClient: the class has
  \<^verbatim>\<open>createUser\<close> and \<^verbatim>\<open>deleteUser\<close>; the five other methods of the interface are missing,
  and calling a missing method is a TypeError.
\<close>

definition dynamic_client ::
  "('n, 'z) http_env_scheme \<Rightarrow> panel_environ \<Rightarrow> 'n dynamic_state panel_client" where
  "dynamic_client env e =
     \<lparr>createUser = dy_createUser env e,
      setUserExpiry = (\<lambda>_ _. throw (not_a_function ''this.panel.setUserExpiry'')),
      getUser = (\<lambda>_. throw (not_a_function ''this.panel.getUser'')),
      disableUser = (\<lambda>_. throw (not_a_function ''this.panel.disableUser'')),
      deleteUser = dy_deleteUser env e,
      getUserUsage = (\<lambda>_. throw (not_a_function ''this.panel.getUserUsage'')),
      listNodes = throw (not_a_function ''this.panel.listNodes'')\<rparr>"

section \<open>The contract\<close>

lemma delegate_Inr:
  assumes "delegate e f g s = (Inr a, s')"
  obtains c t t' where "f c t = (Inr a, t')" | c n n' where "g c n = (Inr a, n')"
proof -
  obtain c s1 where k: "(case c of
      UseRebecca cfg tok expires \<Rightarrow>
        (case f cfg \<lparr>rb_token = tok, rb_tokenExpiresAt = expires, rb_net = dy_net s1\<rparr> of
           (r, t) \<Rightarrow> (r, s1\<lparr>dy_cachedClient := Some (UseRebecca cfg (rb_token t) (rb_tokenExpiresAt t)),
                           dy_net := rb_net t\<rparr>))
    | UseRemnawave cfg \<Rightarrow> (case g cfg (dy_net s1) of (r, n) \<Rightarrow> (r, s1\<lparr>dy_net := n\<rparr>))) = (Inr a, s')"
    using assms by (auto simp: delegate_def and_then_Inr)
  then show ?thesis
    using that by (cases c) (auto split: prod.splits)
qed

lemma dy_createUser_accepted:
  "dy_createUser env e ps s = (Inr u, s') \<Longrightarrow> expiry_accepted u (cu_expireAt ps)"
  unfolding dy_createUser_def
  by (erule delegate_Inr) (auto dest: rb.create_accepted rw.create_accepted)

interpretation dy: panel_contract "dy_createUser env e" "setUserExpiry (dynamic_client env e)" "\<lambda>_ _. False"
  for env e
  by unfold_locales (auto dest: dy_createUser_accepted simp: dynamic_client_def)

end
