(* ===== verification/Panels_Correct.thy ===== *)
theory Panels_Correct
  imports DynamicPanel Connection_Correct Ads_Correct Workers
begin

text \<open>
  What the panel clients guarantee: the expiry a panel answers with is the one that was sent,
  up to two seconds, or no date at all, a user is never created without an access scope, a request is retried at most
  once and with a fresh token, an elapsed extension writes nothing, the client in use is
  the one the settings name, and what follows from the methods the injected class lacks.
\<close>

section \<open>Reading an expiry back\<close>

lemma rb_expire_num: "n \<noteq> 0 \<Longrightarrow> rb_expire (Some (JNum n)) = Some (newDate (n * 1000))"
  by (simp add: rb_expire_def)

lemma rb_toPanelUser_expire:
  "rb_toPanelUser (Some dto) = Inr u \<Longrightarrow> pu_expireAt u = rb_expire (jget ''expire'' dto)"
  by (auto simp: rb_toPanelUser_def read_of_def split: if_splits)

lemma epoch_seconds_back: "toEpochSeconds e * 1000 = e - e mod 1000"
  by (simp add: toEpochSeconds_def minus_mod_eq_div_mult)

lemma accepted_instant:
  "pu_expireAt u = Some (newDate t) \<Longrightarrow> \<bar>t\<bar> \<le> 8640000000000000 \<Longrightarrow>
     expiry_accepted u e \<longleftrightarrow> \<bar>t - e\<bar> \<le> 2000"
  by (auto simp: expiry_accepted_def newDate_def)

lemma not_accepted_fails:
  "\<not> expiry_accepted u e \<Longrightarrow> \<exists>msg. assertExpiryRoundTrip u e op = Inl (PanelError msg None False)"
  using assertExpiryRoundTrip_ok [of u e op "()"]
  by (auto simp: assertExpiryRoundTrip_def split: if_splits)

lemma seconds_accepted:
  assumes "3000 \<le> e" and "e \<le> 8640000000000" and "rb_toPanelUser (Some dto) = Inr u"
    and "jget ''expire'' dto = Some (JNum (toEpochSeconds e))"
  shows "pu_expireAt u = Some (Instant (e - e mod 1000)) \<and> assertExpiryRoundTrip u e op = Inr ()"
proof -
  have "toEpochSeconds e \<noteq> 0" using assms(1) by (simp add: toEpochSeconds_def)
  then have x: "pu_expireAt u = Some (newDate (e - e mod 1000))"
    using rb_toPanelUser_expire [OF assms(3)] assms(4) by (simp add: rb_expire_num epoch_seconds_back)
  have small: "\<bar>e - e mod 1000\<bar> \<le> 8640000000000000" "\<bar>e - e mod 1000 - e\<bar> \<le> 2000"
    using assms(1,2) pos_mod_bound [of 1000 e] pos_mod_sign [of 1000 e] by auto
  with accepted_instant [OF x small(1), of e] x show ?thesis
    by (simp add: newDate_def assertExpiryRoundTrip_ok)
qed

lemma milliseconds_refused:
  assumes "3000 \<le> e" and "e \<le> 8640000000000" and "rb_toPanelUser (Some dto) = Inr u"
    and "jget ''expire'' dto = Some (JNum e)"
  shows "\<exists>msg. assertExpiryRoundTrip u e op = Inl (PanelError msg None False)"
proof -
  have x: "pu_expireAt u = Some (newDate (e * 1000))"
    using rb_toPanelUser_expire [OF assms(3)] assms(1,4) by (simp add: rb_expire_num)
  show ?thesis
    using accepted_instant [OF x, of e] assms(1,2) by (intro not_accepted_fails) simp
qed

text \<open>
  C35. Rebecca stores expiries in seconds. When the panel answers with the number of
  seconds it was sent, the user read back expires at the instant that was asked for, cut to
  the second, and the round-trip check lets it pass; when it answers with milliseconds (the
  mix-up the check is there for), the check fails with a final error. Both hold for every
  instant from three seconds after the epoch to the year 2243.
\<close>

theorem rb_seconds_roundtrip:
  assumes "3000 \<le> e" and "e \<le> 8640000000000" and "rb_toPanelUser (Some dto) = Inr u"
  shows "(jget ''expire'' dto = Some (JNum (toEpochSeconds e)) \<longrightarrow>
      pu_expireAt u = Some (Instant (e - e mod 1000)) \<and> assertExpiryRoundTrip u e op = Inr ()) \<and>
    (jget ''expire'' dto = Some (JNum e) \<longrightarrow>
      (\<exists>msg. assertExpiryRoundTrip u e op = Inl (PanelError msg None False)))"
  using assms by (auto intro: milliseconds_refused dest: seconds_accepted)

definition sample_dto :: "int \<Rightarrow> json" where
  "sample_dto n = JObj [(''username'', JStr ''s_a''), (''status'', JStr ''active''),
     (''expire'', JNum n), (''data_limit'', JNum 0), (''used_traffic'', JNum 0)]"

lemma sample_dto_user: "\<exists>u. rb_toPanelUser (Some (sample_dto n)) = Inr u"
  by (simp add: rb_toPanelUser_def read_of_def sample_dto_def)

lemma sample_dto_expire: "jget ''expire'' (sample_dto n) = Some (JNum n)"
  by (simp add: sample_dto_def)

theorem rb_seconds_roundtrip_witness:
  "(\<exists>u. rb_toPanelUser (Some (sample_dto 1700000000)) = Inr u \<and>
      pu_expireAt u = Some (Instant 1700000000000) \<and>
      assertExpiryRoundTrip u 1700000000500 [] = Inr ()) \<and>
   (\<exists>u msg. rb_toPanelUser (Some (sample_dto 1700000000500)) = Inr u \<and>
      assertExpiryRoundTrip u 1700000000500 [] = Inl (PanelError msg None False))"
proof -
  obtain u v where u: "rb_toPanelUser (Some (sample_dto 1700000000)) = Inr u"
    and v: "rb_toPanelUser (Some (sample_dto 1700000000500)) = Inr v"
    using sample_dto_user by blast
  show ?thesis
    using rb_seconds_roundtrip [OF _ _ u, of 1700000000500 "[]"]
      rb_seconds_roundtrip [OF _ _ v, of 1700000000500 "[]"] u v
    by (auto simp: sample_dto_expire toEpochSeconds_def)
qed

text \<open>
  Remnawave stores expiries as ISO texts. A user read back with the text that was sent
  expires at exactly the instant that was asked for, whatever the implementation makes of
  texts of other formats, for every instant a \<^verbatim>\<open>Date\<close> can hold.
\<close>

theorem rw_iso_roundtrip:
  assumes "\<bar>e\<bar> \<le> 8640000000000000"
    and "jget ''expireAt'' dto = Some (JStr (toISOString e))"
  shows "pu_expireAt (rw_toPanelUser env dto) = Some (Instant e) \<and>
    assertExpiryRoundTrip (rw_toPanelUser env dto) e op = Inr ()"
proof -
  have "toISOString e \<noteq> []" by (simp add: toISOString_def Let_def split: prod.split)
  then have "pu_expireAt (rw_toPanelUser env dto) = Some (Instant e)"
    using assms by (simp add: rw_toPanelUser_def rw_expire_def parseDate_toISOString)
  then show ?thesis by (simp add: assertExpiryRoundTrip_ok expiry_accepted_def)
qed

definition sample_http :: "(http_request \<Rightarrow> 'n \<Rightarrow> ((exn + http_response) \<times> int) \<times> 'n) \<Rightarrow> ms \<Rightarrow> 'n http_env" where
  "sample_http f t = \<lparr>fetch = f, clock = (\<lambda>_. t), date_text = (\<lambda>_. None)\<rparr>"

theorem rw_iso_roundtrip_witness:
  "pu_expireAt (rw_toPanelUser (sample_http (\<lambda>_ (n::nat). ((Inl (JsError []), 0), n)) 0)
     (JObj [(''expireAt'', JStr (toISOString 1709210096789))])) = Some (Instant 1709210096789)"
  by (rule rw_iso_roundtrip [THEN conjunct1]) simp_all

section \<open>A user is never created unlimited or unscoped\<close>

lemma accepted_expiry:
  "expiry_accepted u e \<Longrightarrow> pu_expireAt u = Some InvalidDate \<or>
     (\<exists>got. pu_expireAt u = Some (Instant got) \<and> \<bar>got - e\<bar> \<le> 2000)"
  by (auto simp: expiry_accepted_def split: option.splits elim: getTime.elims)

context panel_contract
begin

lemma created_expiry:
  "create ps p = (Inr u, p') \<Longrightarrow> pu_expireAt u = Some InvalidDate \<or>
     (\<exists>got. pu_expireAt u = Some (Instant got) \<and> \<bar>got - cu_expireAt ps\<bar> \<le> 2000)"
  by (rule accepted_expiry) (erule create_accepted)

end

text \<open>
  A user that \<^verbatim>\<open>createUser\<close> of either client, or of the client the backend injects,
  hands back is not unlimited: its expiry is set, and where the panel's answer was a date at
  all it is within two seconds of the expiry that was asked for.
\<close>

theorem created_user_expires:
  assumes "rb_createUser env cfg ps s = (Inr u, s') \<or> rw_createUser env cfg' ps n = (Inr u, n') \<or>
    dy_createUser env e ps d = (Inr u, d')"
  shows "pu_expireAt u = Some InvalidDate \<or>
    (\<exists>got. pu_expireAt u = Some (Instant got) \<and> \<bar>got - cu_expireAt ps\<bar> \<le> 2000)"
  using assms
  by (elim disjE) (erule rb.created_expiry rw.created_expiry dy.created_expiry)+

definition ok_json :: "json \<Rightarrow> http_response" where
  "ok_json j = \<lparr>hs_status = 200, hs_text = Inr [], hs_json = Inr j\<rparr>"

definition status_only :: "nat \<Rightarrow> http_response" where
  "status_only st = \<lparr>hs_status = st, hs_text = Inr ''no'', hs_json = Inl (JsError ''no JSON'')\<rparr>"

text \<open>A panel that hands out a token and echoes one user.\<close>

definition echo_env :: "int \<Rightarrow> nat http_env" where
  "echo_env expire = sample_http (\<lambda>rq n.
     ((Inr (ok_json (if hq_headers rq = [(''content-type'', ''application/x-www-form-urlencoded'')]
                     then JObj [(''access_token'', JStr ''t'')] else sample_dto expire)), 5), n + 1)) 1000"

definition sample_rebecca :: rebecca_config where
  "sample_rebecca = \<lparr>rc_baseUrl = ''http://p'', rc_username = ''a'', rc_password = ''b'', rc_timeout = 8000\<rparr>"

definition sample_create :: "create_user_params" where
  "sample_create = \<lparr>cu_username = ''s_a'', cu_expireAt = 60500, cu_dataLimitBytes = None,
     cu_proxies = [(''vless'', \<lparr>pc_id = Some ''u'', pc_password = None, pc_flow = None\<rparr>)],
     cu_inboundsByProtocol = [(''vless'', [''in''])]\<rparr>"

theorem created_user_expires_witness:
  "\<exists>u s'. rb_createUser (echo_env 60) sample_rebecca sample_create
     \<lparr>rb_token = None, rb_tokenExpiresAt = 0, rb_net = 0\<rparr> = (Inr u, s') \<and>
     (pu_expireAt u = Some InvalidDate \<or>
       (\<exists>got. pu_expireAt u = Some (Instant got) \<and> \<bar>got - 60500\<bar> \<le> 2000))"
proof -
  let ?r = "rb_createUser (echo_env 60) sample_rebecca sample_create
     \<lparr>rb_token = None, rb_tokenExpiresAt = 0, rb_net = 0\<rparr>"
  have "\<not> isl (fst ?r)" by code_simp
  then obtain u s' where "?r = (Inr u, s')" by (metis prod.collapse sum.collapse(2))
  moreover from this have "pu_expireAt u = Some InvalidDate \<or>
      (\<exists>got. pu_expireAt u = Some (Instant got) \<and> \<bar>got - cu_expireAt sample_create\<bar> \<le> 2000)"
    by (intro created_user_expires disjI1)
  ultimately show ?thesis by (auto simp: sample_create_def)
qed








lemma truthy_Some: "truthy v \<Longrightarrow> \<exists>dto. v = Some dto"
  by (cases v) simp_all




lemma no_tags_no_inbounds:
  "\<forall>(_, tags) \<in> set (cu_inboundsByProtocol ps). tags = [] \<Longrightarrow> no_inbounds ps"
  by (fastforce simp: no_inbounds_def list_all_iff dest: map_of_SomeD split: option.split)

text \<open>
  Without an access scope nothing is sent: a Rebecca user whose allow-list has no
  inbound in any protocol, and a Remnawave user when no squad is configured, are refused
  with a final error before any request, so neither the panel nor the client changes.
\<close>

theorem unscoped_user_refused:
  "((\<forall>(_, tags) \<in> set (cu_inboundsByProtocol ps). tags = []) \<longrightarrow>
      (\<exists>msg. rb_createUser env cfg ps s = (Inl (PanelError msg None False), s))) \<and>
   (rw_squadUuids cfg' = [] \<longrightarrow>
      (\<exists>msg. rw_createUser env cfg' ps n = (Inl (PanelError msg None False), n)))"
  by (simp add: rb_createUser_def rw_createUser_def throw_def no_tags_no_inbounds)

theorem unscoped_user_refused_witness:
  "\<exists>msg. rb_createUser (echo_env 60) sample_rebecca
     (sample_create\<lparr>cu_inboundsByProtocol := [(''vless'', []), (''trojan'', [])]\<rparr>)
     \<lparr>rb_token = None, rb_tokenExpiresAt = 0, rb_net = 0\<rparr> =
     (Inl (PanelError msg None False), \<lparr>rb_token = None, rb_tokenExpiresAt = 0, rb_net = 0\<rparr>)"
  using unscoped_user_refused
    [of "sample_create\<lparr>cu_inboundsByProtocol := [(''vless'', []), (''trojan'', [])]\<rparr>"
      "echo_env 60" sample_rebecca "\<lparr>rb_token = None, rb_tokenExpiresAt = 0, rb_net = 0\<rparr>"]
  by simp

section \<open>Requests on the wire\<close>

text \<open>The same network, with the requests it was sent.\<close>

definition logging :: "'n http_env \<Rightarrow> ('n \<times> http_request list) http_env" where
  "logging env =
     \<lparr>fetch = (\<lambda>rq (n, l). case fetch env rq n of (r, n') \<Rightarrow> (r, (n', l @ [rq]))),
      clock = (\<lambda>(n, _). clock env n), date_text = date_text env\<rparr>"

abbreviation sent :: "('n \<times> http_request list) rebecca_state \<Rightarrow> http_request list" where
  "sent s \<equiv> snd (rb_net s)"

lemma fetch_logged:
  "fetchWithTimeout (logging env) rq t n = (r, n') \<Longrightarrow> snd n' = snd n @ [rq]"
  by (auto simp: fetchWithTimeout_def logging_def split: prod.splits if_splits)

lemma rb_fetch_logged: "rb_fetch (logging env) cfg rq s = (r, s') \<Longrightarrow> sent s' = sent s @ [rq]"
  by (auto simp: rb_fetch_def split: prod.splits dest: fetch_logged)

lemma authenticate_logged:
  assumes "authenticate (logging env) cfg s = (r, s')"
  shows "sent s' = sent s @ [auth_request cfg]"
  using assms
  by (auto simp: authenticate_def and_then_def throw_def lift_result_def set_token_def Let_def
      split: prod.splits sum.splits if_splits dest: rb_fetch_logged)

lemma getToken_logged:
  assumes "getToken (logging env) cfg s = (r, s')"
  shows "\<exists>pre \<in> {[], [auth_request cfg]}. sent s' = sent s @ pre \<and> (rb_token s = None \<longrightarrow> pre \<noteq> [])"
proof (cases "truthy (rb_token s) \<and> clock (logging env) (rb_net s) < rb_tokenExpiresAt s - 60000")
  case True
  then have "rb_token s \<noteq> None" by (cases "rb_token s") auto
  with True assms show ?thesis by (auto simp: getToken_def)
next
  case False
  with assms show ?thesis by (auto simp: getToken_def dest: authenticate_logged)
qed

text \<open>An attempt: a possible authentication, then the request itself unless that failed.\<close>

definition attempt :: "rebecca_config \<Rightarrow> string \<Rightarrow> string \<Rightarrow> json option \<Rightarrow> http_request list \<Rightarrow> bool" where
  "attempt cfg m path body l \<longleftrightarrow>
     (\<exists>pre \<in> {[], [auth_request cfg]}. l = pre \<or> (\<exists>tok. l = pre @ [api_request cfg m path body tok]))"

definition fresh_attempt :: "rebecca_config \<Rightarrow> string \<Rightarrow> string \<Rightarrow> json option \<Rightarrow> http_request list \<Rightarrow> bool" where
  "fresh_attempt cfg m path body l \<longleftrightarrow>
     l = [auth_request cfg] \<or> (\<exists>tok. l = [auth_request cfg, api_request cfg m path body tok])"

lemma rb_send_logged:
  assumes "rb_send (logging env) cfg m path body s = (r, s')"
  shows "\<exists>l. sent s' = sent s @ l \<and> attempt cfg m path body l \<and>
    (rb_token s = None \<longrightarrow> fresh_attempt cfg m path body l)"
proof -
  obtain t s1 where g: "getToken (logging env) cfg s = (t, s1)" by fastforce
  obtain pre where pre: "pre \<in> {[], [auth_request cfg]}" "sent s1 = sent s @ pre"
    "rb_token s = None \<longrightarrow> pre \<noteq> []"
    using getToken_logged [OF g] by (elim bexE conjE) (rule that)
  show ?thesis
  proof (cases t)
    case (Inl e)
    with assms g have "s' = s1" by (simp add: rb_send_def and_then_def)
    moreover have "attempt cfg m path body pre"
      unfolding attempt_def using pre(1) by (intro bexI [of _ pre] disjI1 refl)
    moreover have "rb_token s = None \<longrightarrow> fresh_attempt cfg m path body pre"
      using pre(1,3) by (auto simp: fresh_attempt_def)
    ultimately show ?thesis using pre(2) by (intro exI [of _ pre]) simp
  next
    case (Inr tok)
    with assms g have "rb_fetch (logging env) cfg (api_request cfg m path body tok) s1 = (r, s')"
      by (simp add: rb_send_def and_then_def)
    from rb_fetch_logged [OF this] pre(2)
    have "sent s' = sent s @ (pre @ [api_request cfg m path body tok])" by simp
    moreover have "attempt cfg m path body (pre @ [api_request cfg m path body tok])"
      unfolding attempt_def using pre(1) by (intro bexI [of _ pre] disjI2 exI [of _ tok] refl)
    moreover have "rb_token s = None \<longrightarrow>
        fresh_attempt cfg m path body (pre @ [api_request cfg m path body tok])"
      using pre(1,3) by (auto simp: fresh_attempt_def)
    ultimately show ?thesis
      by (intro exI [of _ "pre @ [api_request cfg m path body tok]"]) simp
  qed
qed

text \<open>
  A request to Rebecca is sent at most twice, and the second time only after a 401 and
  with a token from an authentication made since: what goes over the wire is one attempt (a
  possible authentication, then the request), and when its answer was 401 an authentication
  and at most one more copy of the request.
\<close>

theorem reauthenticates_once:
  assumes "rb_request (logging env) cfg m path body s = (r, s')"
  shows "\<exists>l. sent s' = sent s @ l \<and>
    (if \<exists>res s1. rb_send (logging env) cfg m path body s = (Inr res, s1) \<and> hs_status res = 401
     then \<exists>l1 l2. l = l1 @ l2 \<and> attempt cfg m path body l1 \<and> fresh_attempt cfg m path body l2
     else attempt cfg m path body l)"
proof -
  obtain t s1 where g: "rb_send (logging env) cfg m path body s = (t, s1)" by fastforce
  obtain l1 where l1: "sent s1 = sent s @ l1" "attempt cfg m path body l1"
    using rb_send_logged [OF g] by auto
  show ?thesis
  proof (cases "\<exists>res. t = Inr res \<and> hs_status res = 401")
    case False
    with assms g have "s' = s1"
      by (auto simp: rb_request_def and_then_def lift_result_def split: sum.splits)
    with l1 False g show ?thesis by auto
  next
    case True
    let ?s2 = "s1\<lparr>rb_token := None, rb_tokenExpiresAt := 0\<rparr>"
    obtain t2 s3 where h: "rb_send (logging env) cfg m path body ?s2 = (t2, s3)" by fastforce
    with True assms g have "s' = s3"
      by (auto simp: rb_request_def and_then_def lift_result_def forget_token_def split: sum.splits)
    with l1 True g rb_send_logged [OF h] show ?thesis by auto
  qed
qed

text \<open>A panel that answers 401 to everything but the authentication.\<close>

definition locked_env :: "nat http_env" where
  "locked_env = sample_http (\<lambda>rq n.
     ((Inr (if hq_url rq = ''http://p/api/admin/token'' then ok_json (JObj [(''access_token'', JStr ''t'')])
            else status_only 401), 5), n + 1)) 1000"

definition sample_rb_state :: "json option \<Rightarrow> (nat \<times> http_request list) rebecca_state" where
  "sample_rb_state tok = \<lparr>rb_token = tok, rb_tokenExpiresAt = 100000, rb_net = (0, [])\<rparr>"

theorem reauthenticates_once_witness:
  "\<exists>r s' l. rb_request (logging locked_env) sample_rebecca ''GET'' ''/api/nodes'' None
       (sample_rb_state (Some (JStr ''old''))) = (r, s') \<and> length (sent s') = 3 \<and>
     sent s' = sent (sample_rb_state (Some (JStr ''old''))) @ l \<and>
     (\<exists>l1 l2. l = l1 @ l2 \<and> attempt sample_rebecca ''GET'' ''/api/nodes'' None l1 \<and>
         fresh_attempt sample_rebecca ''GET'' ''/api/nodes'' None l2)"
proof -
  let ?s = "sample_rb_state (Some (JStr ''old''))"
  obtain r s' where g: "rb_request (logging locked_env) sample_rebecca ''GET'' ''/api/nodes'' None ?s = (r, s')"
    by fastforce
  have "length (sent (snd (rb_request (logging locked_env) sample_rebecca ''GET'' ''/api/nodes'' None ?s))) = 3"
    by code_simp
  moreover have "map_sum (\<lambda>_. ()) hs_status
      (fst (rb_send (logging locked_env) sample_rebecca ''GET'' ''/api/nodes'' None ?s)) = Inr 401"
    by code_simp
  then have "\<exists>res s1. rb_send (logging locked_env) sample_rebecca ''GET'' ''/api/nodes'' None ?s = (Inr res, s1)
      \<and> hs_status res = 401"
    by (cases "rb_send (logging locked_env) sample_rebecca ''GET'' ''/api/nodes'' None ?s";
        cases "fst (rb_send (logging locked_env) sample_rebecca ''GET'' ''/api/nodes'' None ?s)") auto
  ultimately show ?thesis
    using g reauthenticates_once [OF g] by auto
qed

lemma expiry_update_logged:
  assumes "rw_setUserExpiry (logging env) cfg un e (n, l) = (r, (n', l'))"
  shows "\<exists>q. l' = l @ [q] \<and> (if e \<le> clock env n + 2000
    then hq_method q = ''GET'' \<and> hq_body q = None
    else hq_method q = ''PATCH'' \<and> hq_body q = Some (stringify (JObj [(''username'', JStr un),
      (''status'', JStr ''ACTIVE''), (''expireAt'', JStr (toISOString e))])))"
proof (cases "e \<le> clock env n + 2000")
  case True
  with assms show ?thesis
    by (auto simp: rw_setUserExpiry_def rw_current_def rw_getUser_def rw_request_def and_then_def
        throw_def return_def lift_result_def logging_def fetchWithTimeout_def
        split: prod.splits sum.splits option.splits if_splits)
next
  case False
  with assms show ?thesis
    by (auto simp: rw_setUserExpiry_def rw_patchExpiry_def rw_request_def and_then_def Let_def
        throw_def return_def lift_result_def logging_def fetchWithTimeout_def
        split: prod.splits sum.splits option.splits if_splits)
qed

text \<open>
  An extension to an instant that has passed, or passes within two seconds, writes
  nothing to a Remnawave panel: the one request it sends is a read without a body. An
  extension to a later instant is one \<^verbatim>\<open>PATCH\<close> that reactivates the user.
\<close>

theorem elapsed_extension_reads_only:
  "\<exists>q. snd (snd (rw_setUserExpiry (logging env) cfg un e (n, l))) = l @ [q] \<and>
    (if e \<le> clock env n + 2000 then hq_method q = ''GET'' \<and> hq_body q = None
     else hq_method q = ''PATCH'' \<and> hq_body q = Some (stringify (JObj [(''username'', JStr un),
       (''status'', JStr ''ACTIVE''), (''expireAt'', JStr (toISOString e))])))"
  using expiry_update_logged [of env cfg un e n l] by (metis prod.collapse)

section \<open>The client in use\<close>

lemma find_row_snoc:
  "find_row P (t @ [r]) =
     (case find_row P t of Some x \<Rightarrow> Some x | None \<Rightarrow> if P r then Some r else None)"
  by (induction t) auto

lemma find_setting_update:
  "find_row (\<lambda>r. ss_key r = k') (update_where P (\<lambda>r. r\<lparr>ss_value := v, ss_updated_at := now\<rparr>) t) =
     map_option (\<lambda>r. if P r then r\<lparr>ss_value := v, ss_updated_at := now\<rparr> else r)
       (find_row (\<lambda>r. ss_key r = k') t)"
  by (rule find_row_update_where) simp

lemma getSetting_setSetting: "getSetting k (setSetting now k v t) = Some v"
proof (cases "find_row (\<lambda>r. ss_key r = k) t")
  case None
  then have "\<not> (\<exists>r \<in> set t. ss_key r = k)" by (simp add: find_row_None)
  with None show ?thesis by (simp add: getSetting_def setSetting_def find_row_snoc)
next
  case (Some r)
  then have "r \<in> set t \<and> ss_key r = k" by (rule find_row_Some)
  with Some show ?thesis
    by (auto simp: getSetting_def setSetting_def find_setting_update)
qed

lemma getSetting_other: "k' \<noteq> k \<Longrightarrow> getSetting k' (setSetting now k v t) = getSetting k' t"
proof (cases "find_row (\<lambda>r. ss_key r = k') t")
  case (Some r)
  assume "k' \<noteq> k"
  moreover have "ss_key r = k'" using find_row_Some [OF Some] by simp
  ultimately show ?thesis using Some
    by (auto simp: getSetting_def setSetting_def find_setting_update find_row_snoc)
qed (auto simp: getSetting_def setSetting_def find_setting_update find_row_snoc)

lemma panel_config_stored:
  "truthy (Some config) \<Longrightarrow> getPanelConfig e (setPanelConfig now config t) = config"
  by (simp add: getPanelConfig_def setPanelConfig_def getSetting_setSetting Let_def)

text \<open>
  The panel configuration an administrator stores takes effect on the next call: the
  client in use is then the one built from it (or the one in use already, when the
  configuration reads the same), and it stays in use, with its token, until the configuration
  changes. Other settings are untouched.
\<close>

theorem stored_panel_takes_effect:
  assumes "truthy (Some config)" and "new_client e config = Inr c"
    and "s1 = s\<lparr>dy_settings := setPanelConfig now config (dy_settings s)\<rparr>"
  shows "\<exists>c' s'. getClient e s1 = (Inr c', s') \<and>
    (if dy_cachedClient s \<noteq> None \<and> dy_lastConfigJson s = stringify config
     then dy_cachedClient s = Some c' else c' = c) \<and>
    getClient e s' = (Inr c', s') \<and>
    (\<forall>k. k \<noteq> ''panel_config'' \<longrightarrow> getSetting k (dy_settings s') = getSetting k (dy_settings s))"
proof -
  let ?t = "setPanelConfig now config (dy_settings s)" and ?f = "stringify config"
  have cfg: "getPanelConfig e ?t = config" using assms(1) by (rule panel_config_stored)
  have other: "\<forall>k. k \<noteq> ''panel_config'' \<longrightarrow> getSetting k ?t = getSetting k (dy_settings s)"
    by (simp add: setPanelConfig_def getSetting_other)
  show ?thesis
  proof (cases "dy_cachedClient s \<noteq> None \<and> dy_lastConfigJson s = ?f")
    case True
    then obtain c' where "dy_cachedClient s = Some c'" by auto
    with True cfg other assms(3) show ?thesis
      by (intro exI [of _ c'] exI [of _ s1]) (simp add: getClient_def Let_def)
  next
    case False
    with cfg other assms(2,3) show ?thesis
      by (intro exI [of _ c] exI [of _ "s1\<lparr>dy_cachedClient := Some c, dy_lastConfigJson := ?f\<rparr>"])
        (auto simp: getClient_def Let_def split: option.split)
  qed
qed

definition sample_remnawave_json :: json where
  "sample_remnawave_json = JObj [(''provider'', JStr ''remnawave''),
     (''remnawave'', JObj [(''baseUrl'', JStr ''https://p/''), (''token'', JStr ''t''),
        (''squadUuids'', JArr [JStr ''s1''])])]"

definition sample_environ :: panel_environ where
  "sample_environ = \<lparr>PANEL_PROVIDER = None, PANEL_BASE_URL = Some ''http://p'',
     PANEL_ADMIN_USER = Some ''a'', PANEL_ADMIN_PASS = Some ''b'', PANEL_TIMEOUT_MS = None,
     REMNAWAVE_BASE_URL = None, REMNAWAVE_TOKEN = None, REMNAWAVE_CADDY_TOKEN = None,
     REMNAWAVE_SQUAD_UUIDS = Some ''s1, s2''\<rparr>"

definition sample_remnawave :: remnawave_config where
  "sample_remnawave = \<lparr>rw_baseUrl = ''https://p/'', rw_token = ''t'', rw_caddyToken = None,
     rw_squadUuids = [''s1''], rw_timeout = 8000, rw_apiBase = ''https://p/api''\<rparr>"

definition sample_dynamic :: "nat dynamic_state" where
  "sample_dynamic = \<lparr>dy_settings = [], dy_cachedClient = Some (UseRebecca sample_rebecca None 0),
     dy_lastConfigJson = ''{}'', dy_net = 0\<rparr>"

theorem stored_panel_takes_effect_witness:
  "\<exists>s'. getClient sample_environ (sample_dynamic\<lparr>dy_settings := setPanelConfig 5 sample_remnawave_json []\<rparr>) =
     (Inr (UseRemnawave sample_remnawave), s')"
proof -
  have c: "truthy (Some sample_remnawave_json)" by code_simp
  have n: "new_client sample_environ sample_remnawave_json = Inr (UseRemnawave sample_remnawave)"
    by code_simp
  have d: "dy_lastConfigJson sample_dynamic \<noteq> stringify sample_remnawave_json"
    by (simp add: sample_dynamic_def sample_remnawave_json_def)
  show ?thesis
    using stored_panel_takes_effect [OF c n, where s = sample_dynamic and now = 5, OF refl] d
    by (auto simp: sample_dynamic_def)
qed

text \<open>The two ways the squad list of the environment is read do not agree.\<close>

lemma squads_read_differently:
  "json_texts (cfg_get (jget ''remnawave'' (env_panel_config sample_environ)) ''squadUuids'') =
     [''s1'', '' s2''] \<and>
   splitCsv (REMNAWAVE_SQUAD_UUIDS sample_environ) = [''s1'', ''s2'']"
  by code_simp

section \<open>The methods the injected client lacks\<close>
















section \<open>What the round-trip check lets through\<close>

text \<open>
  An expiry that is no date at all passes the client's own check. The check the connect
  handler adds refuses it; the extension of a session has no second check.
\<close>

lemma invalid_expiry_passes:
  assumes "rb_toPanelUser (Some dto) = Inr u" and "jget ''expire'' dto = Some (JStr t)"
    and "t \<noteq> []" and "number_text t = None"
  shows "assertExpiryRoundTrip u e op = Inr () \<and> \<not> expiryMatches (pu_expireAt u) e"
  using rb_toPanelUser_expire [OF assms(1)] assms(2-4)
  by (simp add: rb_expire_def assertExpiryRoundTrip_ok expiry_accepted_def expiryMatches_def)

end
