(* ===== verification/SingleFlight.thy ===== *)
theory SingleFlight
  imports Rebecca "HOL-Library.Multiset"
begin

text \<open>
  Sharing one request between concurrent callers. Five places of the program do it: the
  admin token of backend/src/panel/RebeccaPanelClient.ts (\<^verbatim>\<open>inflightAuth\<close>), the key set of
  backend/src/ads/admob-ssv.verifier.ts (theory KeyFlight), the Google client
  of backend/src/attest/play-integrity.verifier.ts (theory PlayClient), the token refresh of
  web/lib/api.ts (\<^verbatim>\<open>refreshPromise\<close>, theory RefreshMutex) and the login form (theory WebPages),
  whose button is disabled meanwhile. All are machines
  whose steps are what runs between two awaits. The contract is a locale; this theory
  holds it and the panel's machine.
\<close>

section \<open>Runs of a machine\<close>

inductive run :: "('s \<Rightarrow> 'l \<Rightarrow> 's option) \<Rightarrow> 's \<Rightarrow> 'l list \<Rightarrow> 's \<Rightarrow> bool" for step where
  run_Nil: "run step s [] s"
| run_snoc: "run step s ls s1 \<Longrightarrow> step s1 l = Some s2 \<Longrightarrow> run step s (ls @ [l]) s2"

inductive_cases run_NilE: "run step s [] s'"

text \<open>The same, computed.\<close>

fun exec :: "('s \<Rightarrow> 'l \<Rightarrow> 's option) \<Rightarrow> 's \<Rightarrow> 'l list \<Rightarrow> 's option" where
  "exec step s [] = Some s"
| "exec step s (l # ls) = (case step s l of None \<Rightarrow> None | Some s1 \<Rightarrow> exec step s1 ls)"

lemma exec_snoc: "exec step s (ls @ [l]) = (case exec step s ls of None \<Rightarrow> None | Some s1 \<Rightarrow> step s1 l)"
  by (induction ls arbitrary: s) (auto split: option.split)

lemma run_exec: "run step s ls s' \<longleftrightarrow> exec step s ls = Some s'"
proof
  show "run step s ls s' \<Longrightarrow> exec step s ls = Some s'"
    by (induction rule: run.induct) (simp_all add: exec_snoc)
next
  show "exec step s ls = Some s' \<Longrightarrow> run step s ls s'"
  proof (induction ls arbitrary: s' rule: rev_induct)
    case Nil
    then show ?case by (simp add: run_Nil)
  next
    case (snoc l ls)
    then show ?case by (auto simp: exec_snoc split: option.splits intro: run_snoc)
  qed
qed

section \<open>The contract\<close>

text \<open>
  \<open>flying\<close>: a request is under way; a step may launch one, only when none is, and the
  step in which it is answered lands it.
\<close>

locale single_flight =
  fixes step :: "'s \<Rightarrow> 'l \<Rightarrow> 's option"
    and flying :: "'s \<Rightarrow> bool"
    and launches :: "'s \<Rightarrow> nat"
    and lands :: "'l \<Rightarrow> bool"
  assumes landing: "step s l = Some s' \<Longrightarrow> lands l \<Longrightarrow>
      flying s \<and> \<not> flying s' \<and> launches s' = launches s"
    and other_step: "step s l = Some s' \<Longrightarrow> \<not> lands l \<Longrightarrow>
      (flying s' = flying s \<and> launches s' = launches s) \<or>
      (\<not> flying s \<and> flying s' \<and> launches s' = launches s + 1)"
begin

lemma balance:
  assumes "run step s ls s'"
  shows "launches s' + (if flying s then 1 else 0) =
    launches s + length (filter lands ls) + (if flying s' then 1 else 0)"
  using assms
proof (induction rule: run.induct)
  case (run_snoc s ls s1 l s2)
  then show ?case
    using landing [OF run_snoc.hyps(2)] other_step [OF run_snoc.hyps(2)] by (cases "lands l") auto
qed simp

text \<open>No two requests are under way at once: between two launches there is a landing.\<close>

lemma one_at_a_time:
  assumes "run step s ls s'" and "\<not> flying s"
  shows "launches s' \<le> launches s + length (filter lands ls) + 1"
  using balance [OF assms(1)] assms(2) by (auto split: if_splits)

end

section \<open>The admin token of the Rebecca client\<close>

text \<open>
  The shared fields of the client and its callers: \<open>pa_waiting\<close> are the callers that await
  the authentication under way, \<open>pa_answers\<close> what each caller of \<^verbatim>\<open>getToken\<close> got. The steps
  are a call (up to its first await), the answer of the authentication with the instant it
  arrives at, its failure, and the reset of the token by a request that was answered 401.
\<close>

datatype token_answer = Got "json option" | Failed exn

record panel_auth =
  pa_token :: "json option"
  pa_tokenExpiresAt :: ms
  pa_inflightAuth :: bool
  pa_waiting :: "nat list"
  pa_answers :: "(nat \<times> token_answer) list"
  pa_sent :: nat

datatype auth_event =
    CallGetToken nat ms
  | AuthAnswered json ms
  | AuthFailed exn
  | TokenRejected

fun auth_step :: "panel_auth \<Rightarrow> auth_event \<Rightarrow> panel_auth option" where
  "auth_step s (CallGetToken i now) =
     (if truthy (pa_token s) \<and> now < pa_tokenExpiresAt s - 60000
      then Some (s\<lparr>pa_answers := pa_answers s @ [(i, Got (pa_token s))]\<rparr>)
      else if pa_inflightAuth s
      then Some (s\<lparr>pa_waiting := pa_waiting s @ [i]\<rparr>)
      else Some (s\<lparr>pa_inflightAuth := True, pa_waiting := pa_waiting s @ [i], pa_sent := pa_sent s + 1\<rparr>))"
| "auth_step s (AuthAnswered j now) =
     (if pa_inflightAuth s
      then (let tok = jget ''access_token'' j in
            Some (s\<lparr>pa_token := tok, pa_tokenExpiresAt := now + 60 * 60 * 1000, pa_inflightAuth := False,
                   pa_waiting := [], pa_answers := pa_answers s @ map (\<lambda>i. (i, Got tok)) (pa_waiting s)\<rparr>))
      else None)"
| "auth_step s (AuthFailed e) =
     (if pa_inflightAuth s
      then Some (s\<lparr>pa_inflightAuth := False, pa_waiting := [],
                  pa_answers := pa_answers s @ map (\<lambda>i. (i, Failed e)) (pa_waiting s)\<rparr>)
      else None)"
| "auth_step s TokenRejected = Some (s\<lparr>pa_token := None, pa_tokenExpiresAt := 0\<rparr>)"

fun auth_lands :: "auth_event \<Rightarrow> bool" where
  "auth_lands (AuthAnswered _ _) = True"
| "auth_lands (AuthFailed _) = True"
| "auth_lands _ = False"

interpretation pa: single_flight auth_step pa_inflightAuth pa_sent auth_lands
proof
  fix s l s'
  assume "auth_step s l = Some s'" "auth_lands l"
  then show "pa_inflightAuth s \<and> \<not> pa_inflightAuth s' \<and> pa_sent s' = pa_sent s"
    by (cases l) (auto simp: Let_def split: if_splits)
next
  fix s l s'
  assume "auth_step s l = Some s'" "\<not> auth_lands l"
  then show "(pa_inflightAuth s' = pa_inflightAuth s \<and> pa_sent s' = pa_sent s) \<or>
      (\<not> pa_inflightAuth s \<and> pa_inflightAuth s' \<and> pa_sent s' = pa_sent s + 1)"
    by (cases l) (auto split: if_splits)
qed

text \<open>Every caller is waiting or answered, and nobody waits without an authentication.\<close>

definition callers :: "auth_event list \<Rightarrow> nat list" where
  "callers ls = List.map_filter (\<lambda>l. case l of CallGetToken i _ \<Rightarrow> Some i | _ \<Rightarrow> None) ls"

definition pa_start :: panel_auth where
  "pa_start = \<lparr>pa_token = None, pa_tokenExpiresAt = 0, pa_inflightAuth = False, pa_waiting = [],
     pa_answers = [], pa_sent = 0\<rparr>"

lemma callers_snoc:
  "callers (ls @ [l]) = callers ls @ (case l of CallGetToken i _ \<Rightarrow> [i] | _ \<Rightarrow> [])"
  by (cases l) (simp_all add: callers_def List.map_filter_def)

lemma fst_tagged: "image_mset fst {#(i, a). i \<in># M#} = M"
  by (simp add: image_mset.compositionality comp_def)

lemma auth_step_callers:
  assumes "auth_step s l = Some s'" and "pa_waiting s \<noteq> [] \<longrightarrow> pa_inflightAuth s"
  shows "mset (map fst (pa_answers s') @ pa_waiting s') =
      mset (map fst (pa_answers s) @ pa_waiting s) + mset (callers [l]) \<and>
    (pa_waiting s' \<noteq> [] \<longrightarrow> pa_inflightAuth s')"
  using assms
  by (cases l) (auto simp: callers_def List.map_filter_def Let_def fst_tagged split: if_splits)

lemma auth_callers:
  assumes "run auth_step pa_start ls s"
  shows "mset (map fst (pa_answers s) @ pa_waiting s) = mset (callers ls) \<and>
    (pa_waiting s \<noteq> [] \<longrightarrow> pa_inflightAuth s)"
  using assms
proof (induction pa_start ls s rule: run.induct)
  case run_Nil
  then show ?case by (simp add: pa_start_def callers_def List.map_filter_def)
next
  case (run_snoc ls s1 l s2)
  then show ?case
    using auth_step_callers [of s1 l s2]
    by (auto simp: callers_snoc callers_def List.map_filter_def split: auth_event.splits)
qed

text \<open>
  C37. However many callers ask for the panel's admin token at once, and in whatever order
  calls, answers, failures and rejected tokens interleave, at most one authentication is
  under way: as many requests were sent as were answered, and one more while one is in
  flight. No caller is lost: each is answered once, or waits for the authentication that is
  in flight.
\<close>

theorem token_single_flight:
  assumes "run auth_step pa_start ls s"
  shows "pa_sent s = length (filter auth_lands ls) + (if pa_inflightAuth s then 1 else 0) \<and>
    mset (map fst (pa_answers s) @ pa_waiting s) = mset (callers ls) \<and>
    (pa_waiting s \<noteq> [] \<longrightarrow> pa_inflightAuth s)"
  using pa.balance [OF assms] auth_callers [OF assms] by (simp add: pa_start_def)

theorem token_single_flight_witness:
  "\<exists>s. run auth_step pa_start [CallGetToken 1 0, CallGetToken 2 5, TokenRejected, CallGetToken 3 6,
       AuthAnswered (JObj [(''access_token'', JStr ''t'')]) 9, CallGetToken 4 10] s \<and>
     pa_sent s = 1 \<and> mset (map fst (pa_answers s) @ pa_waiting s) = {#1, 2, 3, 4#}"
proof -
  let ?ls = "[CallGetToken 1 0, CallGetToken 2 5, TokenRejected, CallGetToken 3 6,
       AuthAnswered (JObj [(''access_token'', JStr ''t'')]) 9, CallGetToken 4 10]"
  obtain s where r: "run auth_step pa_start ?ls s" "\<not> pa_inflightAuth s"
    by (simp add: run_exec pa_start_def Let_def)
  from token_single_flight [OF r(1)] r show ?thesis
    by (auto simp: callers_def List.map_filter_def)
qed

end
