(* ===== verification/RefreshMutex.thy ===== *)
theory RefreshMutex
  imports SingleFlight
begin

text \<open>
  The token handling of the admin web client, web/lib/api.ts: the token store in the
  browser, the request and response interceptors, the shared refresh, and the login. One
  browser tab is a machine: its steps are a new request, the answer to a request that is on
  the wire, the answer to the refresh that is under way, and a completed login. Axios, the
  DOM and the promises are the environment: they choose which step comes next.
\<close>

section \<open>State\<close>

datatype req_phase =
    OnWire "string option"
  | AwaitingRefresh
  | Resolved
  | Rejected nat

text \<open>
  A request with its \<^verbatim>\<open>_retry\<close> mark, where it stands (on the wire with the token it was
  sent with) and how often it was sent; status 0 stands for no response at all.
\<close>

record web_request =
  wr_id :: nat
  wr_url :: string
  wr_retry :: bool
  wr_phase :: req_phase
  wr_sent :: nat

text \<open>\<open>ws_posts\<close> lists the refresh tokens that were posted; the one in flight is last.\<close>

record web_state =
  ws_access :: "string option"
  ws_refresh :: "string option"
  ws_refreshPromise :: "string option"
  ws_requests :: "web_request list"
  ws_at_login :: bool
  ws_posts :: "string list"

definition toLogin :: "web_state \<Rightarrow> web_state" where
  "toLogin s = s\<lparr>ws_access := None, ws_refresh := None, ws_at_login := True\<rparr>"

definition isAuthEndpoint :: "string \<Rightarrow> bool" where
  "isAuthEndpoint url \<longleftrightarrow>
     url \<noteq> [] \<and> (js_includes url ''/auth/refresh'' \<or> js_includes url ''/auth/login'')"

definition set_request :: "nat \<Rightarrow> (web_request \<Rightarrow> web_request) \<Rightarrow> web_state \<Rightarrow> web_state" where
  "set_request i f s = s\<lparr>ws_requests := update_where (\<lambda>r. wr_id r = i) f (ws_requests s)\<rparr>"

section \<open>Steps\<close>

datatype web_event =
    NewRequest nat string
  | Answered nat nat
  | Refreshed string string
  | RefreshFailed
  | LoggedIn string string

text \<open>The request interceptor: the token of the moment, if there is one.\<close>

definition bearer :: "web_state \<Rightarrow> string option" where
  "bearer s = (if env_set (ws_access s) then ws_access s else None)"

text \<open>
  \<^verbatim>\<open>refreshOnce\<close> for the request \<open>i\<close>: join the refresh under way, or start one; without a
  refresh token it fails at once.
\<close>

definition refreshOnce :: "nat \<Rightarrow> web_state \<Rightarrow> web_state" where
  "refreshOnce i s =
     (let wait = set_request i (\<lambda>r. r\<lparr>wr_retry := True, wr_phase := AwaitingRefresh\<rparr>) in
      case ws_refreshPromise s of
        Some _ \<Rightarrow> wait s
      | None \<Rightarrow>
          if env_set (ws_refresh s)
          then wait (s\<lparr>ws_refreshPromise := ws_refresh s, ws_posts := ws_posts s @ [the (ws_refresh s)]\<rparr>)
          else toLogin (set_request i (\<lambda>r. r\<lparr>wr_retry := True, wr_phase := Rejected 401\<rparr>) s))"

definition answered :: "web_request \<Rightarrow> nat \<Rightarrow> web_state \<Rightarrow> web_state" where
  "answered r status s =
     (let reject = set_request (wr_id r) (\<lambda>r. r\<lparr>wr_phase := Rejected status\<rparr>) in
      if 200 \<le> status \<and> status \<le> 299 then set_request (wr_id r) (\<lambda>r. r\<lparr>wr_phase := Resolved\<rparr>) s
      else if status = 403 then toLogin (reject s)
      else if status = 401 \<and> \<not> wr_retry r \<and> \<not> isAuthEndpoint (wr_url r) then refreshOnce (wr_id r) s
      else if status = 401 then toLogin (reject s)
      else reject s)"

definition awaiting :: "web_request \<Rightarrow> bool" where
  "awaiting r \<longleftrightarrow> wr_phase r = AwaitingRefresh"

text \<open>After a refresh every waiting request is sent again, with the new token.\<close>

definition refreshed :: "string \<Rightarrow> string \<Rightarrow> web_state \<Rightarrow> web_state" where
  "refreshed access refresh s =
     (let s1 = s\<lparr>ws_access := Some access, ws_refresh := Some refresh, ws_refreshPromise := None\<rparr> in
      s1\<lparr>ws_requests := update_where awaiting
           (\<lambda>r. r\<lparr>wr_phase := OnWire (bearer s1), wr_sent := wr_sent r + 1\<rparr>) (ws_requests s)\<rparr>)"

text \<open>After a failed one every waiting request is rejected, and each of them signs out.\<close>

definition refresh_failed :: "web_state \<Rightarrow> web_state" where
  "refresh_failed s =
     (let s1 = s\<lparr>ws_refreshPromise := None,
                 ws_requests := update_where awaiting (\<lambda>r. r\<lparr>wr_phase := Rejected 401\<rparr>) (ws_requests s)\<rparr>
      in if exists_row awaiting (ws_requests s) then toLogin s1 else s1)"

fun web_step :: "web_state \<Rightarrow> web_event \<Rightarrow> web_state option" where
  "web_step s (NewRequest i url) =
     (if exists_row (\<lambda>r. wr_id r = i) (ws_requests s) then None
      else Some (s\<lparr>ws_requests := ws_requests s @
             [\<lparr>wr_id = i, wr_url = url, wr_retry = False, wr_phase = OnWire (bearer s), wr_sent = 1\<rparr>]\<rparr>))"
| "web_step s (Answered i status) =
     (case find_row (\<lambda>r. wr_id r = i) (ws_requests s) of
        None \<Rightarrow> None
      | Some r \<Rightarrow> (case wr_phase r of OnWire _ \<Rightarrow> Some (answered r status s) | _ \<Rightarrow> None))"
| "web_step s (Refreshed access refresh) =
     (if ws_refreshPromise s = None then None else Some (refreshed access refresh s))"
| "web_step s RefreshFailed =
     (if ws_refreshPromise s = None then None else Some (refresh_failed s))"
| "web_step s (LoggedIn access refresh) =
     Some (s\<lparr>ws_access := Some access, ws_refresh := Some refresh\<rparr>)"

fun web_lands :: "web_event \<Rightarrow> bool" where
  "web_lands (Refreshed _ _) = True"
| "web_lands RefreshFailed = True"
| "web_lands _ = False"

text \<open>The messages \<^verbatim>\<open>loginAsAdmin\<close> gives for a failed login, by the status of the answer.\<close>

definition login_error :: "nat option \<Rightarrow> string" where
  "login_error status =
     (if status = Some 403 then ''This account is not an administrator.''
      else if status = Some 401 then ''Invalid email or password.''
      else ''Login failed. Please try again.'')"

section \<open>The contract of the shared refresh\<close>

lemma set_request_simps [simp]:
  "ws_access (set_request i f s) = ws_access s"
  "ws_refresh (set_request i f s) = ws_refresh s"
  "ws_refreshPromise (set_request i f s) = ws_refreshPromise s"
  "ws_posts (set_request i f s) = ws_posts s"
  "ws_requests (set_request i f s) = update_where (\<lambda>r. wr_id r = i) f (ws_requests s)"
  by (simp_all add: set_request_def)

lemma toLogin_simps [simp]:
  "ws_access (toLogin s) = None"
  "ws_refresh (toLogin s) = None"
  "ws_refreshPromise (toLogin s) = ws_refreshPromise s"
  "ws_posts (toLogin s) = ws_posts s"
  "ws_requests (toLogin s) = ws_requests s"
  by (simp_all add: toLogin_def)

lemma answered_flight:
  "(ws_refreshPromise (answered r st s) = ws_refreshPromise s \<and> ws_posts (answered r st s) = ws_posts s) \<or>
   (ws_refreshPromise s = None \<and> env_set (ws_refresh s) \<and>
    ws_refreshPromise (answered r st s) = ws_refresh s \<and>
    ws_posts (answered r st s) = ws_posts s @ [the (ws_refresh s)])"
  by (auto simp: answered_def refreshOnce_def Let_def split: option.split)

interpretation web: single_flight web_step "\<lambda>s. ws_refreshPromise s \<noteq> None" "\<lambda>s. length (ws_posts s)" web_lands
proof
  fix s l s'
  assume "web_step s l = Some s'" "web_lands l"
  then show "ws_refreshPromise s \<noteq> None \<and> \<not> ws_refreshPromise s' \<noteq> None \<and>
      length (ws_posts s') = length (ws_posts s)"
    by (cases l) (auto simp: refreshed_def refresh_failed_def Let_def split: if_splits)
next
  fix s l s'
  assume "web_step s l = Some s'" "\<not> web_lands l"
  then show "((ws_refreshPromise s' \<noteq> None) = (ws_refreshPromise s \<noteq> None) \<and>
        length (ws_posts s') = length (ws_posts s)) \<or>
      (\<not> ws_refreshPromise s \<noteq> None \<and> ws_refreshPromise s' \<noteq> None \<and>
        length (ws_posts s') = length (ws_posts s) + 1)"
  proof (cases l)
    case (Answered i st)
    then obtain r where "s' = answered r st s"
      using \<open>web_step s l = Some s'\<close> by (auto split: option.splits req_phase.splits)
    with answered_flight [of r st s] show ?thesis
      by (cases "ws_refreshPromise s"; cases "ws_refresh s") (auto simp: env_set_def)
  qed (auto split: if_splits)
qed

section \<open>The invariant of a tab\<close>

definition sent_bound :: "web_request \<Rightarrow> bool" where
  "sent_bound r \<longleftrightarrow> wr_sent r \<le> (if wr_retry r \<and> \<not> awaiting r then 2 else 1) \<and> (awaiting r \<longrightarrow> wr_retry r)"

text \<open>\<open>issued\<close> are the refresh tokens the tab was given so far.\<close>

definition web_ok :: "string list \<Rightarrow> web_state \<Rightarrow> bool" where
  "web_ok issued s \<longleftrightarrow>
     distinct (map wr_id (ws_requests s)) \<and> (\<forall>r \<in> set (ws_requests s). sent_bound r) \<and>
     (ws_refreshPromise s \<noteq> None \<longleftrightarrow> (\<exists>r \<in> set (ws_requests s). awaiting r)) \<and>
     set (ws_posts s) \<subseteq> set issued \<and> distinct (ws_posts s) \<and>
     (\<forall>t. ws_refresh s = Some t \<longrightarrow> t \<in> set issued) \<and>
     (\<forall>t. ws_refresh s = Some t \<longrightarrow> ws_refreshPromise s = None \<longrightarrow> t \<notin> set (ws_posts s))"

fun issues :: "web_event \<Rightarrow> string list" where
  "issues (Refreshed _ refresh) = [refresh]"
| "issues (LoggedIn _ refresh) = [refresh]"
| "issues _ = []"

lemma set_update_row:
  assumes "distinct (map wr_id t)" and "r \<in> set t"
  shows "set (update_where (\<lambda>x. wr_id x = wr_id r) f t) = insert (f r) (set t - {r})"
proof -
  have "\<And>x. x \<in> set t \<Longrightarrow> wr_id x = wr_id r \<longleftrightarrow> x = r"
    using assms by (metis distinct_map inj_onD)
  then show ?thesis using assms(2) by (auto simp: set_update_where)
qed

text \<open>Changing one request that is on the wire, and nothing of the shared refresh.\<close>

lemma web_ok_settle:
  assumes "web_ok issued s" and "r \<in> set (ws_requests s)" and "\<not> awaiting r"
    and "\<not> awaiting (f r)" and "sent_bound (f r)" and "\<And>x. wr_id (f x) = wr_id x"
  shows "web_ok issued (set_request (wr_id r) f s)"
proof -
  have d: "distinct (map wr_id (ws_requests s))" using assms(1) by (simp add: web_ok_def)
  show ?thesis
    using assms set_update_row [OF d assms(2), of f]
    by (auto simp: web_ok_def map_update_where)
qed

lemma web_ok_toLogin: "web_ok issued s \<Longrightarrow> web_ok issued (toLogin s)"
  by (simp add: web_ok_def)

lemma web_ok_wait:
  assumes "web_ok issued s" and "r \<in> set (ws_requests s)" and "\<not> awaiting r" and "\<not> wr_retry r"
    and "ws_requests s' = ws_requests s" and "ws_refreshPromise s' \<noteq> None"
    and "ws_refresh s' = ws_refresh s" and "distinct (ws_posts s')" and "set (ws_posts s') \<subseteq> set issued"
  shows "web_ok issued (set_request (wr_id r) (\<lambda>r. r\<lparr>wr_retry := True, wr_phase := AwaitingRefresh\<rparr>) s')"
proof -
  let ?f = "\<lambda>r. r\<lparr>wr_retry := True, wr_phase := AwaitingRefresh\<rparr>"
  have d: "distinct (map wr_id (ws_requests s))" using assms(1) by (simp add: web_ok_def)
  have "sent_bound r" using assms(1,2) by (auto simp: web_ok_def)
  then have "sent_bound (?f r)" "awaiting (?f r)"
    using assms(3,4) by (auto simp: sent_bound_def awaiting_def)
  then show ?thesis
    using assms set_update_row [OF d assms(2), of ?f]
    by (auto simp: web_ok_def map_update_where)
qed

lemma web_ok_refreshOnce:
  assumes "web_ok issued s" and "r \<in> set (ws_requests s)" and "\<not> awaiting r" and "\<not> wr_retry r"
  shows "web_ok issued (refreshOnce (wr_id r) s)"
proof -
  have r: "sent_bound r" using assms(1,2) by (auto simp: web_ok_def)
  have reject: "web_ok issued (toLogin (set_request (wr_id r) (\<lambda>r. r\<lparr>wr_retry := True, wr_phase := Rejected 401\<rparr>) s))"
    using assms r by (intro web_ok_toLogin web_ok_settle) (auto simp: sent_bound_def awaiting_def)
  show ?thesis
  proof (cases "ws_refreshPromise s")
    case None
    show ?thesis
    proof (cases "env_set (ws_refresh s)")
      case True
      then obtain t where t: "ws_refresh s = Some t" by (auto simp: env_set_def split: option.splits)
      let ?s' = "s\<lparr>ws_refreshPromise := ws_refresh s, ws_posts := ws_posts s @ [t]\<rparr>"
      have "distinct (ws_posts ?s')" "set (ws_posts ?s') \<subseteq> set issued"
        using assms(1) None t by (auto simp: web_ok_def)
      then have "web_ok issued (set_request (wr_id r) (\<lambda>r. r\<lparr>wr_retry := True, wr_phase := AwaitingRefresh\<rparr>) ?s')"
        using assms t by (intro web_ok_wait [of issued s]) auto
      with None True t show ?thesis by (simp add: refreshOnce_def Let_def)
    qed (use None reject in \<open>simp add: refreshOnce_def Let_def\<close>)
  next
    case (Some u)
    have "web_ok issued (set_request (wr_id r) (\<lambda>r. r\<lparr>wr_retry := True, wr_phase := AwaitingRefresh\<rparr>) s)"
      using assms Some by (intro web_ok_wait [of issued s]) (auto simp: web_ok_def)
    with Some show ?thesis by (simp add: refreshOnce_def Let_def)
  qed
qed

lemma web_ok_answered:
  assumes "web_ok issued s" and "r \<in> set (ws_requests s)" and "wr_phase r = OnWire t"
  shows "web_ok issued (answered r st s)"
proof -
  have r: "sent_bound r" "\<not> awaiting r" using assms by (auto simp: web_ok_def awaiting_def)
  have settle: "p \<noteq> AwaitingRefresh \<Longrightarrow> web_ok issued (set_request (wr_id r) (\<lambda>r. r\<lparr>wr_phase := p\<rparr>) s)" for p
    using assms r by (intro web_ok_settle) (auto simp: sent_bound_def awaiting_def)
  have "\<not> wr_retry r \<Longrightarrow> web_ok issued (refreshOnce (wr_id r) s)"
    using assms r by (intro web_ok_refreshOnce)
  then show ?thesis
    by (simp add: answered_def Let_def settle web_ok_toLogin)
qed

text \<open>After a refresh no request waits any more, whichever way it ended.\<close>

lemma web_ok_landed:
  assumes "web_ok issued s" and "\<And>x. \<not> awaiting (f x)" and "\<And>x. wr_id (f x) = wr_id x"
    and "\<And>x. sent_bound x \<Longrightarrow> awaiting x \<Longrightarrow> sent_bound (f x)"
    and "ws_requests s' = update_where awaiting f (ws_requests s)" and "ws_refreshPromise s' = None"
    and "ws_posts s' = ws_posts s" and "set issued \<subseteq> set issued'"
    and "\<forall>t. ws_refresh s' = Some t \<longrightarrow> t \<in> set issued' \<and> t \<notin> set (ws_posts s)"
  shows "web_ok issued' s'"
proof -
  have "\<forall>r \<in> set (ws_requests s'). sent_bound r \<and> \<not> awaiting r"
    using assms(1,2,4,5) by (auto simp: web_ok_def set_update_where)
  with assms show ?thesis by (auto simp: web_ok_def map_update_where)
qed

lemma web_step_ok:
  assumes "web_ok issued s" and "web_step s l = Some s'" and "set (issues l) \<inter> set issued = {}"
  shows "web_ok (issued @ issues l) s'"
proof (cases l)
  case (NewRequest i url)
  with assms show ?thesis by (auto simp: web_ok_def sent_bound_def awaiting_def split: if_splits)
next
  case (Answered i st)
  then obtain r t where "r \<in> set (ws_requests s)" "wr_phase r = OnWire t" "s' = answered r st s"
    using assms(2) by (auto split: option.splits req_phase.splits dest: find_row_Some)
  with web_ok_answered [OF assms(1)] Answered show ?thesis by simp
next
  case (Refreshed a t)
  then have "s' = refreshed a t s" "t \<notin> set (ws_posts s)"
    using assms by (auto simp: web_ok_def split: if_splits)
  with Refreshed show ?thesis
    by (intro web_ok_landed [OF assms(1), where s' = s']) (auto simp: refreshed_def Let_def awaiting_def sent_bound_def)
next
  case RefreshFailed
  then have s': "s' = refresh_failed s" "ws_refreshPromise s \<noteq> None"
    using assms(2) by (auto split: if_splits)
  then have "exists_row awaiting (ws_requests s)" using assms(1) by (auto simp: web_ok_def)
  with s' RefreshFailed show ?thesis
    by (intro web_ok_landed [OF assms(1), where s' = s'])
      (auto simp: refresh_failed_def Let_def awaiting_def sent_bound_def)
next
  case (LoggedIn a t)
  with assms show ?thesis by (auto simp: web_ok_def)
qed

definition all_issues :: "web_event list \<Rightarrow> string list" where
  "all_issues ls = concat (map issues ls)"

lemma web_run_ok:
  assumes "run web_step s ls s'" and "web_ok issued s" and "distinct (issued @ all_issues ls)"
  shows "web_ok (issued @ all_issues ls) s'"
  using assms
proof (induction s ls s' rule: run.induct)
  case (run_Nil s)
  then show ?case by (simp add: all_issues_def)
next
  case (run_snoc s ls s1 l s2)
  then have "web_ok (issued @ all_issues ls) s1" by (auto simp: all_issues_def)
  moreover have "set (issues l) \<inter> set (issued @ all_issues ls) = {}"
    using run_snoc.prems(2) by (auto simp: all_issues_def)
  ultimately have "web_ok ((issued @ all_issues ls) @ issues l) s2"
    by (intro web_step_ok [OF _ run_snoc.hyps(2)])
  then show ?case by (simp add: all_issues_def)
qed

text \<open>A tab as the page loads it, with what the browser stored.\<close>

definition web_start :: "string option \<Rightarrow> string option \<Rightarrow> web_state" where
  "web_start access refresh = \<lparr>ws_access = access, ws_refresh = refresh, ws_refreshPromise = None,
     ws_requests = [], ws_at_login = False, ws_posts = []\<rparr>"

definition stored :: "string option \<Rightarrow> string list" where
  "stored refresh = (case refresh of None \<Rightarrow> [] | Some t \<Rightarrow> [t])"

lemma web_start_ok: "web_ok (stored refresh) (web_start access refresh)"
  by (simp add: web_ok_def web_start_def stored_def)

text \<open>
  C22. Whatever the order in which requests, answers, refreshes and logins interleave in one
  tab: a refresh is posted only while none is under way; no refresh token is posted twice, so
  the tab never sets off the server's reuse detection; every request is sent at most twice; and
  a request waits for a refresh exactly while one is under way, so none waits for ever. The
  server is relied on to issue a new refresh token each time.
\<close>

theorem tab_refreshes_safely:
  assumes "run web_step (web_start access refresh) ls s"
    and "distinct (stored refresh @ all_issues ls)"
  shows "length (ws_posts s) = length (filter web_lands ls) + (if ws_refreshPromise s \<noteq> None then 1 else 0) \<and>
    distinct (ws_posts s) \<and> (\<forall>r \<in> set (ws_requests s). wr_sent r \<le> 2) \<and>
    ((\<exists>r \<in> set (ws_requests s). wr_phase r = AwaitingRefresh) \<longleftrightarrow> ws_refreshPromise s \<noteq> None)"
proof -
  have ok: "web_ok (stored refresh @ all_issues ls) s"
    by (rule web_run_ok [OF assms(1) web_start_ok assms(2)])
  have "\<forall>r \<in> set (ws_requests s). wr_sent r \<le> 2"
    using ok by (fastforce simp: web_ok_def sent_bound_def split: if_splits)
  moreover have "length (ws_posts s) = length (filter web_lands ls) + (if ws_refreshPromise s \<noteq> None then 1 else 0)"
    using web.balance [OF assms(1)] by (simp add: web_start_def)
  ultimately show ?thesis using ok by (auto simp: web_ok_def awaiting_def)
qed

definition wave :: "web_event list" where
  "wave = [NewRequest 1 ''/admin/stats'', NewRequest 2 ''/admin/users'', Answered 1 401, Answered 2 401,
     Refreshed ''a2'' ''r2'', Answered 1 200, Answered 2 200]"

theorem tab_refreshes_safely_witness:
  "\<exists>s. run web_step (web_start (Some ''a1'') (Some ''r1'')) wave s \<and> ws_posts s = [''r1''] \<and>
     length (ws_posts s) = length (filter web_lands wave) + (if ws_refreshPromise s \<noteq> None then 1 else 0)"
proof -
  have "\<not> Option.is_none (exec web_step (web_start (Some ''a1'') (Some ''r1'')) wave)"
    "map_option ws_posts (exec web_step (web_start (Some ''a1'') (Some ''r1'')) wave) = Some [''r1'']"
    by code_simp+
  then obtain s where s: "exec web_step (web_start (Some ''a1'') (Some ''r1'')) wave = Some s"
    "ws_posts s = [''r1'']" by auto
  moreover have "distinct (stored (Some ''r1'') @ all_issues wave)" by code_simp
  ultimately show ?thesis
    using tab_refreshes_safely [of "Some ''a1''" "Some ''r1''" wave s] by (auto simp: run_exec)
qed

section \<open>Two tabs\<close>

text \<open>
  The store is shared between the tabs of a browser, the promise is not: a step of a tab
  works on the shared store. Two tabs whose requests are answered 401 at the same time post
  the same refresh token, which the server takes for a stolen one.
\<close>

fun tabs_step :: "web_state \<times> web_state \<Rightarrow> bool \<times> web_event \<Rightarrow> (web_state \<times> web_state) option" where
  "tabs_step (a, b) (True, l) =
     map_option (\<lambda>a'. (a', b\<lparr>ws_access := ws_access a', ws_refresh := ws_refresh a'\<rparr>)) (web_step a l)"
| "tabs_step (a, b) (False, l) =
     map_option (\<lambda>b'. (a\<lparr>ws_access := ws_access b', ws_refresh := ws_refresh b'\<rparr>, b')) (web_step b l)"

lemma two_tabs_post_the_same_token:
  "\<exists>a b. run tabs_step (web_start (Some ''a1'') (Some ''r1''), web_start (Some ''a1'') (Some ''r1''))
      [(True, NewRequest 1 ''/admin/stats''), (False, NewRequest 2 ''/admin/users''),
       (True, Answered 1 401), (False, Answered 2 401)] (a, b) \<and>
    ws_posts a = [''r1''] \<and> ws_posts b = [''r1'']"
proof -
  let ?e = "exec tabs_step (web_start (Some ''a1'') (Some ''r1''), web_start (Some ''a1'') (Some ''r1''))
      [(True, NewRequest 1 ''/admin/stats''), (False, NewRequest 2 ''/admin/users''),
       (True, Answered 1 401), (False, Answered 2 401)]"
  have "map_option (\<lambda>(a, b). (ws_posts a, ws_posts b)) ?e = Some ([''r1''], [''r1''])" by code_simp
  then obtain a b where "?e = Some (a, b)" "ws_posts a = [''r1'']" "ws_posts b = [''r1'']"
    by (cases ?e) auto
  then show ?thesis by (auto simp: run_exec)
qed

end
