(* ===== verification/KeyFlight.thy ===== *)
theory KeyFlight
  imports Ssv SingleFlight
begin

text \<open>
  The verifier keys under concurrent callbacks: \<^verbatim>\<open>getKey\<close> and \<^verbatim>\<open>refreshKeys\<close> of
  backend/src/ads/admob-ssv.verifier.ts share one fetch of the key set (\<^verbatim>\<open>inflight\<close>). The
  machine's steps are a call of \<^verbatim>\<open>getKey\<close> and the outcome of the fetch; it meets the
  contract of SingleFlight, and a call on its own is the program of the theory Ssv.
\<close>

section \<open>The machine\<close>

datatype key_reply = Key "string option" | NoKeys exn

text \<open>A caller is known by a number; \<open>kf_waiting\<close> pairs it with the key id it wants.\<close>

record key_fetch =
  kf_keys :: "(string \<times> string) list"
  kf_fetchedAt :: ms
  kf_inflight :: bool
  kf_waiting :: "(nat \<times> string) list"
  kf_answers :: "(nat \<times> key_reply) list"
  kf_sent :: nat

datatype key_event =
    GetKey nat string ms
  | KeysFetched "exn + (string \<times> string) list" ms

text \<open>What an answer of the key server amounts to: an empty set is a failure.\<close>

definition nonempty_keys :: "exn + (string \<times> string) list \<Rightarrow> exn + (string \<times> string) list" where
  "nonempty_keys r =
     (case r of Inl e \<Rightarrow> Inl e
      | Inr ks \<Rightarrow> if ks = [] then Inl (SsvVerificationError ''verifier key set was empty'') else Inr ks)"

fun key_step :: "key_fetch \<Rightarrow> key_event \<Rightarrow> key_fetch option" where
  "key_step s (GetKey i keyId now) =
     (if map_of (kf_keys s) keyId \<noteq> None \<and> \<not> now - kf_fetchedAt s > KEY_TTL_MS
      then Some (s\<lparr>kf_answers := kf_answers s @ [(i, Key (map_of (kf_keys s) keyId))]\<rparr>)
      else if kf_inflight s then Some (s\<lparr>kf_waiting := kf_waiting s @ [(i, keyId)]\<rparr>)
      else Some (s\<lparr>kf_inflight := True, kf_waiting := kf_waiting s @ [(i, keyId)], kf_sent := kf_sent s + 1\<rparr>))"
| "key_step s (KeysFetched r now) =
     (if \<not> kf_inflight s then None
      else Some (case nonempty_keys r of
          Inl e \<Rightarrow> s\<lparr>kf_inflight := False, kf_waiting := [],
              kf_answers := kf_answers s @ map (\<lambda>(i, k). (i, NoKeys e)) (kf_waiting s)\<rparr>
        | Inr ks \<Rightarrow> s\<lparr>kf_keys := ks, kf_fetchedAt := now, kf_inflight := False, kf_waiting := [],
              kf_answers := kf_answers s @ map (\<lambda>(i, k). (i, Key (map_of ks k))) (kf_waiting s)\<rparr>))"

fun key_lands :: "key_event \<Rightarrow> bool" where
  "key_lands (KeysFetched _ _) = True"
| "key_lands _ = False"

interpretation kf: single_flight key_step kf_inflight kf_sent key_lands
proof
  fix s l s'
  assume "key_step s l = Some s'" "key_lands l"
  then show "kf_inflight s \<and> \<not> kf_inflight s' \<and> kf_sent s' = kf_sent s"
    by (cases l) (auto split: if_splits sum.splits)
next
  fix s l s'
  assume "key_step s l = Some s'" "\<not> key_lands l"
  then show "(kf_inflight s' = kf_inflight s \<and> kf_sent s' = kf_sent s) \<or>
      (\<not> kf_inflight s \<and> kf_inflight s' \<and> kf_sent s' = kf_sent s + 1)"
    by (cases l) (auto split: if_splits)
qed

section \<open>Properties\<close>

definition kf_start :: key_fetch where
  "kf_start = \<lparr>kf_keys = [], kf_fetchedAt = 0, kf_inflight = False, kf_waiting = [], kf_answers = [], kf_sent = 0\<rparr>"

text \<open>As many requests were sent as were answered, and one more while one is under way.\<close>

theorem keys_single_flight:
  assumes "run key_step kf_start ls s"
  shows "kf_sent s = length (filter key_lands ls) + (if kf_inflight s then 1 else 0)"
  using kf.balance [OF assms] by (simp add: kf_start_def)

text \<open>A lone call: the machine answers what the program \<open>getKey\<close> returns, and keeps its keys.\<close>

definition alone :: "'n ssv_state \<Rightarrow> key_fetch" where
  "alone s = \<lparr>kf_keys = sv_keys s, kf_fetchedAt = sv_fetchedAt s, kf_inflight = False, kf_waiting = [],
     kf_answers = [], kf_sent = 0\<rparr>"

definition answer_of :: "exn + string option \<Rightarrow> key_reply" where
  "answer_of r = (case r of Inl e \<Rightarrow> NoKeys e | Inr k \<Rightarrow> Key k)"

lemma getKey_runs_machine:
  assumes "getKey env keyId s = (r, s')"
  shows "\<exists>ls m. run key_step (alone s) (GetKey i keyId (clock env (sv_net s)) # ls) m
    \<and> kf_answers m = [(i, answer_of r)] \<and> kf_keys m = sv_keys s' \<and> kf_fetchedAt m = sv_fetchedAt s'
    \<and> \<not> kf_inflight m"
proof (cases "map_of (sv_keys s) keyId \<noteq> None \<and> \<not> clock env (sv_net s) - sv_fetchedAt s > KEY_TTL_MS")
  case True
  with assms show ?thesis
    by (intro exI [of _ "[]"]) (auto simp: run_exec alone_def getKey_def Let_def answer_of_def)
next
  case False
  obtain x s1 where refresh: "refreshKeys env s = (x, s1)" by fastforce
  have r: "r = map_sum id (\<lambda>_. map_of (sv_keys s1) keyId) x" "s' = s1"
    using assms False refresh
    by (auto simp: getKey_def Let_def and_then_def split: sum.splits if_splits)
  let ?m = "(alone s)\<lparr>kf_inflight := True, kf_waiting := [(i, keyId)], kf_sent := 1\<rparr>"
  have call: "key_step (alone s) (GetKey i keyId (clock env (sv_net s))) = Some ?m"
    using False by (auto simp: alone_def)
  define res where "res = (case x of Inl e \<Rightarrow> Inl e | Inr _ \<Rightarrow> Inr (sv_keys s1))"
  have keys: "x = Inl e \<Longrightarrow> sv_keys s1 = sv_keys s \<and> sv_fetchedAt s1 = sv_fetchedAt s"
    "x = Inr u \<Longrightarrow> sv_keys s1 \<noteq> []" for e u
    using refresh by (auto simp: refreshKeys_def split: prod.splits sum.splits if_splits)
  let ?fin = "the (key_step ?m (KeysFetched res (sv_fetchedAt s1)))"
  have "run key_step (alone s) [GetKey i keyId (clock env (sv_net s)), KeysFetched res (sv_fetchedAt s1)] ?fin"
    using call by (simp add: run_exec)
  moreover have "kf_answers ?fin = [(i, answer_of r)] \<and> kf_keys ?fin = sv_keys s' \<and> kf_fetchedAt ?fin = sv_fetchedAt s'
    \<and> \<not> kf_inflight ?fin"
    using keys by (cases x) (auto simp: res_def nonempty_keys_def alone_def answer_of_def r)
  ultimately show ?thesis by blast
qed

theorem keys_single_flight_witness:
  "\<exists>s. run key_step kf_start [GetKey 1 ''k'' 0, GetKey 2 ''k'' 1, KeysFetched (Inr [(''k'', ''P'')]) 2] s \<and> kf_sent s = 1"
proof -
  obtain s where r: "run key_step kf_start [GetKey 1 ''k'' 0, GetKey 2 ''k'' 1, KeysFetched (Inr [(''k'', ''P'')]) 2] s"
      "\<not> kf_inflight s"
    by (simp add: run_exec kf_start_def nonempty_keys_def)
  from keys_single_flight [OF r(1)] r show ?thesis by auto
qed

end
