(* ===== verification/Responses.thy ===== *)
theory Responses
  imports Connection Dates Http
begin

text \<open>
  What a client sees of a failure: the global exception filter
  (backend/src/common/all-exceptions.filter.ts), the health probe
  (backend/src/health.controller.ts) and the settings \<^verbatim>\<open>bootstrap\<close> reads
  (backend/src/main.ts).
\<close>

section \<open>Node's table of reason phrases\<close>

definition STATUS_CODES :: "(nat \<times> string) list" where
  "STATUS_CODES =
    [(100, ''Continue''), (101, ''Switching Protocols''), (102, ''Processing''), (103, ''Early Hints''),
     (200, ''OK''), (201, ''Created''), (202, ''Accepted''), (203, ''Non-Authoritative Information''),
     (204, ''No Content''), (205, ''Reset Content''), (206, ''Partial Content''), (207, ''Multi-Status''),
     (208, ''Already Reported''), (226, ''IM Used''), (300, ''Multiple Choices''),
     (301, ''Moved Permanently''), (302, ''Found''), (303, ''See Other''), (304, ''Not Modified''),
     (305, ''Use Proxy''), (307, ''Temporary Redirect''), (308, ''Permanent Redirect''),
     (400, ''Bad Request''), (401, ''Unauthorized''), (402, ''Payment Required''), (403, ''Forbidden''),
     (404, ''Not Found''), (405, ''Method Not Allowed''), (406, ''Not Acceptable''),
     (407, ''Proxy Authentication Required''), (408, ''Request Timeout''), (409, ''Conflict''),
     (410, ''Gone''), (411, ''Length Required''), (412, ''Precondition Failed''),
     (413, ''Payload Too Large''), (414, ''URI Too Long''), (415, ''Unsupported Media Type''),
     (416, ''Range Not Satisfiable''), (417, ''Expectation Failed''), (418, ''I'' @ [CHR 0x27] @ ''m a Teapot''),
     (421, ''Misdirected Request''), (422, ''Unprocessable Entity''), (423, ''Locked''),
     (424, ''Failed Dependency''), (425, ''Too Early''), (426, ''Upgrade Required''),
     (428, ''Precondition Required''), (429, ''Too Many Requests''),
     (431, ''Request Header Fields Too Large''), (451, ''Unavailable For Legal Reasons''),
     (500, ''Internal Server Error''), (501, ''Not Implemented''), (502, ''Bad Gateway''),
     (503, ''Service Unavailable''), (504, ''Gateway Timeout''), (505, ''HTTP Version Not Supported''),
     (506, ''Variant Also Negotiates''), (507, ''Insufficient Storage''), (508, ''Loop Detected''),
     (509, ''Bandwidth Limit Exceeded''), (510, ''Not Extended''),
     (511, ''Network Authentication Required'')]"

section \<open>all-exceptions.filter.ts\<close>

text \<open>A message is a text, or the list of texts the validation gives.\<close>

datatype err_message = OneMessage string | Messages "string list"

text \<open>What \<^verbatim>\<open>getResponse\<close> gives: a text, or an object that may have a message and an error label.\<close>

datatype http_body =
    BodyText string
  | BodyObject "err_message option" "string option"

record http_exception =
  he_status :: nat
  he_body :: http_body
  he_message :: string

text \<open>What is thrown: an \<^verbatim>\<open>HttpException\<close>, or anything else (with its message).\<close>

datatype thrown = Http http_exception | OtherError string

record error_response =
  er_statusCode :: nat
  er_error :: string
  er_message :: err_message
  er_timestamp :: string
  er_path :: string

definition reason_phrase :: "nat \<Rightarrow> string" where
  "reason_phrase status =
     (case map_of STATUS_CODES status of None \<Rightarrow> ''Internal Server Error'' | Some r \<Rightarrow> r)"

text \<open>\<^verbatim>\<open>catch\<close>: the response, and what is logged.\<close>

definition catch_exception ::
  "ms \<Rightarrow> string \<Rightarrow> string \<Rightarrow> thrown \<Rightarrow> error_response \<times> string list" where
  "catch_exception now httpMethod url exception =
     (let reply = (\<lambda>status error message.
            \<lparr>er_statusCode = status, er_error = error, er_message = message,
             er_timestamp = toISOString now, er_path = url\<rparr>)
      in case exception of
           Http h \<Rightarrow>
             (let status = he_status h; error = reason_phrase status in
              case he_body h of
                BodyText t \<Rightarrow> (reply status error (OneMessage t), [])
              | BodyObject m l \<Rightarrow>
                  (reply status (case l of None \<Rightarrow> error | Some l' \<Rightarrow> l')
                     (case m of None \<Rightarrow> OneMessage (he_message h) | Some m' \<Rightarrow> m'), []))
         | OtherError msg \<Rightarrow>
             (reply 500 ''Internal Server Error'' (OneMessage ''Internal server error''),
              [''Unhandled '' @ httpMethod @ '' '' @ url @ '': '' @ msg]))"

section \<open>The exceptions of the backend\<close>

text \<open>
  The status of each exception class of the model; the errors the program defines itself and
  those of its libraries are no \<^verbatim>\<open>HttpException\<close>.
\<close>

fun http_status :: "exn \<Rightarrow> (nat \<times> string) option" where
  "http_status (NotFoundException m) = Some (404, m)"
| "http_status (ForbiddenException m) = Some (403, m)"
| "http_status (ConflictException m) = Some (409, m)"
| "http_status (UnauthorizedException m) = Some (401, m)"
| "http_status (BadRequestException m) = Some (400, m)"
| "http_status (ServiceUnavailableException m) = Some (503, m)"
| "http_status (InternalServerErrorException m) = Some (500, m)"
| "http_status _ = None"

fun error_text :: "exn \<Rightarrow> string" where
  "error_text (ConnectError r) = r"
| "error_text (PanelError m _ _) = m"
| "error_text (AttestationError r) = r"
| "error_text (SsvVerificationError m) = m"
| "error_text (SessionConfigError m) = m"
| "error_text (PgError c) = c"
| "error_text (JsError m) = m"
| "error_text _ = []"

text \<open>
  \<open>nest status text\<close> is what the framework's exception constructors build. It is documented:
  the status, the text as message, and as body the text or an object with the message and
  at most the reason phrase as label.
\<close>

definition documented_nest :: "(nat \<Rightarrow> string \<Rightarrow> http_exception) \<Rightarrow> bool" where
  "documented_nest nest \<longleftrightarrow>
     (\<forall>s m. he_status (nest s m) = s \<and> he_message (nest s m) = m
        \<and> he_body (nest s m) \<in> {BodyText m, BodyObject (Some (OneMessage m)) None,
            BodyObject (Some (OneMessage m)) (map_of STATUS_CODES s)})"

definition to_thrown :: "(nat \<Rightarrow> string \<Rightarrow> http_exception) \<Rightarrow> exn \<Rightarrow> thrown" where
  "to_thrown nest e =
     (case http_status e of Some (s, m) \<Rightarrow> Http (nest s m) | None \<Rightarrow> OtherError (error_text e))"

section \<open>health.controller.ts\<close>

record health_state =
  hl_status :: string
  hl_db :: string

text \<open>
  The probe: the outcome of \<^verbatim>\<open>select 1\<close> is given. The exception carries an object without a
  message; the framework then makes up \<open>fallback\<close> from the name of the class.
\<close>

definition health :: "string \<Rightarrow> exn + unit \<Rightarrow> thrown + health_state" where
  "health fallback ping =
     (case ping of
        Inr _ \<Rightarrow> Inr \<lparr>hl_status = ''ok'', hl_db = ''up''\<rparr>
      | Inl _ \<Rightarrow> Inl (Http \<lparr>he_status = 503, he_body = BodyObject None None, he_message = fallback\<rparr>))"

section \<open>main.ts\<close>

datatype trust = Hops int | Proxies string

definition is_digits :: "string \<Rightarrow> bool" where
  "is_digits s \<longleftrightarrow> s \<noteq> [] \<and> list_all (\<lambda>c. 48 \<le> (of_char c :: nat) \<and> (of_char c :: nat) \<le> 57) s"

definition trust_proxy :: "string option \<Rightarrow> trust" where
  "trust_proxy tp =
     (case tp of
        None \<Rightarrow> Hops 1
      | Some s \<Rightarrow>
          if s = [] then Hops 1
          else if is_digits s then Hops (the (number_text s)) else Proxies s)"

text \<open>\<^verbatim>\<open>Number(process.env.PORT ?? 3000)\<close>; \<open>None\<close> is \<^verbatim>\<open>NaN\<close>.\<close>

definition listen_port :: "string option \<Rightarrow> int option" where
  "listen_port port = (case port of None \<Rightarrow> Some 3000 | Some s \<Rightarrow> number_text s)"

section \<open>Properties\<close>

lemma catch_http:
  assumes "documented_nest nest" "http_status e = Some (s, m)"
  shows "catch_exception now md url (to_thrown nest e) =
    (\<lparr>er_statusCode = s, er_error = reason_phrase s, er_message = OneMessage m,
      er_timestamp = toISOString now, er_path = url\<rparr>, [])"
proof -
  have h: "he_status (nest s m) = s" "he_message (nest s m) = m"
    "he_body (nest s m) \<in> {BodyText m, BodyObject (Some (OneMessage m)) None,
       BodyObject (Some (OneMessage m)) (map_of STATUS_CODES s)}"
    using assms(1) unfolding documented_nest_def by blast+
  from h(3) show ?thesis
    using h(1,2) assms(2)
    by (auto simp: catch_exception_def to_thrown_def Let_def reason_phrase_def split: option.splits)
qed

lemma catch_other:
  assumes "http_status e = None"
  shows "catch_exception now md url (to_thrown nest e) =
    (\<lparr>er_statusCode = 500, er_error = ''Internal Server Error'',
      er_message = OneMessage ''Internal server error'', er_timestamp = toISOString now, er_path = url\<rparr>,
     [''Unhandled '' @ md @ '' '' @ url @ '': '' @ error_text e])"
  using assms by (simp add: catch_exception_def to_thrown_def Let_def)

lemma http_status_range: "http_status e = Some (s, m) \<Longrightarrow> s \<in> {400, 401, 403, 404, 409, 500, 503}"
  by (cases e) auto

lemma catch_stamp:
  "er_timestamp (fst (catch_exception now md url t)) = toISOString now \<and>
   er_path (fst (catch_exception now md url t)) = url"
  by (auto simp: catch_exception_def Let_def split: thrown.split http_body.split)

text \<open>What the filter takes from an \<^verbatim>\<open>HttpException\<close>, whatever its status and body.\<close>

definition tells :: "http_exception \<Rightarrow> error_response \<Rightarrow> bool" where
  "tells h res \<longleftrightarrow> er_statusCode res = he_status h \<and>
     (\<forall>t. he_body h = BodyText t \<longrightarrow>
        er_message res = OneMessage t \<and> er_error res = reason_phrase (he_status h)) \<and>
     (\<forall>m l. he_body h = BodyObject (Some m) l \<longrightarrow> er_message res = m) \<and>
     (\<forall>l. he_body h = BodyObject None l \<longrightarrow> er_message res = OneMessage (he_message h)) \<and>
     (\<forall>m l. he_body h = BodyObject m (Some l) \<longrightarrow> er_error res = l) \<and>
     (\<forall>m. he_body h = BodyObject m None \<longrightarrow> er_error res = reason_phrase (he_status h))"

lemma catch_tells: "tells h (fst (catch_exception now md url (Http h))) \<and> snd (catch_exception now md url (Http h)) = []"
  by (auto simp: tells_def catch_exception_def Let_def split: http_body.split option.split)

lemma own_exception:
  assumes "documented_nest nest" "fst (catch_exception now md url (to_thrown nest e)) = res"
  shows "er_statusCode res \<in> {400, 401, 403, 404, 409, 500, 503} \<and> (\<exists>m. er_message res = OneMessage m) \<and>
    map_of STATUS_CODES (er_statusCode res) = Some (er_error res)"
proof (cases "http_status e")
  case None
  with assms(2) show ?thesis by (auto simp: catch_other STATUS_CODES_def)
next
  case (Some sm)
  obtain s m where e: "http_status e = Some (s, m)" using Some by (cases sm) auto
  have "map_of STATUS_CODES s = Some (reason_phrase s)"
    using http_status_range [OF e] by (auto simp: reason_phrase_def STATUS_CODES_def)
  with e http_status_range [OF e] assms(2) show ?thesis by (auto simp: catch_http [OF assms(1) e])
qed

text \<open>
  C26. Whatever is thrown, the response carries the time as an ISO text that reads back as the time,
  and the path. An HTTP exception of any status passes with its status and the message of its body,
  one text or a list, and where the body is an object without a message, with the exception's own;
  the label is the body's, or else the reason phrase; nothing is logged. Anything else gives one
  and the same response, status 500, so nothing of a database, panel or program error reaches the
  client; it is in the log. For the exceptions the program itself throws the status is one of
  seven, the label its reason phrase and the message a single text.
\<close>

theorem error_response_type:
  assumes "\<bar>now\<bar> \<le> 8640000000000000" and "catch_exception now md url t = (res, logged)"
  shows "parseISO (er_timestamp res) = Some now \<and> er_path res = url
    \<and> (\<forall>h. t = Http h \<longrightarrow> tells h res \<and> logged = [])
    \<and> (\<forall>msg. t = OtherError msg \<longrightarrow> er_statusCode res = 500 \<and> er_error res = ''Internal Server Error''
         \<and> logged = [''Unhandled '' @ md @ '' '' @ url @ '': '' @ msg]
         \<and> (\<forall>msg'. fst (catch_exception now md url (OtherError msg')) = res))
    \<and> (\<forall>nest e. documented_nest nest \<and> t = to_thrown nest e \<longrightarrow>
         er_statusCode res \<in> {400, 401, 403, 404, 409, 500, 503} \<and> (\<exists>m. er_message res = OneMessage m)
         \<and> map_of STATUS_CODES (er_statusCode res) = Some (er_error res))"
proof (intro conjI allI impI)
  have res: "fst (catch_exception now md url t) = res" and logged: "snd (catch_exception now md url t) = logged"
    using assms(2) by simp_all
  show "parseISO (er_timestamp res) = Some now" "er_path res = url"
    using catch_stamp [of now md url t] assms(1) by (simp_all add: res parseISO_toISOString)
  show "tells h res" "logged = []" if "t = Http h" for h
    using catch_tells [of h now md url] that res logged by simp_all
  show "er_statusCode res = 500" "er_error res = ''Internal Server Error''"
    "logged = [''Unhandled '' @ md @ '' '' @ url @ '': '' @ msg]"
    "fst (catch_exception now md url (OtherError msg')) = res" if "t = OtherError msg" for msg msg'
    using that res logged by (auto simp: catch_exception_def Let_def)
  fix nest e
  assume "documented_nest nest \<and> t = to_thrown nest e"
  with own_exception [of nest now md url e res] res
  show "er_statusCode res \<in> {400, 401, 403, 404, 409, 500, 503}" "\<exists>m. er_message res = OneMessage m"
    "map_of STATUS_CODES (er_statusCode res) = Some (er_error res)" by auto
qed

text \<open>The object of a failed probe, \<^verbatim>\<open>degraded\<close> and \<^verbatim>\<open>down\<close>, is dropped by the filter.\<close>

theorem health_state_dropped:
  assumes "health fallback (Inl e) = Inl x"
  shows "fst (catch_exception now md url x) =
    \<lparr>er_statusCode = 503, er_error = ''Service Unavailable'', er_message = OneMessage fallback,
     er_timestamp = toISOString now, er_path = url\<rparr>"
  using assms by (auto simp: health_def catch_exception_def reason_phrase_def STATUS_CODES_def)

theorem health_state_dropped_witness:
  "fst (catch_exception 0 ''GET'' ''/api/v1/health''
     (Http \<lparr>he_status = 503, he_body = BodyObject None None, he_message = ''Service Unavailable Exception''\<rparr>)) =
    \<lparr>er_statusCode = 503, er_error = ''Service Unavailable'',
     er_message = OneMessage ''Service Unavailable Exception'',
     er_timestamp = toISOString 0, er_path = ''/api/v1/health''\<rparr>"
  using health_state_dropped [of "''Service Unavailable Exception''" "JsError []" _ 0 "''GET''" "''/api/v1/health''"]
  by (simp add: health_def)

definition probe_failure :: http_exception where
  "probe_failure = \<lparr>he_status = 503, he_body = BodyObject None None, he_message = ''Service Unavailable Exception''\<rparr>"

definition probe_answer :: error_response where
  "probe_answer = fst (catch_exception 1000 ''GET'' ''/api/v1/health'' (Http probe_failure))"

theorem error_response_type_witness:
  "er_message probe_answer = OneMessage ''Service Unavailable Exception'' \<and>
   er_error probe_answer = ''Service Unavailable'' \<and> parseISO (er_timestamp probe_answer) = Some 1000"
proof -
  have r: "reason_phrase 503 = ''Service Unavailable''" by (simp add: reason_phrase_def STATUS_CODES_def)
  have "catch_exception 1000 ''GET'' ''/api/v1/health'' (Http probe_failure) =
      (probe_answer, snd (catch_exception 1000 ''GET'' ''/api/v1/health'' (Http probe_failure)))"
    by (simp add: probe_answer_def)
  from error_response_type [OF _ this] r show ?thesis by (simp add: tells_def probe_failure_def)
qed

end
