(* ===== verification/Telegram.thy ===== *)
theory Telegram
  imports Admin Samples Responses Remnawave
begin

text \<open>
  The operations bot: the whitelist (backend/src/telegram/telegram-admin.guard.ts) and the
  commands (backend/src/telegram/telegram.update.ts). Telegraf hands a text to the first
  handler whose pattern matches; replies are lists of UTF-8 texts and are taken to be
  delivered. Ids are abstract in the model, so the reading and the writing of a UUID are
  parameters.
\<close>

section \<open>telegram-admin.guard.ts\<close>

definition WHITELIST :: "string option \<Rightarrow> string list" where
  "WHITELIST ids =
     filter is_digits (map trim (split_at (\<lambda>c. c = CHR '','') (case ids of None \<Rightarrow> [] | Some s \<Rightarrow> s)))"

definition telegram_guard :: "string option \<Rightarrow> nat option \<Rightarrow> bool" where
  "telegram_guard ids fromId = (case fromId of None \<Rightarrow> False | Some i \<Rightarrow> show_nat i \<in> set (WHITELIST ids))"

section \<open>Patterns\<close>

text \<open>\<^verbatim>\<open>(.+)$\<close> after a fixed text: something, and no line terminator in it.\<close>

definition line_end :: "char \<Rightarrow> bool" where
  "line_end c \<longleftrightarrow> c = CHR 0x0A \<or> c = CHR 0x0D"

definition rest_of_line :: "string \<Rightarrow> string option" where
  "rest_of_line s = (if s \<noteq> [] \<and> \<not> list_ex line_end s then Some s else None)"

definition after :: "string \<Rightarrow> string \<Rightarrow> string option" where
  "after p s = (if startsWith s p then Some (drop (length p) s) else None)"

text \<open>
  \<^verbatim>\<open>/^\/find\s+(.+)$/\<close>: the blanks take all they can; when only blanks follow, the last one is
  left for the group.
\<close>

definition match_find :: "string \<Rightarrow> string option" where
  "match_find text =
     (case after ''/find'' text of
        None \<Rightarrow> None
      | Some r \<Rightarrow>
          (let blanks = takeWhile is_space r; arg = dropWhile is_space r in
           if blanks = [] then None
           else if arg \<noteq> [] then rest_of_line arg
           else if length blanks < 2 then None else rest_of_line [last blanks]))"

definition match_kick :: "string \<Rightarrow> string option" where
  "match_kick text = Option.bind (after ''/kick_'' text) rest_of_line"

definition uuid_digit :: "char \<Rightarrow> bool" where
  "uuid_digit c \<longleftrightarrow> (let n = of_char (toLowerChar c) :: nat in 48 \<le> n \<and> n \<le> 57 \<or> 97 \<le> n \<and> n \<le> 102)"

definition UUID_RE :: "string \<Rightarrow> bool" where
  "UUID_RE s \<longleftrightarrow>
     (let parts = split_at (\<lambda>c. c = CHR ''-'') s in
      map length parts = [8, 4, 4, 4, 12] \<and> list_all (list_all uuid_digit) parts)"

section \<open>telegram.update.ts\<close>

text \<open>A message: its text, and the sender's id and user name.\<close>

record tg_message =
  tg_text :: string
  tg_from :: "nat option"
  tg_username :: "string option"

datatype tg_command = TgStart | TgStats | TgFind string | TgKick string

text \<open>\<open>command\<close> is Telegraf's reading of \<^verbatim>\<open>/start\<close> and \<^verbatim>\<open>/stats\<close>; handlers are tried in the order of the class.\<close>

definition tg_dispatch :: "(string \<Rightarrow> string \<Rightarrow> bool) \<Rightarrow> string \<Rightarrow> tg_command option" where
  "tg_dispatch command text =
     (if command ''start'' text then Some TgStart
      else if command ''stats'' text then Some TgStats
      else case match_find text of
        Some m \<Rightarrow> Some (TgFind m)
      | None \<Rightarrow> map_option TgKick (match_kick text))"

definition bullet :: string where "bullet = [CHR 0xE2, CHR 0x80, CHR 0xA2]"
definition NL :: string where "NL = [CHR 0x0A]"

fun join_lines :: "string list \<Rightarrow> string" where
  "join_lines [] = []"
| "join_lines [l] = l"
| "join_lines (l # m # ls) = l @ NL @ join_lines (m # ls)"

definition start_reply :: string where
  "start_reply = join_lines [''Ops bot online.'', ''Commands:'', ''/stats'', ''/find <email>'', ''/kick_<session_id>'']"

definition stats_reply :: "admin_stats \<Rightarrow> string" where
  "stats_reply s = join_lines
     [[CHR 0xF0, CHR 0x9F, CHR 0x93, CHR 0x8A] @ '' System stats'',
      bullet @ '' Active sessions: '' @ show_nat (st_activeSessions s),
      bullet @ '' Ads watched today: '' @ show_nat (st_adsWatchedToday s),
      bullet @ '' Total users: '' @ show_nat (st_totalUsers s),
      bullet @ '' Premium users: '' @ show_nat (st_premiumUsers s)]"

fun tier_text :: "plan_tier \<Rightarrow> string" where
  "tier_text Free = ''free''"
| "tier_text Premium = ''premium''"

fun session_status_text :: "session_status \<Rightarrow> string" where
  "session_status_text S_provisioning = ''provisioning''"
| "session_status_text S_active = ''active''"
| "session_status_text S_limited = ''limited''"
| "session_status_text S_expired = ''expired''"
| "session_status_text S_revoked = ''revoked''"
| "session_status_text S_closed = ''closed''"
| "session_status_text S_failed = ''failed''"

fun user_status_text :: "user_status \<Rightarrow> string" where
  "user_status_text U_active = ''active''"
| "user_status_text U_suspended = ''suspended''"
| "user_status_text U_deleted = ''deleted''"

fun role_text :: "user_role \<Rightarrow> string" where
  "role_text Role_admin = ''admin''"
| "role_text Role_user = ''user''"

definition find_reply :: "(id \<Rightarrow> string) \<Rightarrow> string \<Rightarrow> admin_user_row option \<Rightarrow> string" where
  "find_reply uuid email found =
     (case found of
        None \<Rightarrow> ''No user found for \"'' @ email @ ''\".''
      | Some u \<Rightarrow> join_lines
          ([[CHR 0xF0, CHR 0x9F, CHR 0x91, CHR 0xA4] @ '' '' @ (case au_email u of None \<Rightarrow> ''(anonymous)'' | Some e \<Rightarrow> e),
            ''id: '' @ uuid (au_id u),
            ''role: '' @ role_text (au_role u) @ ''   banned: '' @
              (if au_isBanned u then ''YES '' @ [CHR 0xE2, CHR 0x9B, CHR 0x94] else ''no'') @
              ''   status: '' @ user_status_text (au_status u),
            ''active sessions:''] @
           (if au_activeSessions u = [] then [''  '' @ bullet @ '' none'']
            else map (\<lambda>s. ''  '' @ bullet @ '' '' @ uuid (sb_id s) @ '' ('' @ tier_text (sb_tier s) @ ''/'' @
                       session_status_text (sb_status s) @ '')'') (au_activeSessions u))))"

definition error_message :: "exn \<Rightarrow> string" where
  "error_message e = (case http_status e of Some (_, m) \<Rightarrow> m | None \<Rightarrow> error_text e)"

text \<open>\<^verbatim>\<open>/kick_\<close>: what happens in \<^verbatim>\<open>kickSession\<close> is reported, never thrown.\<close>

definition kick_entry :: "id \<Rightarrow> tg_message \<Rightarrow> audit_entry" where
  "kick_entry target m =
     \<lparr>ae_adminId = None, ae_actionType = KICK_SESSION, ae_targetId = Some target,
      ae_details = Some (JObj [(''source'', JStr ''telegram''),
        (''telegramId'', case tg_from m of None \<Rightarrow> JNull | Some i \<Rightarrow> JNum (int i)),
        (''telegramUsername'', case tg_username m of None \<Rightarrow> JNull | Some u \<Rightarrow> JStr u)]),
      ae_ip = None\<rparr>"

definition tg_kick ::
  "(string \<Rightarrow> bool) \<Rightarrow> (string \<Rightarrow> id) \<Rightarrow> ms \<Rightarrow> tg_message \<Rightarrow> string \<Rightarrow> db \<Rightarrow> string \<times> db" where
  "tg_kick inet id_of now m arg d =
     (let sessionId = trim arg in
      if \<not> UUID_RE sessionId then (''Usage: /kick_<session_id> (a session UUID).'', d)
      else (case kickSession now (id_of sessionId) d of
              (Inr _, d1) \<Rightarrow>
                ([CHR 0xE2, CHR 0x9C, CHR 0x85] @ '' Kicked session '' @ sessionId @
                   '' (revoke queued to the panel).'',
                 record_audit inet now (kick_entry (id_of sessionId) m) d1)
            | (Inl e, d1) \<Rightarrow>
                ([CHR 0xE2, CHR 0x9A, CHR 0xA0, CHR 0xEF, CHR 0xB8, CHR 0x8F] @ '' Could not kick '' @
                   sessionId @ '': '' @ error_message e, d1)))"

text \<open>One update: nothing at all for a stranger or a text no handler matches.\<close>

definition telegram_update ::
  "string option \<Rightarrow> (string \<Rightarrow> string \<Rightarrow> bool) \<Rightarrow> (string \<Rightarrow> bool) \<Rightarrow> (string \<Rightarrow> id) \<Rightarrow> (id \<Rightarrow> string) \<Rightarrow> ms
    \<Rightarrow> tg_message \<Rightarrow> (db, string list) prog" where
  "telegram_update ids command inet id_of uuid now m d =
     (if \<not> telegram_guard ids (tg_from m) then (Inr [], d)
      else case tg_dispatch command (tg_text m) of
        None \<Rightarrow> (Inr [], d)
      | Some TgStart \<Rightarrow> (Inr [start_reply], d)
      | Some TgStats \<Rightarrow> (map_sum id (\<lambda>s. [stats_reply s]) (stats now d), d)
      | Some (TgFind arg) \<Rightarrow> (Inr [find_reply uuid (trim arg) (findUserByEmail (trim arg) d)], d)
      | Some (TgKick arg) \<Rightarrow> (case tg_kick inet id_of now m arg d of (r, d1) \<Rightarrow> (Inr [r], d1)))"

section \<open>Properties\<close>

definition without_audit :: "db \<Rightarrow> db" where
  "without_audit d = d\<lparr>audit_logs := [], next_id := 0\<rparr>"

lemma recordInTx_audit_only: "without_audit (snd (recordInTx inet now e d)) = without_audit d"
  by (simp add: recordInTx_def without_audit_def Let_def)

lemma record_audit_only: "without_audit (record_audit inet now e d) = without_audit d"
  by (simp add: record_audit_def recordInTx_audit_only)

lemma fold_audit_only:
  assumes "\<And>x d. without_audit (f x d) = without_audit d"
  shows "without_audit (fold f xs d) = without_audit d"
  using assms by (induction xs arbitrary: d) auto

lemma intercept_audit_only: "without_audit (intercept inet now md h a ip t b r d) = without_audit d"
  by (auto simp: intercept_def record_audit_only intro!: fold_audit_only)

lemma record_without_admin:
  "ae_adminId e = None \<Longrightarrow> ae_ip e = None \<Longrightarrow>
     record_audit inet now e d = d\<lparr>audit_logs := audit_logs d @ [audit_row now e (next_id d)], next_id := next_id d + 1\<rparr>"
  by (simp add: record_audit_def recordInTx_def audit_row_def normalizeIp_def)

text \<open>An update that asks for a kick: a listed account, the kick command, a UUID behind it.\<close>

definition asks_kick ::
  "string option \<Rightarrow> (string \<Rightarrow> string \<Rightarrow> bool) \<Rightarrow> tg_message \<Rightarrow> string \<Rightarrow> bool" where
  "asks_kick ids command m sessionId \<longleftrightarrow>
     (\<exists>i arg. tg_from m = Some i \<and> show_nat i \<in> set (WHITELIST ids) \<and>
        tg_dispatch command (tg_text m) = Some (TgKick arg) \<and> sessionId = trim arg \<and> UUID_RE sessionId)"

lemma kick_error: "kickSession now i d = (Inl e, d1) \<Longrightarrow> d1 = d"
  unfolding kickSession_def withTransaction_def by (auto split: prod.splits sum.splits)

lemma update_no_kick:
  assumes "telegram_update ids command inet id_of uuid now m d = (r, d')"
    and "\<And>sessionId. \<not> asks_kick ids command m sessionId"
  shows "d' = d"
proof (rule ccontr)
  assume "d' \<noteq> d"
  with assms(1) obtain i arg where sender: "tg_from m = Some i" "show_nat i \<in> set (WHITELIST ids)"
    and cmd: "tg_dispatch command (tg_text m) = Some (TgKick arg)"
    and d': "d' = snd (tg_kick inet id_of now m arg d)"
    by (auto simp: telegram_update_def telegram_guard_def
        split: if_splits option.splits tg_command.splits prod.splits)
  from \<open>d' \<noteq> d\<close> d' have "UUID_RE (trim arg)" by (rule_tac ccontr) (simp add: tg_kick_def Let_def)
  with sender cmd assms(2) show False unfolding asks_kick_def by blast
qed

lemma update_kick:
  assumes "asks_kick ids command m sessionId" and "kickSession now (id_of sessionId) d = (res, dk)"
  shows "telegram_update ids command inet id_of uuid now m d =
    (case res of
       Inr _ \<Rightarrow> (Inr [[CHR 0xE2, CHR 0x9C, CHR 0x85] @ '' Kicked session '' @ sessionId @
           '' (revoke queued to the panel).''], record_audit inet now (kick_entry (id_of sessionId) m) dk)
     | Inl e \<Rightarrow> (Inr [[CHR 0xE2, CHR 0x9A, CHR 0xA0, CHR 0xEF, CHR 0xB8, CHR 0x8F] @ '' Could not kick '' @
           sessionId @ '': '' @ error_message e], d))"
  using assms kick_error [of now "id_of sessionId" d]
  by (auto simp: asks_kick_def telegram_update_def telegram_guard_def tg_kick_def Let_def split: sum.split)

lemma kick_route_admin:
  assumes "adminGuard adminId d = Inr ()" and "kickSession now sid d = (res, dk)"
  shows "isl (fst (kick_route inet now adminId ip sid d)) = isl res \<and>
    without_audit (snd (kick_route inet now adminId ip sid d)) = without_audit dk"
  using assms by (cases res) (auto simp: kick_route_def admin_route_def intercept_audit_only)

text \<open>
  C27. What a Telegram account can do is what an administrator can do at the kick endpoint. A kick of
  a session id by a listed account succeeds exactly when the endpoint would succeed for an
  administrator; it then leaves sessions, outbox and every other table as the endpoint leaves
  them, says so, and appends one audit row that names the account; when the kick fails the reply
  says why and nothing changes. Any other update, of a stranger or with another text, changes
  nothing.
\<close>

theorem telegram_kick_like_endpoint:
  assumes "telegram_update ids command inet id_of uuid now m d = (r, d')"
  shows "(\<forall>sessionId. asks_kick ids command m sessionId \<longrightarrow>
      (\<exists>res dk. kickSession now (id_of sessionId) d = (res, dk)
         \<and> (case res of
              Inr _ \<Rightarrow> r = Inr [[CHR 0xE2, CHR 0x9C, CHR 0x85] @ '' Kicked session '' @ sessionId @
                  '' (revoke queued to the panel).'']
                \<and> audit_logs d' = audit_logs dk @ [audit_row now (kick_entry (id_of sessionId) m) (next_id dk)]
            | Inl e \<Rightarrow> r = Inr [[CHR 0xE2, CHR 0x9A, CHR 0xA0, CHR 0xEF, CHR 0xB8, CHR 0x8F] @
                  '' Could not kick '' @ sessionId @ '': '' @ error_message e] \<and> d' = d)
         \<and> (\<forall>adminId ip. adminGuard adminId d = Inr () \<longrightarrow>
              isl (fst (kick_route inet now adminId ip (id_of sessionId) d)) = isl res
              \<and> without_audit d' = without_audit (snd (kick_route inet now adminId ip (id_of sessionId) d)))))
    \<and> ((\<nexists>sessionId. asks_kick ids command m sessionId) \<longrightarrow> d' = d)"
proof (intro conjI allI impI)
  fix sessionId
  assume asks: "asks_kick ids command m sessionId"
  obtain res dk where kick: "kickSession now (id_of sessionId) d = (res, dk)" by fastforce
  note upd = update_kick [where id_of = id_of, OF asks kick, of inet uuid]
  have same: "without_audit d' = without_audit dk"
    using upd assms kick kick_error [of now "id_of sessionId" d] by (cases res) (auto simp: record_audit_only)
  show "\<exists>res dk. kickSession now (id_of sessionId) d = (res, dk)
       \<and> (case res of
            Inr _ \<Rightarrow> r = Inr [[CHR 0xE2, CHR 0x9C, CHR 0x85] @ '' Kicked session '' @ sessionId @
                '' (revoke queued to the panel).'']
              \<and> audit_logs d' = audit_logs dk @ [audit_row now (kick_entry (id_of sessionId) m) (next_id dk)]
          | Inl e \<Rightarrow> r = Inr [[CHR 0xE2, CHR 0x9A, CHR 0xA0, CHR 0xEF, CHR 0xB8, CHR 0x8F] @
                '' Could not kick '' @ sessionId @ '': '' @ error_message e] \<and> d' = d)
       \<and> (\<forall>adminId ip. adminGuard adminId d = Inr () \<longrightarrow>
            isl (fst (kick_route inet now adminId ip (id_of sessionId) d)) = isl res
            \<and> without_audit d' = without_audit (snd (kick_route inet now adminId ip (id_of sessionId) d)))"
  proof (intro exI conjI allI impI)
    show "kickSession now (id_of sessionId) d = (res, dk)" by (rule kick)
    show "case res of
            Inr _ \<Rightarrow> r = Inr [[CHR 0xE2, CHR 0x9C, CHR 0x85] @ '' Kicked session '' @ sessionId @
                '' (revoke queued to the panel).'']
              \<and> audit_logs d' = audit_logs dk @ [audit_row now (kick_entry (id_of sessionId) m) (next_id dk)]
          | Inl e \<Rightarrow> r = Inr [[CHR 0xE2, CHR 0x9A, CHR 0xA0, CHR 0xEF, CHR 0xB8, CHR 0x8F] @
                '' Could not kick '' @ sessionId @ '': '' @ error_message e] \<and> d' = d"
      using upd assms by (cases res) (auto simp: record_without_admin kick_entry_def)
  qed (use kick_route_admin [OF _ kick] same in simp_all)
next
  assume "\<nexists>sessionId. asks_kick ids command m sessionId"
  with update_no_kick [OF assms] show "d' = d" by blast
qed

text \<open>An account that is not listed gets no reply either; without a valid list nobody does.\<close>

lemma stranger_ignored:
  "\<not> telegram_guard ids (tg_from m) \<Longrightarrow> telegram_update ids command inet id_of uuid now m d = (Inr [], d)"
  by (simp add: telegram_update_def)

lemma nobody_listed: "\<not> telegram_guard None fromId"
  by (simp add: telegram_guard_def WHITELIST_def is_digits_def trim_def split: option.splits)

definition kick_message :: tg_message where
  "kick_message = \<lparr>tg_text = ''/kick_00000000-0000-0000-0000-000000000004'', tg_from = Some 7, tg_username = None\<rparr>"

definition kick_target :: string where
  "kick_target = ''00000000-0000-0000-0000-000000000004''"

theorem telegram_kick_like_endpoint_witness:
  "\<exists>d' dk. snd (telegram_update (Some ''1, 7'') (\<lambda>_ _. False) (\<lambda>_. True) (\<lambda>_. 4) (\<lambda>_. []) 1000 kick_message sample_db) = d'
     \<and> kickSession 1000 4 sample_db = (Inr (), dk) \<and> sessions dk \<noteq> sessions sample_db
     \<and> audit_logs d' = audit_logs dk @ [audit_row 1000 (kick_entry 4 kick_message) (next_id dk)]"
proof -
  let ?u = "telegram_update (Some ''1, 7'') (\<lambda>_ _. False) (\<lambda>_. True) (\<lambda>_. 4) (\<lambda>_. []) 1000 kick_message sample_db"
  obtain r d' where run: "?u = (r, d')" by fastforce
  have "tg_dispatch (\<lambda>_ _. False) (tg_text kick_message) = Some (TgKick kick_target)"
    "trim kick_target = kick_target" "UUID_RE kick_target" "tg_from kick_message = Some 7"
    "show_nat 7 \<in> set (WHITELIST (Some ''1, 7''))" by code_simp+
  then have asks: "asks_kick (Some ''1, 7'') (\<lambda>_ _. False) kick_message kick_target"
    unfolding asks_kick_def by (metis (no_types))
  have "fst (kickSession 1000 4 sample_db) = Inr ()"
    "sessions (snd (kickSession 1000 4 sample_db)) \<noteq> sessions sample_db" by code_simp+
  then obtain dk where kick: "kickSession 1000 4 sample_db = (Inr (), dk)" and changed: "sessions dk \<noteq> sessions sample_db"
    by (cases "kickSession 1000 4 sample_db") simp
  from telegram_kick_like_endpoint [OF run, THEN conjunct1, rule_format, OF asks]
  have "audit_logs d' = audit_logs dk @ [audit_row 1000 (kick_entry 4 kick_message) (next_id dk)]"
    by (elim exE conjE) (simp add: kick)
  moreover have "snd ?u = d'" by (simp add: run)
  ultimately show ?thesis using kick changed by blast
qed

end
