(* ===== verification/AttestConfig.thy ===== *)
theory AttestConfig
  imports Attest Http Remnawave
begin

text \<open>
  How the attestation gets its configuration: \<^verbatim>\<open>loadAttestConfig\<close> of
  backend/src/attest/attest.config.ts. The environment is a function from names to texts; a
  file is read through the parameter \<open>read_file\<close>. A number that cannot be read is \<^verbatim>\<open>NaN\<close>.
\<close>

type_synonym environ = "string \<Rightarrow> string option"

record loaded_config =
  lc_config :: attest_config
  lc_googleCredentialsFile :: string
  lc_appleRootCaPem :: string

text \<open>\<^verbatim>\<open>required\<close>: an empty value counts as missing.\<close>

definition required_env :: "environ \<Rightarrow> string \<Rightarrow> exn + string" where
  "required_env env k =
     (if env_set (env k) then Inr (the (env k)) else Inl (JsError (''missing required env '' @ k)))"

definition resolvePem :: "(string \<Rightarrow> exn + string) \<Rightarrow> string \<Rightarrow> exn + string" where
  "resolvePem read_file v = (if js_includes v ''-----BEGIN'' then Inr v else read_file v)"

definition env_number :: "environ \<Rightarrow> string \<Rightarrow> int \<Rightarrow> int option" where
  "env_number env k dflt = (case env k of None \<Rightarrow> Some dflt | Some v \<Rightarrow> number_text v)"

definition cert_digests :: "environ \<Rightarrow> string list" where
  "cert_digests env =
     filter (\<lambda>s. s \<noteq> []) (split_at (\<lambda>c. c = CHR '','')
       (case env ''ANDROID_CERT_SHA256_B64'' of None \<Rightarrow> [] | Some s \<Rightarrow> s))"

text \<open>
  The configuration, or the first required variable that is missing. A time that is no number
  gives no configuration of the model (\<open>Inr None\<close>): the comparisons with it are all false.
\<close>

definition loadAttestConfig ::
  "(string \<Rightarrow> exn + string) \<Rightarrow> environ \<Rightarrow> exn + loaded_config option" where
  "loadAttestConfig read_file env =
     (case required_env env ''ANDROID_PACKAGE_NAME'' of Inl e \<Rightarrow> Inl e | Inr pkg \<Rightarrow>
      case required_env env ''GOOGLE_APPLICATION_CREDENTIALS'' of Inl e \<Rightarrow> Inl e | Inr google \<Rightarrow>
      case required_env env ''APPLE_TEAM_ID'' of Inl e \<Rightarrow> Inl e | Inr team \<Rightarrow>
      case required_env env ''APPLE_BUNDLE_ID'' of Inl e \<Rightarrow> Inl e | Inr bundle \<Rightarrow>
      case required_env env ''APPLE_APPATTEST_ROOT_CA_PEM'' of Inl e \<Rightarrow> Inl e | Inr ca \<Rightarrow>
      case resolvePem read_file ca of Inl e \<Rightarrow> Inl e | Inr pem \<Rightarrow>
      (case (env_number env ''ANDROID_TOKEN_MAX_AGE_MS'' (5 * 60000),
             env_number env ''ATTEST_CHALLENGE_TTL_MS'' (5 * 60000),
             env_number env ''ATTEST_TTL_MS'' (24 * 60 * 60000)) of
         (Some age, Some ttl, Some attested) \<Rightarrow>
           Inr (Some \<lparr>lc_config = \<lparr>androidPackageName = pkg, androidCertDigests = cert_digests env,
                 androidTokenMaxAgeMs = age, appleTeamId = team, appleBundleId = bundle,
                 appleAttestEnv = (case env ''APPLE_ATTEST_ENV'' of None \<Rightarrow> ''production'' | Some v \<Rightarrow> v),
                 challengeTtlMs = ttl, attestationTtlMs = attested\<rparr>,
               lc_googleCredentialsFile = google, lc_appleRootCaPem = pem\<rparr>)
       | _ \<Rightarrow> Inr None))"

text \<open>An empty digest list switches the certificate check off; it is empty exactly when nothing is listed.\<close>

lemma cert_digests_empty:
  "cert_digests env = [] \<longleftrightarrow>
     (case env ''ANDROID_CERT_SHA256_B64'' of None \<Rightarrow> True | Some s \<Rightarrow> list_all (\<lambda>c. c = CHR '','') s)"
proof -
  have "filter (\<lambda>s. s \<noteq> []) (split_at P s) = [] \<longleftrightarrow> list_all P s" for P s
    by (induction s) (auto split: list.splits)
  then show ?thesis by (auto simp: cert_digests_def split: option.splits)
qed

text \<open>Nothing required may be missing or empty, and the defaults are five minutes and a day.\<close>

lemma loadAttestConfig_Some:
  assumes "loadAttestConfig read_file env = Inr (Some c)"
  shows "\<forall>k \<in> {''ANDROID_PACKAGE_NAME'', ''GOOGLE_APPLICATION_CREDENTIALS'', ''APPLE_TEAM_ID'',
           ''APPLE_BUNDLE_ID'', ''APPLE_APPATTEST_ROOT_CA_PEM''}. env_set (env k)"
  using assms by (auto simp: loadAttestConfig_def required_env_def split: if_splits)

end
