(* ===== verification/Reclaim.thy ===== *)
theory Reclaim
  imports Workers Outbox_Correct Ads_Correct
begin

text \<open>
  The reaper, the outbox and the drainer together: a session whose time has run out loses its
  panel user, after one run of the reaper and as many ticks of the drainer as the backlog needs,
  as long as the panel answers. The theory composes backend/src/workers/reaper.worker.ts and
  backend/src/workers/outbox-drainer.worker.ts; of the panel it only relies on the law
  \<open>panel_forgets\<close>.
\<close>

section \<open>A sequence of ticks\<close>

text \<open>Each tick with its instant, and the instants at which its operations are settled.\<close>

fun ticks ::
  "outbox_env \<Rightarrow> 'p panel_client \<Rightarrow> (ms \<times> (id \<Rightarrow> ms)) list \<Rightarrow> 'p world \<Rightarrow> 'p world" where
  "ticks env pc [] w = w"
| "ticks env pc ((now, clk) # ts) w = ticks env pc ts (tick env pc (\<lambda>_. False) now clk w)"

definition unsettled :: "panel_operation \<Rightarrow> bool" where
  "unsettled r \<longleftrightarrow> o_status r \<noteq> O_succeeded \<and> o_status r \<noteq> O_dead"

definition backlog :: "db \<Rightarrow> nat" where
  "backlog d = length (filter unsettled (ops d))"

text \<open>Every open operation may be claimed from this instant on.\<close>

definition ripe :: "ms \<Rightarrow> panel_operation list \<Rightarrow> bool" where
  "ripe now t \<longleftrightarrow> (\<forall>r \<in> set t. unsettled r \<longrightarrow> o_next_attempt_at r \<le> now)"

lemma ripe_due: "ripe now t \<Longrightarrow> r \<in> set t \<Longrightarrow> due now r \<longleftrightarrow> unsettled r"
  by (cases "o_status r") (auto simp: ripe_def due_def unsettled_def)

lemma ripe_mono: "ripe now t \<Longrightarrow> now \<le> now' \<Longrightarrow> ripe now' t"
  unfolding ripe_def by fastforce

lemma healthy_cong: "o_op r' = o_op r \<Longrightarrow> o_payload r' = o_payload r \<Longrightarrow> healthy pc r' = healthy pc r"
  by (simp add: healthy_def dispatch_def Let_def)

lemma completed_healthy [simp]: "healthy pc (completed clk (lease env now r)) = healthy pc r"
  by (rule healthy_cong) (simp_all add: completed_def outbox_simps)

lemma claim_healthy:
  "\<forall>r \<in> set (ops d). healthy pc r \<Longrightarrow> \<forall>op \<in> set (fst (claim env locked now d)). healthy pc op"
  by (auto simp: claim_def Let_def returning_set healthy_cong [of "lease env now _"] outbox_simps)

text \<open>What a tick with an answering panel does to a ripe outbox.\<close>

lemma tick_ripe:
  fixes env :: outbox_env and w :: "'p world" and clk :: "id \<Rightarrow> ms"
  assumes k: "keys_ok (wdb w)" and h: "\<forall>r \<in> set (ops (wdb w)). healthy pc r" and ripe: "ripe now (ops (wdb w))"
  defines "w' \<equiv> tick env pc (\<lambda>_. False) now clk w"
  shows "keys_ok (wdb w')" "\<forall>r \<in> set (ops (wdb w')). healthy pc r" "ripe later (ops (wdb w)) \<Longrightarrow> ripe later (ops (wdb w'))"
    "backlog (wdb w') = backlog (wdb w) - BATCH env"
proof -
  let ?ids = "claim_ids env (\<lambda>_. False) now (ops (wdb w))"
  note claimed = claim_healthy [OF h]
  have ops: "ops (wdb w') = update_where (\<lambda>r. o_id r \<in> set ?ids) (\<lambda>r. completed clk (lease env now r)) (ops (wdb w))"
    unfolding w'_def by (rule tick_healthy_ops [OF claimed])
  show "keys_ok (wdb w')"
    unfolding w'_def by (rule keys_ok_outbox_frame [OF tick_outbox_frame tick_core k])
  show "\<forall>r \<in> set (ops (wdb w')). healthy pc r"
    unfolding ops using h by (simp add: update_where_ball)
  show ripe': "ripe later (ops (wdb w'))" if "ripe later (ops (wdb w))" for later
    using that unfolding ops ripe_def by (auto simp: update_where_ball unsettled_def)
  have "filter unsettled t = filter (due now) t" if "ripe now t" for t
    using ripe_due [OF that] by (auto intro: filter_cong)
  with tick_drains [OF k claimed] ripe ripe' [OF ripe] show "backlog (wdb w') = backlog (wdb w) - BATCH env"
    by (simp add: backlog_def w'_def)
qed

section \<open>The panel\<close>

text \<open>
  What is relied on: a user the panel has deleted is gone, and neither a deletion, a disabling nor
  a change of expiry of any user brings it back.
\<close>

definition panel_forgets :: "'p panel_client \<Rightarrow> (string \<Rightarrow> 'p \<Rightarrow> bool) \<Rightarrow> bool" where
  "panel_forgets pc gone \<longleftrightarrow>
     (\<forall>un p. fst (deleteUser pc un p) = Inr () \<longrightarrow> gone un (snd (deleteUser pc un p)))
     \<and> (\<forall>un v e p. gone un p \<longrightarrow> gone un (snd (deleteUser pc v p)) \<and> gone un (snd (disableUser pc v p))
          \<and> gone un (snd (setUserExpiry pc v e p)))"

lemma dispatch_panel:
  "snd (dispatch pc r p) =
     (let un = panel_username (o_payload r) in
      if o_op r = ''extend_user'' then
        (case expire_epoch (o_payload r) of
           None \<Rightarrow> p
         | Some ep \<Rightarrow> if ep = 0 then p else snd (setUserExpiry pc un (ep * 1000) p))
      else if o_op r = ''revoke_user'' then
        (if isl (fst (disableUser pc un p)) then snd (disableUser pc un p)
         else snd (deleteUser pc un (snd (disableUser pc un p))))
      else if o_op r = ''delete_user'' then snd (deleteUser pc un p)
      else p)"
  by (simp add: dispatch_def Let_def split: option.split prod.split sum.split)

lemma forgetsD:
  assumes "panel_forgets pc gone" "gone un p"
  shows "gone un (snd (deleteUser pc v p))" "gone un (snd (disableUser pc v p))"
    "gone un (snd (setUserExpiry pc v e p))"
  using assms by (simp_all add: panel_forgets_def)

lemma forgets_dispatch:
  assumes "panel_forgets pc gone" "gone un p"
  shows "gone un (snd (dispatch pc r p))"
  using assms by (simp add: dispatch_panel Let_def forgetsD split: option.split)

lemma removal_dispatch:
  assumes "panel_forgets pc gone" "healthy pc r" "removal_op (o_op r)"
  shows "gone (panel_username (o_payload r)) (snd (dispatch pc r p))"
proof -
  have del: "gone un (snd (deleteUser pc un q))" if "fst (deleteUser pc un q) = Inr ()" for un q
    using assms(1) that by (simp add: panel_forgets_def)
  have "fst (dispatch pc r p) = Inr ()" using assms(2) by (simp add: healthy_def)
  with assms(3) show ?thesis
    by (auto simp: removal_op_def dispatch_def Let_def intro!: del split: prod.splits sum.splits)
qed

lemma drain_one_panel: "wpanel (drain_one env pc now r w) = snd (dispatch pc r (wpanel w))"
  by (auto simp: drain_one_def on_panel_def split: prod.split sum.split)

lemma forgets_drain_ops:
  "panel_forgets pc gone \<Longrightarrow> gone un (wpanel w) \<Longrightarrow> gone un (wpanel (drain_ops env pc clk l w))"
  by (induction l arbitrary: w) (auto simp: drain_one_panel forgets_dispatch)

lemma removal_drain_ops:
  assumes "panel_forgets pc gone" "\<forall>r \<in> set l. healthy pc r" "r \<in> set l" "removal_op (o_op r)"
  shows "gone (panel_username (o_payload r)) (wpanel (drain_ops env pc clk l w))"
  using assms(2,3)
proof (induction l arbitrary: w)
  case (Cons x l)
  show ?case
  proof (cases "x = r")
    case True
    with Cons.prems removal_dispatch [OF assms(1) _ assms(4)] show ?thesis
      by (auto simp: drain_one_panel intro!: forgets_drain_ops [OF assms(1)])
  next
    case False
    with Cons show ?thesis by auto
  qed
qed simp

lemma tick_panel:
  assumes "panel_forgets pc gone"
  shows "gone un (wpanel w) \<Longrightarrow> gone un (wpanel (tick env pc locked now clk w))"
    and "\<lbrakk>\<forall>r \<in> set (ops (wdb w)). healthy pc r; r \<in> set (ops (wdb w));
        o_id r \<in> set (claim_ids env locked now (ops (wdb w))); removal_op (o_op r)\<rbrakk> \<Longrightarrow>
      gone (panel_username (o_payload r)) (wpanel (tick env pc locked now clk w))"
proof -
  show "gone un (wpanel w) \<Longrightarrow> gone un (wpanel (tick env pc locked now clk w))"
    by (simp add: tick_snd forgets_drain_ops [OF assms])
  assume h: "\<forall>r \<in> set (ops (wdb w)). healthy pc r" and r: "r \<in> set (ops (wdb w))"
    "o_id r \<in> set (claim_ids env locked now (ops (wdb w)))" "removal_op (o_op r)"
  have "lease env now r \<in> set (fst (claim env locked now (wdb w)))"
    using r by (auto simp: claim_def Let_def returning_set)
  from removal_drain_ops [OF assms claim_healthy [OF h] this] r(3)
  show "gone (panel_username (o_payload r)) (wpanel (tick env pc locked now clk w))"
    by (simp add: tick_snd outbox_simps)
qed

lemma forgets_ticks:
  "panel_forgets pc gone \<Longrightarrow> gone un (wpanel w) \<Longrightarrow> gone un (wpanel (ticks env pc ts w))"
  by (induction env pc ts w rule: ticks.induct) (auto intro: tick_panel(1))

text \<open>Enough ticks work the outbox off, and every open removal is carried out.\<close>

lemma ticks_clear:
  assumes "panel_forgets pc gone" "keys_ok (wdb w)" "\<forall>r \<in> set (ops (wdb w)). healthy pc r"
    and "\<forall>(now, clk) \<in> set ts. ripe now (ops (wdb w))" "backlog (wdb w) \<le> length ts * BATCH env"
  shows "backlog (wdb (ticks env pc ts w)) = 0 \<and>
    (\<forall>r \<in> set (ops (wdb w)). unsettled r \<and> removal_op (o_op r) \<longrightarrow>
       gone (panel_username (o_payload r)) (wpanel (ticks env pc ts w)))"
  using assms(2-)
proof (induction ts arbitrary: w)
  case Nil
  then show ?case by (auto simp: backlog_def filter_empty_conv)
next
  case (Cons x ts)
  obtain now clk where x: "x = (now, clk)" by (cases x)
  let ?w = "tick env pc (\<lambda>_. False) now clk w"
  have ripe: "ripe now (ops (wdb w))" using Cons.prems(3) x by auto
  note t = tick_ripe [OF Cons.prems(1,2) ripe, where env = env and clk = clk]
  have "\<forall>(now, clk) \<in> set ts. ripe now (ops (wdb ?w))" using Cons.prems(3) t(3) by auto
  moreover have "backlog (wdb ?w) \<le> length ts * BATCH env" using Cons.prems(4) t(4) by simp
  ultimately have IH: "backlog (wdb (ticks env pc ts ?w)) = 0"
    "\<forall>r \<in> set (ops (wdb ?w)). unsettled r \<and> removal_op (o_op r) \<longrightarrow>
       gone (panel_username (o_payload r)) (wpanel (ticks env pc ts ?w))"
    using Cons.IH [OF t(1,2)] by blast+
  have "gone (panel_username (o_payload r)) (wpanel (ticks env pc ts ?w))"
    if r: "r \<in> set (ops (wdb w))" "unsettled r" "removal_op (o_op r)" for r
  proof (cases "o_id r \<in> set (claim_ids env (\<lambda>_. False) now (ops (wdb w)))")
    case True
    show ?thesis
      by (rule forgets_ticks [OF assms(1) tick_panel(2) [OF assms(1) Cons.prems(2) r(1) True r(3)]])
  next
    case False
    then have "r \<in> set (ops (wdb ?w))"
      using r(1) by (simp add: tick_healthy_ops [OF claim_healthy [OF Cons.prems(2)]] set_update_where)
    with IH(2) r show ?thesis by blast
  qed
  with IH(1) show ?case by (simp add: x)
qed

section \<open>What a run of the reaper leaves in the outbox\<close>

text \<open>
  \<open>reaped now new d d'\<close>: \<open>new\<close> are the operations added, all open and due at \<open>now\<close>; a session is as
  it was, or closed with the deletion of its panel user among them.
\<close>

definition reaped :: "ms \<Rightarrow> panel_operation list \<Rightarrow> db \<Rightarrow> db \<Rightarrow> bool" where
  "reaped now new d d' \<longleftrightarrow> ops d' = ops d @ new
     \<and> (\<forall>r \<in> set new. unsettled r \<and> o_next_attempt_at r = now \<and> o_op r = ''delete_user'')
     \<and> list_all2 (\<lambda>s s'. s' = s \<or> (s_id s' = s_id s \<and> s_status s' = S_expired
          \<and> (\<exists>r \<in> set new. o_payload r = removal (s_panel_username s)))) (sessions d) (sessions d')"

lemma reaped_trans:
  assumes "reaped now n1 a b" "reaped now n2 b c"
  shows "reaped now (n1 @ n2) a c"
proof -
  let ?R = "\<lambda>n s s'. s' = s \<or> (s_id s' = s_id s \<and> s_status s' = S_expired
    \<and> (\<exists>r \<in> set n. o_payload r = removal (s_panel_username s)))"
  have "list_all2 (?R (n1 @ n2)) (sessions a) (sessions c)"
  proof (rule list_all2_trans)
    show "list_all2 (?R n1) (sessions a) (sessions b)" "list_all2 (?R n2) (sessions b) (sessions c)"
      using assms by (simp_all add: reaped_def)
    show "?R (n1 @ n2) x z" if "?R n1 x y" "?R n2 y z" for x y z
      using that by auto
  qed
  with assms show ?thesis by (auto simp: reaped_def)
qed

lemma enqueue_all_ops:
  "\<exists>new. ops (enqueue_all now op rows d) = ops d @ new
     \<and> (\<forall>r \<in> set new. unsettled r \<and> o_next_attempt_at r = now \<and> o_op r = op)
     \<and> (\<forall>x \<in> set rows. \<exists>r \<in> set new. o_payload r = removal (s_panel_username x))"
proof (induction rows arbitrary: d)
  case (Cons x rows)
  let ?d = "insert_op now (s_id x) op (removal (s_panel_username x)) d"
  let ?r = "new_op now (s_id x) op (removal (s_panel_username x)) (next_id d)"
  obtain new where new: "ops (enqueue_all now op rows ?d) = ops ?d @ new"
    "\<forall>r \<in> set new. unsettled r \<and> o_next_attempt_at r = now \<and> o_op r = op"
    "\<forall>x \<in> set rows. \<exists>r \<in> set new. o_payload r = removal (s_panel_username x)"
    using Cons [of ?d] by blast
  then show ?case
    by (intro exI [of _ "?r # new"]) (auto simp: insert_op_def new_op_def unsettled_def)
qed simp

lemma sweep_reaped: "\<exists>new. reaped now new d (snd (sweepOnce batch locked now d))"
proof -
  let ?P = "\<lambda>s. s_id s \<in> set (reap_ids batch locked now (sessions d))"
  let ?d1 = "d\<lparr>sessions := update_where ?P (reap_close now) (sessions d)\<rparr>"
  let ?rows = "returning ?P (reap_close now) (sessions d)"
  have d': "snd (sweepOnce batch locked now d) = enqueue_all now ''delete_user'' ?rows ?d1"
    by (simp add: sweepOnce_def close_where_def Let_def)
  obtain new where new: "ops (enqueue_all now ''delete_user'' ?rows ?d1) = ops ?d1 @ new"
    "\<forall>r \<in> set new. unsettled r \<and> o_next_attempt_at r = now \<and> o_op r = ''delete_user''"
    "\<forall>x \<in> set ?rows. \<exists>r \<in> set new. o_payload r = removal (s_panel_username x)"
    using enqueue_all_ops by blast
  have "list_all2 (\<lambda>s s'. s' = s \<or> (s_id s' = s_id s \<and> s_status s' = S_expired
      \<and> (\<exists>r \<in> set new. o_payload r = removal (s_panel_username s))))
    (sessions d) (update_where ?P (reap_close now) (sessions d))"
    using new(3) by (intro all2_update) (auto simp: returning_set)
  with new show ?thesis by (auto simp: reaped_def d')
qed

lemma reap_loop_reaped:
  assumes "reap_loop batch (\<lambda>_. (locked, now)) i acc d = Some r"
  shows "keys_ok d \<longrightarrow> keys_ok (snd r) \<and> (\<exists>new. reaped now new d (snd r))"
proof -
  have "sched = (\<lambda>_. (locked, now)) \<longrightarrow> keys_ok d \<longrightarrow> keys_ok (snd r) \<and> (\<exists>new. reaped now new d (snd r))"
    if "reap_loop batch sched i acc d = Some r" for sched
    using that
  proof (rule reap_loop.raw_induct [rotated], intro impI)
    fix loop :: "nat \<Rightarrow> (nat \<Rightarrow> (id \<Rightarrow> bool) \<times> ms) \<Rightarrow> nat \<Rightarrow> nat \<Rightarrow> db \<Rightarrow> (nat \<times> db) option"
    fix b sc i acc d r
    assume IH: "\<And>b sc i acc d r. loop b sc i acc d = Some r \<Longrightarrow>
        sc = (\<lambda>_. (locked, now)) \<longrightarrow> keys_ok d \<longrightarrow> keys_ok (snd r) \<and> (\<exists>new. reaped now new d (snd r))"
      and step: "(let x = sweepOnce b (fst (sc i)) (snd (sc i)) d
         in if fst x < b then Some (acc + fst x, snd x) else loop b sc (i + 1) (acc + fst x) (snd x)) = Some r"
      and sc: "sc = (\<lambda>_. (locked, now))" and k: "keys_ok d"
    let ?d = "snd (sweepOnce b locked now d)"
    note k' = reaper.step_keys [OF k, of b locked now]
    obtain n1 where n1: "reaped now n1 d ?d" using sweep_reaped by blast
    show "keys_ok (snd r) \<and> (\<exists>new. reaped now new d (snd r))"
    proof (cases "fst (sweepOnce b locked now d) < b")
      case True
      with step sc have "snd r = ?d" by (auto simp: Let_def)
      with k' n1 show ?thesis by auto
    next
      case False
      with step sc have "loop b sc (i + 1) (acc + fst (sweepOnce b locked now d)) ?d = Some r"
        by (simp add: Let_def)
      with IH [OF this] sc k' obtain n2 where "keys_ok (snd r)" "reaped now n2 ?d (snd r)" by blast
      with reaped_trans [OF n1] show ?thesis by blast
    qed
  qed
  with assms show ?thesis by blast
qed

section \<open>The property\<close>

lemma ticks_frame: "outbox_frame (wdb w) (wdb (ticks env pc ts w))"
  by (induction env pc ts w rule: ticks.induct)
    (auto intro: outbox_frame_refl outbox_frame_trans [OF tick_outbox_frame])

lemma all2_member: "list_all2 R xs ys \<Longrightarrow> x \<in> set xs \<Longrightarrow> \<exists>y \<in> set ys. R x y"
  by (induction rule: list_all2_induct) auto

text \<open>What one run of the reaper does about a session whose time is up.\<close>

lemma reap_lapsed:
  assumes "0 < batch" and "keys_ok d0"
    and "reap batch (\<lambda>_. (\<lambda>_. False, now)) (\<lparr>running = False, shuttingDown = False\<rparr>, d0) = Some (f, d)"
  shows "keys_ok d" "ripe t (ops d0) \<Longrightarrow> now \<le> t \<Longrightarrow> ripe t (ops d)"
    and "\<lbrakk>s \<in> set (sessions d0); live s; s_expires_at s \<le> now\<rbrakk> \<Longrightarrow>
      (\<exists>s' \<in> set (sessions d). s_id s' = s_id s \<and> s_status s' = S_expired) \<and>
      (\<exists>r \<in> set (ops d). unsettled r \<and> removal_op (o_op r) \<and> panel_username (o_payload r) = s_panel_username s)"
proof -
  obtain n where loop: "reap_loop batch (\<lambda>_. (\<lambda>_. False, now)) 0 0 d0 = Some (n, d)"
    using assms(3) by (auto simp: reap_def)
  obtain new where k: "keys_ok d" and new: "reaped now new d0 d"
    using reap_loop_reaped [OF loop] assms(2) by auto
  show "keys_ok d" by (rule k)
  show "ripe t (ops d0) \<Longrightarrow> now \<le> t \<Longrightarrow> ripe t (ops d)"
    using new by (auto simp: reaped_def ripe_def)
  assume s: "s \<in> set (sessions d0)" "live s" "s_expires_at s \<le> now"
  have "\<forall>s \<in> set (sessions d). live s \<longrightarrow> now < s_expires_at s"
    using reap_complete [OF assms(1,2), of now] assms(3) by auto
  with all2_member [OF conjunct2 [OF conjunct2 [OF new [unfolded reaped_def]]] s(1)] s(2,3)
  obtain s' r where s': "s' \<in> set (sessions d)" "s_id s' = s_id s" "s_status s' = S_expired"
    and r: "r \<in> set new" "o_payload r = removal (s_panel_username s)" by force
  from r new have "r \<in> set (ops d) \<and> unsettled r \<and> removal_op (o_op r)
      \<and> panel_username (o_payload r) = s_panel_username s"
    by (auto simp: reaped_def removal_op_def removal_def)
  with s' show "(\<exists>s' \<in> set (sessions d). s_id s' = s_id s \<and> s_status s' = S_expired) \<and>
      (\<exists>r \<in> set (ops d). unsettled r \<and> removal_op (o_op r) \<and> panel_username (o_payload r) = s_panel_username s)"
    by blast
qed

text \<open>
  C5. Time is enforced on the panel: once the reaper has run at some instant and the drainer has
  ticked often enough for the backlog, with a panel that answers, no session whose time was up at
  that instant is live, the panel users of all of them are gone, and no operation is open.
\<close>

theorem lapsed_users_vanish:
  assumes "0 < batch" and "keys_ok (wdb w)"
    and "reap batch (\<lambda>_. (\<lambda>_. False, now)) (\<lparr>running = False, shuttingDown = False\<rparr>, wdb w) = Some (f, d)"
    and "panel_forgets pc gone" and "\<forall>r \<in> set (ops d). healthy pc r"
    and "\<forall>(t, clk) \<in> set ts. now \<le> t \<and> ripe t (ops (wdb w))"
    and "backlog d \<le> length ts * BATCH env"
  shows "backlog (wdb (ticks env pc ts (w\<lparr>wdb := d\<rparr>))) = 0 \<and>
    (\<forall>s \<in> set (sessions (wdb w)). live s \<and> s_expires_at s \<le> now \<longrightarrow>
       gone (s_panel_username s) (wpanel (ticks env pc ts (w\<lparr>wdb := d\<rparr>))) \<and>
       (\<exists>s' \<in> set (sessions (wdb (ticks env pc ts (w\<lparr>wdb := d\<rparr>)))).
          s_id s' = s_id s \<and> s_status s' = S_expired))"
proof -
  let ?w = "ticks env pc ts (w\<lparr>wdb := d\<rparr>)"
  note reaped = reap_lapsed [OF assms(1-3)]
  have "\<forall>(t, clk) \<in> set ts. ripe t (ops d)" using assms(6) reaped(2) by auto
  then have clear: "backlog (wdb ?w) = 0"
    "\<And>r. r \<in> set (ops d) \<Longrightarrow> unsettled r \<Longrightarrow> removal_op (o_op r) \<Longrightarrow>
       gone (panel_username (o_payload r)) (wpanel ?w)"
    using ticks_clear [OF assms(4), of "w\<lparr>wdb := d\<rparr>" ts env] reaped(1) assms(5,7) by simp_all
  have "gone (s_panel_username s) (wpanel ?w) \<and>
      (\<exists>s' \<in> set (sessions (wdb ?w)). s_id s' = s_id s \<and> s_status s' = S_expired)"
    if s: "s \<in> set (sessions (wdb w))" "live s" "s_expires_at s \<le> now" for s
  proof -
    from reaped(3) [OF s] obtain s1 where s1: "s1 \<in> set (sessions d)" "s_id s1 = s_id s" "s_status s1 = S_expired"
      and "gone (s_panel_username s) (wpanel ?w)" using clear(2) by metis
    moreover obtain s' where "s' \<in> set (sessions (wdb ?w))" "session_core s1 = session_core s'"
      using ticks_frame [of "w\<lparr>wdb := d\<rparr>" env pc ts] s1(1)
      by (auto simp: outbox_frame_def elim: map_eq_member [OF sym])
    ultimately show ?thesis using session_core_eqD by metis
  qed
  with clear(1) show ?thesis by blast
qed

section \<open>Witness\<close>

definition off_panel :: "string \<Rightarrow> sample_panel_state \<Rightarrow> bool" where
  "off_panel un p \<longleftrightarrow> un \<notin> fst ` set p"

lemma sample_panel_forgets: "panel_forgets sample_panel off_panel"
  by (force simp: panel_forgets_def off_panel_def sample_panel_def split: option.split)

abbreviation sample_reap where
  "sample_reap \<equiv> reap 500 (\<lambda>_. (\<lambda>_. False, 400000)) (\<lparr>running = False, shuttingDown = False\<rparr>, wdb sample_world)"

theorem lapsed_users_vanish_witness:
  "\<exists>f d. sample_reap = Some (f, d) \<and> \<not> off_panel ''s_a'' (wpanel sample_world) \<and>
     off_panel ''s_a'' (wpanel (ticks outbox_defaults sample_panel [(400005, \<lambda>_. 400006)] (sample_world\<lparr>wdb := d\<rparr>)))"
proof -
  let ?ts = "[(400005 :: int, \<lambda>_ :: nat. 400006 :: int)]"
  have "map_option (\<lambda>(f, d). (backlog d, list_all (\<lambda>r. o_op r = ''delete_user'') (ops d))) sample_reap = Some (1, True)"
    by code_simp
  then obtain f d where run: "sample_reap = Some (f, d)" and one: "backlog d = 1"
    and del: "\<forall>r \<in> set (ops d). o_op r = ''delete_user''"
    by (auto simp: list_all_iff)
  have h: "\<forall>r \<in> set (ops d). healthy sample_panel r"
    using del by (simp add: healthy_def dispatch_def Let_def sample_panel_def)
  have facts: "ops (wdb sample_world) = []" "BATCH outbox_defaults = 20" "(0 :: nat) < 500" by code_simp+
  have ripe: "\<forall>(t, clk) \<in> set ?ts. 400000 \<le> t \<and> ripe t (ops (wdb sample_world))"
    by (simp add: facts(1) ripe_def)
  have s: "sample_session \<in> set (sessions (wdb sample_world))" "live sample_session"
    "s_expires_at sample_session \<le> 400000" "s_panel_username sample_session = ''s_a''" by code_simp+
  have "backlog d \<le> length ?ts * BATCH outbox_defaults" by (simp add: one facts(2))
  from lapsed_users_vanish [OF facts(3) sample_lookups(3) run sample_panel_forgets h ripe this] s
  have "off_panel ''s_a'' (wpanel (ticks outbox_defaults sample_panel ?ts (sample_world\<lparr>wdb := d\<rparr>)))" by auto
  moreover have "\<not> off_panel ''s_a'' (wpanel sample_world)" by (simp add: off_panel_def sample_world_def)
  ultimately show ?thesis using run by blast
qed

end
