(* ===== verification/Config.thy ===== *)
theory Config
  imports AttestConfig Reclaim Connection Auth
begin

text \<open>
  What the backend reads from its environment when it starts: the constants at the top of the
  services and workers, the options of the pool (backend/src/db/pool.ts), the rate limit and the
  optional bot (backend/src/app.module.ts). Every number is read as
  \<^verbatim>\<open>Number(process.env.X ?? default)\<close>; one that is \<^verbatim>\<open>NaN\<close>, or a negative batch, gives no
  configuration of the model. The limiter and the pool themselves are libraries.
\<close>

section \<open>Reading the environment\<close>

definition env_text :: "environ \<Rightarrow> string \<Rightarrow> string \<Rightarrow> string" where
  "env_text env k dflt = (case env k of None \<Rightarrow> dflt | Some v \<Rightarrow> v)"

definition env_batch :: "environ \<Rightarrow> string \<Rightarrow> int \<Rightarrow> nat option" where
  "env_batch env k dflt = Option.bind (env_number env k dflt) (\<lambda>n. if n < 0 then None else Some (nat n))"

definition ads_config :: "environ \<Rightarrow> ads_env option" where
  "ads_config env =
     (case (env_number env ''AD_TOKEN_WINDOW_MIN'' 15, env_number env ''MAX_SESSION_MINUTES'' 1440) of
        (Some window, Some cap) \<Rightarrow> Some \<lparr>TOKEN_WINDOW_MIN = window, MAX_SESSION_MIN = cap\<rparr>
      | _ \<Rightarrow> None)"

definition connect_config :: "environ \<Rightarrow> connect_env option" where
  "connect_config env =
     (case (env_number env ''FREE_PROVISIONING_TTL_MS'' (5 * 60000),
            env_number env ''PREMIUM_FALLBACK_TTL_MS'' (30 * 24 * 60 * 60000),
            env_number env ''CONNECT_REQUIRED_ADS'' 2, env_number env ''CONNECT_GRANT_MINUTES'' 60) of
        (Some free, Some premium, Some required, Some minutes) \<Rightarrow>
          Some \<lparr>FREE_TTL_MS = free, PREMIUM_FALLBACK_TTL_MS = premium, REQUIRED_ADS = required,
            GRANT_MINUTES = minutes, VLESS_FLOW = env_text env ''VLESS_FLOW'' ''xtls-rprx-vision''\<rparr>
      | _ \<Rightarrow> None)"

text \<open>A negative limit of attempts acts as zero: an operation always has one attempt when it fails.\<close>

definition outbox_config :: "environ \<Rightarrow> outbox_env option" where
  "outbox_config env =
     (case (env_batch env ''OUTBOX_BATCH'' 20, env_number env ''OUTBOX_LEASE_MIN'' 2,
            env_number env ''OUTBOX_MAX_ATTEMPTS'' 12) of
        (Some batch, Some minutes, Some tries) \<Rightarrow>
          Some \<lparr>BATCH = batch, LEASE_MIN = minutes, MAX_ATTEMPTS = nat tries\<rparr>
      | _ \<Rightarrow> None)"

definition outbox_tick_ms :: "environ \<Rightarrow> int option" where
  "outbox_tick_ms env = env_number env ''OUTBOX_TICK_MS'' 5000"

definition reap_batch :: "environ \<Rightarrow> nat option" where
  "reap_batch env = env_batch env ''REAPER_BATCH'' 500"

definition admin_grant_days :: "environ \<Rightarrow> int option" where
  "admin_grant_days env = env_number env ''ADMIN_GRANT_DAYS'' 30"

text \<open>The lockout of a login, and the keys and times of the tokens.\<close>

definition lockout_config :: "environ \<Rightarrow> (int \<times> int) option" where
  "lockout_config env =
     (case (env_number env ''LOGIN_MAX_FAILED'' 5, env_number env ''LOGIN_LOCKOUT_MS'' (15 * 60000)) of
        (Some failed, Some lockout) \<Rightarrow> Some (failed, lockout)
      | _ \<Rightarrow> None)"

definition auth_config :: "environ \<Rightarrow> token_config option" where
  "auth_config env =
     (case (env_number env ''REFRESH_TOKEN_TTL_MS'' (30 * 24 * 60 * 60000), lockout_config env) of
        (Some ttl, Some (failed, lockout)) \<Rightarrow>
          Some \<lparr>JWT_PRIVATE_KEY = env ''JWT_PRIVATE_KEY'', JWT_PUBLIC_KEY = env ''JWT_PUBLIC_KEY'',
            JWT_SECRET = env ''JWT_SECRET'', JWT_ISSUER = env ''JWT_ISSUER'', JWT_AUDIENCE = env ''JWT_AUDIENCE'',
            ACCESS_TTL = env_text env ''ACCESS_TOKEN_TTL'' ''15m'', REFRESH_TTL_MS = ttl,
            MAX_FAILED = failed, LOCKOUT_MS = lockout\<rparr>
      | _ \<Rightarrow> None)"

text \<open>The cost of a password hash: memory in KiB, time, lanes.\<close>

record argon_opts =
  memoryCost :: int
  timeCost :: int
  parallelism :: int

definition argon_config :: "environ \<Rightarrow> argon_opts option" where
  "argon_config env =
     (case (env_number env ''ARGON_MEMORY_MIB'' 64, env_number env ''ARGON_TIME_COST'' 3,
            env_number env ''ARGON_PARALLELISM'' 4) of
        (Some mib, Some cost, Some lanes) \<Rightarrow>
          Some \<lparr>memoryCost = mib * 1024, timeCost = cost, parallelism = lanes\<rparr>
      | _ \<Rightarrow> None)"

section \<open>db/pool.ts and app.module.ts\<close>

record pool_options =
  po_connectionString :: "string option"
  po_max :: "int option"
  po_idleTimeoutMillis :: int
  po_connectionTimeoutMillis :: int
  po_statement_timeout :: int

definition pool_config :: "environ \<Rightarrow> pool_options" where
  "pool_config env =
     \<lparr>po_connectionString = env ''DATABASE_URL'', po_max = env_number env ''PG_POOL_MAX'' 20,
      po_idleTimeoutMillis = 30000, po_connectionTimeoutMillis = 5000, po_statement_timeout = 10000\<rparr>"

text \<open>Requests per window; with a Redis URL the counters are shared by all instances.\<close>

record throttler_options =
  th_ttl :: int
  th_limit :: int
  th_redis :: "string option"

definition throttlerOptions :: "environ \<Rightarrow> throttler_options" where
  "throttlerOptions env =
     \<lparr>th_ttl = 60000, th_limit = 60,
      th_redis = (if env_set (env ''REDIS_URL'') then env ''REDIS_URL'' else None)\<rparr>"

definition optionalModules :: "environ \<Rightarrow> string list" where
  "optionalModules env = (if env_set (env ''TELEGRAM_BOT_TOKEN'') then [''TelegramModule''] else [])"

section \<open>Properties\<close>

lemma env_number_unset [simp]: "env k = None \<Longrightarrow> env_number env k n = Some n"
  by (simp add: env_number_def)

lemma env_number_empty: "env k = Some [] \<Longrightarrow> env_number env k n = Some 0"
  by (simp add: env_number_def number_text_def trim_def)

text \<open>With nothing set the defaults are those the examples of the library use.\<close>

lemma unset_environment:
  "ads_config (\<lambda>_. None) = Some ads_defaults" "connect_config (\<lambda>_. None) = Some connect_defaults"
  "outbox_config (\<lambda>_. None) = Some outbox_defaults" "reap_batch (\<lambda>_. None) = Some 500"
  by (simp_all add: ads_config_def ads_defaults_def connect_config_def connect_defaults_def env_text_def
      outbox_config_def outbox_defaults_def reap_batch_def env_batch_def)

text \<open>
  A variable that is set but empty is not the default: \<^verbatim>\<open>??\<close> lets it through, and \<^verbatim>\<open>Number('')\<close> is 0.
  The reaper then never returns, and the drainer claims nothing.
\<close>

theorem empty_batch_hangs:
  assumes "env ''REAPER_BATCH'' = Some []" "env ''OUTBOX_BATCH'' = Some []"
    and "reap_batch env = Some batch" "outbox_config env = Some oenv"
  shows "reap batch sched (\<lparr>running = False, shuttingDown = False\<rparr>, d) = None \<and> fst (claim oenv held now d) = []"
proof
  have "batch = 0" using assms(1,3) by (simp add: reap_batch_def env_batch_def env_number_empty)
  then show "reap batch sched (\<lparr>running = False, shuttingDown = False\<rparr>, d) = None"
    using reap_loop_positive [of 0 sched 0 0 d]
    by (cases "reap_loop 0 sched 0 0 d") (simp_all add: reap_def)
  have "BATCH oenv = 0"
    using assms(2,4) by (auto simp: outbox_config_def env_batch_def env_number_empty split: option.splits)
  then show "fst (claim oenv held now d) = []"
    by (simp add: claim_def Let_def claim_ids_def returning_def)
qed

text \<open>
  An empty \<^verbatim>\<open>JWT_PRIVATE_KEY\<close> hides the secret: the algorithm is chosen by its truth value, the key
  by \<^verbatim>\<open>??\<close>, so no access token can be signed although \<^verbatim>\<open>JWT_SECRET\<close> is configured.
\<close>

theorem empty_key_hides_secret:
  assumes "env ''JWT_PRIVATE_KEY'' = Some []" and "auth_config env = Some cfg"
  shows "SIGN_ALG cfg = ''HS256'' \<and>
    signAccess cfg cr now uid did = Inl (JsError ''JWT signing key not configured'')"
  using assms
  by (auto simp: auth_config_def signAccess_def SIGN_KEY_def SIGN_ALG_def coalesce_def env_set_def
      split: option.splits)

text \<open>With all defaults, the cost of a hash is 64 MiB, and the pool and the limiter as documented.\<close>

lemma unset_libraries:
  "argon_config (\<lambda>_. None) = Some \<lparr>memoryCost = 65536, timeCost = 3, parallelism = 4\<rparr>"
  "po_max (pool_config (\<lambda>_. None)) = Some 20" "th_redis (throttlerOptions (\<lambda>_. None)) = None"
  "optionalModules (\<lambda>_. None) = []"
  by (simp_all add: argon_config_def pool_config_def throttlerOptions_def optionalModules_def env_set_def)

end
