(* ===== verification/Pool.thy ===== *)
theory Pool
  imports Ads_Correct Closing
begin

text \<open>
  The transaction wrapper of backend/src/db/pool.ts, statement by statement, and why the rest of
  the library may use the abstract \<open>withTransaction\<close> of Prelude for it. A connection holds the
  committed state and, inside a transaction, a working copy. The faults of the driver are a
  parameter; one of them is a commit whose acknowledgement is lost.
\<close>

section \<open>The connection\<close>

text \<open>A commit is done, or fails and is undone, or is done although the driver reports an error.\<close>

datatype commit_reply = Commits | CommitFails exn | CommitUnacknowledged exn

text \<open>The faults of one call.\<close>

record faults =
  ft_connect :: "exn option"
  ft_begin :: "exn option"
  ft_commit :: commit_reply
  ft_rollback :: "exn option"

definition no_faults :: faults where
  "no_faults = \<lparr>ft_connect = None, ft_begin = None, ft_commit = Commits, ft_rollback = None\<rparr>"

text \<open>
  \<open>pg_out\<close> counts the connections the pool has handed out, \<open>pg_sent\<close> the statements it sent,
  \<open>pg_lost\<close> the connections that broke; the pool drops a broken one when it comes back and opens
  another.
\<close>

record 's pg =
  pg_db :: 's
  pg_tx :: "'s option"
  pg_out :: nat
  pg_sent :: "string list"
  pg_lost :: nat

datatype isolation = Read_committed | Repeatable_read | Serializable

fun isolation_text :: "isolation \<Rightarrow> string" where
  "isolation_text Read_committed = ''read committed''"
| "isolation_text Repeatable_read = ''repeatable read''"
| "isolation_text Serializable = ''serializable''"

definition default_isolation :: isolation where
  "default_isolation = Read_committed"

section \<open>Its statements\<close>

definition pool_connect :: "faults \<Rightarrow> ('s pg, unit) prog" where
  "pool_connect flt s =
     (case ft_connect flt of Some e \<Rightarrow> (Inl e, s) | None \<Rightarrow> (Inr (), s\<lparr>pg_out := pg_out s + 1\<rparr>))"

definition begin_tx :: "faults \<Rightarrow> isolation \<Rightarrow> ('s pg, unit) prog" where
  "begin_tx flt isolation s =
     (let s1 = s\<lparr>pg_sent := pg_sent s @ [''begin isolation level '' @ isolation_text isolation]\<rparr> in
      case ft_begin flt of
        Some e \<Rightarrow> (Inl e, s1)
      | None \<Rightarrow> (Inr (), s1\<lparr>pg_tx := Some (pg_db s1)\<rparr>))"

definition run_in_tx :: "('s, 'a) prog \<Rightarrow> ('s pg, 'a) prog" where
  "run_in_tx fn s =
     (case pg_tx s of
        None \<Rightarrow> (case fn (pg_db s) of (r, d) \<Rightarrow> (r, s\<lparr>pg_db := d\<rparr>))
      | Some t \<Rightarrow> (case fn t of (r, t') \<Rightarrow> (r, s\<lparr>pg_tx := Some t'\<rparr>)))"

definition committed :: "'s pg \<Rightarrow> 's pg" where
  "committed s = s\<lparr>pg_db := (case pg_tx s of None \<Rightarrow> pg_db s | Some t \<Rightarrow> t), pg_tx := None\<rparr>"

definition commit_tx :: "faults \<Rightarrow> ('s pg, unit) prog" where
  "commit_tx flt s =
     (let s1 = s\<lparr>pg_sent := pg_sent s @ [''commit'']\<rparr> in
      case ft_commit flt of
        Commits \<Rightarrow> (Inr (), committed s1)
      | CommitFails e \<Rightarrow> (Inl e, s1\<lparr>pg_tx := None\<rparr>)
      | CommitUnacknowledged e \<Rightarrow> (Inl e, committed s1))"

text \<open>
  \<^verbatim>\<open>client.query('rollback').catch(() => undefined)\<close>: whatever it answers is dropped. A
  rollback fails only with its connection, and then the server discards the transaction.
\<close>

definition rollback_tx :: "faults \<Rightarrow> 's pg \<Rightarrow> 's pg" where
  "rollback_tx flt s =
     (let s1 = s\<lparr>pg_tx := None, pg_sent := pg_sent s @ [''rollback'']\<rparr> in
      case ft_rollback flt of None \<Rightarrow> s1 | Some _ \<Rightarrow> s1\<lparr>pg_lost := pg_lost s1 + 1\<rparr>)"

definition release :: "'s pg \<Rightarrow> 's pg" where
  "release s = s\<lparr>pg_out := pg_out s - 1\<rparr>"

definition pool_withTransaction :: "faults \<Rightarrow> isolation \<Rightarrow> ('s, 'a) prog \<Rightarrow> ('s pg, 'a) prog" where
  "pool_withTransaction flt isolation fn s =
     (case pool_connect flt s of
        (Inl e, s1) \<Rightarrow> (Inl e, s1)
      | (Inr _, s1) \<Rightarrow>
          (case and_then (begin_tx flt isolation) (\<lambda>_.
                and_then (run_in_tx fn) (\<lambda>result.
                and_then (commit_tx flt) (\<lambda>_. return result))) s1 of
             (Inr result, s2) \<Rightarrow> (Inr result, release s2)
           | (Inl err, s2) \<Rightarrow> (Inl err, release (rollback_tx flt s2))))"

section \<open>Refinement\<close>

lemmas pool_defs = pool_withTransaction_def pool_connect_def begin_tx_def run_in_tx_def commit_tx_def
  committed_def release_def and_then_def return_def withTransaction_def

lemma rollback_fields [simp]:
  "pg_db (rollback_tx flt s) = pg_db s" "pg_tx (rollback_tx flt s) = None"
  "pg_out (rollback_tx flt s) = pg_out s"
  by (simp_all add: rollback_tx_def Let_def split: option.split)

text \<open>Without a fault the wrapper is the abstract transaction, with these three statements.\<close>

lemma pool_no_faults:
  "pool_withTransaction no_faults isolation fn s =
     (fst (withTransaction fn (pg_db s)),
      s\<lparr>pg_db := snd (withTransaction fn (pg_db s)), pg_tx := None,
        pg_sent := pg_sent s @ [''begin isolation level '' @ isolation_text isolation,
          if isl (fst (fn (pg_db s))) then ''rollback'' else ''commit'']\<rparr>)"
  by (auto simp: pool_defs rollback_tx_def no_faults_def Let_def split: prod.splits sum.splits)

text \<open>The outcomes of a call, whatever fails.\<close>

lemma pool_cases:
  assumes "pool_withTransaction flt isolation fn s = (r, s')" and "pg_tx s = None"
  obtains
    (succeeded) a where "r = Inr a" "withTransaction fn (pg_db s) = (Inr a, pg_db s')"
  | (undone) e where "r = Inl e" "pg_db s' = pg_db s"
      "fst (fn (pg_db s)) = Inl e \<or> ft_connect flt = Some e \<or> ft_begin flt = Some e \<or> ft_commit flt = CommitFails e"
  | (in_doubt) e a where "r = Inl e" "ft_commit flt = CommitUnacknowledged e"
      "withTransaction fn (pg_db s) = (Inr a, pg_db s')"
proof (cases "ft_connect flt")
  case (Some e)
  with assms show thesis by (intro undone [of e]) (auto simp: pool_defs)
next
  case None
  note connected = this
  show thesis
  proof (cases "ft_begin flt")
    case (Some e)
    with assms connected show thesis by (intro undone [of e]) (auto simp: pool_defs Let_def)
  next
    case begun: None
    obtain x d where fn: "fn (pg_db s) = (x, d)" by fastforce
    show thesis
    proof (cases x)
      case (Inl e)
      with assms connected begun fn show thesis by (intro undone [of e]) (auto simp: pool_defs Let_def)
    next
      case (Inr a)
      show thesis
      proof (cases "ft_commit flt")
        case Commits
        with assms connected begun fn Inr show thesis by (intro succeeded [of a]) (auto simp: pool_defs Let_def)
      next
        case (CommitFails e)
        with assms connected begun fn Inr show thesis by (intro undone [of e]) (auto simp: pool_defs Let_def)
      next
        case (CommitUnacknowledged e)
        with assms connected begun fn Inr show thesis by (intro in_doubt [of e a]) (auto simp: pool_defs Let_def)
      qed
    qed
  qed
qed

text \<open>Whatever happens, the connection comes back, with no transaction open on it.\<close>

lemma pool_returns_connection:
  assumes "pool_withTransaction flt isolation fn s = (r, s')" and "pg_tx s = None"
  shows "pg_out s' = pg_out s \<and> pg_tx s' = None"
  using assms
  by (auto simp: pool_defs Let_def split: option.splits commit_reply.splits prod.splits sum.splits)

text \<open>
  C12. The transaction wrapper refines the abstract transaction, whichever statement fails: a
  result means that exactly the writes of the body are in the database; an error means that none
  of them is, except when the acknowledgement of the commit is lost, and then all of them are.
  The connection always goes back to the pool, and no transaction stays open on it.
\<close>

theorem pool_refines:
  assumes "pool_withTransaction flt isolation fn s = (r, s')" and "pg_tx s = None"
  shows "(case r of
      Inr a \<Rightarrow> withTransaction fn (pg_db s) = (Inr a, pg_db s')
    | Inl e \<Rightarrow> pg_db s' = pg_db s \<or>
        (ft_commit flt = CommitUnacknowledged e \<and> (\<exists>a. withTransaction fn (pg_db s) = (Inr a, pg_db s'))))
    \<and> pg_out s' = pg_out s \<and> pg_tx s' = None"
  using assms(1,2) pool_returns_connection [OF assms]
  by (cases rule: pool_cases) auto

section \<open>A claim whose commit is in doubt\<close>

text \<open>
  C17. A claim of ad minutes that was answered with an error although its commit went through is
  not lost and not paid twice: the extension of the panel user is in the outbox, and repeating the
  claim, for whatever session, changes nothing and grants no minute.
\<close>

theorem claim_in_doubt:
  assumes "pool_withTransaction flt isolation (verify_tx env now uid gid sid) s = (Inl e, s')"
    and "pg_tx s = None" and "pg_db s' \<noteq> pg_db s"
    and "wdb w = pg_db s'"
  shows "\<exists>g x. find_row (\<lambda>y. g_id y = gid) (grants (pg_db s)) = Some g \<and>
      find_row (\<lambda>y. s_id y = sid) (sessions (pg_db s)) = Some x \<and>
      (g_grant_minutes g > 0 \<longrightarrow>
        (sid, ''extend_user'', \<lparr>panel_username = s_panel_username x,
           expire_epoch = Some (new_expiry env now g x div 1000)\<rparr>) \<in> queued (wdb w)) \<and>
      snd (verifyAdReward env2 fl C rnd pc now2 now2' uid2 gid sid2 w) = w \<and>
      (\<forall>r. fst (verifyAdReward env2 fl C rnd pc now2 now2' uid2 gid sid2 w) = Inr r \<longrightarrow>
         vr_grantedMinutes r = 0)"
proof -
  from assms(1,2) obtain p where tx: "verify_tx env now uid gid sid (pg_db s) = (Inr p, pg_db s')"
    by (cases rule: pool_cases) (use assms(3) in \<open>auto simp: withTransaction_Inr\<close>)
  show ?thesis
  proof (cases p)
    case (PlanIdempotent b x)
    with tx verify_tx_idempotentE assms(3) show ?thesis by blast
  next
    case (PlanExtend sid' un x m oid)
    from tx [unfolded PlanExtend] obtain g x where c: "claimable env now uid gid sid (pg_db s) g x"
      and d: "pg_db s' = claimed_db now (new_expiry env now g x) g x (pg_db s)"
      by (rule verify_tx_extendE) (auto intro: that)
    from c have rows: "find_row (\<lambda>y. g_id y = gid) (grants (pg_db s)) = Some g" "g_id g = gid"
      "find_row (\<lambda>y. s_id y = sid) (sessions (pg_db s)) = Some x" "s_id x = sid"
      by (auto simp: claimable_def dest: find_row_Some)
    have "find_row (\<lambda>y. g_id y = gid) (grants (wdb w)) = Some (consume_grant now sid g)"
      using rows by (simp add: assms(4) d claimed_db_def Let_def find_row_update_where)
    then have "snd (verifyAdReward env2 fl C rnd pc now2 now2' uid2 gid sid2 w) = w \<and>
        (\<forall>r. fst (verifyAdReward env2 fl C rnd pc now2 now2' uid2 gid sid2 w) = Inr r \<longrightarrow>
           vr_grantedMinutes r = 0)"
      by (rule consumed_no_effect) simp
    moreover have "g_grant_minutes g > 0 \<longrightarrow> (sid, ''extend_user'', \<lparr>panel_username = s_panel_username x,
        expire_epoch = Some (new_expiry env now g x div 1000)\<rparr>) \<in> queued (wdb w)"
      using rows by (simp add: assms(4) d claimed_db_def Let_def)
    ultimately show ?thesis using rows by blast
  qed
qed

section \<open>Witnesses\<close>

definition sample_pg :: "db pg" where
  "sample_pg = \<lparr>pg_db = sample_db, pg_tx = None, pg_out = 3, pg_sent = [], pg_lost = 0\<rparr>"

definition lost_reply :: faults where
  "lost_reply = no_faults\<lparr>ft_commit := CommitUnacknowledged (JsError ''Connection terminated'')\<rparr>"

abbreviation sample_lost_claim where
  "sample_lost_claim \<equiv> pool_withTransaction lost_reply default_isolation
     (verify_tx ads_defaults 1000 1 5 4) sample_pg"

lemma sample_lost_run: "sample_lost_claim = (Inl (JsError ''Connection terminated''), snd sample_lost_claim)"
  by (rule prod_eqI, code_simp) simp

theorem pool_refines_witness:
  "pg_out (snd sample_lost_claim) = 3 \<and> pg_tx (snd sample_lost_claim) = None"
  using pool_refines [OF sample_lost_run] by (simp add: sample_pg_def)

theorem claim_in_doubt_witness:
  "(4, ''extend_user'', \<lparr>panel_username = ''s_a'', expire_epoch = Some 3900\<rparr>) \<in> queued (pg_db (snd sample_lost_claim))
    \<and> snd (verifyAdReward ads_defaults [] sample_crypto sample_random sample_panel 2000 2001 1 5 4
        (sample_world\<lparr>wdb := pg_db (snd sample_lost_claim)\<rparr>))
      = sample_world\<lparr>wdb := pg_db (snd sample_lost_claim)\<rparr>"
proof -
  have "length (ops (pg_db (snd sample_lost_claim))) = 1" "length (ops (pg_db sample_pg)) = 0"
    "new_expiry ads_defaults 1000 sample_grant sample_session = 3900000"
    "0 < g_grant_minutes sample_grant" "s_panel_username sample_session = ''s_a''" by code_simp+
  moreover from this have "pg_db (snd sample_lost_claim) \<noteq> pg_db sample_pg" by force
  ultimately show ?thesis
    using claim_in_doubt [OF sample_lost_run _ _ , where w = "sample_world\<lparr>wdb := pg_db (snd sample_lost_claim)\<rparr>"
        and ?env2.0 = ads_defaults and fl = "[]" and C = sample_crypto and rnd = sample_random
        and pc = sample_panel and ?now2.0 = 2000 and ?now2' = 2001 and ?uid2.0 = 1 and ?sid2.0 = 4]
      sample_lookups(1,2) by (simp add: sample_pg_def sample_world_def)
qed

end
