(* ===== verification/PlayClient.thy ===== *)
theory PlayClient
  imports SingleFlight
begin

text \<open>
  The Google client of backend/src/attest/play-integrity.verifier.ts: \<^verbatim>\<open>api()\<close> keeps the promise of
  the client, so concurrent verifications build it once; a failure forgets the promise, a
  success keeps it for good. What is built is a parameter, named by the values the steps carry.
\<close>

section \<open>The machine\<close>

datatype 'c client_promise = Absent | Pending | Resolved 'c

text \<open>\<open>pc_waiting\<close> await the promise, \<open>pc_answers\<close> is what it gave to each caller.\<close>

record 'c play_client =
  pc_promise :: "'c client_promise"
  pc_waiting :: "nat list"
  pc_answers :: "(nat \<times> (exn + 'c)) list"
  pc_built :: nat

datatype 'c client_event =
    CallApi nat
  | ClientBuilt 'c
  | ClientFailed exn

fun client_step :: "'c play_client \<Rightarrow> 'c client_event \<Rightarrow> 'c play_client option" where
  "client_step s (CallApi i) =
     Some (case pc_promise s of
         Resolved c \<Rightarrow> s\<lparr>pc_answers := pc_answers s @ [(i, Inr c)]\<rparr>
       | Pending \<Rightarrow> s\<lparr>pc_waiting := pc_waiting s @ [i]\<rparr>
       | Absent \<Rightarrow> s\<lparr>pc_promise := Pending, pc_waiting := pc_waiting s @ [i], pc_built := pc_built s + 1\<rparr>)"
| "client_step s (ClientBuilt c) =
     (case pc_promise s of
        Pending \<Rightarrow> Some (s\<lparr>pc_promise := Resolved c, pc_waiting := [],
            pc_answers := pc_answers s @ map (\<lambda>i. (i, Inr c)) (pc_waiting s)\<rparr>)
      | _ \<Rightarrow> None)"
| "client_step s (ClientFailed e) =
     (case pc_promise s of
        Pending \<Rightarrow> Some (s\<lparr>pc_promise := Absent, pc_waiting := [],
            pc_answers := pc_answers s @ map (\<lambda>i. (i, Inl e)) (pc_waiting s)\<rparr>)
      | _ \<Rightarrow> None)"

definition pc_start :: "'c play_client" where
  "pc_start = \<lparr>pc_promise = Absent, pc_waiting = [], pc_answers = [], pc_built = 0\<rparr>"

fun client_lands :: "'c client_event \<Rightarrow> bool" where
  "client_lands (CallApi _) = False"
| "client_lands _ = True"

fun client_fails :: "'c client_event \<Rightarrow> bool" where
  "client_fails (ClientFailed _) = True"
| "client_fails _ = False"

interpretation play: single_flight client_step "\<lambda>s. pc_promise s = Pending" pc_built client_lands
proof
  fix s l s'
  assume "client_step s l = Some s'" "client_lands l"
  then show "pc_promise s = Pending \<and> pc_promise s' \<noteq> Pending \<and> pc_built s' = pc_built s"
    by (cases l) (auto split: client_promise.splits)
next
  fix s l s'
  assume "client_step s l = Some s'" "\<not> client_lands l"
  then show "((pc_promise s' = Pending) = (pc_promise s = Pending) \<and> pc_built s' = pc_built s) \<or>
      (pc_promise s \<noteq> Pending \<and> pc_promise s' = Pending \<and> pc_built s' = pc_built s + 1)"
    by (cases l) (auto split: client_promise.splits)
qed

section \<open>Properties\<close>

text \<open>
  The client is built once more than its construction has failed, and not at all before the
  first call: after a success never again.
\<close>

theorem client_built_once:
  assumes "run client_step pc_start ls s"
  shows "pc_built s = length (filter client_fails ls) + (if pc_promise s = Absent then 0 else 1)"
  using assms
proof (induction "pc_start :: 'a play_client" ls s rule: run.induct)
  case run_Nil
  then show ?case by (simp add: pc_start_def)
next
  case (run_snoc ls s1 l s2)
  then show ?case by (cases l) (auto split: client_promise.splits)
qed

text \<open>All who got a client got the same one, the one the promise holds.\<close>

theorem client_shared:
  assumes "run client_step pc_start ls s" and "(i, Inr c) \<in> set (pc_answers s)"
  shows "pc_promise s = Resolved c"
proof -
  have "\<forall>i c. (i, Inr c) \<in> set (pc_answers s) \<longrightarrow> pc_promise s = Resolved c"
    using assms(1)
  proof (induction "pc_start :: 'a play_client" ls s rule: run.induct)
    case run_Nil
    then show ?case by (simp add: pc_start_def)
  next
    case (run_snoc ls s1 l s2)
    then show ?case by (cases l) (auto split: client_promise.splits)
  qed
  with assms(2) show ?thesis by blast
qed

text \<open>Two calls share a failing construction, the third builds again, the fourth reuses it.\<close>

definition client_calls :: "string client_event list" where
  "client_calls = [CallApi 1, CallApi 2, ClientFailed (JsError ''no file''), CallApi 3, ClientBuilt ''c'', CallApi 4]"

lemma client_calls_run:
  "map_option (\<lambda>s. (pc_built s, pc_promise s)) (exec client_step pc_start client_calls) = Some (2, Resolved ''c'')"
  by (simp add: client_calls_def pc_start_def)

theorem client_built_once_witness:
  "\<exists>s. run client_step pc_start client_calls s \<and> pc_built s = 2 \<and> length (filter client_fails client_calls) = 1"
proof -
  obtain s where s: "run client_step pc_start client_calls s" "pc_promise s = Resolved ''c''"
    using client_calls_run by (auto simp: run_exec)
  from client_built_once [OF s(1)] s(2) show ?thesis
    by (intro exI [of _ s]) (simp add: s(1), simp add: client_calls_def)
qed

end
