(* ===== verification/WebNodes.thy ===== *)
theory WebNodes
  imports Prelude
begin

text \<open>
  The node list of the admin web application, web/components/NodeHealth.tsx. Each component is
  a machine: its state is what its hooks hold, its events are clicks, the answers to the calls
  that are under way and the polling timer, and what it renders is a function of props and
  state. React keeps a card's state as long as a node with its key is rendered. Texts are
  their UTF-8 bytes.
\<close>

section \<open>Data\<close>

record node_info =
  wn_id :: id
  wn_name :: string
  wn_status :: string
  wn_isActive :: bool
  wn_loadPct :: "int option"
  wn_activeConnections :: int
  wn_countryCode :: "string option"

record nodes_data =
  nd_panelReachable :: bool
  nd_nodes :: "node_info list"

definition HEALTHY :: "string list" where
  "HEALTHY = [''online'', ''connected'', ''active'', ''healthy'', ''running'']"

definition isHealthy :: "string \<Rightarrow> bool" where
  "isHealthy status =
     (let s = toLowerCase status
      in s \<in> set HEALTHY \<or> (js_includes s ''connect'' \<and> \<not> js_includes s ''dis''))"

section \<open>A card\<close>

datatype card_request = SetNodeStatus id bool | ForceMigrate id

record card_state =
  cs_busy :: bool
  cs_err :: "string option"
  cs_confirmEvac :: bool
  cs_pending :: "card_request list"

definition fresh_card :: card_state where
  "fresh_card = \<lparr>cs_busy = False, cs_err = None, cs_confirmEvac = False, cs_pending = []\<rparr>"

text \<open>\<open>ClickToggle\<close> carries the answer to \<^verbatim>\<open>window.confirm\<close>; an outcome is the error text, if any.\<close>

datatype card_event =
    ClickToggle bool
  | ToggleDone "string option"
  | ClickEvacuate
  | CancelEvac
  | ConfirmEvac
  | EvacDone "string option"

definition send :: "card_request \<Rightarrow> card_state \<Rightarrow> card_state" where
  "send r s = s\<lparr>cs_busy := True, cs_err := None, cs_pending := cs_pending s @ [r]\<rparr>"

text \<open>The state after an event, and whether \<^verbatim>\<open>onChanged\<close> is called; \<open>None\<close> when it cannot happen.\<close>

fun card_step :: "node_info \<Rightarrow> card_state \<Rightarrow> card_event \<Rightarrow> (card_state \<times> bool) option" where
  "card_step node s (ClickToggle confirmed) =
     (if cs_busy s then None
      else if wn_isActive node \<and> \<not> confirmed then Some (s, False)
      else Some (send (SetNodeStatus (wn_id node) (\<not> wn_isActive node)) s, False))"
| "card_step node s (ToggleDone failure) =
     (case cs_pending s of
        SetNodeStatus i a # rest \<Rightarrow>
          (case failure of
             None \<Rightarrow> Some (s\<lparr>cs_pending := rest\<rparr>, True)
           | Some msg \<Rightarrow> Some (s\<lparr>cs_pending := rest, cs_err := Some msg, cs_busy := False\<rparr>, False))
      | _ \<Rightarrow> None)"
| "card_step node s ClickEvacuate =
     (if cs_busy s then None else Some (s\<lparr>cs_err := None, cs_confirmEvac := True\<rparr>, False))"
| "card_step node s CancelEvac =
     (if cs_busy s \<or> \<not> cs_confirmEvac s then None else Some (s\<lparr>cs_confirmEvac := False\<rparr>, False))"
| "card_step node s ConfirmEvac =
     (if cs_busy s \<or> \<not> cs_confirmEvac s then None else Some (send (ForceMigrate (wn_id node)) s, False))"
| "card_step node s (EvacDone failure) =
     (case cs_pending s of
        ForceMigrate i # rest \<Rightarrow>
          (case failure of
             None \<Rightarrow> Some (s\<lparr>cs_pending := rest, cs_confirmEvac := False, cs_busy := False\<rparr>, True)
           | Some msg \<Rightarrow> Some (s\<lparr>cs_pending := rest, cs_err := Some msg, cs_busy := False\<rparr>, False))
      | _ \<Rightarrow> None)"

section \<open>What a card shows\<close>

record dialog_view =
  dv_title :: string
  dv_warning :: "string option"
  dv_cancel_disabled :: bool
  dv_confirm_disabled :: bool
  dv_confirm_label :: string

record card_view =
  cv_draining :: bool
  cv_dot_green :: bool
  cv_country :: "string option"
  cv_badge :: string
  cv_load_text :: string
  cv_bar_color :: string
  cv_bar_width :: int
  cv_connections :: int
  cv_toggle_label :: string
  cv_disabled :: bool
  cv_err :: "string option"
  cv_dialog :: "dialog_view option"

definition ellipsis :: string where "ellipsis = [CHR 0xE2, CHR 0x80, CHR 0xA6]"
definition dash :: string where "dash = [CHR 0xE2, CHR 0x80, CHR 0x94]"

definition toUpperCase :: "string \<Rightarrow> string" where
  "toUpperCase s = map (\<lambda>c. if 97 \<le> (of_char c :: nat) \<and> (of_char c :: nat) \<le> 122
     then char_of (of_char c - 32 :: nat) else c) s"

definition evacuate_dialog :: "string \<Rightarrow> int \<Rightarrow> bool \<Rightarrow> dialog_view" where
  "evacuate_dialog nodeName connections busy =
     \<lparr>dv_title = ''Evacuate '' @ [CHR 0xE2, CHR 0x80, CHR 0x9C] @ nodeName @ [CHR 0xE2, CHR 0x80, CHR 0x9D] @ ''?'',
      dv_warning = (if connections > 0
        then Some (show_int connections @ '' active connection'' @ (if connections = 1 then [] else ''s'') @
               '' will be dropped immediately.'')
        else None),
      dv_cancel_disabled = busy, dv_confirm_disabled = busy,
      dv_confirm_label = (if busy then ''Evacuating'' @ ellipsis else ''Evacuate node'')\<rparr>"

definition node_card :: "node_info \<Rightarrow> card_state \<Rightarrow> card_view" where
  "node_card node s =
     (let healthy = isHealthy (wn_status node);
          load = (case wn_loadPct node of None \<Rightarrow> 0 | Some l \<Rightarrow> l);
          draining = (\<not> wn_isActive node)
      in \<lparr>cv_draining = draining, cv_dot_green = healthy,
          cv_country = (if env_set (wn_countryCode node) then map_option toUpperCase (wn_countryCode node) else None),
          cv_badge = (if draining then ''DRAINING'' else if healthy then ''online'' else ''offline''),
          cv_load_text = (case wn_loadPct node of None \<Rightarrow> dash | Some l \<Rightarrow> show_int l @ ''%''),
          cv_bar_color = (if load \<ge> 85 then ''bg-red-500'' else if load \<ge> 60 then ''bg-amber-500'' else ''bg-emerald-500''),
          cv_bar_width = min load 100,
          cv_connections = wn_activeConnections node,
          cv_toggle_label = (if cs_busy s then ellipsis else if draining then ''Enable'' else ''Drain''),
          cv_disabled = cs_busy s, cv_err = cs_err s,
          cv_dialog = (if cs_confirmEvac s
            then Some (evacuate_dialog (wn_name node) (wn_activeConnections node) (cs_busy s)) else None)\<rparr>)"

section \<open>The list\<close>

text \<open>\<open>ns_loads\<close> counts the loads under way; \<open>ns_cards\<close> holds the state of the rendered cards.\<close>

record nodes_state =
  ns_data :: "nodes_data option"
  ns_error :: "string option"
  ns_loading :: bool
  ns_loads :: nat
  ns_cards :: "(id \<times> card_state) list"

definition nodes_start :: nodes_state where
  "nodes_start = \<lparr>ns_data = None, ns_error = None, ns_loading = True, ns_loads = 0, ns_cards = []\<rparr>"

definition card_at :: "nodes_state \<Rightarrow> id \<Rightarrow> card_state option" where
  "card_at s i = map_of (ns_cards s) i"

text \<open>A card keeps its state while its key is rendered; a new key gets a fresh card.\<close>

definition rendered :: "nodes_data \<Rightarrow> nodes_state \<Rightarrow> (id \<times> card_state) list" where
  "rendered d s =
     map (\<lambda>n. (wn_id n, case card_at s (wn_id n) of None \<Rightarrow> fresh_card | Some c \<Rightarrow> c)) (nd_nodes d)"

definition load_begin :: "nodes_state \<Rightarrow> nodes_state" where
  "load_begin s = s\<lparr>ns_error := None, ns_loads := ns_loads s + 1\<rparr>"

definition shown_node :: "nodes_state \<Rightarrow> id \<Rightarrow> node_info option" where
  "shown_node s i = Option.bind (ns_data s) (\<lambda>d. find_row (\<lambda>n. wn_id n = i) (nd_nodes d))"

datatype nodes_event =
    Poll
  | Loaded nodes_data
  | LoadFailed string
  | Card id card_event

fun nodes_step :: "nodes_state \<Rightarrow> nodes_event \<Rightarrow> nodes_state option" where
  "nodes_step s Poll = Some (load_begin s)"
| "nodes_step s (Loaded d) =
     (if ns_loads s = 0 then None
      else Some (s\<lparr>ns_data := Some d, ns_loading := False, ns_loads := ns_loads s - 1, ns_cards := rendered d s\<rparr>))"
| "nodes_step s (LoadFailed msg) =
     (if ns_loads s = 0 then None
      else Some (s\<lparr>ns_error := Some msg, ns_loading := False, ns_loads := ns_loads s - 1\<rparr>))"
| "nodes_step s (Card i ev) =
     (case (shown_node s i, card_at s i) of
        (Some node, Some c) \<Rightarrow>
          (case card_step node c ev of
             None \<Rightarrow> None
           | Some (c', changed) \<Rightarrow>
               (let s1 = s\<lparr>ns_cards := map (\<lambda>(j, x). (j, if j = i then c' else x)) (ns_cards s)\<rparr>
                in Some (if changed then load_begin s1 else s1)))
      | _ \<Rightarrow> None)"

record list_view =
  lv_unreachable :: bool
  lv_error :: "string option"
  lv_text :: "string option"
  lv_cards :: "card_view list"

definition node_list :: "nodes_state \<Rightarrow> list_view" where
  "node_list s =
     \<lparr>lv_unreachable = (case ns_data s of None \<Rightarrow> False | Some d \<Rightarrow> \<not> nd_panelReachable d),
      lv_error = ns_error s,
      lv_text = (if ns_loading s then Some (''Loading'' @ ellipsis)
                 else case ns_data s of
                   None \<Rightarrow> None
                 | Some d \<Rightarrow> if nd_nodes d = [] then Some ''No nodes configured.'' else None),
      lv_cards = (case ns_data s of
          None \<Rightarrow> []
        | Some d \<Rightarrow> map (\<lambda>n. node_card n (case card_at s (wn_id n) of None \<Rightarrow> fresh_card | Some c \<Rightarrow> c)) (nd_nodes d))\<rparr>"

section \<open>One request at a time\<close>

definition card_ok :: "card_state \<Rightarrow> bool" where
  "card_ok c \<longleftrightarrow> length (cs_pending c) \<le> 1 \<and> (cs_pending c \<noteq> [] \<longrightarrow> cs_busy c)"

lemma fresh_card_ok [simp]: "card_ok fresh_card"
  by (simp add: card_ok_def fresh_card_def)

lemma card_step_ok: "card_step node c ev = Some (c', ch) \<Longrightarrow> card_ok c \<Longrightarrow> card_ok c'"
  by (cases ev) (auto simp: card_ok_def send_def split: if_splits list.splits card_request.splits option.splits)

text \<open>A card on which nothing can be clicked and nothing is under way.\<close>

definition dead_card :: "card_state \<Rightarrow> bool" where
  "dead_card c \<longleftrightarrow> cs_busy c \<and> cs_pending c = []"

lemma dead_card_stuck: "dead_card c \<Longrightarrow> card_step node c ev = None"
  by (cases ev) (auto simp: dead_card_def)

inductive nodes_run :: "nodes_state \<Rightarrow> nodes_event list \<Rightarrow> nodes_state \<Rightarrow> bool" where
  run_Nil: "nodes_run s [] s"
| run_Cons: "nodes_step s e = Some s1 \<Longrightarrow> nodes_run s1 es s2 \<Longrightarrow> nodes_run s (e # es) s2"

inductive_cases nodes_run_NilE: "nodes_run s [] s'"
inductive_cases nodes_run_ConsE: "nodes_run s (e # es) s'"

definition cards_ok :: "nodes_state \<Rightarrow> bool" where
  "cards_ok s \<longleftrightarrow> (\<forall>(i, c) \<in> set (ns_cards s). card_ok c)"

lemma card_at_ok: "cards_ok s \<Longrightarrow> card_at s i = Some c \<Longrightarrow> card_ok c"
  by (auto simp: cards_ok_def card_at_def dest: map_of_SomeD)

lemma load_begin_simps [simp]:
  "ns_cards (load_begin s) = ns_cards s" "ns_data (load_begin s) = ns_data s"
  "card_at (load_begin s) = card_at s"
  by (simp_all add: load_begin_def card_at_def fun_eq_iff)

lemma nodes_step_ok:
  assumes "nodes_step s e = Some s'" "cards_ok s"
  shows "cards_ok s'"
proof (cases e)
  case (Loaded d)
  with assms card_at_ok [OF assms(2)] show ?thesis
    by (auto simp: cards_ok_def rendered_def split: if_splits option.splits)
next
  case (Card i ev)
  with assms(1) obtain node c c' ch where c: "card_at s i = Some c" and "card_step node c ev = Some (c', ch)"
    and s': "ns_cards s' = map (\<lambda>(j, x). (j, if j = i then c' else x)) (ns_cards s)"
    by (auto simp: Let_def split: option.splits prod.splits if_splits)
  with card_step_ok card_at_ok [OF assms(2) c] have "card_ok c'" by blast
  with s' assms(2) show ?thesis by (auto simp: cards_ok_def split: if_splits)
qed (use assms in \<open>auto simp: cards_ok_def load_begin_def split: if_splits\<close>)

lemma nodes_run_ok: "nodes_run s es s' \<Longrightarrow> cards_ok s \<Longrightarrow> cards_ok s'"
  by (induction rule: nodes_run.induct) (auto intro: nodes_step_ok)

lemma nodes_start_ok: "cards_ok nodes_start"
  by (simp add: cards_ok_def nodes_start_def)

section \<open>A drained node's card never comes back\<close>

definition keeps_node :: "id \<Rightarrow> nodes_event \<Rightarrow> bool" where
  "keeps_node i e = (case e of Loaded d \<Rightarrow> i \<in> wn_id ` set (nd_nodes d) | _ \<Rightarrow> True)"

lemma card_at_rendered:
  "i \<in> wn_id ` set (nd_nodes d) \<Longrightarrow> card_at s i = Some c \<Longrightarrow> map_of (rendered d s) i = Some c"
proof -
  assume i: "i \<in> wn_id ` set (nd_nodes d)" and c: "card_at s i = Some c"
  have "map_of (map (\<lambda>n. (wn_id n, f (wn_id n))) ns) i = Some (f i)" if "i \<in> wn_id ` set ns" for ns f
    using that by (induction ns) auto
  from this [OF i, of "\<lambda>j. case card_at s j of None \<Rightarrow> fresh_card | Some c \<Rightarrow> c"] c
  show ?thesis by (simp add: rendered_def)
qed

lemma card_at_map: "card_at (s\<lparr>ns_cards := map (\<lambda>(j, x). (j, if j = i then c else x)) (ns_cards s)\<rparr>) k =
  (if k = i then map_option (\<lambda>_. c) (card_at s k) else card_at s k)"
proof -
  have "map_of (map (\<lambda>(j, x). (j, if j = i then c else x)) xs) k =
    (if k = i then map_option (\<lambda>_. c) (map_of xs k) else map_of xs k)" for xs
    by (induction xs) auto
  then show ?thesis by (simp add: card_at_def)
qed

lemma dead_card_persists:
  assumes "nodes_step s e = Some s'" "keeps_node i e" "card_at s i = Some c" "dead_card c"
  shows "card_at s' i = Some c"
proof (cases e)
  case (Loaded d)
  with assms(1) have "ns_cards s' = rendered d s" by (auto split: if_splits)
  with card_at_rendered [of i d s c] assms(2,3) Loaded show ?thesis
    by (simp add: card_at_def keeps_node_def)
next
  case (Card k ev)
  show ?thesis
  proof (cases "k = i")
    case True
    with assms(1,3,4) Card dead_card_stuck show ?thesis by (auto split: option.splits)
  next
    case False
    with assms(1,3) Card show ?thesis
      by (auto simp: Let_def card_at_map split: option.splits prod.splits if_splits)
  qed
qed (use assms in \<open>auto simp: card_at_def split: if_splits\<close>)

lemma toggled_card_dead:
  assumes "cards_ok s" "nodes_step s (Card i (ToggleDone None)) = Some s1"
  shows "\<exists>c. card_at s1 i = Some c \<and> dead_card c"
proof -
  obtain node c c' ch where c: "card_at s i = Some c"
    and step: "card_step node c (ToggleDone None) = Some (c', ch)"
    and s1: "card_at s1 i = Some c'"
    using assms(2) by (auto simp: Let_def card_at_map split: option.splits prod.splits if_splits)
  from card_at_ok [OF assms(1) c] step have "dead_card c'"
    by (auto simp: card_ok_def dead_card_def split: list.splits card_request.splits)
  with s1 show ?thesis by blast
qed

lemma dead_card_run:
  "nodes_run s es s' \<Longrightarrow> \<forall>e \<in> set es. keeps_node i e \<Longrightarrow> card_at s i = Some c \<Longrightarrow> dead_card c \<Longrightarrow>
     card_at s' i = Some c"
  by (induction rule: nodes_run.induct) (auto intro: dead_card_persists)

text \<open>
  After a node was drained or enabled successfully its card is dead: as long as the node stays
  in the list, through all later reloads and whatever the administrator does, both its
  buttons are disabled and no event of the card can happen, so the drain cannot be undone
  and the node cannot be evacuated without leaving the page.
\<close>

theorem toggle_locks_card:
  assumes "nodes_run nodes_start es s" "nodes_step s (Card i (ToggleDone None)) = Some s1"
    and "nodes_run s1 es' s2" "\<forall>e \<in> set es'. keeps_node i e"
  shows "\<exists>c. card_at s2 i = Some c \<and> (\<forall>node. cv_disabled (node_card node c))
    \<and> (\<forall>ev. nodes_step s2 (Card i ev) = None)"
proof -
  have "cards_ok s" using nodes_run_ok [OF assms(1) nodes_start_ok] .
  then obtain c where "card_at s1 i = Some c" "dead_card c"
    using toggled_card_dead assms(2) by blast
  with dead_card_run [OF assms(3,4)] have "card_at s2 i = Some c" "dead_card c" by blast+
  moreover from \<open>dead_card c\<close> have "cv_disabled (node_card node c)" for node
    by (simp add: node_card_def Let_def dead_card_def)
  ultimately show ?thesis by (auto simp: dead_card_stuck split: option.splits)
qed

text \<open>
  On every reachable page each card has at most one request under way and is disabled while it
  has; an evacuation is only requested from an open dialog, for the node of the card.
\<close>

theorem card_requests_guarded:
  assumes "nodes_run nodes_start es s" "card_at s i = Some c" "shown_node s i = Some node"
    and "card_step node c ev = Some (c', ch)"
  shows "length (cs_pending c') \<le> 1 \<and> (cs_pending c' \<noteq> [] \<longrightarrow> cv_disabled (node_card node c'))
    \<and> (\<forall>k. ForceMigrate k \<in> set (cs_pending c') \<longrightarrow> ForceMigrate k \<in> set (cs_pending c) \<or>
         k = i \<and> ev = ConfirmEvac \<and> cv_dialog (node_card node c) \<noteq> None \<and> cs_pending c = [])"
proof -
  have c: "card_ok c" using card_at_ok [OF nodes_run_ok [OF assms(1) nodes_start_ok] assms(2)] .
  have c': "card_ok c'" using card_step_ok [OF assms(4) c] .
  have node: "wn_id node = i"
    using assms(3) by (auto simp: shown_node_def bind_eq_Some_conv dest: find_row_Some)
  have "ForceMigrate k \<in> set (cs_pending c) \<or>
         k = i \<and> ev = ConfirmEvac \<and> cs_confirmEvac c \<and> cs_pending c = []"
    if "ForceMigrate k \<in> set (cs_pending c')" for k
    using assms(4) that c node
    by (cases ev) (auto simp: card_ok_def send_def split: if_splits list.splits card_request.splits option.splits)
  with c' show ?thesis by (auto simp: card_ok_def node_card_def Let_def)
qed

section \<open>Witnesses\<close>

definition one_node :: nodes_data where
  "one_node = \<lparr>nd_panelReachable = True, nd_nodes = [\<lparr>wn_id = 3, wn_name = ''ams'', wn_status = ''connected'',
     wn_isActive = True, wn_loadPct = Some 40, wn_activeConnections = 2, wn_countryCode = Some ''nl''\<rparr>]\<rparr>"

lemma nodes_run_fold:
  "foldl (\<lambda>so e. Option.bind so (\<lambda>s. nodes_step s e)) (Some s) es = Some s' \<Longrightarrow> nodes_run s es s'"
proof (induction es arbitrary: s)
  case Nil
  then show ?case by (simp add: run_Nil)
next
  case (Cons e es)
  have none: "foldl (\<lambda>so e. Option.bind so (\<lambda>s. nodes_step s e)) None es = None"
    by (induction es) auto
  with Cons show ?case by (cases "nodes_step s e") (auto intro: run_Cons)
qed

definition drain_clicked :: nodes_state where
  "drain_clicked = the (foldl (\<lambda>so e. Option.bind so (\<lambda>s. nodes_step s e)) (Some nodes_start)
     [Poll, Loaded one_node, Card 3 (ClickToggle True)])"

lemma drain_clicked_run: "nodes_run nodes_start [Poll, Loaded one_node, Card 3 (ClickToggle True)] drain_clicked"
  by (rule nodes_run_fold) code_simp

theorem toggle_locks_card_witness:
  "\<exists>s1 s2 c. nodes_step drain_clicked (Card 3 (ToggleDone None)) = Some s1
     \<and> nodes_run s1 [Loaded one_node] s2 \<and> card_at s2 3 = Some c \<and> cs_busy c
     \<and> nodes_step s2 (Card 3 ClickEvacuate) = None"
proof -
  define s1 where "s1 = the (nodes_step drain_clicked (Card 3 (ToggleDone None)))"
  define s2 where "s2 = the (nodes_step s1 (Loaded one_node))"
  have s1: "nodes_step drain_clicked (Card 3 (ToggleDone None)) = Some s1" unfolding s1_def by code_simp
  have "foldl (\<lambda>so e. Option.bind so (\<lambda>s. nodes_step s e)) (Some s1) [Loaded one_node] = Some s2"
    unfolding s1_def s2_def by code_simp
  then have run: "nodes_run s1 [Loaded one_node] s2" by (rule nodes_run_fold)
  have "\<forall>e \<in> set [Loaded one_node]. keeps_node 3 e" by (simp add: keeps_node_def one_node_def)
  from toggle_locks_card [OF drain_clicked_run s1 run this] obtain c
    where "card_at s2 3 = Some c" "\<forall>node. cv_disabled (node_card node c)"
      "\<forall>ev. nodes_step s2 (Card 3 ev) = None" by blast
  with s1 run show ?thesis by (auto simp: node_card_def Let_def simp del: nodes_step.simps)
qed

theorem card_requests_guarded_witness:
  "\<exists>c c'. card_at drain_clicked 3 = Some c
     \<and> card_step (hd (nd_nodes one_node)) c (ToggleDone (Some ''failed'')) = Some (c', False)
     \<and> length (cs_pending c') \<le> 1"
proof -
  define c where "c = the (card_at drain_clicked 3)"
  define c' where "c' = fst (the (card_step (hd (nd_nodes one_node)) c (ToggleDone (Some ''failed''))))"
  have "card_at drain_clicked 3 = Some c" unfolding c_def by code_simp
  moreover have "shown_node drain_clicked 3 = Some (hd (nd_nodes one_node))" by code_simp
  moreover have "card_step (hd (nd_nodes one_node)) c (ToggleDone (Some ''failed'')) = Some (c', False)"
    unfolding c_def c'_def by code_simp
  ultimately show ?thesis using card_requests_guarded [OF drain_clicked_run] by blast
qed

end
