(* ===== verification/WebUsers.thy ===== *)
theory WebUsers
  imports Admin WebNodes
begin

text \<open>
  The user list of the admin web application, web/app/users/page.tsx: the debounced search,
  the table and the dialog that bans a user or changes a tier. The answers to the searches
  that are under way may arrive in any order.
\<close>

section \<open>State\<close>

record user_edit =
  ue_tier :: "plan_tier option"
  ue_isBanned :: "bool option"

text \<open>The dialog: which mount of it this is, its user, its busy flag and its error.\<close>

record modal =
  md_mount :: nat
  md_user :: admin_user_row
  md_busy :: bool
  md_error :: "string option"

text \<open>
  \<open>us_timer\<close> is the search the pending 300 ms timer will load, \<open>us_pending\<close> the searches sent
  and not answered, oldest first; a mutation under way knows its mount and the search of the
  render it was started from.
\<close>

record users_state =
  us_search :: string
  us_rows :: "admin_user_row list"
  us_total :: nat
  us_loading :: bool
  us_error :: "string option"
  us_modal :: "modal option"
  us_timer :: "string option"
  us_pending :: "string list"
  us_mounts :: nat
  us_mutations :: "(nat \<times> id \<times> user_edit \<times> string) list"

definition users_start :: users_state where
  "users_start = \<lparr>us_search = [], us_rows = [], us_total = 0, us_loading = True, us_error = None,
     us_modal = None, us_timer = Some [], us_pending = [], us_mounts = 0, us_mutations = []\<rparr>"

type_synonym user_list = "nat \<times> admin_user_row list"

datatype users_event =
    Search string
  | TimerFires
  | Found nat "string + user_list"
  | Manage admin_user_row
  | CloseModal
  | RunEdit user_edit bool
  | EditDone nat "string option"

section \<open>Steps\<close>

definition users_load :: "string \<Rightarrow> users_state \<Rightarrow> users_state" where
  "users_load q s = s\<lparr>us_loading := True, us_error := None, us_pending := us_pending s @ [q]\<rparr>"

text \<open>What is sent for a search: an empty text is left out.\<close>

definition search_param :: "string \<Rightarrow> string option" where
  "search_param q = (if q = [] then None else Some q)"

definition remove_nth :: "nat \<Rightarrow> 'a list \<Rightarrow> 'a list" where
  "remove_nth k xs = take k xs @ drop (Suc k) xs"

definition users_answer :: "string + user_list \<Rightarrow> users_state \<Rightarrow> users_state" where
  "users_answer outcome s =
     (case outcome of
        Inr (n, rows) \<Rightarrow> s\<lparr>us_rows := rows, us_total := n, us_loading := False\<rparr>
      | Inl msg \<Rightarrow> s\<lparr>us_error := Some msg, us_loading := False\<rparr>)"

text \<open>A ban is confirmed in a browser dialog, nothing else is.\<close>

definition run_edit :: "user_edit \<Rightarrow> bool \<Rightarrow> users_state \<Rightarrow> users_state option" where
  "run_edit changes confirmed s =
     (case us_modal s of
        None \<Rightarrow> None
      | Some m \<Rightarrow>
          if md_busy m then None
          else if ue_isBanned changes = Some True \<and> \<not> confirmed then Some s
          else Some (s\<lparr>us_modal := Some (m\<lparr>md_busy := True, md_error := None\<rparr>),
                       us_mutations := us_mutations s @ [(md_mount m, au_id (md_user m), changes, us_search s)]\<rparr>))"

text \<open>A success closes whatever dialog is open; a failure only shows in the dialog it belongs to.\<close>

definition edit_done :: "nat \<times> string \<Rightarrow> string option \<Rightarrow> users_state \<Rightarrow> users_state" where
  "edit_done mq failure s =
     (case failure of
        None \<Rightarrow> users_load (snd mq) (s\<lparr>us_modal := None\<rparr>)
      | Some msg \<Rightarrow>
          (case us_modal s of
             None \<Rightarrow> s
           | Some m \<Rightarrow>
               if md_mount m = fst mq then s\<lparr>us_modal := Some (m\<lparr>md_error := Some msg, md_busy := False\<rparr>)\<rparr> else s))"

fun users_step :: "users_state \<Rightarrow> users_event \<Rightarrow> users_state option" where
  "users_step s (Search q) = Some (s\<lparr>us_search := q, us_timer := Some q\<rparr>)"
| "users_step s TimerFires =
     (case us_timer s of None \<Rightarrow> None | Some q \<Rightarrow> Some (users_load q (s\<lparr>us_timer := None\<rparr>)))"
| "users_step s (Found k outcome) =
     (if k < length (us_pending s)
      then Some (users_answer outcome (s\<lparr>us_pending := remove_nth k (us_pending s)\<rparr>)) else None)"
| "users_step s (Manage u) =
     (if us_modal s = None \<and> u \<in> set (us_rows s)
      then Some (s\<lparr>us_modal := Some \<lparr>md_mount = us_mounts s, md_user = u, md_busy = False, md_error = None\<rparr>,
                   us_mounts := us_mounts s + 1\<rparr>)
      else None)"
| "users_step s CloseModal = (if us_modal s = None then None else Some (s\<lparr>us_modal := None\<rparr>))"
| "users_step s (RunEdit changes confirmed) = run_edit changes confirmed s"
| "users_step s (EditDone k failure) =
     (if k < length (us_mutations s)
      then (case us_mutations s ! k of
              (m, _, _, q) \<Rightarrow> Some (edit_done (m, q) failure (s\<lparr>us_mutations := remove_nth k (us_mutations s)\<rparr>)))
      else None)"

section \<open>What is shown\<close>

record user_row_view =
  ur_email :: string
  ur_anonymous :: bool
  ur_admin :: bool
  ur_status :: string
  ur_sessions :: "string list"

definition user_row_of :: "(id \<Rightarrow> string) \<Rightarrow> admin_user_row \<Rightarrow> user_row_view" where
  "user_row_of uuid u =
     \<lparr>ur_email = (case au_email u of None \<Rightarrow> ''anonymous'' | Some e \<Rightarrow> e),
      ur_anonymous = (au_email u = None), ur_admin = (au_role u = Role_admin),
      ur_status = (if au_isBanned u then ''banned'' else ''active''),
      ur_sessions = (if au_activeSessions u = [] then [dash]
                     else map (\<lambda>s. take 8 (uuid (sb_id s))) (au_activeSessions u))\<rparr>"

record modal_view =
  mv_name :: string
  mv_error :: "string option"
  mv_ban_label :: string
  mv_ban_edit :: user_edit
  mv_tier_edits :: "user_edit list"
  mv_disabled :: bool

definition manage_modal :: "(id \<Rightarrow> string) \<Rightarrow> modal \<Rightarrow> modal_view" where
  "manage_modal uuid m =
     (let u = md_user m in
      \<lparr>mv_name = (case au_email u of None \<Rightarrow> uuid (au_id u) | Some e \<Rightarrow> e), mv_error = md_error m,
       mv_ban_label = (if au_isBanned u then ''Unban'' else ''Ban''),
       mv_ban_edit = \<lparr>ue_tier = None, ue_isBanned = Some (\<not> au_isBanned u)\<rparr>,
       mv_tier_edits = [\<lparr>ue_tier = Some Premium, ue_isBanned = None\<rparr>, \<lparr>ue_tier = Some Free, ue_isBanned = None\<rparr>],
       mv_disabled = md_busy m\<rparr>)"

record users_view =
  uv_title :: string
  uv_search :: string
  uv_error :: "string option"
  uv_text :: "string option"
  uv_rows :: "user_row_view list"
  uv_modal :: "modal_view option"

definition users_page :: "(id \<Rightarrow> string) \<Rightarrow> users_state \<Rightarrow> users_view" where
  "users_page uuid s =
     \<lparr>uv_title = ''Users '' @ (if us_total s \<noteq> 0 then ''('' @ show_nat (us_total s) @ '')'' else []),
      uv_search = us_search s, uv_error = us_error s,
      uv_text = (if us_loading s then Some (''Loading'' @ ellipsis)
                 else if us_rows s = [] then Some ''No users.'' else None),
      uv_rows = map (user_row_of uuid) (us_rows s),
      uv_modal = map_option (manage_modal uuid) (us_modal s)\<rparr>"

section \<open>Runs\<close>

definition users_run :: "users_state \<Rightarrow> users_event list \<Rightarrow> users_state option" where
  "users_run s es = foldl (\<lambda>so e. Option.bind so (\<lambda>x. users_step x e)) (Some s) es"

lemma users_run_None: "foldl (\<lambda>so e. Option.bind so (\<lambda>x. users_step x e)) None es = None"
  by (induction es) auto

lemma users_run_simps [simp]:
  "users_run s [] = Some s"
  "users_run s (e # es) = Option.bind (users_step s e) (\<lambda>x. users_run x es)"
  by (auto simp: users_run_def users_run_None split: bind_split)

text \<open>Nothing under way: no timer, no search, no spinner.\<close>

definition settled :: "users_state \<Rightarrow> bool" where
  "settled s \<longleftrightarrow> us_timer s = None \<and> us_pending s = [] \<and> \<not> us_loading s"

section \<open>Properties\<close>

text \<open>
  Runs in which answers do not overtake each other and no edit outlives its text: every search
  is answered by \<open>answer\<close> or fails, the oldest first, and an edit that succeeds was started under
  the text that is still in the field.
\<close>

definition in_order :: "(string \<Rightarrow> user_list) \<Rightarrow> users_state \<Rightarrow> users_event \<Rightarrow> bool" where
  "in_order answer s e \<longleftrightarrow>
     (case e of
        Found k outcome \<Rightarrow> k = 0 \<and> us_pending s \<noteq> [] \<and> (\<forall>x. outcome = Inr x \<longrightarrow> x = answer (hd (us_pending s)))
      | EditDone k failure \<Rightarrow> failure = None \<longrightarrow> snd (snd (snd (us_mutations s ! k))) = us_search s
      | _ \<Rightarrow> True)"

inductive orderly :: "(string \<Rightarrow> user_list) \<Rightarrow> users_state \<Rightarrow> bool" for answer where
  orderly_start: "orderly answer users_start"
| orderly_step: "orderly answer s \<Longrightarrow> in_order answer s e \<Longrightarrow> users_step s e = Some s' \<Longrightarrow> orderly answer s'"

text \<open>The search that was sent last is the one shown in the field, unless its timer runs.\<close>

definition up_to_date :: "(string \<Rightarrow> user_list) \<Rightarrow> users_state \<Rightarrow> bool" where
  "up_to_date answer s \<longleftrightarrow>
     (case us_timer s of
        Some q \<Rightarrow> q = us_search s
      | None \<Rightarrow> if us_pending s = [] then us_error s \<noteq> None \<or> (us_total s, us_rows s) = answer (us_search s)
                else last (us_pending s) = us_search s)"

lemma up_to_date_cong:
  "us_timer s' = us_timer s \<Longrightarrow> us_search s' = us_search s \<Longrightarrow> us_pending s' = us_pending s \<Longrightarrow>
   us_error s' = us_error s \<Longrightarrow> us_total s' = us_total s \<Longrightarrow> us_rows s' = us_rows s \<Longrightarrow>
   up_to_date answer s' = up_to_date answer s"
  by (simp add: up_to_date_def split: option.split)

lemma orderly_up_to_date: "orderly answer s \<Longrightarrow> up_to_date answer s"
proof (induction rule: orderly.induct)
  case orderly_start
  then show ?case by (simp add: up_to_date_def users_start_def)
next
  case (orderly_step s e s')
  show ?case
  proof (cases e)
    case (Found k outcome)
    with orderly_step.hyps(2,3) obtain q qs where "us_pending s = q # qs"
        "s' = users_answer outcome (s\<lparr>us_pending := qs\<rparr>)" "\<forall>x. outcome = Inr x \<longrightarrow> x = answer q"
      by (cases "us_pending s") (auto simp: in_order_def remove_nth_def)
    with orderly_step.IH show ?thesis
      by (auto simp: up_to_date_def users_answer_def split: option.splits if_splits prod.splits sum.splits)
  next
    case (RunEdit ch ok)
    with orderly_step.hyps(3) have "up_to_date answer s' = up_to_date answer s"
      by (intro up_to_date_cong) (auto simp: run_edit_def split: option.splits if_splits)
    with orderly_step.IH show ?thesis by simp
  next
    case (EditDone k failure)
    obtain m i ch q where mu: "us_mutations s ! k = (m, i, ch, q)" by (cases "us_mutations s ! k") auto
    with EditDone orderly_step.hyps(3)
    have s': "s' = edit_done (m, q) failure (s\<lparr>us_mutations := remove_nth k (us_mutations s)\<rparr>)"
      by (auto split: if_splits)
    show ?thesis
    proof (cases failure)
      case None
      with mu EditDone orderly_step.hyps(2) have "q = us_search s" by (simp add: in_order_def)
      with orderly_step.IH show ?thesis
        by (auto simp: s' None up_to_date_def edit_done_def users_load_def split: option.splits)
    next
      case (Some msg)
      then have "up_to_date answer s' = up_to_date answer s"
        by (intro up_to_date_cong) (auto simp: s' edit_done_def split: option.splits)
      with orderly_step.IH show ?thesis by simp
    qed
  qed (use orderly_step in \<open>auto simp: up_to_date_def users_load_def in_order_def split: option.splits if_splits\<close>)
qed

text \<open>
  C39. The answer that arrives last wins. Whatever is searched and edited: as long as the searches
  are answered, well or with an error, in the order they were sent and no edit succeeds that was
  started under another text, a page on which nothing is under way and no error shows lists the
  answer to the text in its field. Both provisos are needed, for any two searches. When two
  answers overtake each other, the page may show, quiet and without an error, the answer to a
  text that is no longer there; and so it does, with all answers in order, when an edit succeeds
  after the text was changed, as the reload asks for the old text.
\<close>

theorem users_page_last_answer_wins:
  "(orderly answer s \<longrightarrow> settled s \<longrightarrow> us_error s = None \<longrightarrow> (us_total s, us_rows s) = answer (us_search s))
   \<and> (\<exists>s'. users_run users_start
           [Search q1, TimerFires, Search q2, TimerFires, Found 1 (Inr (answer q2)), Found 0 (Inr (answer q1))] = Some s'
        \<and> settled s' \<and> us_error s' = None \<and> us_search s' = q2 \<and> (us_total s', us_rows s') = answer q1)
   \<and> (u \<in> set (snd (answer q1)) \<longrightarrow>
       (\<exists>s'. users_run users_start
           [Search q1, TimerFires, Found 0 (Inr (answer q1)), Manage u, RunEdit ch True, CloseModal,
            Search q2, TimerFires, Found 0 (Inr (answer q2)), EditDone 0 None, Found 0 (Inr (answer q1))] = Some s'
        \<and> settled s' \<and> us_error s' = None \<and> us_search s' = q2 \<and> (us_total s', us_rows s') = answer q1))"
proof (intro conjI)
  show "orderly answer s \<longrightarrow> settled s \<longrightarrow> us_error s = None \<longrightarrow> (us_total s, us_rows s) = answer (us_search s)"
    using orderly_up_to_date [of answer s] by (auto simp: settled_def up_to_date_def)
  show "\<exists>s'. users_run users_start
           [Search q1, TimerFires, Search q2, TimerFires, Found 1 (Inr (answer q2)), Found 0 (Inr (answer q1))] = Some s'
        \<and> settled s' \<and> us_error s' = None \<and> us_search s' = q2 \<and> (us_total s', us_rows s') = answer q1"
    by (cases "answer q1"; cases "answer q2")
      (simp add: users_start_def users_load_def users_answer_def remove_nth_def settled_def)
  show "u \<in> set (snd (answer q1)) \<longrightarrow>
       (\<exists>s'. users_run users_start
           [Search q1, TimerFires, Found 0 (Inr (answer q1)), Manage u, RunEdit ch True, CloseModal,
            Search q2, TimerFires, Found 0 (Inr (answer q2)), EditDone 0 None, Found 0 (Inr (answer q1))] = Some s'
        \<and> settled s' \<and> us_error s' = None \<and> us_search s' = q2 \<and> (us_total s', us_rows s') = answer q1)"
    by (cases "answer q1"; cases "answer q2")
      (simp add: users_start_def users_load_def users_answer_def remove_nth_def settled_def run_edit_def edit_done_def)
qed

theorem users_page_last_answer_wins_witness:
  "\<exists>s. orderly (\<lambda>q. (length q, [])) s \<and> settled s \<and> us_error s = None \<and> us_search s = ''ab'' \<and> us_total s = 2"
proof -
  let ?a = "\<lambda>q. (length q, []) :: user_list"
  let ?es = "[Search ''ab'', TimerFires, Found 0 (Inr (?a ''ab''))]"
  define s1 where "s1 = users_start\<lparr>us_search := ''ab'', us_timer := Some ''ab''\<rparr>"
  define s2 where "s2 = users_load ''ab'' (s1\<lparr>us_timer := None\<rparr>)"
  define s where "s = users_answer (Inr (?a ''ab'')) (s2\<lparr>us_pending := []\<rparr>)"
  have "orderly ?a s1"
    by (rule orderly_step [OF orderly_start, of _ "Search ''ab''"]) (simp_all add: s1_def in_order_def)
  then have "orderly ?a s2"
    by (rule orderly_step [where e = TimerFires]) (simp_all add: s1_def s2_def in_order_def)
  then have "orderly ?a s"
    by (rule orderly_step [where e = "Found 0 (Inr (?a ''ab''))"])
      (simp_all add: s1_def s2_def s_def in_order_def users_load_def users_start_def remove_nth_def)
  moreover have "settled s" "us_error s = None" "us_search s = ''ab''"
    by (simp_all add: s_def s2_def s1_def users_answer_def users_load_def users_start_def settled_def)
  ultimately show ?thesis
    using users_page_last_answer_wins [of ?a s] by (intro exI [of _ s]) auto
qed

end
