(* ===== verification/AdminApi.thy ===== *)
theory AdminApi
  imports Admin DynamicPanel
begin

text \<open>
  The reading routes and the settings routes of backend/src/admin/admin.controller.ts, with
  the validation of their query texts (\<^verbatim>\<open>ListUsersQuery\<close>, \<^verbatim>\<open>AuditQuery\<close>). The mutating routes are
  in the theory Admin. Of a failed validation only the first constraint is named.
\<close>

section \<open>Query texts\<close>

text \<open>A query value is converted by \<^verbatim>\<open>Number\<close> and must be an integer in the range.\<close>

definition query_int :: "string \<Rightarrow> int \<Rightarrow> int option \<Rightarrow> string option \<Rightarrow> exn + int option" where
  "query_int name lo hi v =
     (case v of
        None \<Rightarrow> Inr None
      | Some s \<Rightarrow>
          (case number_text s of
             None \<Rightarrow> Inl (BadRequestException (name @ '' must be an integer number''))
           | Some n \<Rightarrow>
               if n < lo then Inl (BadRequestException (name @ '' must not be less than '' @ show_int lo))
               else (case hi of
                  None \<Rightarrow> Inr (Some n)
                | Some h \<Rightarrow>
                    if n > h then Inl (BadRequestException (name @ '' must not be greater than '' @ show_int h))
                    else Inr (Some n))))"

record list_users_query =
  lu_search :: "string option"
  lu_limit :: "string option"
  lu_offset :: "string option"

definition parse_list_users :: "list_users_query \<Rightarrow> exn + (string option \<times> int option \<times> int option)" where
  "parse_list_users q =
     (if (case lu_search q of None \<Rightarrow> False | Some s \<Rightarrow> length s > 254)
      then Inl (BadRequestException ''search must be shorter than or equal to 254 characters'')
      else case query_int ''limit'' 1 (Some 100) (lu_limit q) of
        Inl e \<Rightarrow> Inl e
      | Inr lmt \<Rightarrow>
          (case query_int ''offset'' 0 None (lu_offset q) of
             Inl e \<Rightarrow> Inl e | Inr off \<Rightarrow> Inr (lu_search q, lmt, off)))"

definition action_types :: "(string \<times> admin_action_type) list" where
  "action_types = [(''KICK_SESSION'', KICK_SESSION), (''BAN_USER'', BAN_USER), (''UNBAN_USER'', UNBAN_USER),
     (''CHANGE_TIER'', CHANGE_TIER), (''PANIC_FREE_SESSIONS'', PANIC_FREE_SESSIONS),
     (''SET_NODE_STATUS'', SET_NODE_STATUS), (''FORCE_MIGRATE_NODE'', FORCE_MIGRATE_NODE)]"

definition action_name :: "admin_action_type \<Rightarrow> string" where
  "action_name a = (case find_row (\<lambda>(t, x). x = a) action_types of Some (t, _) \<Rightarrow> t | None \<Rightarrow> [])"

record audit_texts =
  qa_actionType :: "string option"
  qa_adminId :: "id option"
  qa_limit :: "string option"
  qa_offset :: "string option"

definition parse_audit :: "audit_texts \<Rightarrow> exn + audit_query" where
  "parse_audit q =
     (if (case qa_actionType q of None \<Rightarrow> False | Some t \<Rightarrow> map_of action_types t = None)
      then Inl (BadRequestException ''actionType must be one of the listed values'')
      else case query_int ''limit'' 1 (Some 200) (qa_limit q) of
        Inl e \<Rightarrow> Inl e
      | Inr lmt \<Rightarrow>
          (case query_int ''offset'' 0 None (qa_offset q) of
             Inl e \<Rightarrow> Inl e
           | Inr off \<Rightarrow>
               Inr \<lparr>aq_actionType = Option.bind (qa_actionType q) (map_of action_types),
                    aq_adminId = qa_adminId q, aq_limit = lmt, aq_offset = off\<rparr>))"

section \<open>The routes\<close>

text \<open>The guard, then the validation, then the handler; a \<^verbatim>\<open>GET\<close> is not audited.\<close>

definition read_route :: "id option \<Rightarrow> db \<Rightarrow> exn + 'a \<Rightarrow> exn + 'a" where
  "read_route adminId d answer = (case adminGuard adminId d of Inl e \<Rightarrow> Inl e | Inr _ \<Rightarrow> answer)"

definition stats_route :: "id option \<Rightarrow> ms \<Rightarrow> db \<Rightarrow> exn + admin_stats" where
  "stats_route adminId now d = read_route adminId d (stats now d)"

definition users_route :: "id option \<Rightarrow> list_users_query \<Rightarrow> db \<Rightarrow> exn + (nat \<times> admin_user_row list)" where
  "users_route adminId q d =
     read_route adminId d (map_sum id (\<lambda>(search, lmt, off). listUsers search lmt off d) (parse_list_users q))"

definition audit_route :: "id option \<Rightarrow> audit_texts \<Rightarrow> db \<Rightarrow> exn + (nat \<times> audit_log list)" where
  "audit_route adminId q d = read_route adminId d (map_sum id (\<lambda>aq. audit_list aq d) (parse_audit q))"

definition nodes_route ::
  "'p panel_client \<Rightarrow> id option \<Rightarrow> ('p world, bool \<times> node_health list) prog" where
  "nodes_route pc adminId w =
     (case adminGuard adminId (wdb w) of
        Inl e \<Rightarrow> (Inl e, w)
      | Inr _ \<Rightarrow> (case nodesHealth pc w of (r, w1) \<Rightarrow> (Inr r, w1)))"

definition get_settings_route :: "panel_environ \<Rightarrow> id option \<Rightarrow> db \<Rightarrow> system_setting list \<Rightarrow> exn + json" where
  "get_settings_route e adminId d t = read_route adminId d (Inr (getPanelConfig e t))"

text \<open>
  Storing the settings. The type of the body is an interface, so no validation applies to it;
  the interceptor knows no handler of this name and writes nothing.
\<close>

definition set_settings_route ::
  "(string \<Rightarrow> bool) \<Rightarrow> ms \<Rightarrow> id option \<Rightarrow> string option \<Rightarrow> json \<Rightarrow> (db \<times> system_setting list, bool) prog" where
  "set_settings_route inet now adminId ip dto s =
     (case s of (d, t) \<Rightarrow>
        case adminGuard adminId d of
          Inl e \<Rightarrow> (Inl e, s)
        | Inr _ \<Rightarrow>
            (Inr True,
             (intercept inet now ''PUT'' ''setPanelSettings'' adminId ip None no_body
                (JObj [(''success'', JBool True)]) d,
              setPanelConfig now dto t)))"

section \<open>Reading\<close>

text \<open>A text without blanks is its own \<^verbatim>\<open>trim\<close>.\<close>

lemma dropWhile_plain: "\<forall>c \<in> set t. \<not> is_space c \<Longrightarrow> dropWhile is_space (t @ r) = (if t = [] then dropWhile is_space r else t @ r)"
  by (cases t) auto

lemma trim_plain: "\<forall>c \<in> set s. \<not> is_space c \<Longrightarrow> trim s = s"
  using dropWhile_plain [of s "[]"] dropWhile_plain [of "rev s" "[]"] by (auto simp: trim_def split: if_splits)

text \<open>A number that was written as a text is read back.\<close>

lemma digits_val_show_nat: "digits_val 0 (show_nat n) = Some n"
proof (induction n rule: show_nat.induct)
  case (1 n)
  then show ?case
    by (subst show_nat.simps) (simp add: digits_val_append)
qed

lemma show_nat_digits: "c \<in> set (show_nat n) \<Longrightarrow> \<exists>k < 10. c = digit k"
proof (induction n rule: show_nat.induct)
  case (1 n)
  from "1.prems" show ?case
    by (subst (asm) show_nat.simps) (auto split: if_splits dest: "1.IH" intro: exI [of _ "n mod 10"])
qed

lemma digit_no_space: "k < 10 \<Longrightarrow> \<not> is_space (digit k) \<and> digit k \<noteq> CHR ''-'' \<and> digit k \<noteq> CHR ''+''"
proof -
  assume "k < 10"
  moreover have "\<forall>k \<in> set [0 ..< 10]. \<not> is_space (digit k) \<and> digit k \<noteq> CHR ''-'' \<and> digit k \<noteq> CHR ''+''"
    by code_simp
  ultimately show ?thesis by simp
qed

lemma number_text_show_nat: "number_text (show_nat n) = Some (int n)"
proof -
  have plain: "\<forall>c \<in> set (show_nat n). \<not> is_space c \<and> c \<noteq> CHR ''-'' \<and> c \<noteq> CHR ''+''"
    by (metis show_nat_digits digit_no_space)
  have "show_nat n \<noteq> []" by (subst show_nat.simps) simp
  then obtain c r where "show_nat n = c # r" by (cases "show_nat n") auto
  with plain digits_val_show_nat [of n] trim_plain [of "show_nat n"] show ?thesis
    by (simp add: number_text_def)
qed

lemma number_text_show_int: "number_text (show_int n) = Some n"
proof (cases "0 \<le> n")
  case True
  then show ?thesis by (simp add: show_int_def number_text_show_nat)
next
  case False
  let ?t = "show_nat (nat (- n))"
  have plain: "\<forall>c \<in> set (CHR ''-'' # ?t). \<not> is_space c"
    using digit_no_space by (auto simp: is_space_def dest!: show_nat_digits)
  have "?t \<noteq> []" by (subst show_nat.simps) simp
  with False plain trim_plain [of "CHR ''-'' # ?t"] digits_val_show_nat [of "nat (- n)"] show ?thesis
    by (simp add: show_int_def number_text_def)
qed

lemma action_name_read: "map_of action_types (action_name a) = Some a"
  by (cases a) (simp_all add: action_name_def action_types_def)

text \<open>What the validation lets through is what the service uses: its own clamps change nothing.\<close>

lemma query_int_bounds:
  assumes "query_int name lo hi v = Inr (Some n)"
  shows "lo \<le> n \<and> (case hi of None \<Rightarrow> True | Some h \<Rightarrow> n \<le> h)"
  using assms by (auto simp: query_int_def split: option.splits if_splits)

lemma parse_audit_bounds:
  assumes "parse_audit q = Inr aq"
  shows "min (max (opt_default (aq_limit aq) 50) 1) 200 = opt_default (aq_limit aq) 50
    \<and> max (opt_default (aq_offset aq) 0) 0 = opt_default (aq_offset aq) 0"
proof -
  obtain lmt off where "query_int ''limit'' 1 (Some 200) (qa_limit q) = Inr lmt"
      "query_int ''offset'' 0 None (qa_offset q) = Inr off" "aq_limit aq = lmt" "aq_offset aq = off"
    using assms by (auto simp: parse_audit_def split: if_splits sum.splits)
  then show ?thesis
    using query_int_bounds [of "''limit''" 1 "Some 200" "qa_limit q"]
      query_int_bounds [of "''offset''" 0 None "qa_offset q"]
    by (cases lmt; cases off) (auto simp: opt_default_def)
qed

lemma read_route_Inr: "read_route adminId d answer = Inr r \<longleftrightarrow> adminGuard adminId d = Inr () \<and> answer = Inr r"
  by (auto simp: read_route_def split: sum.splits)

lemma set_settings_unaudited:
  "fst (snd (set_settings_route inet now adminId ip dto (d, t))) = d"
  by (auto simp: set_settings_route_def intercept_def infer_def split: sum.splits)

end
