(* ===== verification/WebAudit.thy ===== *)
theory WebAudit
  imports AdminApi Admin_Correct WebNodes
begin

text \<open>
  The activity page of the admin web application, web/app/audit/page.tsx: its pages are read
  from the audit trail by the route the theory AdminApi models, newest first, fifty at a time.
\<close>

section \<open>State\<close>

definition PAGE :: nat where "PAGE = 50"

text \<open>A call under way: the first page, or the page at an offset, of a filter.\<close>

datatype audit_call =
    FirstPage "admin_action_type option"
  | MorePage "admin_action_type option" nat

record audit_state =
  as_logs :: "audit_log list"
  as_total :: nat
  as_filter :: "admin_action_type option"
  as_loading :: bool
  as_loadingMore :: bool
  as_error :: "string option"
  as_pending :: "audit_call list"

definition audit_start :: audit_state where
  "audit_start = \<lparr>as_logs = [], as_total = 0, as_filter = None, as_loading = True,
     as_loadingMore = False, as_error = None, as_pending = [FirstPage None]\<rparr>"

definition hasMore :: "audit_state \<Rightarrow> bool" where
  "hasMore s \<longleftrightarrow> length (as_logs s) < as_total s"

type_synonym log_page = "nat \<times> audit_log list"

datatype audit_event =
    SetFilter "admin_action_type option"
  | Refresh
  | LoadMore
  | Listed nat "string + log_page"

section \<open>Steps\<close>

definition loadFirst :: "admin_action_type option \<Rightarrow> audit_state \<Rightarrow> audit_state" where
  "loadFirst action s =
     s\<lparr>as_loading := True, as_error := None, as_pending := as_pending s @ [FirstPage action]\<rparr>"

definition loadMore :: "audit_state \<Rightarrow> audit_state" where
  "loadMore s =
     s\<lparr>as_loadingMore := True, as_pending := as_pending s @ [MorePage (as_filter s) (length (as_logs s))]\<rparr>"

text \<open>The rows of a later page are appended unless a row with their id is already there.\<close>

definition append_new :: "audit_log list \<Rightarrow> audit_log list \<Rightarrow> audit_log list" where
  "append_new prev rows = prev @ filter (\<lambda>l. al_id l \<notin> al_id ` set prev) rows"

fun listed :: "audit_call \<Rightarrow> string + log_page \<Rightarrow> audit_state \<Rightarrow> audit_state" where
  "listed (FirstPage f) (Inr (n, rows)) s = s\<lparr>as_logs := rows, as_total := n, as_loading := False\<rparr>"
| "listed (FirstPage f) (Inl msg) s = s\<lparr>as_error := Some msg, as_loading := False\<rparr>"
| "listed (MorePage f k) (Inr (n, rows)) s =
     s\<lparr>as_logs := append_new (as_logs s) rows, as_total := n, as_loadingMore := False\<rparr>"
| "listed (MorePage f k) (Inl msg) s = s\<lparr>as_error := Some msg, as_loadingMore := False\<rparr>"

definition drop_call :: "nat \<Rightarrow> audit_state \<Rightarrow> audit_state" where
  "drop_call k s = s\<lparr>as_pending := take k (as_pending s) @ drop (Suc k) (as_pending s)\<rparr>"

fun audit_step :: "audit_state \<Rightarrow> audit_event \<Rightarrow> audit_state option" where
  "audit_step s (SetFilter f) = Some (if f = as_filter s then s else loadFirst f (s\<lparr>as_filter := f\<rparr>))"
| "audit_step s Refresh = Some (loadFirst (as_filter s) s)"
| "audit_step s LoadMore =
     (if hasMore s \<and> \<not> as_loading s \<and> \<not> as_loadingMore s then Some (loadMore s) else None)"
| "audit_step s (Listed k outcome) =
     (if k < length (as_pending s) then Some (listed (as_pending s ! k) outcome (drop_call k s)) else None)"

section \<open>What is shown\<close>

text \<open>The label and the colours of an action; two actions of the backend have none.\<close>

fun ACTION_STYLE :: "admin_action_type \<Rightarrow> (string \<times> string) option" where
  "ACTION_STYLE BAN_USER = Some (''BAN'', ''bg-red-900/70 text-red-200 border-red-700'')"
| "ACTION_STYLE PANIC_FREE_SESSIONS = Some (''PANIC'', ''bg-red-800 text-white border-red-500 font-bold'')"
| "ACTION_STYLE KICK_SESSION = Some (''KICK'', ''bg-amber-900/60 text-amber-200 border-amber-700'')"
| "ACTION_STYLE UNBAN_USER = Some (''UNBAN'', ''bg-emerald-900/60 text-emerald-200 border-emerald-700'')"
| "ACTION_STYLE CHANGE_TIER = Some (''TIER'', ''bg-blue-900/60 text-blue-200 border-blue-700'')"
| "ACTION_STYLE _ = None"

definition FILTERS :: "(admin_action_type option \<times> string) list" where
  "FILTERS = [(None, ''All''), (Some BAN_USER, ''Bans''), (Some KICK_SESSION, ''Kicks''),
     (Some PANIC_FREE_SESSIONS, ''Panics''), (Some CHANGE_TIER, ''Tier'')]"

text \<open>\<^verbatim>\<open>d.field ?? dflt\<close> in a text.\<close>

definition field_text :: "string \<Rightarrow> string \<Rightarrow> json \<Rightarrow> string" where
  "field_text k dflt d = (if is_nullish (jget k d) then dflt else js_text (jget k d))"

definition describe :: "audit_log \<Rightarrow> string" where
  "describe row =
     (let d = al_details row in
      case al_action_type row of
        BAN_USER \<Rightarrow> ''Banned a user ('' @ field_text ''revokedSessions'' ''0'' d @ '' session(s) revoked)''
      | UNBAN_USER \<Rightarrow> ''Unbanned a user''
      | KICK_SESSION \<Rightarrow> ''Kicked a session''
      | CHANGE_TIER \<Rightarrow> ''Changed tier '' @ [CHR 0xE2, CHR 0x86, CHR 0x92] @ '' '' @ field_text ''tier'' ''?'' d
      | PANIC_FREE_SESSIONS \<Rightarrow> ''PANIC '' @ dash @ '' revoked '' @ field_text ''revoked'' ''0'' d @ '' free session(s)''
      | a \<Rightarrow> action_name a)"

record log_view =
  lw_label :: string
  lw_style :: string
  lw_text :: string
  lw_telegram :: bool
  lw_line :: string

definition middot :: string where "middot = '' '' @ [CHR 0xC2, CHR 0xB7] @ '' ''"

text \<open>A row reads the class of its style: of no style that is a \<^verbatim>\<open>TypeError\<close>.\<close>

definition log_row :: "(id \<Rightarrow> string) \<Rightarrow> (ms \<Rightarrow> string) \<Rightarrow> audit_log \<Rightarrow> exn + log_view" where
  "log_row uuid localeTime row =
     (case ACTION_STYLE (al_action_type row) of
        None \<Rightarrow> Inl (JsError ''Cannot read properties of undefined (reading cls)'')
      | Some (label, cls) \<Rightarrow>
          Inr \<lparr>lw_label = label, lw_style = cls, lw_text = describe row,
               lw_telegram = (jget ''source'' (al_details row) = Some (JStr ''telegram'')),
               lw_line =
                 (case al_target_id row of None \<Rightarrow> [] | Some t \<Rightarrow> ''target '' @ take 8 (uuid t) @ middot) @
                 (case al_admin_id row of None \<Rightarrow> [] | Some a \<Rightarrow> ''admin '' @ take 8 (uuid a) @ middot) @
                 (if env_set (al_ip_address row) then the (al_ip_address row) @ middot else []) @
                 localeTime (al_created_at row)\<rparr>)"

record audit_view =
  av_total :: "string option"
  av_filters :: "(string \<times> bool) list"
  av_error :: "string option"
  av_text :: "string option"
  av_rows :: "log_view list"
  av_more :: "(string \<times> bool) option"

text \<open>Rendering throws when a row does; there is no error boundary, so the whole page goes.\<close>

definition render_audit :: "(id \<Rightarrow> string) \<Rightarrow> (ms \<Rightarrow> string) \<Rightarrow> audit_state \<Rightarrow> exn + audit_view" where
  "render_audit uuid localeTime s =
     map_sum id (\<lambda>rows.
       \<lparr>av_total = (if as_total s \<noteq> 0 then Some (''('' @ show_nat (as_total s) @ '')'') else None),
        av_filters = map (\<lambda>(v, l). (l, as_filter s = v)) FILTERS,
        av_error = as_error s,
        av_text = (if as_loading s then Some (''Loading'' @ ellipsis)
                   else if as_logs s = [] then Some ''No activity.'' else None),
        av_rows = rows,
        av_more = (if hasMore s \<and> \<not> as_loading s
          then Some (if as_loadingMore s then ''Loading'' @ ellipsis
                     else ''Load more ('' @ show_nat (as_total s - length (as_logs s)) @ '' left)'', as_loadingMore s)
          else None)\<rparr>)
       (collect (log_row uuid localeTime) (as_logs s))"

section \<open>The page and the trail\<close>

text \<open>The whole trail of a filter, and what the backend answers a call from it.\<close>

definition trail :: "admin_action_type option \<Rightarrow> db \<Rightarrow> audit_log list" where
  "trail f d = sort_key (\<lambda>r. - al_created_at r)
     (filter (\<lambda>r. case f of None \<Rightarrow> True | Some a \<Rightarrow> al_action_type r = a) (audit_logs d))"

definition call_query :: "audit_call \<Rightarrow> audit_query" where
  "call_query c =
     (let (f, k) = (case c of FirstPage f \<Rightarrow> (f, 0) | MorePage f k \<Rightarrow> (f, k)) in
      \<lparr>aq_actionType = f, aq_adminId = None, aq_limit = Some (int PAGE), aq_offset = Some (int k)\<rparr>)"

definition reply :: "db \<Rightarrow> audit_call \<Rightarrow> log_page" where
  "reply d c = audit_list (call_query c) d"

lemma reply_pages:
  "reply d (FirstPage f) = (length (trail f d), take PAGE (trail f d))"
  "reply d (MorePage f k) = (length (trail f d), take PAGE (drop k (trail f d)))"
  by (auto simp: reply_def call_query_def audit_list_def trail_def page_def opt_default_def PAGE_def
      audit_matches_def [abs_def] Let_def cong: filter_cong split: option.splits)

text \<open>The calls pass the validation of the route as they are: it changes no number.\<close>

definition call_texts :: "audit_call \<Rightarrow> audit_texts" where
  "call_texts c =
     (let (f, k) = (case c of FirstPage f \<Rightarrow> (f, 0) | MorePage f k \<Rightarrow> (f, k)) in
      \<lparr>qa_actionType = map_option action_name f, qa_adminId = None,
       qa_limit = Some (show_nat PAGE), qa_offset = Some (show_nat k)\<rparr>)"

lemma audit_route_reply:
  assumes "adminGuard adminId d = Inr ()"
  shows "audit_route adminId (call_texts c) d = Inr (reply d c)"
  using assms
  by (cases c) (auto simp: audit_route_def read_route_def parse_audit_def call_texts_def reply_def call_query_def
      query_int_def number_text_show_nat action_name_read PAGE_def Let_def split: option.splits)

section \<open>Paging\<close>

lemma filter_page:
  assumes "distinct (map g xs)" "j \<le> m"
  shows "filter (\<lambda>l. g l \<notin> g ` set (take m xs)) (take n (drop j xs)) = take (n - (m - j)) (drop m xs)"
proof -
  let ?new = "\<lambda>l. g l \<notin> g ` set (take m xs)"
  have "drop j xs = take (m - j) (drop j xs) @ drop m xs"
    using assms(2) by (metis append_take_drop_id drop_drop le_add_diff_inverse2)
  then have page: "take n (drop j xs) = take n (take (m - j) (drop j xs)) @ take (n - min (length xs - j) (m - j)) (drop m xs)"
    by (metis length_drop length_take take_append)
  have "set (take (m - j) (drop j xs)) \<subseteq> set (take m xs)"
    using assms(2) by (metis drop_take set_drop_subset)
  then have seen: "filter ?new (take n (take (m - j) (drop j xs))) = []"
    using set_take_subset by (fastforce simp: filter_empty_conv)
  have "g ` set (take m xs) \<inter> g ` set (drop m xs) = {}"
    using assms(1) by (metis append_take_drop_id distinct_append map_append set_map)
  then have "?new l" if "l \<in> set (drop m xs)" for l
    using that by blast
  then have "\<forall>l \<in> set (take i (drop m xs)). ?new l" for i
    using in_set_takeD by fast
  then have new: "filter ?new (take i (drop m xs)) = take i (drop m xs)" for i
    by (simp add: filter_id_conv)
  have "take (n - min (length xs - j) (m - j)) (drop m xs) = take (n - (m - j)) (drop m xs)"
    using assms(2) by (cases "length xs \<le> m") (auto simp: min_def)
  with page seen new show ?thesis by simp
qed

lemma append_new_overlap:
  assumes "distinct (map al_id (fresh @ old))" "length fresh \<le> m"
  shows "append_new (take m old) (take n (drop m (fresh @ old))) = take (m + (n - length fresh)) old"
proof -
  have "distinct (map al_id old)" using assms(1) by simp
  from filter_page [OF this, of "m - length fresh" m n] assms(2)
  show ?thesis by (simp add: append_new_def take_add)
qed

lemma load_more_shows:
  assumes "audit_step s LoadMore = Some s1" "as_pending s = []"
    and "as_logs s = take m old" "m = length (as_logs s)"
    and "trail (as_filter s) d = fresh @ old" "distinct (map al_id (fresh @ old))" "length fresh \<le> m"
  shows "\<exists>s2. audit_step s1 (Listed 0 (Inr (reply d (hd (as_pending s1))))) = Some s2
    \<and> as_logs s2 = take (m + (PAGE - length fresh)) old
    \<and> (length fresh \<ge> PAGE \<longrightarrow> as_logs s2 = as_logs s)"
proof -
  have s1: "s1 = loadMore s" using assms(1) by (auto split: if_splits)
  have call: "as_pending s1 = [MorePage (as_filter s) m]" using assms(2,4) by (simp add: s1 loadMore_def)
  have rows: "append_new (take m old) (take PAGE (drop m (fresh @ old))) = take (m + (PAGE - length fresh)) old"
    using append_new_overlap [OF assms(6,7)] .
  have "audit_step s1 (Listed 0 (Inr (reply d (hd (as_pending s1))))) =
    Some (listed (MorePage (as_filter s) m) (Inr (length (fresh @ old), take PAGE (drop m (fresh @ old)))) (drop_call 0 s1))"
    by (simp add: call reply_pages assms(5))
  moreover have "as_logs (drop_call 0 s1) = take m old" by (simp add: drop_call_def s1 loadMore_def assms(3))
  ultimately show ?thesis using rows assms(3) by simp
qed

text \<open>
  C29. Loading more entries after new ones arrived: a page that shows the first m entries of a trail
  to which k newer ones were added, k at most m, then shows the first m + (50 - k) entries,
  in order and without a duplicate. So nothing is skipped, but once fifty new entries have
  arrived the button adds nothing any more.
\<close>

theorem load_more_overlap:
  assumes "audit_step s LoadMore = Some s1" "as_pending s = []"
    and "as_logs s = take m old" "m = length (as_logs s)"
    and "trail (as_filter s) d = fresh @ old" "distinct (map al_id (fresh @ old))" "length fresh \<le> m"
  shows "\<exists>s2. audit_step s1 (Listed 0 (Inr (reply d (hd (as_pending s1))))) = Some s2
    \<and> as_logs s2 = take (m + (PAGE - length fresh)) old
    \<and> (length fresh \<ge> PAGE \<longrightarrow> as_logs s2 = as_logs s)"
  using assms by (rule load_more_shows)

text \<open>The button, clicked until it is gone, each answer read from the same trail.\<close>

fun click_through :: "db \<Rightarrow> nat \<Rightarrow> audit_state \<Rightarrow> audit_state" where
  "click_through d 0 s = s"
| "click_through d (Suc n) s =
     (case audit_step s LoadMore of
        None \<Rightarrow> s
      | Some s1 \<Rightarrow>
          (case audit_step s1 (Listed 0 (Inr (reply d (hd (as_pending s1))))) of
             None \<Rightarrow> s1 | Some s2 \<Rightarrow> click_through d n s2))"

definition page_quiet :: "audit_state \<Rightarrow> bool" where
  "page_quiet s \<longleftrightarrow> as_pending s = [] \<and> \<not> as_loading s \<and> \<not> as_loadingMore s"

lemma click_through_shows:
  assumes "distinct (map al_id (trail (as_filter s) d))" "page_quiet s"
    and "as_logs s = take m (trail (as_filter s) d)" "as_total s = length (trail (as_filter s) d)"
    and "m \<le> length (trail (as_filter s) d)"
  shows "as_logs (click_through d n s) = take (m + n * PAGE) (trail (as_filter s) d)
    \<and> as_total (click_through d n s) = length (trail (as_filter s) d)"
  using assms
proof (induction n arbitrary: s m)
  case 0
  then show ?case by simp
next
  case (Suc n)
  let ?t = "trail (as_filter s) d"
  have m: "m = length (as_logs s)" using Suc.prems(3,5) by simp
  show ?case
  proof (cases "hasMore s")
    case False
    with Suc.prems(3,4,5) m have "m = length ?t" by (simp add: hasMore_def)
    with False Suc.prems(3,4) show ?thesis by simp
  next
    case True
    with Suc.prems(2) have s1: "audit_step s LoadMore = Some (loadMore s)" by (simp add: page_quiet_def)
    obtain s2 where s2: "audit_step (loadMore s) (Listed 0 (Inr (reply d (hd (as_pending (loadMore s)))))) = Some s2"
        "as_logs s2 = take (m + PAGE) ?t"
      using load_more_shows [OF s1 _ Suc.prems(3) m, of d "[]"] Suc.prems(1,2) by (auto simp: page_quiet_def)
    have rest: "as_filter s2 = as_filter s" "page_quiet s2" "as_total s2 = length ?t"
      using s2(1) Suc.prems(2) by (auto simp: page_quiet_def loadMore_def drop_call_def reply_pages)
    have "as_logs s2 = take (min (m + PAGE) (length ?t)) ?t" using s2(2) by (auto simp: min_def)
    with Suc.IH [of s2 "min (m + PAGE) (length ?t)"] Suc.prems(1) rest
    have "as_logs (click_through d n s2) = take (min (m + PAGE) (length ?t) + n * PAGE) ?t
      \<and> as_total (click_through d n s2) = length ?t" by simp
    moreover have "take (min (m + PAGE) (length ?t) + n * PAGE) ?t = take (m + Suc n * PAGE) ?t"
      by (cases "m + PAGE \<le> length ?t") (auto simp: min_def add.assoc)
    ultimately show ?thesis using s1 s2(1) by simp
  qed
qed

text \<open>A page freshly opened on a filter.\<close>

definition opened :: "admin_action_type option \<Rightarrow> db \<Rightarrow> audit_state" where
  "opened f d = listed (FirstPage f) (Inr (reply d (FirstPage f))) (audit_start\<lparr>as_filter := f, as_pending := []\<rparr>)"

text \<open>
  C30. On a trail that does not change, whose ids are distinct, clicking the button often enough
  shows the whole trail of the filter, each entry once and newest first, and the button is
  then gone.
\<close>

theorem audit_page_shows_all:
  assumes "distinct (map al_id (trail f d))" "length (trail f d) \<le> PAGE + n * PAGE"
  shows "as_logs (click_through d n (opened f d)) = trail f d \<and> \<not> hasMore (click_through d n (opened f d))"
proof -
  let ?t = "trail f d"
  have o': "as_filter (opened f d) = f" "page_quiet (opened f d)" "as_logs (opened f d) = take PAGE ?t"
    "as_total (opened f d) = length ?t"
    by (simp_all add: opened_def audit_start_def reply_pages page_quiet_def)
  have "as_logs (opened f d) = take (min PAGE (length ?t)) ?t" using o'(3) by (auto simp: min_def)
  with click_through_shows [of "opened f d" d "min PAGE (length ?t)" n] assms(1) o'
  have "as_logs (click_through d n (opened f d)) = take (min PAGE (length ?t) + n * PAGE) ?t"
    "as_total (click_through d n (opened f d)) = length ?t" by simp_all
  moreover have "length ?t \<le> min PAGE (length ?t) + n * PAGE" using assms(2) by simp
  ultimately show ?thesis by (simp add: hasMore_def)
qed

text \<open>
  A page that arrives after the filter was changed is appended all the same: the list then
  holds entries the filter excludes.
\<close>

lemma late_page_mixes_filters:
  assumes "page_quiet s" "hasMore s" "as_filter s \<noteq> f"
  shows "\<exists>s1 s2 s3 s4. audit_step s LoadMore = Some s1 \<and> audit_step s1 (SetFilter f) = Some s2
    \<and> audit_step s2 (Listed 1 (Inr first)) = Some s3 \<and> audit_step s3 (Listed 0 (Inr later)) = Some s4
    \<and> as_filter s4 = f \<and> page_quiet s4 \<and> as_logs s4 = append_new (snd first) (snd later)"
  using assms
  by (cases first; cases later) (simp add: page_quiet_def hasMore_def loadMore_def loadFirst_def drop_call_def)

section \<open>Rendering\<close>

lemma collect_Inl: "x \<in> set xs \<Longrightarrow> f x = Inl e \<Longrightarrow> \<exists>e'. collect f xs = Inl e'"
  by (induction xs) (auto split: sum.splits)

lemma sort_key_newest:
  assumes "\<forall>x \<in> set xs. f r < (f x :: int)"
  shows "sort_key f (xs @ [r]) = r # sort_key f xs"
proof -
  have "foldr (insort_key f) xs [r] = r # foldr (insort_key f) xs []"
    using assms by (induction xs) auto
  then show ?thesis by (simp add: sort_key_def)
qed

text \<open>A forced migration appends its entry, stamped with its time.\<close>

lemma migrate_entry:
  assumes "migrate_route inet now adminId ip nid d = (Inr n, d')"
  shows "\<exists>r. audit_logs d' = audit_logs d @ [r] \<and> al_action_type r = FORCE_MIGRATE_NODE \<and> al_created_at r = now"
proof -
  obtain d1 where run: "forceMigrateNode inet now nid \<lparr>ac_adminId = adminId, ac_ip = ip\<rparr> d = (Inr n, d1)"
    and d': "d' = d1"
    using assms by (auto simp: migrate_route_def admin_route_def intercept_def infer_def
        split: sum.splits prod.splits)
  obtain evicted d0 where rv: "revoke_where (\<lambda>s. s_node_id s = nid) ''force_migrate'' now (set_active now nid False d) = (evicted, d0)"
    by fastforce
  have "audit_logs d0 = audit_logs d"
    using arg_cong [OF rv, of "\<lambda>x. audit_logs (snd x)"] by (simp add: set_active_def)
  with run show ?thesis unfolding d' forceMigrateNode_def withTransaction_Inr
    by (auto simp: rv recordInTx_def audit_row_def Let_def split: if_splits)
qed

text \<open>
  C28. The page cannot show what the backend records: right after a forced migration the route
  answers the page's first call with a list whose newest entry has no style, and rendering
  it throws, whatever else is in the trail.
\<close>

theorem audit_page_crashes:
  assumes "migrate_route inet now adminId ip nid d = (Inr n, d')"
    and "\<forall>r \<in> set (audit_logs d). al_created_at r < now" "adminGuard adminId d' = Inr ()"
  shows "\<exists>answer s e. audit_route adminId (call_texts (hd (as_pending audit_start))) d' = Inr answer
    \<and> audit_step audit_start (Listed 0 (Inr answer)) = Some s
    \<and> render_audit uuid localeTime s = Inl e"
proof -
  obtain r where r: "audit_logs d' = audit_logs d @ [r]" "al_action_type r = FORCE_MIGRATE_NODE" "al_created_at r = now"
    using migrate_entry [OF assms(1)] by blast
  have "trail None d' = r # trail None d"
    using sort_key_newest [of "audit_logs d" "\<lambda>r. - al_created_at r" r] assms(2) r(3)
    by (simp add: trail_def r(1))
  then have "r \<in> set (take PAGE (trail None d'))" by (simp add: PAGE_def)
  moreover have "log_row uuid localeTime r = Inl (JsError ''Cannot read properties of undefined (reading cls)'')"
    using r(2) by (simp add: log_row_def)
  ultimately obtain e where e: "collect (log_row uuid localeTime) (take PAGE (trail None d')) = Inl e"
    using collect_Inl [of r "take PAGE (trail None d')" "log_row uuid localeTime"] by blast
  let ?s = "listed (FirstPage None) (Inr (reply d' (FirstPage None))) (drop_call 0 audit_start)"
  have "as_logs ?s = take PAGE (trail None d')" by (simp add: reply_pages)
  with e have "render_audit uuid localeTime ?s = Inl e" by (simp add: render_audit_def)
  moreover have "audit_step audit_start (Listed 0 (Inr (reply d' (FirstPage None)))) = Some ?s"
    by (simp add: audit_start_def del: listed.simps)
  moreover have "audit_route adminId (call_texts (hd (as_pending audit_start))) d' = Inr (reply d' (FirstPage None))"
    using audit_route_reply [OF assms(3), of "FirstPage None"] by (simp add: audit_start_def)
  ultimately show ?thesis by (intro exI conjI)
qed

section \<open>Witnesses\<close>

theorem audit_page_crashes_witness:
  "\<exists>d' answer s e. migrate_route (\<lambda>_. True) 1000 (Some 1) None 3 admin_db = (Inr 1, d')
    \<and> audit_step audit_start (Listed 0 (Inr answer)) = Some s \<and> render_audit (\<lambda>_. []) (\<lambda>_. []) s = Inl e"
proof -
  let ?r = "migrate_route (\<lambda>_. True) 1000 (Some 1) None 3 admin_db"
  have "fst ?r = Inr 1" by code_simp
  then obtain d' where d': "?r = (Inr 1, d')" by (metis prod.collapse)
  have "isl (adminGuard (Some 1) (snd ?r)) = False" by code_simp
  then have "adminGuard (Some 1) d' = Inr ()"
    using d' by (cases "adminGuard (Some 1) d'") auto
  moreover have "\<forall>r \<in> set (audit_logs admin_db). al_created_at r < 1000" by code_simp
  ultimately show ?thesis using audit_page_crashes [OF d'] d' by blast
qed

definition log_entry :: "nat \<Rightarrow> audit_log" where
  "log_entry i = \<lparr>al_id = i, al_admin_id = None, al_action_type = KICK_SESSION, al_target_id = None,
     al_details = JObj [], al_ip_address = None, al_created_at = int i\<rparr>"

definition log_db :: "nat \<Rightarrow> db" where
  "log_db n = sample_db\<lparr>audit_logs := map log_entry [0 ..< n]\<rparr>"

lemma log_db_trail: "trail None (log_db n) = rev (map log_entry [0 ..< n])"
proof (induction n)
  case 0
  then show ?case by (simp add: trail_def log_db_def)
next
  case (Suc n)
  have "trail None (log_db (Suc n)) = log_entry n # trail None (log_db n)"
    using sort_key_newest [of "map log_entry [0 ..< n]" "\<lambda>r. - al_created_at r" "log_entry n"]
    by (simp add: trail_def log_db_def log_entry_def [of _] cong: filter_cong)
  with Suc show ?case by simp
qed

lemma log_db_distinct: "distinct (map al_id (trail None (log_db n)))"
proof -
  have "map al_id (map log_entry xs) = xs" for xs
    by (induction xs) (simp_all add: log_entry_def)
  then have "map al_id (trail None (log_db n)) = rev [0 ..< n]"
    unfolding log_db_trail by (simp only: rev_map)
  then show ?thesis by simp
qed

theorem audit_page_shows_all_witness:
  "as_logs (click_through (log_db 120) 2 (opened None (log_db 120))) = rev (map log_entry [0 ..< 120])"
  using audit_page_shows_all [OF log_db_distinct, of 120 2] by (simp add: log_db_trail PAGE_def)

theorem load_more_overlap_witness:
  "\<exists>s1 s2. audit_step (opened None (log_db 60)) LoadMore = Some s1
    \<and> audit_step s1 (Listed 0 (Inr (reply (log_db 110) (hd (as_pending s1))))) = Some s2
    \<and> as_logs s2 = as_logs (opened None (log_db 60))"
proof -
  let ?s = "opened None (log_db 60)"
  let ?old = "trail None (log_db 60)"
  have s: "as_filter ?s = None" "page_quiet ?s" "as_logs ?s = take 50 ?old" "as_total ?s = 60"
    by (simp_all add: opened_def audit_start_def reply_pages page_quiet_def log_db_trail PAGE_def)
  have len: "length (as_logs ?s) = 50" using s(3) by (simp add: log_db_trail)
  have step: "audit_step ?s LoadMore = Some (loadMore ?s)"
    using s(2,4) len by (simp add: hasMore_def page_quiet_def)
  have split: "[0 ..< 110] = [0 ..< 60] @ [60 ..< 110]" by (simp add: upt_add_eq_append [of 0 60 50, simplified])
  have trail: "trail (as_filter ?s) (log_db 110) = rev (map log_entry [60 ..< 110]) @ ?old"
    unfolding s(1) log_db_trail split by simp
  have "distinct (map al_id (rev (map log_entry [60 ..< 110]) @ ?old))"
    using log_db_distinct [of 110] trail s(1) by simp
  from load_more_overlap [OF step _ s(3) len [symmetric] trail this] s(2) step show ?thesis
    by (auto simp: page_quiet_def PAGE_def)
qed

end
