(* ===== verification/WebApi.thy ===== *)
theory WebApi
  imports AdminApi RefreshMutex
begin

text \<open>
  The calls of the admin web application (web/lib/api.ts: \<^verbatim>\<open>adminApi\<close>, the settings requests, the
  sign-in and the refresh) and how the backend reads their requests: the routes of the three
  controllers they go to, the parameter decorators, and the validation of queries and bodies.
  Paths are those below the prefix \<^verbatim>\<open>api/v1\<close>, which the base address of the application and the
  backend share. Lengths of texts count their bytes.
\<close>

section \<open>Calls\<close>

datatype api_call =
    ApiStats
  | ApiListUsers "string option" "int option" "int option"
  | ApiMutateUser id "string option" "bool option"
  | ApiKickSession id
  | ApiNodesHealth
  | ApiSetNodeStatus id bool
  | ApiForceMigrate id
  | ApiPanicRevokeFree
  | ApiListAudit "admin_action_type option" "id option" "int option" "int option"
  | ApiGetSettings
  | ApiPutSettings json
  | ApiLogin string string
  | ApiRefresh string

record call_request =
  rq_verb :: string
  rq_path :: string
  rq_params :: "(string \<times> string) list"
  rq_data :: "json option"

definition opt_param :: "string \<Rightarrow> string option \<Rightarrow> (string \<times> string) list" where
  "opt_param k v = (case v of None \<Rightarrow> [] | Some t \<Rightarrow> [(k, t)])"

definition bare_request :: "string \<Rightarrow> string \<Rightarrow> call_request" where
  "bare_request m p = \<lparr>rq_verb = m, rq_path = p, rq_params = [], rq_data = None\<rparr>"

text \<open>\<open>uuid\<close> writes an id; undefined parameters and fields are left out.\<close>

fun api_request_of :: "(id \<Rightarrow> string) \<Rightarrow> api_call \<Rightarrow> call_request" where
  "api_request_of uuid ApiStats = bare_request ''GET'' ''/admin/stats''"
| "api_request_of uuid (ApiListUsers search lmt off) =
     (bare_request ''GET'' ''/admin/users'')\<lparr>rq_params := opt_param ''search'' search @
        opt_param ''limit'' (map_option show_int lmt) @ opt_param ''offset'' (map_option show_int off)\<rparr>"
| "api_request_of uuid (ApiMutateUser i tier banned) =
     (bare_request ''POST'' (''/admin/users/'' @ uuid i @ ''/mutate''))\<lparr>rq_data := Some (JObj
        (opt_field ''tier'' (map_option JStr tier) @ opt_field ''isBanned'' (map_option JBool banned)))\<rparr>"
| "api_request_of uuid (ApiKickSession i) = bare_request ''POST'' (''/admin/sessions/'' @ uuid i @ ''/kick'')"
| "api_request_of uuid ApiNodesHealth = bare_request ''GET'' ''/admin/nodes/health''"
| "api_request_of uuid (ApiSetNodeStatus i act) =
     (bare_request ''PATCH'' (''/admin/nodes/'' @ uuid i @ ''/status''))\<lparr>rq_data := Some (JObj
        [(''isActive'', JBool act)])\<rparr>"
| "api_request_of uuid (ApiForceMigrate i) = bare_request ''POST'' (''/admin/nodes/'' @ uuid i @ ''/migrate'')"
| "api_request_of uuid ApiPanicRevokeFree = bare_request ''POST'' ''/admin/panic/revoke-free-sessions''"
| "api_request_of uuid (ApiListAudit action adm lmt off) =
     (bare_request ''GET'' ''/admin/audit'')\<lparr>rq_params := opt_param ''actionType'' (map_option action_name action) @
        opt_param ''adminId'' (map_option uuid adm) @
        opt_param ''limit'' (map_option show_int lmt) @ opt_param ''offset'' (map_option show_int off)\<rparr>"
| "api_request_of uuid ApiGetSettings = bare_request ''GET'' ''/admin/settings/panel''"
| "api_request_of uuid (ApiPutSettings config) =
     (bare_request ''PUT'' ''/admin/settings/panel'')\<lparr>rq_data := Some config\<rparr>"
| "api_request_of uuid (ApiLogin email password) =
     (bare_request ''POST'' ''/admin/auth/login'')\<lparr>rq_data := Some (JObj
        [(''email'', JStr email), (''password'', JStr password)])\<rparr>"
| "api_request_of uuid (ApiRefresh token) =
     (bare_request ''POST'' ''/auth/refresh'')\<lparr>rq_data := Some (JObj [(''refreshToken'', JStr token)])\<rparr>"

section \<open>Routes\<close>

datatype segment = Fixed string | IdParam

text \<open>Verb, pattern below \<^verbatim>\<open>admin\<close>, and the name of the handler, in the order of the class.\<close>

definition admin_routes :: "(string \<times> segment list \<times> string) list" where
  "admin_routes =
    [(''GET'', [Fixed ''stats''], ''stats''),
     (''GET'', [Fixed ''users''], ''users''),
     (''POST'', [Fixed ''users'', IdParam, Fixed ''mutate''], ''mutate''),
     (''POST'', [Fixed ''sessions'', IdParam, Fixed ''kick''], ''kick''),
     (''GET'', [Fixed ''nodes'', Fixed ''health''], ''nodesHealth''),
     (''PATCH'', [Fixed ''nodes'', IdParam, Fixed ''status''], ''setNodeStatus''),
     (''POST'', [Fixed ''nodes'', IdParam, Fixed ''migrate''], ''forceMigrate''),
     (''GET'', [Fixed ''audit''], ''auditLogs''),
     (''POST'', [Fixed ''panic'', Fixed ''revoke-free-sessions''], ''panic''),
     (''GET'', [Fixed ''settings'', Fixed ''panel''], ''getPanelSettings''),
     (''PUT'', [Fixed ''settings'', Fixed ''panel''], ''setPanelSettings'')]"

text \<open>The sign-in of administrators and the account routes, below \<^verbatim>\<open>admin/auth\<close> and \<^verbatim>\<open>auth\<close>.\<close>

definition admin_auth_routes :: "(string \<times> segment list \<times> string) list" where
  "admin_auth_routes = [(''POST'', [Fixed ''login''], ''adminLogin'')]"

definition auth_routes :: "(string \<times> segment list \<times> string) list" where
  "auth_routes =
    [(''POST'', [Fixed ''anon''], ''anon''), (''POST'', [Fixed ''register''], ''register''),
     (''POST'', [Fixed ''login''], ''login''), (''POST'', [Fixed ''refresh''], ''refresh''),
     (''POST'', [Fixed ''logout''], ''logout'')]"

definition below :: "string list \<Rightarrow> (string \<times> segment list \<times> string) list \<Rightarrow> (string \<times> segment list \<times> string) list" where
  "below pre rs = map (\<lambda>(v, ps, h). (v, map Fixed pre @ ps, h)) rs"

definition backend_routes :: "(string \<times> segment list \<times> string) list" where
  "backend_routes = below [''admin''] admin_routes @ below [''admin'', ''auth''] admin_auth_routes @ below [''auth''] auth_routes"

text \<open>A pattern matches the parts of a path; a parameter matches any part that is not empty.\<close>

fun match_parts :: "segment list \<Rightarrow> string list \<Rightarrow> string list option" where
  "match_parts [] [] = Some []"
| "match_parts (Fixed x # ps) (y # ys) = (if x = y then match_parts ps ys else None)"
| "match_parts (IdParam # ps) (y # ys) = (if y = [] then None else map_option (Cons y) (match_parts ps ys))"
| "match_parts _ _ = None"

fun first_route :: "(string \<times> segment list \<times> string) list \<Rightarrow> string \<Rightarrow> string list \<Rightarrow> (string \<times> string list) option" where
  "first_route [] m ys = None"
| "first_route ((v, ps, h) # rs) m ys =
     (case (if v = m then match_parts ps ys else None) of
        Some args \<Rightarrow> Some (h, args) | None \<Rightarrow> first_route rs m ys)"

definition route_request :: "call_request \<Rightarrow> (string \<times> string list) option" where
  "route_request rq =
     (case split_at (\<lambda>c. c = CHR ''/'') (rq_path rq) of
        [] # ys \<Rightarrow> first_route backend_routes (rq_verb rq) ys
      | _ \<Rightarrow> None)"

section \<open>What the handlers are given\<close>

text \<open>The validation forbids fields it does not know; of what is wrong one thing is named.\<close>

definition known :: "string list \<Rightarrow> string list \<Rightarrow> 'a \<Rightarrow> exn + 'a" where
  "known allowed keys x =
     (case find_row (\<lambda>k. k \<notin> set allowed) keys of
        None \<Rightarrow> Inr x | Some k \<Rightarrow> Inl (BadRequestException (''property '' @ k @ '' should not exist'')))"

fun field_names :: "json \<Rightarrow> string list" where
  "field_names (JObj fs) = map fst fs"
| "field_names _ = []"

definition step_on :: "exn + 'a \<Rightarrow> ('a \<Rightarrow> exn + 'b) \<Rightarrow> exn + 'b" where
  "step_on r f = (case r of Inl e \<Rightarrow> Inl e | Inr x \<Rightarrow> f x)"

definition read_uuid :: "(string \<Rightarrow> id option) \<Rightarrow> string list \<Rightarrow> exn + id" where
  "read_uuid id_of args =
     (case args of
        [s] \<Rightarrow> (case id_of s of None \<Rightarrow> Inl (BadRequestException ''Validation failed (uuid is expected)'') | Some i \<Rightarrow> Inr i)
      | _ \<Rightarrow> Inl (BadRequestException ''Validation failed (uuid is expected)''))"

definition read_tier :: "json \<Rightarrow> exn + string option" where
  "read_tier b =
     (case jget ''tier'' b of
        None \<Rightarrow> Inr None
      | Some JNull \<Rightarrow> Inr None
      | Some v \<Rightarrow>
          if v = JStr ''free'' \<or> v = JStr ''premium'' then Inr (as_text (Some v))
          else Inl (BadRequestException ''tier must be one of the following values: free, premium''))"

definition read_flag :: "string \<Rightarrow> json \<Rightarrow> exn + bool option" where
  "read_flag k b =
     (case jget k b of
        None \<Rightarrow> Inr None
      | Some JNull \<Rightarrow> Inr None
      | Some (JBool x) \<Rightarrow> Inr (Some x)
      | Some _ \<Rightarrow> Inl (BadRequestException (k @ '' must be a boolean value'')))"

definition read_required :: "exn + 'a option \<Rightarrow> string \<Rightarrow> exn + 'a" where
  "read_required r message =
     step_on r (\<lambda>v. case v of None \<Rightarrow> Inl (BadRequestException message) | Some x \<Rightarrow> Inr x)"

definition read_bounded :: "string \<Rightarrow> nat \<Rightarrow> nat \<Rightarrow> json \<Rightarrow> exn + string" where
  "read_bounded k lo hi b =
     (case jget k b of
        Some (JStr t) \<Rightarrow>
          if length t < lo \<or> hi < length t
          then Inl (BadRequestException (k @ '' must be between '' @ show_nat lo @ '' and '' @ show_nat hi @ '' characters''))
          else Inr t
      | _ \<Rightarrow> Inl (BadRequestException (k @ '' must be a string'')))"

definition read_email :: "(string \<Rightarrow> bool) \<Rightarrow> json \<Rightarrow> exn + string" where
  "read_email is_email b =
     step_on (read_bounded ''email'' 0 254 b)
       (\<lambda>t. if is_email t then Inr t else Inl (BadRequestException ''email must be an email''))"

text \<open>\<open>id_of\<close> reads a UUID, \<open>is_email\<close> is the library's test of an address.\<close>

definition read_call ::
  "(string \<Rightarrow> id option) \<Rightarrow> (string \<Rightarrow> bool) \<Rightarrow> string \<Rightarrow> string list \<Rightarrow> call_request \<Rightarrow> (exn + api_call) option" where
  "read_call id_of is_email h args rq =
     (let q = map_of (rq_params rq); names = map fst (rq_params rq);
          b = (case rq_data rq of None \<Rightarrow> JObj [] | Some j \<Rightarrow> j); fields = field_names b in
      if h = ''stats'' then Some (Inr ApiStats)
      else if h = ''users'' then
        Some (step_on (known [''search'', ''limit'', ''offset''] names ()) (\<lambda>_.
              map_sum id (\<lambda>(s, l, off). ApiListUsers s l off)
                (parse_list_users \<lparr>lu_search = q ''search'', lu_limit = q ''limit'', lu_offset = q ''offset''\<rparr>)))
      else if h = ''mutate'' then
        Some (step_on (read_uuid id_of args) (\<lambda>i. step_on (known [''tier'', ''isBanned''] fields ()) (\<lambda>_.
              step_on (read_tier b) (\<lambda>t. map_sum id (ApiMutateUser i t) (read_flag ''isBanned'' b)))))
      else if h = ''kick'' then Some (map_sum id ApiKickSession (read_uuid id_of args))
      else if h = ''nodesHealth'' then Some (Inr ApiNodesHealth)
      else if h = ''setNodeStatus'' then
        Some (step_on (read_uuid id_of args) (\<lambda>i. step_on (known [''isActive''] fields ()) (\<lambda>_.
              map_sum id (ApiSetNodeStatus i)
                (read_required (read_flag ''isActive'' b) ''isActive must be a boolean value''))))
      else if h = ''forceMigrate'' then Some (map_sum id ApiForceMigrate (read_uuid id_of args))
      else if h = ''auditLogs'' then
        Some (step_on (known [''actionType'', ''adminId'', ''limit'', ''offset''] names ()) (\<lambda>_.
              if (case q ''adminId'' of None \<Rightarrow> False | Some t \<Rightarrow> id_of t = None)
              then Inl (BadRequestException ''adminId must be a UUID'')
              else map_sum id (\<lambda>a. ApiListAudit (aq_actionType a) (aq_adminId a) (aq_limit a) (aq_offset a))
                (parse_audit \<lparr>qa_actionType = q ''actionType'', qa_adminId = Option.bind (q ''adminId'') id_of,
                   qa_limit = q ''limit'', qa_offset = q ''offset''\<rparr>)))
      else if h = ''panic'' then Some (Inr ApiPanicRevokeFree)
      else if h = ''getPanelSettings'' then Some (Inr ApiGetSettings)
      else if h = ''setPanelSettings'' then Some (Inr (ApiPutSettings b))
      else if h = ''adminLogin'' then
        Some (step_on (known [''email'', ''password''] fields ()) (\<lambda>_.
              step_on (read_email is_email b) (\<lambda>e. map_sum id (ApiLogin e) (read_bounded ''password'' 1 128 b))))
      else if h = ''refresh'' then
        Some (step_on (known [''refreshToken''] fields ()) (\<lambda>_.
              map_sum id ApiRefresh (read_bounded ''refreshToken'' 16 256 b)))
      else None)"

definition backend_reads ::
  "(string \<Rightarrow> id option) \<Rightarrow> (string \<Rightarrow> bool) \<Rightarrow> call_request \<Rightarrow> (exn + api_call) option" where
  "backend_reads id_of is_email rq =
     (case route_request rq of None \<Rightarrow> None | Some (h, args) \<Rightarrow> read_call id_of is_email h args rq)"

section \<open>Every request is read back\<close>

text \<open>What the validation of the backend asks of a call.\<close>

fun acceptable :: "(string \<Rightarrow> bool) \<Rightarrow> api_call \<Rightarrow> bool" where
  "acceptable _ (ApiListUsers search lmt off) \<longleftrightarrow>
     (\<forall>s. search = Some s \<longrightarrow> length s \<le> 254) \<and> (\<forall>n. lmt = Some n \<longrightarrow> 1 \<le> n \<and> n \<le> 100) \<and> (\<forall>n. off = Some n \<longrightarrow> 0 \<le> n)"
| "acceptable _ (ApiMutateUser _ tier _) \<longleftrightarrow> (\<forall>t. tier = Some t \<longrightarrow> t = ''free'' \<or> t = ''premium'')"
| "acceptable _ (ApiListAudit _ _ lmt off) \<longleftrightarrow>
     (\<forall>n. lmt = Some n \<longrightarrow> 1 \<le> n \<and> n \<le> 200) \<and> (\<forall>n. off = Some n \<longrightarrow> 0 \<le> n)"
| "acceptable is_email (ApiLogin email password) \<longleftrightarrow>
     is_email email \<and> length email \<le> 254 \<and> 1 \<le> length password \<and> length password \<le> 128"
| "acceptable _ (ApiRefresh token) \<longleftrightarrow> 16 \<le> length token \<and> length token \<le> 256"
| "acceptable _ _ \<longleftrightarrow> True"

lemma split_at_none: "\<forall>c \<in> set s. \<not> P c \<Longrightarrow> split_at P s = [s]"
  by (induction s) auto

lemma split_at_append:
  "\<forall>c \<in> set s. \<not> P c \<Longrightarrow> P x \<Longrightarrow> split_at P (s @ x # t) = s # split_at P t"
  by (induction s) auto

lemmas routing = route_request_def bare_request_def backend_routes_def below_def admin_routes_def
  admin_auth_routes_def auth_routes_def

lemma call_routed:
  assumes "\<And>i. uuid i \<noteq> [] \<and> CHR ''/'' \<notin> set (uuid i)"
  shows "route_request (api_request_of uuid c) = Some
    (case c of
       ApiStats \<Rightarrow> (''stats'', []) | ApiListUsers _ _ _ \<Rightarrow> (''users'', [])
     | ApiMutateUser i _ _ \<Rightarrow> (''mutate'', [uuid i]) | ApiKickSession i \<Rightarrow> (''kick'', [uuid i])
     | ApiNodesHealth \<Rightarrow> (''nodesHealth'', []) | ApiSetNodeStatus i _ \<Rightarrow> (''setNodeStatus'', [uuid i])
     | ApiForceMigrate i \<Rightarrow> (''forceMigrate'', [uuid i]) | ApiPanicRevokeFree \<Rightarrow> (''panic'', [])
     | ApiListAudit _ _ _ _ \<Rightarrow> (''auditLogs'', []) | ApiGetSettings \<Rightarrow> (''getPanelSettings'', [])
     | ApiPutSettings _ \<Rightarrow> (''setPanelSettings'', []) | ApiLogin _ _ \<Rightarrow> (''adminLogin'', [])
     | ApiRefresh _ \<Rightarrow> (''refresh'', []))"
proof -
  have part: "split_at (\<lambda>c. c = CHR ''/'') (uuid i @ CHR ''/'' # t) = uuid i # split_at (\<lambda>c. c = CHR ''/'') t" for i t
    using assms [of i] by (intro split_at_append) auto
  show ?thesis using assms by (cases c) (simp_all add: routing part)
qed

definition outcome_ok :: "(string \<Rightarrow> bool) \<Rightarrow> api_call \<Rightarrow> (exn + api_call) option \<Rightarrow> bool" where
  "outcome_ok is_email c r \<longleftrightarrow>
     (acceptable is_email c \<longrightarrow> r = Some (Inr c)) \<and>
     (\<not> acceptable is_email c \<longrightarrow> (\<exists>m. r = Some (Inl (BadRequestException m))))"

lemmas reading = outcome_ok_def read_call_def bare_request_def opt_param_def opt_field_def Let_def known_def
  step_on_def read_uuid_def read_tier_def read_flag_def read_required_def read_bounded_def read_email_def
  parse_list_users_def parse_audit_def query_int_def number_text_show_int action_name_read as_text_def

lemma users_read:
  "outcome_ok is_email (ApiListUsers search lmt off)
     (read_call id_of is_email ''users'' [] (api_request_of uuid (ApiListUsers search lmt off)))"
  by (cases search; cases lmt; cases off) (auto simp: reading)

lemma audit_read:
  assumes "\<And>i. id_of (uuid i) = Some i"
  shows "outcome_ok is_email (ApiListAudit action adm lmt off)
     (read_call id_of is_email ''auditLogs'' [] (api_request_of uuid (ApiListAudit action adm lmt off)))"
  using assms by (cases action; cases adm; cases lmt; cases off) (auto simp: reading)

lemma mutate_read:
  assumes "\<And>i. id_of (uuid i) = Some i"
  shows "outcome_ok is_email (ApiMutateUser i tier banned)
     (read_call id_of is_email ''mutate'' [uuid i] (api_request_of uuid (ApiMutateUser i tier banned)))"
  using assms by (cases tier; cases banned) (auto simp: reading)

lemma login_read:
  "outcome_ok is_email (ApiLogin email password)
     (read_call id_of is_email ''adminLogin'' [] (api_request_of uuid (ApiLogin email password)))"
  by (auto simp: reading Suc_le_eq)

lemma refresh_read:
  "outcome_ok is_email (ApiRefresh token)
     (read_call id_of is_email ''refresh'' [] (api_request_of uuid (ApiRefresh token)))"
  by (auto simp: reading)

text \<open>
  C40. Every request of the web application arrives as the call it was made for. The backend's
  router, its parameter decorators and its validation read each of them (the lists with their
  filters and pages, the mutations with their ids and bodies, the settings, the sign-in and the
  refresh) back as the very call, whenever the values are ones the validation admits; any other
  values get a 400. Nothing the application can send goes to another handler or to none.
\<close>

theorem api_requests_read_back:
  assumes "\<And>i. uuid i \<noteq> [] \<and> CHR ''/'' \<notin> set (uuid i) \<and> id_of (uuid i) = Some i"
  shows "(acceptable is_email c \<longrightarrow> backend_reads id_of is_email (api_request_of uuid c) = Some (Inr c))
    \<and> (\<not> acceptable is_email c \<longrightarrow>
        (\<exists>m. backend_reads id_of is_email (api_request_of uuid c) = Some (Inl (BadRequestException m))))"
proof -
  have id: "\<And>i. id_of (uuid i) = Some i" using assms by blast
  have route: "route_request (api_request_of uuid c) = Some
    (case c of
       ApiStats \<Rightarrow> (''stats'', []) | ApiListUsers _ _ _ \<Rightarrow> (''users'', [])
     | ApiMutateUser i _ _ \<Rightarrow> (''mutate'', [uuid i]) | ApiKickSession i \<Rightarrow> (''kick'', [uuid i])
     | ApiNodesHealth \<Rightarrow> (''nodesHealth'', []) | ApiSetNodeStatus i _ \<Rightarrow> (''setNodeStatus'', [uuid i])
     | ApiForceMigrate i \<Rightarrow> (''forceMigrate'', [uuid i]) | ApiPanicRevokeFree \<Rightarrow> (''panic'', [])
     | ApiListAudit _ _ _ _ \<Rightarrow> (''auditLogs'', []) | ApiGetSettings \<Rightarrow> (''getPanelSettings'', [])
     | ApiPutSettings _ \<Rightarrow> (''setPanelSettings'', []) | ApiLogin _ _ \<Rightarrow> (''adminLogin'', [])
     | ApiRefresh _ \<Rightarrow> (''refresh'', []))"
    using assms by (intro call_routed) blast
  have "outcome_ok is_email c (backend_reads id_of is_email (api_request_of uuid c))"
    unfolding backend_reads_def route
    using users_read audit_read [OF id] mutate_read [OF id] login_read refresh_read
    by (cases c) (simp_all del: api_request_of.simps, simp_all add: reading id)
  then show ?thesis by (auto simp: outcome_ok_def)
qed

theorem api_requests_read_back_witness:
  "backend_reads (\<lambda>s. Some (length s - 1)) (\<lambda>_. True)
     (api_request_of (\<lambda>i. replicate (Suc i) CHR ''u'') (ApiMutateUser 3 (Some ''premium'') None)) =
   Some (Inr (ApiMutateUser 3 (Some ''premium'') None)) \<and>
   (\<exists>m. backend_reads (\<lambda>s. Some (length s - 1)) (\<lambda>_. True)
     (api_request_of (\<lambda>i. replicate (Suc i) CHR ''u'') (ApiListUsers None (Some 101) None)) =
   Some (Inl (BadRequestException m)))"
proof -
  have u: "replicate (Suc i) CHR ''u'' \<noteq> [] \<and> CHR ''/'' \<notin> set (replicate (Suc i) CHR ''u'') \<and>
      Some (length (replicate (Suc i) CHR ''u'') - 1) = Some i" for i
    by auto
  note r = api_requests_read_back [where uuid = "\<lambda>i. replicate (Suc i) CHR ''u''" and
      id_of = "\<lambda>s. Some (length s - 1)" and is_email = "\<lambda>_. True", OF u]
  have "acceptable (\<lambda>_. True) (ApiMutateUser 3 (Some ''premium'') None)"
    "\<not> acceptable (\<lambda>_. True) (ApiListUsers None (Some 101) None)" by simp_all
  with r [of "ApiMutateUser 3 (Some ''premium'') None"] r [of "ApiListUsers None (Some 101) None"]
  show ?thesis by blast
qed

end
