(* ===== verification/WebPages.thy ===== *)
theory WebPages
  imports WebApi WebNodes Panels_Correct
begin

text \<open>
  The remaining pages of the admin web application: the dashboard with the panic button
  (web/app/dashboard/page.tsx), the panel settings (web/app/settings/page.tsx), the login
  (web/app/login/page.tsx) and the navigation bar (web/components/Nav.tsx). Each page is a
  machine as in the theory WebNodes.
\<close>

section \<open>Dashboard\<close>

record dashboard_state =
  ds_stats :: "admin_stats option"
  ds_error :: "string option"
  ds_loading :: bool
  ds_loads :: nat
  ds_panic_busy :: bool
  ds_panics :: nat
  ds_alerts :: "string list"

definition dashboard_start :: dashboard_state where
  "dashboard_start = \<lparr>ds_stats = None, ds_error = None, ds_loading = True, ds_loads = 0,
     ds_panic_busy = False, ds_panics = 0, ds_alerts = []\<rparr>"

text \<open>The panic button asks for a phrase; \<open>None\<close> is a cancelled prompt.\<close>

datatype dashboard_event =
    LoadStats
  | StatsAnswer "string + admin_stats"
  | ClickPanic "string option"
  | PanicAnswer "string + nat"

definition dashboard_load :: "dashboard_state \<Rightarrow> dashboard_state" where
  "dashboard_load s = s\<lparr>ds_error := None, ds_loads := ds_loads s + 1\<rparr>"

fun dashboard_step :: "dashboard_state \<Rightarrow> dashboard_event \<Rightarrow> dashboard_state option" where
  "dashboard_step s LoadStats = Some (dashboard_load s)"
| "dashboard_step s (StatsAnswer outcome) =
     (if ds_loads s = 0 then None
      else let s1 = s\<lparr>ds_loads := ds_loads s - 1, ds_loading := False\<rparr> in
        Some (case outcome of Inr st \<Rightarrow> s1\<lparr>ds_stats := Some st\<rparr> | Inl msg \<Rightarrow> s1\<lparr>ds_error := Some msg\<rparr>))"
| "dashboard_step s (ClickPanic phrase) =
     (if ds_panic_busy s then None
      else if phrase \<noteq> Some ''REVOKE FREE'' then Some s
      else Some (s\<lparr>ds_panic_busy := True, ds_panics := ds_panics s + 1\<rparr>))"
| "dashboard_step s (PanicAnswer outcome) =
     (if ds_panics s = 0 then None
      else let s1 = s\<lparr>ds_panics := ds_panics s - 1, ds_panic_busy := False\<rparr> in
        Some (case outcome of
          Inr n \<Rightarrow> dashboard_load (s1\<lparr>ds_alerts := ds_alerts s @
              [''Revoked '' @ show_nat n @ '' free session(s). The panel converges via the outbox.'']\<rparr>)
        | Inl msg \<Rightarrow> s1\<lparr>ds_alerts := ds_alerts s @ [''Panic failed: '' @ msg]\<rparr>))"

text \<open>A card shows a dash while the page loads and when there is no value.\<close>

definition stat_card :: "(nat \<Rightarrow> string) \<Rightarrow> string \<Rightarrow> nat option \<Rightarrow> bool \<Rightarrow> string \<times> string" where
  "stat_card locale label v loading =
     (label, if loading then dash else case v of None \<Rightarrow> dash | Some n \<Rightarrow> locale n)"

definition stat_cards :: "(nat \<Rightarrow> string) \<Rightarrow> dashboard_state \<Rightarrow> (string \<times> string) list" where
  "stat_cards locale s =
     (let card = (\<lambda>label f. stat_card locale label (map_option f (ds_stats s)) (ds_loading s)) in
      [card ''Active sessions'' st_activeSessions, card ''Ads watched today'' st_adsWatchedToday,
       card ''Total users'' st_totalUsers, card ''Premium users'' st_premiumUsers])"

definition panic_button :: "dashboard_state \<Rightarrow> string \<times> bool" where
  "panic_button s =
     (if ds_panic_busy s then ''Revoking'' @ ellipsis
      else [CHR 0xF0, CHR 0x9F, CHR 0x9B, CHR 0x91] @ '' Panic: revoke free sessions'', ds_panic_busy s)"

inductive dashboard_reachable :: "(dashboard_event \<Rightarrow> bool) \<Rightarrow> dashboard_state \<Rightarrow> bool" for ok where
  dash_start: "dashboard_reachable ok dashboard_start"
| dash_step: "dashboard_reachable ok s \<Longrightarrow> ok e \<Longrightarrow> dashboard_step s e = Some s' \<Longrightarrow> dashboard_reachable ok s'"

text \<open>The answers to the statistics call are those of the backend on some database.\<close>

definition backend_answers :: "(exn \<Rightarrow> string) \<Rightarrow> dashboard_event \<Rightarrow> bool" where
  "backend_answers failure e \<longleftrightarrow>
     (\<forall>outcome. e = StatsAnswer outcome \<longrightarrow>
        (\<exists>adminId now d. outcome = map_sum failure id (stats_route adminId now d)))"

lemma stats_route_fails: "\<exists>e. stats_route adminId now d = Inl e"
  by (auto simp: stats_route_def read_route_def stats_def ads_today_def ad_rewards_columns_def split: sum.splits)

lemma no_stats_shown:
  "dashboard_reachable (backend_answers failure) s \<Longrightarrow> ds_stats s = None"
proof (induction rule: dashboard_reachable.induct)
  case dash_start
  then show ?case by (simp add: dashboard_start_def)
next
  case (dash_step s e s')
  show ?case
  proof (cases e)
    case (StatsAnswer outcome)
    with dash_step.hyps(2) obtain adminId now d where "outcome = map_sum failure id (stats_route adminId now d)"
      by (auto simp: backend_answers_def)
    moreover obtain x where "stats_route adminId now d = Inl x" using stats_route_fails by blast
    ultimately show ?thesis using dash_step.hyps(3) dash_step.IH StatsAnswer
      by (auto simp: Let_def split: if_splits)
  qed (use dash_step in \<open>auto simp: dashboard_load_def Let_def split: if_splits sum.splits\<close>)
qed

text \<open>
  The dashboard never shows a number: the statistics of the backend fail on every database
  (their query names a column the table does not have), so on every reachable page all four
  cards show the dash.
\<close>

theorem dashboard_never_shows_numbers:
  assumes "dashboard_reachable (backend_answers failure) s"
  shows "map snd (stat_cards locale s) = [dash, dash, dash, dash]"
  using no_stats_shown [OF assms] by (simp add: stat_cards_def stat_card_def Let_def)

text \<open>A revocation is only requested with the phrase, and never while one is under way.\<close>

lemma panic_guarded:
  assumes "dashboard_step s e = Some s'" "ds_panics s' > ds_panics s"
  shows "e = ClickPanic (Some ''REVOKE FREE'') \<and> \<not> ds_panic_busy s \<and> ds_panic_busy s'"
  using assms by (cases e) (auto simp: dashboard_load_def Let_def split: if_splits sum.splits)

section \<open>Settings\<close>

record settings_state =
  se_config :: "json option"
  se_loading :: bool
  se_saving :: bool
  se_puts :: "json option list"
  se_alerts :: "bool list"

definition settings_start :: settings_state where
  "settings_start = \<lparr>se_config = None, se_loading = True, se_saving = False, se_puts = [], se_alerts = []\<rparr>"

text \<open>\<^verbatim>\<open>{...o, k: v}\<close>: the spread of \<^verbatim>\<open>null\<close>, \<^verbatim>\<open>undefined\<close> and of other plain values is empty.\<close>

fun put_field :: "string \<Rightarrow> json \<Rightarrow> (string \<times> json) list \<Rightarrow> (string \<times> json) list" where
  "put_field k v [] = [(k, v)]"
| "put_field k v ((a, b) # r) = (if a = k then (a, v) # r else (a, b) # put_field k v r)"

definition with_field :: "string \<Rightarrow> json \<Rightarrow> json option \<Rightarrow> json" where
  "with_field k v j = JObj (put_field k v (case j of Some (JObj fs) \<Rightarrow> fs | _ \<Rightarrow> []))"

definition sub_field :: "string \<Rightarrow> json option \<Rightarrow> json option" where
  "sub_field k j = Option.bind j (jget k)"

definition edit_section :: "string \<Rightarrow> string \<Rightarrow> json \<Rightarrow> json option \<Rightarrow> json" where
  "edit_section sec k v config = with_field sec (with_field k v (sub_field sec config)) config"

text \<open>The squad field: the list joined by commas is shown, the text typed is split and cleaned.\<close>

fun join_commas :: "string list \<Rightarrow> string" where
  "join_commas [] = []"
| "join_commas [x] = x"
| "join_commas (x # y # r) = x @ CHR '','' # join_commas (y # r)"

definition squads_of :: "string \<Rightarrow> string list" where
  "squads_of t = filter (\<lambda>s. s \<noteq> []) (map trim (split_at (\<lambda>c. c = CHR '','') t))"

datatype settings_event =
    ConfigLoaded json
  | ConfigFailed
  | SetProvider string
  | SetField string string string
  | SetSquads string
  | SaveClicked
  | SaveDone bool

definition shown_provider :: "settings_state \<Rightarrow> json option" where
  "shown_provider s = sub_field ''provider'' (se_config s)"

definition settings_fields :: "(string \<times> string) list" where
  "settings_fields = [(''rebecca'', ''baseUrl''), (''rebecca'', ''username''), (''rebecca'', ''password''),
     (''remnawave'', ''baseUrl''), (''remnawave'', ''token'')]"

text \<open>The inputs of a panel are only there while that panel is chosen.\<close>

fun settings_step :: "settings_state \<Rightarrow> settings_event \<Rightarrow> settings_state option" where
  "settings_step s (ConfigLoaded j) = (if se_loading s then Some (s\<lparr>se_config := Some j, se_loading := False\<rparr>) else None)"
| "settings_step s ConfigFailed = (if se_loading s then Some (s\<lparr>se_loading := False\<rparr>) else None)"
| "settings_step s (SetProvider p) =
     (if se_loading s then None
      else Some (s\<lparr>se_config := Some (with_field ''provider'' (JStr p) (se_config s))\<rparr>))"
| "settings_step s (SetField sec k t) =
     (if se_loading s \<or> (sec, k) \<notin> set settings_fields \<or> shown_provider s \<noteq> Some (JStr sec) then None
      else Some (s\<lparr>se_config := Some (edit_section sec k (JStr t) (se_config s))\<rparr>))"
| "settings_step s (SetSquads t) =
     (if se_loading s \<or> shown_provider s \<noteq> Some (JStr ''remnawave'') then None
      else Some (s\<lparr>se_config := Some (edit_section ''remnawave'' ''squadUuids'' (JArr (map JStr (squads_of t))) (se_config s))\<rparr>))"
| "settings_step s SaveClicked =
     (if se_loading s \<or> se_saving s then None
      else Some (s\<lparr>se_saving := True, se_puts := se_puts s @ [se_config s]\<rparr>))"
| "settings_step s (SaveDone ok) =
     (if se_saving s then Some (s\<lparr>se_saving := False, se_alerts := se_alerts s @ [ok]\<rparr>) else None)"

subsection \<open>The squad field\<close>

definition plain_squad :: "string \<Rightarrow> bool" where
  "plain_squad x \<longleftrightarrow> x \<noteq> [] \<and> CHR '','' \<notin> set x \<and> (\<forall>c \<in> set x. \<not> is_space c)"

definition sep_char :: "char \<Rightarrow> bool" where
  "sep_char c \<longleftrightarrow> c = CHR '','' \<or> is_space c"

text \<open>One key at the end of the field: what is shown, with the character, is parsed again.\<close>

definition type_key :: "char \<Rightarrow> string list \<Rightarrow> string list" where
  "type_key c xs = squads_of (join_commas xs @ [c])"

lemma trim_plain_space: "\<forall>c \<in> set t. \<not> is_space c \<Longrightarrow> is_space c \<Longrightarrow> trim (t @ [c]) = t"
  using dropWhile_plain [of t "[c]"] dropWhile_plain [of "rev t" "[]"] by (auto simp: trim_def split: if_splits)

lemma squads_of_join:
  assumes "\<forall>x \<in> set xs. plain_squad x"
  shows "squads_of (join_commas xs) = xs"
  using assms
proof (induction xs rule: join_commas.induct)
  case 1
  then show ?case by (simp add: squads_of_def trim_def)
next
  case (2 x)
  then have "split_at (\<lambda>c. c = CHR '','') x = [x]"
    by (intro split_at_none) (auto simp: plain_squad_def)
  with 2 show ?case by (simp add: squads_of_def plain_squad_def trim_plain)
next
  case (3 x y r)
  then have "split_at (\<lambda>c. c = CHR '','') (x @ CHR '','' # join_commas (y # r)) =
      x # split_at (\<lambda>c. c = CHR '','') (join_commas (y # r))"
    by (intro split_at_append) (auto simp: plain_squad_def)
  with 3 show ?case by (simp add: squads_of_def plain_squad_def trim_plain)
qed

lemma type_key_single:
  assumes "xs = (if t = [] then [] else [t])" "\<forall>c \<in> set t. \<not> sep_char c"
  shows "type_key c xs = (let u = t @ filter (\<lambda>c. \<not> sep_char c) [c] in if u = [] then [] else [u])"
proof (cases "sep_char c")
  case False
  then have "split_at (\<lambda>c. c = CHR '','') (t @ [c]) = [t @ [c]]"
    using assms(2) by (intro split_at_none) (auto simp: sep_char_def)
  with False assms show ?thesis
    by (auto simp: type_key_def squads_of_def sep_char_def trim_plain)
next
  case True
  show ?thesis
  proof (cases "c = CHR '',''")
    case comma: True
    have "split_at (\<lambda>c. c = CHR '','') (t @ [c]) = [t, []]"
      using split_at_append [of t "\<lambda>c. c = CHR '',''" c "[]"] assms(2) comma by (auto simp: sep_char_def)
    moreover have "trim t = t" using assms(2) by (intro trim_plain) (simp add: sep_char_def)
    ultimately show ?thesis using True assms(1)
      by (auto simp: type_key_def squads_of_def trim_def)
  next
    case False
    with True have space: "is_space c" by (simp add: sep_char_def)
    have "split_at (\<lambda>c. c = CHR '','') (t @ [c]) = [t @ [c]]"
      using assms(2) False by (intro split_at_none) (auto simp: sep_char_def)
    moreover have "trim (t @ [c]) = t" using assms(2) space by (intro trim_plain_space) (auto simp: sep_char_def)
    ultimately show ?thesis using True assms(1)
      by (auto simp: type_key_def squads_of_def)
  qed
qed

text \<open>
  The squad list can be pasted but not typed: a pasted list of ids separated by commas becomes
  exactly these squads, but typed key by key at the end of an empty field every text becomes
  at most one squad, the text without its commas and blanks.
\<close>

theorem squads_pasted_not_typed:
  "((\<forall>x \<in> set xs. plain_squad x) \<longrightarrow> squads_of (join_commas xs) = xs)
   \<and> foldl (\<lambda>ys c. type_key c ys) [] t =
       (let u = filter (\<lambda>c. \<not> sep_char c) t in if u = [] then [] else [u])"
proof
  show "(\<forall>x \<in> set xs. plain_squad x) \<longrightarrow> squads_of (join_commas xs) = xs"
    using squads_of_join by blast
  show "foldl (\<lambda>ys c. type_key c ys) [] t = (let u = filter (\<lambda>c. \<not> sep_char c) t in if u = [] then [] else [u])"
  proof (induction t rule: rev_induct)
    case Nil
    then show ?case by simp
  next
    case (snoc c t)
    let ?u = "filter (\<lambda>c. \<not> sep_char c) t"
    have "type_key c (foldl (\<lambda>ys c. type_key c ys) [] t) =
        (let u = ?u @ filter (\<lambda>c. \<not> sep_char c) [c] in if u = [] then [] else [u])"
      using snoc by (intro type_key_single) (auto simp: Let_def)
    then show ?case by simp
  qed
qed

text \<open>The keys act on the machine: typing edits the stored list as \<open>type_key\<close> says.\<close>

definition squads_shown :: "settings_state \<Rightarrow> json option" where
  "squads_shown s = sub_field ''squadUuids'' (sub_field ''remnawave'' (se_config s))"

lemma put_field_same: "map_of (put_field k v fs) k = Some v"
  by (induction fs) auto

lemma typed_key_stored:
  assumes "settings_step s (SetSquads (join_commas xs @ [c])) = Some s'"
  shows "squads_shown s' = Some (JArr (map JStr (type_key c xs)))"
  using assms
  by (auto simp: squads_shown_def edit_section_def with_field_def sub_field_def put_field_same type_key_def
      split: if_splits)

subsection \<open>Saving\<close>

text \<open>
  What the backend stores for a \<^verbatim>\<open>PUT\<close>: \<open>wire\<close> is what it receives for the configuration of
  the page; without one the request has no body and the parser gives an empty object.
\<close>

text \<open>
  When the configuration could not be loaded, the page offers the form all the same and saving
  it replaces the stored configuration by an empty one: the panel is then the default one.
\<close>

lemma save_after_failed_load:
  assumes "settings_step settings_start ConfigFailed = Some s1" "settings_step s1 SaveClicked = Some s2"
    and "wire None = JObj []"
    and "set_settings_route inet now adminId ip (wire (last (se_puts s2))) (d, t) = (Inr True, (d', t'))"
  shows "getPanelConfig e t' = JObj []
    \<and> new_client e (getPanelConfig e t') = map_sum id (\<lambda>c. UseRebecca c None 0) (rebecca_new None e)"
proof -
  have "last (se_puts s2) = None" using assms(1,2) by (auto simp: settings_start_def)
  with assms(3,4) have "t' = setPanelConfig now (JObj []) t"
    by (auto simp: set_settings_route_def split: sum.splits)
  moreover have "getSetting k (setSetting now k v t) = Some v" for k v
    by (rule getSetting_setSetting)
  ultimately have "getPanelConfig e t' = JObj []"
    by (simp add: getPanelConfig_def setPanelConfig_def)
  then show ?thesis by (simp add: new_client_def)
qed

section \<open>Login and navigation\<close>

record login_state =
  ln_email :: string
  ln_password :: string
  ln_error :: "string option"
  ln_busy :: bool
  ln_sent :: "(string \<times> string) list"
  ln_page :: string

definition login_start :: login_state where
  "login_start = \<lparr>ln_email = [], ln_password = [], ln_error = None, ln_busy = False, ln_sent = [], ln_page = ''/login''\<rparr>"

datatype login_event =
    TypeEmail string
  | TypePassword string
  | SubmitLogin
  | LoginAnswer "nat option + unit"

text \<open>The fields are required, so the form is only submitted when both are filled.\<close>

fun login_step :: "login_state \<Rightarrow> login_event \<Rightarrow> login_state option" where
  "login_step s (TypeEmail t) = Some (s\<lparr>ln_email := t\<rparr>)"
| "login_step s (TypePassword t) = Some (s\<lparr>ln_password := t\<rparr>)"
| "login_step s SubmitLogin =
     (if ln_busy s \<or> ln_email s = [] \<or> ln_password s = [] then None
      else Some (s\<lparr>ln_busy := True, ln_error := None, ln_sent := ln_sent s @ [(trim (ln_email s), ln_password s)]\<rparr>))"
| "login_step s (LoginAnswer outcome) =
     (if \<not> ln_busy s then None
      else Some (case outcome of
          Inr _ \<Rightarrow> s\<lparr>ln_busy := False, ln_page := ''/dashboard''\<rparr>
        | Inl status \<Rightarrow> s\<lparr>ln_busy := False, ln_error := Some (login_error status)\<rparr>))"

record login_view =
  lv_alert :: "string option"
  lv_email :: string
  lv_password :: string
  lv_disabled :: bool
  lv_button :: string

definition login_view :: "login_state \<Rightarrow> login_view" where
  "login_view s =
     \<lparr>lv_alert = (if env_set (ln_error s) then ln_error s else None),
      lv_email = ln_email s, lv_password = ln_password s, lv_disabled = ln_busy s,
      lv_button = (if ln_busy s then ''Signing in'' @ ellipsis else ''Sign in'')\<rparr>"

text \<open>The form meets the contract of SingleFlight: one sign-in is under way at a time.\<close>

fun login_lands :: "login_event \<Rightarrow> bool" where
  "login_lands (LoginAnswer _) = True"
| "login_lands _ = False"

interpretation form: single_flight login_step ln_busy "\<lambda>s. length (ln_sent s)" login_lands
proof
  fix s l s'
  assume "login_step s l = Some s'" "login_lands l"
  then show "ln_busy s \<and> \<not> ln_busy s' \<and> length (ln_sent s') = length (ln_sent s)"
    by (cases l) (auto split: if_splits sum.splits)
next
  fix s l s'
  assume "login_step s l = Some s'" "\<not> login_lands l"
  then show "(ln_busy s' = ln_busy s \<and> length (ln_sent s') = length (ln_sent s)) \<or>
      (\<not> ln_busy s \<and> ln_busy s' \<and> length (ln_sent s') = length (ln_sent s) + 1)"
    by (cases l) (auto split: if_splits)
qed

text \<open>A sign-in under way shows no earlier failure, and only an answer without error leaves the page.\<close>

lemma login_page_honest:
  assumes "run login_step login_start ls s"
  shows "(lv_disabled (login_view s) \<longrightarrow> lv_alert (login_view s) = None)
    \<and> (ln_page s \<noteq> ''/login'' \<longrightarrow> LoginAnswer (Inr ()) \<in> set ls)
    \<and> length (ln_sent s) = length (filter login_lands ls) + (if ln_busy s then 1 else 0)"
proof -
  have "(ln_busy s \<longrightarrow> ln_error s = None) \<and> (ln_page s \<noteq> ''/login'' \<longrightarrow> LoginAnswer (Inr ()) \<in> set ls)"
    using assms
  proof (induction login_start ls s rule: run.induct)
    case run_Nil
    then show ?case by (simp add: login_start_def)
  next
    case (run_snoc ls s1 l s2)
    then show ?case by (cases l) (auto split: if_splits sum.splits)
  qed
  with form.balance [OF assms] show ?thesis by (simp add: login_view_def login_start_def env_set_def)
qed

definition NAV_LINKS :: "(string \<times> string) list" where
  "NAV_LINKS = [(''/dashboard'', ''Dashboard''), (''/users'', ''Users''), (''/audit'', ''Activity''), (''/settings'', ''Settings'')]"

text \<open>The links with the highlighted one; signing out forgets the tokens and sends nothing.\<close>

definition nav_bar :: "string \<Rightarrow> (string \<times> bool) list" where
  "nav_bar pathname = map (\<lambda>(href, label). (label, pathname = href)) NAV_LINKS"

definition sign_out :: "web_state \<Rightarrow> web_state" where
  "sign_out s = s\<lparr>ws_access := None, ws_refresh := None, ws_at_login := True\<rparr>"

text \<open>So the refresh token stays valid on the server: no request is made that could revoke it.\<close>

lemma sign_out_sends_nothing:
  "ws_requests (sign_out s) = ws_requests s \<and> ws_posts (sign_out s) = ws_posts s \<and> sign_out s = toLogin s"
  by (simp add: sign_out_def toLogin_def)

section \<open>Witnesses\<close>

theorem dashboard_never_shows_numbers_witness:
  "\<exists>s. dashboard_reachable (backend_answers (\<lambda>_. ''status 500'')) s \<and> \<not> ds_loading s
     \<and> ds_error s = Some ''status 500'' \<and> map snd (stat_cards show_nat s) = [dash, dash, dash, dash]"
proof -
  let ?ok = "backend_answers (\<lambda>_. ''status 500'')"
  obtain x where x: "stats_route None 0 (empty_db) = Inl x" using stats_route_fails by blast
  let ?e = "StatsAnswer (Inl ''status 500'')"
  have ok: "?ok ?e" unfolding backend_answers_def using x
    by (auto intro!: exI [of _ None] exI [of _ 0] exI [of _ empty_db])
  define s where "s = dashboard_start\<lparr>ds_loading := False, ds_error := Some ''status 500''\<rparr>"
  have "dashboard_reachable ?ok (dashboard_load dashboard_start)"
    by (rule dash_step [OF dash_start, of _ LoadStats]) (simp_all add: backend_answers_def)
  then have "dashboard_reachable ?ok s"
    by (rule dash_step [of ?ok _ ?e]) (simp_all add: ok s_def dashboard_load_def dashboard_start_def Let_def)
  moreover from dashboard_never_shows_numbers [OF this]
  have "map snd (stat_cards show_nat s) = [dash, dash, dash, dash]" .
  ultimately show ?thesis by (intro exI [of _ s]) (simp add: s_def)
qed

theorem squads_pasted_not_typed_witness:
  "squads_of ''s1,s2'' = [''s1'', ''s2''] \<and> foldl (\<lambda>ys c. type_key c ys) [] ''s1,s2'' = [''s1s2'']"
  using squads_pasted_not_typed [of "[''s1'', ''s2'']" "''s1,s2''"]
  by (simp add: plain_squad_def sep_char_def is_space_def)

end
